(* ===== verification/Prelude.thy ===== *)
theory Prelude
  imports Main "HOL-Library.Word" "HOL-Library.List_Lexorder" "HOL-Library.Char_ord" "HOL-Library.Multiset"
begin

text \<open>
  What the component theories share: the Rust integer types as words with the
  saturating and checked arithmetic the program calls, little-endian byte strings,
  strings (a Rust \<open>String\<close> is the list of its UTF-8 bytes, one \<open>char\<close> per byte), decimal
  printing and parsing, and the ordered key-value tree that stands for the contents
  of an open \<open>sled::Tree\<close> (keys in byte order, one value per key).
\<close>

named_theorems word_nat "rules that turn comparisons and Rust arithmetic on words into nat"

unbundle bit_operations_syntax

section \<open>Types\<close>

type_synonym u8 = "8 word"
type_synonym u16 = "16 word"
type_synonym u32 = "32 word"
type_synonym u64 = "64 word"
type_synonym bytes = "8 word list"

text \<open>A fallible function (\<open>anyhow::Result\<close>, \<open>Result<_, String>\<close>): \<open>Inl\<close> is \<open>Err\<close> with its message.\<close>

type_synonym 'a result = "string + 'a"

abbreviation Ok :: "'a \<Rightarrow> 'a result" where "Ok \<equiv> Inr"
abbreviation Err :: "string \<Rightarrow> 'a result" where "Err \<equiv> Inl"

definition is_ok :: "'a result \<Rightarrow> bool" where
  "is_ok r = (case r of Inl _ \<Rightarrow> False | Inr _ \<Rightarrow> True)"

lemma is_ok_simps [simp]: "is_ok (Err e) = False" "is_ok (Ok v) = True"
  by (simp_all add: is_ok_def)

lemma is_ok_unit_eq: "is_ok (r :: unit result) \<longleftrightarrow> r = Ok ()"
  by (cases r) simp_all

text \<open>The question mark operator on a call with state: go on after success, stop at the first error with the
  state reached so far.\<close>

definition and_then :: "('a result \<times> 's) \<Rightarrow> ('a \<Rightarrow> 's \<Rightarrow> 'b result \<times> 's) \<Rightarrow> 'b result \<times> 's" where
  "and_then r f = (case r of (Inl e, s) \<Rightarrow> (Err e, s) | (Inr v, s) \<Rightarrow> f v s)"

lemma and_then_simps [simp]:
  "and_then (Err e, s) f = (Err e, s)" "and_then (Ok v, s) f = f v s"
  by (simp_all add: and_then_def)

text \<open>The question mark operator without state.\<close>

lemma and_thenE:
  assumes "and_then r f = (x, s)"
  obtains e where "r = (Err e, s)" "x = Err e" | v s' where "r = (Ok v, s')" "f v s' = (x, s)"
  using assms by (cases r; cases "fst r") auto

definition ok_then :: "'a result \<Rightarrow> ('a \<Rightarrow> 'b result) \<Rightarrow> 'b result" where
  "ok_then r f = (case r of Inl e \<Rightarrow> Err e | Inr v \<Rightarrow> f v)"

lemma ok_then_simps [simp]: "ok_then (Err e) f = Err e" "ok_then (Ok v) f = f v"
  by (simp_all add: ok_then_def)

lemma ok_then_Ok: "ok_then r f = Ok w \<longleftrightarrow> (\<exists>v. r = Ok v \<and> f v = Ok w)"
  by (cases r) simp_all

definition ok_or :: "string \<Rightarrow> 'a option \<Rightarrow> 'a result" where
  "ok_or e x = (case x of None \<Rightarrow> Err e | Some v \<Rightarrow> Ok v)"

lemma ok_or_simps [simp]: "ok_or e None = Err e" "ok_or e (Some v) = Ok v"
  by (simp_all add: ok_or_def)

lemma ok_or_Ok [simp]: "ok_or e x = Ok v \<longleftrightarrow> x = Some v"
  by (cases x) simp_all

text \<open>A loop over a list whose body may fail.\<close>

fun for_each :: "('x \<Rightarrow> 's \<Rightarrow> unit result \<times> 's) \<Rightarrow> 'x list \<Rightarrow> 's \<Rightarrow> unit result \<times> 's" where
  "for_each f [] s = (Ok (), s)"
| "for_each f (x # xs) s = and_then (f x s) (\<lambda>_. for_each f xs)"

lemma for_each_inv:
  assumes "\<And>x s. x \<in> set xs \<Longrightarrow> P s \<Longrightarrow> P (snd (f x s))" "P s"
  shows "P (snd (for_each f xs s))"
  using assms
proof (induction xs arbitrary: s)
  case (Cons x xs)
  have "P (snd (f x s))"
    using Cons(2) [of x s] Cons(3) by simp
  then show ?case
    using Cons(1) [of "snd (f x s)"] Cons(2) by (cases "f x s"; cases "fst (f x s)") auto
qed simp

lemma and_then_inv:
  assumes "P (snd r)" "\<And>v s. r = (Ok v, s) \<Longrightarrow> P (snd (f v s))"
  shows "P (snd (and_then r f))"
  using assms by (cases r; cases "fst r") auto

section \<open>Machine arithmetic\<close>

text \<open>\<open>saturating_add\<close>, \<open>saturating_sub\<close> and \<open>checked_add\<close> of the unsigned integer types.\<close>

definition sat_add :: "'a::len word \<Rightarrow> 'a word \<Rightarrow> 'a word" where
  "sat_add a b = (if unat a + unat b < 2 ^ LENGTH('a) then a + b else - 1)"

definition sat_sub :: "'a::len word \<Rightarrow> 'a word \<Rightarrow> 'a word" where
  "sat_sub a b = (if b \<le> a then a - b else 0)"

definition sat_mul :: "'a::len word \<Rightarrow> 'a word \<Rightarrow> 'a word" where
  "sat_mul a b = (if unat a * unat b < 2 ^ LENGTH('a) then a * b else - 1)"

definition checked_add :: "'a::len word \<Rightarrow> 'a word \<Rightarrow> 'a word option" where
  "checked_add a b = (if unat a + unat b < 2 ^ LENGTH('a) then Some (a + b) else None)"

lemma unat_minus_one_max: "unat (- 1 :: 'a::len word) = 2 ^ LENGTH('a) - 1"
  by (simp add: unsigned_minus_1_eq_mask mask_eq_exp_minus_1)

lemma unat_add_no_wrap:
  "unat (a::'a::len word) + unat b < 2 ^ LENGTH('a) \<Longrightarrow> unat (a + b) = unat a + unat b"
  by (simp add: unat_word_ariths)

lemma unat_sat_add [word_nat]:
  "unat (sat_add (a::'a::len word) b) = min (unat a + unat b) (2 ^ LENGTH('a) - 1)"
proof (cases "unat a + unat b < 2 ^ LENGTH('a)")
  case True
  then have "unat a + unat b \<le> 2 ^ LENGTH('a) - 1"
    by linarith
  with True show ?thesis
    by (simp add: sat_add_def unat_add_no_wrap)
next
  case False
  then show ?thesis
    by (simp add: sat_add_def unat_minus_one_max)
qed

lemma unat_sat_sub [word_nat]: "unat (sat_sub a b) = unat a - unat b"
  by (auto simp: sat_sub_def word_le_nat_alt unat_sub)

lemma word_le_unat [word_nat]: "a \<le> b \<longleftrightarrow> unat a \<le> unat b"
  by (rule word_le_nat_alt)

lemma word_less_unat [word_nat]: "a < b \<longleftrightarrow> unat a < unat b"
  by (rule word_less_nat_alt)

lemma unat_bound: "unat (a :: 'a::len word) < 2 ^ LENGTH('a)"
  by (rule unsigned_less)

lemma unat_u64_bound: "unat (a :: u64) < 18446744073709551616"
  using unat_bound [of a] by simp

lemma unat_sat_add_u64: "unat (sat_add (a::u64) b) = min (unat a + unat b) 18446744073709551615"
  using unat_sat_add [of a b] by simp

lemma checked_add_Some:
  "checked_add (a::'a::len word) b = Some c \<Longrightarrow> unat c = unat a + unat b \<and> c = a + b"
  by (auto simp: checked_add_def unat_add_no_wrap split: if_splits)

lemma checked_add_None:
  "checked_add (a::'a::len word) b = None \<longleftrightarrow> 2 ^ LENGTH('a) \<le> unat a + unat b"
  by (auto simp: checked_add_def)

lemma sat_sub_zero [simp]: "sat_sub a 0 = a"
  by (simp add: sat_sub_def)

lemma sat_add_zero [simp]: "sat_add a 0 = a"
  using unat_bound [of a] by (simp add: sat_add_def)

lemma sat_sub_le: "unat (sat_sub a b) \<le> unat a"
  by (simp add: unat_sat_sub)

lemma le_sat_add: "a \<le> sat_add (a::'a::len word) b"
proof -
  have "unat a \<le> 2 ^ LENGTH('a) - 1"
    using unat_bound [of a] by linarith
  then show ?thesis
    by (simp add: word_le_unat unat_sat_add)
qed

lemma less_sat_add [simp]: "\<not> sat_add a b < a"
  using le_sat_add [of a b] by (simp add: not_less)

section \<open>Little-endian byte strings\<close>

primrec to_le :: "nat \<Rightarrow> nat \<Rightarrow> bytes" where
  "to_le 0 x = []"
| "to_le (Suc n) x = of_nat (x mod 256) # to_le n (x div 256)"

primrec from_le :: "bytes \<Rightarrow> nat" where
  "from_le [] = 0"
| "from_le (b # bs) = unat b + 256 * from_le bs"

definition le64 :: "u64 \<Rightarrow> bytes" where "le64 w = to_le 8 (unat w)"
definition le32 :: "u32 \<Rightarrow> bytes" where "le32 w = to_le 4 (unat w)"

lemma length_to_le [simp]: "length (to_le n x) = n"
  by (induction n arbitrary: x) simp_all

lemma from_le_to_le: "from_le (to_le n x) = x mod 256 ^ n"
proof (induction n arbitrary: x)
  case (Suc n)
  have "unat (of_nat (x mod 256) :: u8) = x mod 256"
    by (simp add: unat_of_nat)
  with Suc show ?case
    by (simp add: mod_mult2_eq)
qed simp

lemma to_le_from_le: "to_le (length bs) (from_le bs) = bs"
proof (induction bs)
  case (Cons b bs)
  have "unat b < 256"
    using unat_bound [of b] by simp
  then show ?case
    using Cons by simp
qed simp

lemma from_le_bound: "from_le bs < 256 ^ length bs"
proof (induction bs)
  case (Cons b bs)
  then show ?case
    using unat_bound [of b] by simp
qed simp

lemma length_le64 [simp]: "length (le64 w) = 8"
  by (simp add: le64_def)

lemma length_le32 [simp]: "length (le32 w) = 4"
  by (simp add: le32_def)

lemma from_le_le64 [simp]: "from_le (le64 w) = unat w"
  using unat_u64_bound [of w] by (simp add: le64_def from_le_to_le)

lemma le64_inject [simp]: "le64 a = le64 b \<longleftrightarrow> a = b"
  by (metis from_le_le64 word_unat_eq_iff)

lemma le32_inject [simp]: "le32 a = le32 b \<longleftrightarrow> a = b"
proof -
  have "from_le (le32 w) = unat w" for w
    using unat_bound [of w] by (simp add: le32_def from_le_to_le)
  then show ?thesis
    by (metis word_unat_eq_iff)
qed

lemma le64_of_nat_from_le:
  assumes "length bs = 8"
  shows "le64 (of_nat (from_le bs)) = bs"
proof -
  have "from_le bs < 2 ^ 64"
    using from_le_bound [of bs] assms by simp
  then have "unat (of_nat (from_le bs) :: u64) = from_le bs"
    by (simp add: unat_of_nat)
  then show ?thesis
    using to_le_from_le [of bs] assms by (simp add: le64_def)
qed

section \<open>Strings\<close>

definition bytes_of :: "string \<Rightarrow> bytes" where
  "bytes_of s = map (\<lambda>c. of_nat (of_char c)) s"

lemma length_bytes_of [simp]: "length (bytes_of s) = length s"
  by (simp add: bytes_of_def)

lemma bytes_of_append [simp]: "bytes_of (s @ t) = bytes_of s @ bytes_of t"
  by (simp add: bytes_of_def)

definition string_of_bytes :: "bytes \<Rightarrow> string" where
  "string_of_bytes bs = map (\<lambda>b. char_of (unat b)) bs"

lemma unat_of_char: "unat (of_nat (of_char c) :: u8) = of_char c"
proof -
  have "(of_char c :: nat) mod 2 ^ 8 = of_char c"
    using of_char_mod_256 [of c] by simp
  then show ?thesis
    by (simp add: unat_of_nat)
qed

lemma string_of_bytes_of [simp]: "string_of_bytes (bytes_of s) = s"
  by (induction s) (simp_all add: string_of_bytes_def bytes_of_def unat_of_char)

lemma bytes_of_inject [simp]: "bytes_of s = bytes_of t \<longleftrightarrow> s = t"
  by (metis string_of_bytes_of)

lemma bytes_of_string_of [simp]: "bytes_of (string_of_bytes bs) = bs"
proof (induction bs)
  case (Cons b bs)
  have "unat b < 256"
    using unat_bound [of b] by simp
  then have "(of_nat (of_char (char_of (unat b) :: char)) :: u8) = b"
    by simp
  with Cons show ?case
    by (simp add: string_of_bytes_def bytes_of_def)
qed (simp add: string_of_bytes_def bytes_of_def)


text \<open>Rust's \<open>str\<close> operations, on bytes.\<close>

definition starts_with :: "string \<Rightarrow> string \<Rightarrow> bool" where
  "starts_with s p = (take (length p) s = p)"

definition strip_prefix :: "string \<Rightarrow> string \<Rightarrow> string option" where
  "strip_prefix p s = (if starts_with s p then Some (drop (length p) s) else None)"

definition strip_suffix :: "string \<Rightarrow> string \<Rightarrow> string option" where
  "strip_suffix p s =
     (if length p \<le> length s \<and> drop (length s - length p) s = p
      then Some (take (length s - length p) s) else None)"

fun split_once :: "char \<Rightarrow> string \<Rightarrow> (string \<times> string) option" where
  "split_once c [] = None"
| "split_once c (x # xs) =
     (if x = c then Some ([], xs)
      else map_option (\<lambda>(a, b). (x # a, b)) (split_once c xs))"

fun split_on :: "char \<Rightarrow> string \<Rightarrow> string list" where
  "split_on c [] = [[]]"
| "split_on c (x # xs) =
     (if x = c then [] # split_on c xs
      else (case split_on c xs of [] \<Rightarrow> [[x]] | y # ys \<Rightarrow> (x # y) # ys))"

lemma starts_with_append [simp]: "starts_with (p @ s) p"
  by (simp add: starts_with_def)

lemma starts_with_iff: "starts_with s p \<longleftrightarrow> (\<exists>r. s = p @ r)"
  by (metis append_eq_conv_conj append_take_drop_id starts_with_def)

lemma strip_prefix_append [simp]: "strip_prefix p (p @ s) = Some s"
  by (simp add: strip_prefix_def)

lemma strip_prefix_Some: "strip_prefix p s = Some r \<longleftrightarrow> s = p @ r"
  by (auto simp: strip_prefix_def starts_with_def) (metis append_take_drop_id)

lemma strip_suffix_append [simp]: "strip_suffix p (s @ p) = Some s"
  by (simp add: strip_suffix_def)

lemma split_once_append: "c \<notin> set a \<Longrightarrow> split_once c (a @ c # b) = Some (a, b)"
  by (induction a) auto

lemma split_once_None: "split_once c s = None \<longleftrightarrow> c \<notin> set s"
  by (induction s) auto

lemma split_on_none: "c \<notin> set s \<Longrightarrow> split_on c s = [s]"
  by (induction s) auto

lemma split_on_append: "c \<notin> set a \<Longrightarrow> split_on c (a @ c # b) = a # split_on c b"
  by (induction a) auto

section \<open>Decimal numbers\<close>

definition digit_char :: "nat \<Rightarrow> char" where
  "digit_char d = char_of (48 + d)"

text \<open>\<open>Display\<close> of an unsigned integer.\<close>

fun dec :: "nat \<Rightarrow> string" where
  "dec n = (if n < 10 then [digit_char n] else dec (n div 10) @ [digit_char (n mod 10)])"

declare dec.simps [simp del]

definition digit_val :: "char \<Rightarrow> nat option" where
  "digit_val c = (let n = of_char c in if 48 \<le> n \<and> n \<le> (57::nat) then Some (n - 48) else None)"

fun parse_digits :: "nat \<Rightarrow> string \<Rightarrow> nat option" where
  "parse_digits acc [] = Some acc"
| "parse_digits acc (c # cs) =
     (case digit_val c of None \<Rightarrow> None | Some d \<Rightarrow> parse_digits (10 * acc + d) cs)"

text \<open>\<open>str::parse::<u64>\<close>: one leading plus sign is allowed, no digits or a value that does not
  fit is an error.\<close>

definition parse_u64 :: "string \<Rightarrow> u64 option" where
  "parse_u64 s =
     (let ds = (case s of c # cs \<Rightarrow> if c = CHR ''+'' then cs else s | [] \<Rightarrow> s) in
      if ds = [] then None
      else case parse_digits 0 ds of
             None \<Rightarrow> None
           | Some n \<Rightarrow> if n < 2 ^ 64 then Some (of_nat n) else None)"

lemma digit_val_digit_char [simp]: "d < 10 \<Longrightarrow> digit_val (digit_char d) = Some d"
  by (simp add: digit_val_def digit_char_def)

lemma parse_digits_append:
  "parse_digits acc (a @ b) = Option.bind (parse_digits acc a) (\<lambda>n. parse_digits n b)"
  by (induction acc a rule: parse_digits.induct) (auto split: option.splits)

lemma parse_digits_dec: "parse_digits 0 (dec n) = Some n"
proof (induction n rule: dec.induct)
  case (1 n)
  then show ?case
    by (subst dec.simps) (simp add: parse_digits_append)
qed

lemma dec_not_Nil [simp]: "dec n \<noteq> []"
  by (subst dec.simps) simp

lemma digit_char_range: "d < 10 \<Longrightarrow> of_char (digit_char d) = 48 + d"
  by (simp add: digit_char_def)

lemma set_dec: "c \<in> set (dec n) \<Longrightarrow> \<exists>d<10. c = digit_char d"
proof (induction n rule: dec.induct)
  case (1 n)
  then show ?case
    by (subst (asm) dec.simps) (auto split: if_splits intro: exI [of _ "n mod 10"])
qed

lemma dec_no_char:
  assumes "of_char c < (48::nat) \<or> 57 < (of_char c :: nat)"
  shows "c \<notin> set (dec n)"
  using assms set_dec [of c n] by (force simp: digit_char_def)

lemma parse_u64_dec: "parse_u64 (dec (unat w)) = Some w"
proof -
  obtain c cs where d: "dec (unat w) = c # cs"
    by (meson dec_not_Nil list.exhaust)
  have "CHR ''+'' \<notin> set (dec (unat w))"
    by (rule dec_no_char) simp
  then have "c \<noteq> CHR ''+''"
    using d by auto
  then show ?thesis
    using parse_digits_dec [of "unat w"] unat_u64_bound [of w] d
    by (simp add: parse_u64_def)
qed

section \<open>Sorting\<close>

text \<open>A list sorted by pairwise different keys is the sorted list.\<close>

lemma sort_key_unique:
  assumes "mset ys = mset xs" "distinct (map f xs)" "sorted (map f ys)"
  shows "sort_key f xs = ys"
proof (rule properties_for_sort_key [OF assms(1) _ assms(3)])
  fix k
  assume "k \<in> set ys"
  have "inj_on f (set xs)" "distinct xs" "distinct ys" "set ys = set xs"
    using assms(1,2) by (auto simp: distinct_map dest: mset_eq_setD mset_eq_imp_distinct_iff)
  with \<open>k \<in> set ys\<close> have "filter (\<lambda>x. f k = f x) zs = filter (\<lambda>x. x = k) zs" if "set zs = set xs" for zs
    using that by (intro filter_cong) (auto dest: inj_onD)
  moreover have "filter (\<lambda>x. x = k) zs = [k]" if "distinct zs" "k \<in> set zs" for zs
    using that by (induction zs) (auto simp: filter_empty_conv)
  ultimately show "filter (\<lambda>x. f k = f x) ys = filter (\<lambda>x. f k = f x) xs"
    using \<open>distinct xs\<close> \<open>distinct ys\<close> \<open>set ys = set xs\<close> \<open>k \<in> set ys\<close> by simp
qed

end
