(* ===== verification/Trees.thy ===== *)
theory Trees
  imports Prelude
begin

text \<open>
  The persistent key-value trees (\<open>sled::Tree\<close>) the ledger, the message store and the
  application storage write to.  The contents of a tree are an association list in strictly
  ascending key order, which is the order \<open>Tree::iter\<close> yields.  The locale
  \<open>ordered_kv\<close> states what a client relies on; its lemmas are proved once there and the
  list model is shown to provide it.
\<close>

section \<open>The interface\<close>

locale ordered_kv =
  fixes get :: "'t \<Rightarrow> 'k::linorder \<Rightarrow> 'v option"
    and put :: "'k \<Rightarrow> 'v \<Rightarrow> 't \<Rightarrow> 't"
    and del :: "'k \<Rightarrow> 't \<Rightarrow> 't"
    and iter :: "'t \<Rightarrow> ('k \<times> 'v) list"
    and ok :: "'t \<Rightarrow> bool"
  assumes get_put: "get (put k v t) k' = (if k' = k then Some v else get t k')"
    and get_del: "get (del k t) k' = (if k' = k then None else get t k')"
    and ok_put: "ok t \<Longrightarrow> ok (put k v t)"
    and ok_del: "ok t \<Longrightarrow> ok (del k t)"
    and iter_sorted: "ok t \<Longrightarrow> sorted_wrt (<) (map fst (iter t))"
    and iter_get: "ok t \<Longrightarrow> (k, v) \<in> set (iter t) \<longleftrightarrow> get t k = Some v"
begin

lemma get_foldr_del: "get (foldr del ks t) k = (if k \<in> set ks then None else get t k)"
  by (induction ks) (simp_all add: get_del)

lemma ok_foldr_del: "ok t \<Longrightarrow> ok (foldr del ks t)"
  by (induction ks) (simp_all add: ok_del)

lemma iter_distinct: "ok t \<Longrightarrow> distinct (map fst (iter t))"
  using iter_sorted strict_sorted_iff by blast

lemma iter_keys: "ok t \<Longrightarrow> set (map fst (iter t)) = {k. get t k \<noteq> None}"
  using iter_get by (force simp: image_iff)

lemma iter_put:
  assumes "ok t"
  shows "set (iter (put k v t)) = insert (k, v) {x \<in> set (iter t). fst x \<noteq> k}"
proof -
  have "(k', v') \<in> set (iter (put k v t)) \<longleftrightarrow>
      (k', v') = (k, v) \<or> ((k', v') \<in> set (iter t) \<and> k' \<noteq> k)" for k' v'
    using iter_get [OF assms] iter_get [OF ok_put [OF assms]] by (auto simp: get_put)
  then show ?thesis
    by (simp add: set_eq_iff split_paired_all)
qed

end

section \<open>The list model\<close>

type_synonym ('k, 'v) tree = "('k \<times> 'v) list"

fun tree_get :: "('k, 'v) tree \<Rightarrow> 'k \<Rightarrow> 'v option" where
  "tree_get [] k = None"
| "tree_get ((k', v) # t) k = (if k = k' then Some v else tree_get t k)"

fun tree_put :: "'k::linorder \<Rightarrow> 'v \<Rightarrow> ('k, 'v) tree \<Rightarrow> ('k, 'v) tree" where
  "tree_put k v [] = [(k, v)]"
| "tree_put k v ((k', v') # t) =
     (if k' < k then (k', v') # tree_put k v t
      else if k' = k then (k, v) # t
      else (k, v) # (k', v') # t)"

definition tree_del :: "'k \<Rightarrow> ('k, 'v) tree \<Rightarrow> ('k, 'v) tree" where
  "tree_del k t = filter (\<lambda>(k', _). k' \<noteq> k) t"

definition tree_iter :: "('k, 'v) tree \<Rightarrow> ('k \<times> 'v) list" where
  "tree_iter t = t"

definition tree_has :: "('k, 'v) tree \<Rightarrow> 'k \<Rightarrow> bool" where
  "tree_has t k = (tree_get t k \<noteq> None)"

definition tree_ok :: "('k::linorder, 'v) tree \<Rightarrow> bool" where
  "tree_ok t = sorted_wrt (<) (map fst t)"

lemma tree_get_put: "tree_get (tree_put k v t) k' = (if k' = k then Some v else tree_get t k')"
  by (induction k v t rule: tree_put.induct) auto

lemma tree_get_del: "tree_get (tree_del k t) k' = (if k' = k then None else tree_get t k')"
  by (induction t) (auto simp: tree_del_def)

lemma tree_put_keys: "set (map fst (tree_put k v t)) = insert k (set (map fst t))"
  by (induction k v t rule: tree_put.induct) auto

lemma tree_ok_put: "tree_ok t \<Longrightarrow> tree_ok (tree_put k v t)"
proof (induction k v t rule: tree_put.induct)
  case (2 k v k' v' t)
  have "\<forall>x\<in>fst ` set (tree_put k v t). x = k \<or> x \<in> fst ` set t"
    using tree_put_keys [of k v t] by auto
  with 2 show ?case
    by (force simp: tree_ok_def)
qed (simp add: tree_ok_def)

lemma tree_ok_del: "tree_ok t \<Longrightarrow> tree_ok (tree_del k t)"
  by (induction t) (auto simp: tree_ok_def tree_del_def)

lemma tree_iter_get: "tree_ok t \<Longrightarrow> (k, v) \<in> set t \<longleftrightarrow> tree_get t k = Some v"
  by (induction t) (force simp: tree_ok_def)+

interpretation tree: ordered_kv tree_get tree_put tree_del tree_iter tree_ok
  by unfold_locales
    (simp_all add: tree_get_put tree_get_del tree_ok_put tree_ok_del tree_iter_get tree_iter_def,
     simp add: tree_ok_def)

lemma tree_ok_Nil [simp]: "tree_ok []"
  by (simp add: tree_ok_def)

lemma tree_has_put [simp]: "tree_has (tree_put k v t) k' \<longleftrightarrow> k' = k \<or> tree_has t k'"
  by (simp add: tree_has_def tree_get_put)

lemma length_tree_put:
  "tree_ok t \<Longrightarrow> length (tree_put k v t) = (if tree_has t k then length t else Suc (length t))"
proof (induction k v t rule: tree_put.induct)
  case (2 k v k' v' t)
  have ok: "tree_ok t" and above: "\<forall>x\<in>set t. k' < fst x"
    using 2(2) by (auto simp: tree_ok_def)
  have "tree_get t k = None" if "k < k'"
  proof (cases "tree_get t k")
    case (Some w)
    with tree_iter_get [OF ok, of k w] above that show ?thesis
      by force
  qed
  with 2 ok show ?case
    by (auto simp: tree_has_def)
qed (simp add: tree_has_def)

section \<open>Sums over the values of a tree\<close>

definition tree_sum :: "('v \<Rightarrow> nat) \<Rightarrow> ('k, 'v) tree \<Rightarrow> nat" where
  "tree_sum f t = sum_list (map (\<lambda>(_, v). f v) t)"

lemma tree_sum_Nil [simp]: "tree_sum f [] = 0"
  by (simp add: tree_sum_def)

lemma tree_get_above: "tree_ok ((k', v') # t) \<Longrightarrow> k \<le> k' \<Longrightarrow> tree_get t k = None"
proof (cases "tree_get t k")
  case (Some w)
  assume "tree_ok ((k', v') # t)" "k \<le> k'"
  then show ?thesis
    using Some tree_iter_get [of t k w] by (force simp: tree_ok_def)
qed

lemma tree_sum_put:
  "tree_ok t \<Longrightarrow>
   tree_sum f (tree_put k v t) + (case tree_get t k of None \<Rightarrow> 0 | Some w \<Rightarrow> f w) = tree_sum f t + f v"
proof (induction k v t rule: tree_put.induct)
  case (2 k v k' v' t)
  then show ?case
    using tree_get_above [of k' v' t k] by (auto simp: tree_sum_def tree_ok_def)
qed (simp add: tree_sum_def)

lemma tree_sum_put_new: "tree_ok t \<Longrightarrow> \<not> tree_has t k \<Longrightarrow> tree_sum f (tree_put k v t) = tree_sum f t + f v"
  using tree_sum_put [of t f k v] by (simp add: tree_has_def)

lemma tree_sum_get_le: "tree_get t k = Some v \<Longrightarrow> f v \<le> tree_sum f t"
  by (induction t k rule: tree_get.induct) (auto simp: tree_sum_def split: if_splits)

lemma tree_sum_le_length:
  assumes "\<And>v. f v \<le> 1"
  shows "tree_sum f t \<le> length t"
proof (induction t)
  case (Cons x t)
  then show ?case
    using assms [of "snd x"] by (auto simp: tree_sum_def split: prod.splits)
qed simp

end
