(* ===== verification/Crypto.thy ===== *)
theory Crypto
  imports Prelude
begin

text \<open>
  The cryptographic packages the program calls (\<open>blake3\<close>, \<open>bs58\<close>, \<open>libp2p::identity\<close>) as one
  record of functions.  They are parameters: every definition that uses one takes the record as
  an argument, and \<open>crypto_ok\<close> names the documented behaviour some of the properties rely on.
  A keypair, a public key and a signature are opaque byte strings.
\<close>

type_synonym pubkey = bytes
type_synonym keypair = bytes

record crypto =
  blake3 :: "bytes \<Rightarrow> bytes"
  to_hex :: "bytes \<Rightarrow> string"
  bs58_encode :: "bytes \<Rightarrow> string"
  bs58_decode :: "string \<Rightarrow> bytes option"
  pk_encode :: "pubkey \<Rightarrow> bytes"
  pk_decode :: "bytes \<Rightarrow> pubkey option"
  pk_verify :: "pubkey \<Rightarrow> bytes \<Rightarrow> bytes \<Rightarrow> bool"
  kp_public :: "keypair \<Rightarrow> pubkey"
  kp_sign :: "keypair \<Rightarrow> bytes \<Rightarrow> bytes result"
  peer_parse :: "string \<Rightarrow> (nat \<times> bytes) option"
  peer_string :: "pubkey \<Rightarrow> string"

text \<open>A peer identifier is parsed to its multihash, a code and a digest; the identity multihash
  (code 0) of a key holds the encoded key itself.  A digest has 32 bytes, base 58 and the protobuf encoding of a key decode to what was encoded,
  and a signature made with a keypair verifies under its public key.\<close>

definition crypto_ok :: "crypto \<Rightarrow> bool" where
  "crypto_ok cr \<longleftrightarrow>
     (\<forall>m. length (blake3 cr m) = 32) \<and>
     (\<forall>b. bs58_decode cr (bs58_encode cr b) = Some b) \<and>
     (\<forall>pk. pk_decode cr (pk_encode cr pk) = Some pk) \<and>
     (\<forall>kp m s. kp_sign cr kp m = Ok s \<longrightarrow> pk_verify cr (kp_public cr kp) m s) \<and>
     (\<forall>pk. peer_parse cr (peer_string cr pk) = Some (0, pk_encode cr pk))"

text \<open>A concrete instance, for evaluating the definitions on examples.\<close>

definition demo_crypto :: crypto where
  "demo_crypto =
     \<lparr>blake3 = \<lambda>m. take 32 (m @ replicate 32 0),
      to_hex = string_of_bytes,
      bs58_encode = string_of_bytes,
      bs58_decode = \<lambda>s. Some (bytes_of s),
      pk_encode = \<lambda>pk. pk,
      pk_decode = Some,
      pk_verify = \<lambda>pk m s. s = pk @ m,
      kp_public = \<lambda>kp. kp,
      kp_sign = \<lambda>kp m. Ok (kp @ m),
      peer_parse = \<lambda>s. Some (0, bytes_of s),
      peer_string = string_of_bytes\<rparr>"

lemma crypto_ok_demo [simp]: "crypto_ok demo_crypto"
  by (simp add: crypto_ok_def demo_crypto_def min_def)

lemma crypto_okD:
  assumes "crypto_ok cr"
  shows "length (blake3 cr m) = 32"
    and "bs58_decode cr (bs58_encode cr b) = Some b"
    and "pk_decode cr (pk_encode cr pk) = Some pk"
    and "kp_sign cr kp m = Ok s \<Longrightarrow> pk_verify cr (kp_public cr kp) m s"
    and "peer_parse cr (peer_string cr pk) = Some (0, pk_encode cr pk)"
  using assms by (simp_all add: crypto_ok_def)

end
