(* ===== verification/Transactions.thy ===== *)
theory Transactions
  imports Crypto "HOL-Library.FSet"
begin

text \<open>
  \<open>mycelium-coin/src/address.rs\<close> and the \<open>Transaction\<close> type of \<open>ledger.rs\<close>: addresses with their
  checksum, and a transfer with the bytes its signature covers.
\<close>

section \<open>Addresses\<close>

definition address_from_public_key :: "crypto \<Rightarrow> pubkey \<Rightarrow> string" where
  "address_from_public_key cr pk =
     (let pk_bytes = pk_encode cr pk;
          hash = blake3 cr pk_bytes;
          payload = take 20 hash;
          checksum_full = blake3 cr payload;
          checksum = take 4 checksum_full;
          full = payload @ checksum in
      ''mxc1'' @ bs58_encode cr full)"

definition address_from_keypair :: "crypto \<Rightarrow> keypair \<Rightarrow> string" where
  "address_from_keypair cr kp = address_from_public_key cr (kp_public cr kp)"

definition validate_address :: "crypto \<Rightarrow> string \<Rightarrow> bool" where
  "validate_address cr addr =
     (if \<not> starts_with addr ''mxc1'' then False
      else
        let encoded = drop 4 addr in
        case bs58_decode cr encoded of
          None \<Rightarrow> False
        | Some decoded \<Rightarrow>
            if length decoded \<noteq> 24 then False
            else
              let payload = take 20 decoded;
                  stored_checksum = drop 20 decoded;
                  expected = take 4 (blake3 cr payload) in
              stored_checksum = expected)"

section \<open>Transactions\<close>

record Transaction =
  tx_id :: string
  tx_from :: string
  tx_to :: string
  amount_muon :: u64
  fee_muon :: u64
  timestamp_ms :: u64
  tx_nonce :: u64
  tx_memo :: "string option"
  from_public_key :: bytes
  tx_signature :: bytes
  witnesses :: "string fset"

definition tx_bytes_for_signing :: "Transaction \<Rightarrow> bytes" where
  "tx_bytes_for_signing tx =
     bytes_of (tx_from tx) @ bytes_of (tx_to tx) @
     le64 (amount_muon tx) @ le64 (fee_muon tx) @ le64 (timestamp_ms tx) @ le64 (tx_nonce tx) @
     from_public_key tx @
     (case tx_memo tx of Some memo \<Rightarrow> bytes_of memo | None \<Rightarrow> [])"

text \<open>\<open>Transaction::new\<close>; the clock reading is an argument.\<close>

definition tx_new ::
  "crypto \<Rightarrow> u64 \<Rightarrow> string \<Rightarrow> u64 \<Rightarrow> u64 \<Rightarrow> u64 \<Rightarrow> string option \<Rightarrow> keypair \<Rightarrow> Transaction result" where
  "tx_new cr now to amount fee nonce memo kp =
     (let tx = \<lparr>tx_id = [], tx_from = address_from_keypair cr kp, tx_to = to, amount_muon = amount,
                fee_muon = fee, timestamp_ms = now, tx_nonce = nonce, tx_memo = memo,
                from_public_key = pk_encode cr (kp_public cr kp), tx_signature = [],
                witnesses = {||}\<rparr>;
          bytes = tx_bytes_for_signing tx in
      case kp_sign cr kp bytes of
        Inl e \<Rightarrow> Err (''signing failed: '' @ e)
      | Inr sig \<Rightarrow>
          Ok (tx\<lparr>tx_signature := sig, tx_id := to_hex cr (blake3 cr (bytes @ sig))\<rparr>))"

definition tx_verify :: "crypto \<Rightarrow> Transaction \<Rightarrow> bool" where
  "tx_verify cr tx =
     (if \<not> validate_address cr (tx_from tx) \<or> \<not> validate_address cr (tx_to tx) then False
      else
        case pk_decode cr (from_public_key tx) of
          None \<Rightarrow> False
        | Some pk \<Rightarrow>
            if address_from_public_key cr pk \<noteq> tx_from tx then False
            else pk_verify cr pk (tx_bytes_for_signing tx) (tx_signature tx))"

definition is_confirmed :: "Transaction \<Rightarrow> bool" where
  "is_confirmed tx = (fcard (witnesses tx) \<ge> 3)"

definition tx_add_witness :: "Transaction \<Rightarrow> string \<Rightarrow> Transaction" where
  "tx_add_witness tx peer_id = tx\<lparr>witnesses := finsert peer_id (witnesses tx)\<rparr>"

section \<open>Properties\<close>

lemma validate_address_from_public_key:
  assumes "crypto_ok cr"
  shows "validate_address cr (address_from_public_key cr pk)"
  using crypto_okD(1,2) [OF assms]
  by (simp add: address_from_public_key_def validate_address_def starts_with_def Let_def)

lemma tx_new_fields:
  assumes "tx_new cr now to amount fee nonce memo kp = Ok tx"
  shows "tx_from tx = address_from_keypair cr kp" "tx_to tx = to" "amount_muon tx = amount"
    "fee_muon tx = fee" "timestamp_ms tx = now" "tx_nonce tx = nonce" "tx_memo tx = memo"
    "from_public_key tx = pk_encode cr (kp_public cr kp)" "witnesses tx = {||}"
    "kp_sign cr kp (tx_bytes_for_signing tx) = Ok (tx_signature tx)"
  using assms
  by (auto simp: tx_new_def Let_def tx_bytes_for_signing_def split: sum.splits)

lemma tx_new_verifies:
  assumes ok: "crypto_ok cr" and new: "tx_new cr now to amount fee nonce memo kp = Ok tx"
    and to: "validate_address cr to"
  shows "tx_verify cr tx"
  using tx_new_fields [OF new] to validate_address_from_public_key [OF ok] crypto_okD(3,4) [OF ok]
  by (simp add: tx_verify_def address_from_keypair_def)

text \<open>The signature covers neither the identifier nor the witnesses.\<close>

lemma tx_verify_id_witnesses [simp]:
  "tx_verify cr (tx\<lparr>tx_id := i, witnesses := w\<rparr>) = tx_verify cr tx"
  "tx_verify cr (tx\<lparr>witnesses := w\<rparr>) = tx_verify cr tx"
  "tx_verify cr (tx\<lparr>tx_id := i\<rparr>) = tx_verify cr tx"
  by (simp_all add: tx_verify_def tx_bytes_for_signing_def split: option.splits)

lemma is_confirmed_add_witness:
  "is_confirmed tx \<Longrightarrow> is_confirmed (tx_add_witness tx p)"
  by (simp add: is_confirmed_def tx_add_witness_def fcard_finsert_if)

end
