(* ===== verification/Settlement.thy ===== *)
theory Settlement
  imports Trees Transactions
begin

text \<open>
  \<open>mycelium-coin/src/settlement_policy.rs\<close> and \<open>velocity.rs\<close>: the per-account caps a transfer is
  checked against and the window of recent outbound transfers the hourly limits read.
\<close>

section \<open>Settlement policy\<close>

definition MUON_PER_MXC :: u64 where "MUON_PER_MXC = 1000000"
definition DEFAULT_MAX_BALANCE_MXC :: u64 where "DEFAULT_MAX_BALANCE_MXC = 100"
definition HARD_MAX_BALANCE_MXC :: u64 where "HARD_MAX_BALANCE_MXC = 300"
definition DEFAULT_MAX_TX_MXC :: u64 where "DEFAULT_MAX_TX_MXC = 25"
definition MAX_TX_SERIALIZED_BYTES :: nat where "MAX_TX_SERIALIZED_BYTES = 4096"
definition DEFAULT_MAX_TX_PER_HOUR :: u32 where "DEFAULT_MAX_TX_PER_HOUR = 20"
definition DEFAULT_MAX_OUTBOUND_MXC_PER_HOUR :: u64 where "DEFAULT_MAX_OUTBOUND_MXC_PER_HOUR = 50"
definition HOUR_MS :: u64 where "HOUR_MS = 3600000"

lemmas settlement_consts =
  MUON_PER_MXC_def DEFAULT_MAX_BALANCE_MXC_def HARD_MAX_BALANCE_MXC_def DEFAULT_MAX_TX_MXC_def
  MAX_TX_SERIALIZED_BYTES_def DEFAULT_MAX_TX_PER_HOUR_def DEFAULT_MAX_OUTBOUND_MXC_PER_HOUR_def
  HOUR_MS_def

record SettlementPolicy =
  max_balance_muon :: u64
  max_transfer_muon :: u64
  max_tx_bytes :: nat
  max_tx_per_hour :: u32
  max_outbound_muon_per_hour :: u64

definition beta_defaults :: SettlementPolicy where
  "beta_defaults =
     \<lparr>max_balance_muon = DEFAULT_MAX_BALANCE_MXC * MUON_PER_MXC,
      max_transfer_muon = DEFAULT_MAX_TX_MXC * MUON_PER_MXC,
      max_tx_bytes = MAX_TX_SERIALIZED_BYTES,
      max_tx_per_hour = DEFAULT_MAX_TX_PER_HOUR,
      max_outbound_muon_per_hour = DEFAULT_MAX_OUTBOUND_MXC_PER_HOUR * MUON_PER_MXC\<rparr>"

definition hard_cap :: SettlementPolicy where
  "hard_cap = beta_defaults\<lparr>max_balance_muon := HARD_MAX_BALANCE_MXC * MUON_PER_MXC\<rparr>"

definition check_transfer_amount :: "SettlementPolicy \<Rightarrow> u64 \<Rightarrow> unit result" where
  "check_transfer_amount p amount =
     (if amount = 0 then Err ''transfer amount must be positive''
      else if amount > max_transfer_muon p then
        Err (''transfer exceeds max single settlement ('' @ dec (unat (max_transfer_muon p)) @ '' muon cap)'')
      else Ok ())"

definition check_tx_size :: "SettlementPolicy \<Rightarrow> Transaction \<Rightarrow> nat \<Rightarrow> unit result" where
  "check_tx_size p tx encoded_len =
     (if encoded_len > max_tx_bytes p then
        Err (''settlement event exceeds max size ('' @ dec (max_tx_bytes p) @ '' bytes)'')
      else check_transfer_amount p (amount_muon tx))"

definition check_balance_cap :: "SettlementPolicy \<Rightarrow> u64 \<Rightarrow> u64 \<Rightarrow> u64 \<Rightarrow> unit result" where
  "check_balance_cap p balance pending incoming =
     (let total = sat_add (sat_add balance pending) incoming in
      if total > max_balance_muon p then
        Err (''balance would exceed vault cap ('' @ dec (unat (max_balance_muon p)) @ '' muon max)'')
      else Ok ())"

text \<open>The loop of \<open>check_velocity\<close>: the number and the saturated sum of the events in the window.\<close>

fun velocity_scan :: "u64 \<Rightarrow> (u64 \<times> u64) list \<Rightarrow> u32 \<times> u64 \<Rightarrow> u32 \<times> u64" where
  "velocity_scan window_start [] acc = acc"
| "velocity_scan window_start ((ts, amt) # rest) (cnt, outbound) =
     velocity_scan window_start rest
       (if ts \<ge> window_start then (cnt + 1, sat_add outbound amt) else (cnt, outbound))"

definition check_velocity :: "SettlementPolicy \<Rightarrow> (u64 \<times> u64) list \<Rightarrow> u64 \<Rightarrow> u64 \<Rightarrow> unit result" where
  "check_velocity p recent now_ms new_amount =
     (let window_start = sat_sub now_ms HOUR_MS;
          (cnt, outbound) = velocity_scan window_start recent (0, 0) in
      if cnt \<ge> max_tx_per_hour p then Err ''velocity limit: too many settlements per hour''
      else
        let projected = sat_add outbound new_amount in
        if projected > max_outbound_muon_per_hour p then
          Err ''velocity limit: hourly outbound settlement cap exceeded''
        else Ok ())"

section \<open>Velocity tracker\<close>

definition MAX_STORED_EVENTS :: nat where "MAX_STORED_EVENTS = 64"

text \<open>\<open>VelocityWindow::push\<close>: append, then \<open>pop_front\<close> while the deque is too long.\<close>

function pop_front_while :: "nat \<Rightarrow> 'a list \<Rightarrow> 'a list" where
  "pop_front_while cap xs = (if length xs > cap then pop_front_while cap (tl xs) else xs)"
  by pat_completeness auto
termination
  by (relation "measure (\<lambda>(cap, xs). length xs)") auto

declare pop_front_while.simps [simp del]

definition velocity_push :: "(u64 \<times> u64) list \<Rightarrow> u64 \<Rightarrow> u64 \<Rightarrow> (u64 \<times> u64) list" where
  "velocity_push events ts amount =
     pop_front_while MAX_STORED_EVENTS (events @ [(ts, amount)])"

type_synonym velocity_tree = "(string, (u64 \<times> u64) list) tree"

definition recent_for :: "velocity_tree \<Rightarrow> string \<Rightarrow> (u64 \<times> u64) list" where
  "recent_for vt address = (case tree_get vt address of Some w \<Rightarrow> w | None \<Rightarrow> [])"

definition record_outbound :: "string \<Rightarrow> u64 \<Rightarrow> u64 \<Rightarrow> velocity_tree \<Rightarrow> velocity_tree" where
  "record_outbound address ts amount vt =
     (let w = (case tree_get vt address of Some w \<Rightarrow> w | None \<Rightarrow> []) in
      tree_put address (velocity_push w ts amount) vt)"

section \<open>What the checks guarantee\<close>

lemma check_transfer_amount_Ok:
  "check_transfer_amount p a = Ok () \<longleftrightarrow> 0 < unat a \<and> unat a \<le> unat (max_transfer_muon p)"
  using unat_eq_zero [of a] by (auto simp: check_transfer_amount_def word_nat simp del: unat_eq_zero)

lemma check_tx_size_Ok:
  "check_tx_size p tx n = Ok () \<longleftrightarrow>
     n \<le> max_tx_bytes p \<and> check_transfer_amount p (amount_muon tx) = Ok ()"
  by (auto simp: check_tx_size_def)

lemma check_balance_cap_Ok:
  "check_balance_cap p b q i = Ok () \<longleftrightarrow>
     min (unat b + unat q + unat i) (2 ^ 64 - 1) \<le> unat (max_balance_muon p)"
  by (auto simp: check_balance_cap_def word_nat Let_def min_def)

text \<open>An accepted credit keeps the exact sum under the cap, as long as the cap is not the largest
  64-bit number.\<close>

lemma check_balance_cap_exact:
  assumes "check_balance_cap p b q i = Ok ()" "max_balance_muon p \<noteq> - 1"
  shows "unat b + unat q + unat i \<le> unat (max_balance_muon p)"
proof -
  have "unat (max_balance_muon p) \<noteq> 2 ^ 64 - 1"
    using assms(2) unat_minus_one_max [where 'a = 64] word_unat_eq_iff [of "max_balance_muon p" "- 1"]
    by simp
  then show ?thesis
    using assms(1) unat_u64_bound [of "max_balance_muon p"] by (auto simp: check_balance_cap_Ok)
qed

lemma pop_front_while_drop: "pop_front_while cap xs = drop (length xs - cap) xs"
proof (induction cap xs rule: pop_front_while.induct)
  case (1 cap xs)
  show ?case
  proof (cases "length xs > cap")
    case True
    then obtain y ys where "xs = y # ys"
      by (cases xs) auto
    with 1 True show ?thesis
      by (subst pop_front_while.simps) (auto simp: Suc_diff_le)
  qed (subst pop_front_while.simps, simp)
qed

lemma length_velocity_push: "length (velocity_push ev ts a) = min (Suc (length ev)) MAX_STORED_EVENTS"
  by (simp add: velocity_push_def pop_front_while_drop min_def MAX_STORED_EVENTS_def)

text \<open>The loop counts and sums exactly the events of the window.\<close>

definition in_window :: "u64 \<Rightarrow> (u64 \<times> u64) list \<Rightarrow> (u64 \<times> u64) list" where
  "in_window window_start events = filter (\<lambda>(ts, _). window_start \<le> ts) events"

lemma velocity_scan_spec:
  assumes "unat c + length ev < 2 ^ 32"
  shows "unat (fst (velocity_scan ws ev (c, s))) = unat c + length (in_window ws ev)"
    and "unat (snd (velocity_scan ws ev (c, s))) =
           min (unat s + (\<Sum>(_, a)\<leftarrow>in_window ws ev. unat a)) (2 ^ 64 - 1)"
  using assms
proof (induction ev arbitrary: c s)
  case Nil
  {
    case 1
    then show ?case by (simp add: in_window_def)
  next
    case 2
    then show ?case using unat_u64_bound [of s] by (simp add: in_window_def)
  }
next
  case (Cons e ev)
  obtain ts a where e: "e = (ts, a)"
    by (cases e)
  have step: "unat (c + 1) = unat c + 1" if "unat c + length (e # ev) < 2 ^ 32" for c :: u32
    using that unat_add_no_wrap [of c 1] by simp
  {
    case 1
    then have "unat (c + 1) = unat c + 1" by (rule step)
    with 1 show ?case
      using Cons(1) [of "c + 1"] Cons(1) [of c] by (auto simp: in_window_def e)
  next
    case 2
    then have "unat (c + 1) = unat c + 1" by (rule step)
    with 2 show ?case
      using Cons(2) [of "c + 1"] Cons(2) [of c] by (auto simp: in_window_def e unat_sat_add_u64)
  }
qed

lemma check_velocity_Ok:
  assumes "length recent < 2 ^ 32" and "check_velocity p recent now a = Ok ()"
  defines "w \<equiv> in_window (sat_sub now HOUR_MS) recent"
  shows "length w < unat (max_tx_per_hour p)"
    and "min ((\<Sum>(_, x)\<leftarrow>w. unat x) + unat a) (2 ^ 64 - 1) \<le> unat (max_outbound_muon_per_hour p)"
proof -
  obtain c s where cs: "velocity_scan (sat_sub now HOUR_MS) recent (0, 0) = (c, s)"
    by (cases "velocity_scan (sat_sub now HOUR_MS) recent (0, 0)")
  have "unat c = length w" and s: "unat s = min (\<Sum>(_, x)\<leftarrow>w. unat x) (2 ^ 64 - 1)"
    using velocity_scan_spec [of 0 recent "sat_sub now HOUR_MS" 0] assms(1) cs
    by (simp_all add: w_def)
  then show "length w < unat (max_tx_per_hour p)"
    using assms(2) cs by (auto simp: check_velocity_def word_nat Let_def split: if_splits)
  have "unat (sat_add s a) \<le> unat (max_outbound_muon_per_hour p)"
    using assms(2) cs by (auto simp: check_velocity_def word_nat Let_def split: if_splits)
  then show "min ((\<Sum>(_, x)\<leftarrow>w. unat x) + unat a) (2 ^ 64 - 1) \<le> unat (max_outbound_muon_per_hour p)"
    using s by (auto simp: unat_sat_add_u64 min_def split: if_splits)
qed

lemma recent_for_record:
  "recent_for (record_outbound a ts amt vt) b =
     (if b = a then velocity_push (recent_for vt a) ts amt else recent_for vt b)"
  by (auto simp: recent_for_def record_outbound_def tree_get_put split: option.splits)

end
