(* ===== verification/Ledger.thy ===== *)
theory Ledger
  imports Settlement
begin

text \<open>
  \<open>LocalLedger\<close> of \<open>mycelium-coin/src/ledger.rs\<close>: the transaction, account, refill and velocity
  trees of one node and every operation on them.  A tree row holds the decoded value; the
  length and the failure of \<open>bincode::serialize\<close> are read through the parameter \<open>ser\<close>.
  Failures of the database itself are not modelled.
\<close>

section \<open>State\<close>

record AccountState =
  acc_address :: string
  balance_muon :: u64
  next_nonce :: u64
  pending_received :: u64

datatype ApplyResult =
    Accepted
  | Duplicate
  | InvalidNonce u64 u64
  | InsufficientFunds u64 u64
  | Invalid string

record LocalLedger =
  transactions :: "(string, Transaction) tree"
  accounts :: "(string, AccountState) tree"
  refill_applied :: "(string, u8 list) tree"
  velocity :: velocity_tree
  policy :: SettlementPolicy

type_synonym serializer = "Transaction \<Rightarrow> bytes result"

definition ledger_open :: LocalLedger where
  "ledger_open = \<lparr>transactions = [], accounts = [], refill_applied = [], velocity = [],
                  policy = beta_defaults\<rparr>"

definition set_policy :: "SettlementPolicy \<Rightarrow> LocalLedger \<Rightarrow> LocalLedger" where
  "set_policy p L = L\<lparr>policy := p\<rparr>"

section \<open>Operations\<close>

definition account_state :: "LocalLedger \<Rightarrow> string \<Rightarrow> AccountState" where
  "account_state L address =
     (case tree_get (accounts L) address of
        Some acc \<Rightarrow> acc
      | None \<Rightarrow> \<lparr>acc_address = address, balance_muon = 0, next_nonce = 0, pending_received = 0\<rparr>)"

definition update_account :: "string \<Rightarrow> (AccountState \<Rightarrow> AccountState) \<Rightarrow> LocalLedger \<Rightarrow> LocalLedger" where
  "update_account address f L =
     L\<lparr>accounts := tree_put address (f (account_state L address)) (accounts L)\<rparr>"

definition apply_transaction ::
  "crypto \<Rightarrow> serializer \<Rightarrow> Transaction \<Rightarrow> LocalLedger \<Rightarrow> ApplyResult result \<times> LocalLedger" where
  "apply_transaction cr ser tx L =
     (if tree_has (transactions L) (tx_id tx) then (Ok Duplicate, L)
      else if \<not> tx_verify cr tx then (Ok (Invalid ''invalid signature''), L)
      else if tx_from tx = tx_to tx then (Ok (Invalid ''from and to must differ''), L)
      else
        let account = account_state L (tx_from tx) in
        if tx_nonce tx \<noteq> next_nonce account then
          (Ok (InvalidNonce (next_nonce account) (tx_nonce tx)), L)
        else
          case checked_add (amount_muon tx) (fee_muon tx) of
            None \<Rightarrow> (Err ''amount overflow'', L)
          | Some total_muon \<Rightarrow>
            if balance_muon account < total_muon then
              (Ok (InsufficientFunds (balance_muon account) total_muon), L)
            else if (case tx_memo tx of None \<Rightarrow> 0 | Some m \<Rightarrow> length m) > 64 then
              (Ok (Invalid ''memo too long''), L)
            else
              case check_transfer_amount (policy L) (amount_muon tx) of
                Inl msg \<Rightarrow> (Ok (Invalid msg), L)
              | Inr _ \<Rightarrow>
                case ser tx of
                  Inl e \<Rightarrow> (Err e, L)
                | Inr encoded \<Rightarrow>
                  case check_tx_size (policy L) tx (length encoded) of
                    Inl msg \<Rightarrow> (Ok (Invalid msg), L)
                  | Inr _ \<Rightarrow>
                    let to_acc = account_state L (tx_to tx) in
                    case check_balance_cap (policy L) (balance_muon to_acc) (pending_received to_acc)
                           (amount_muon tx) of
                      Inl msg \<Rightarrow> (Ok (Invalid msg), L)
                    | Inr _ \<Rightarrow>
                      let recent = recent_for (velocity L) (tx_from tx) in
                      case check_velocity (policy L) recent (timestamp_ms tx) (amount_muon tx) of
                        Inl msg \<Rightarrow> (Ok (Invalid msg), L)
                      | Inr _ \<Rightarrow>
                        let L1 = L\<lparr>transactions := tree_put (tx_id tx) tx (transactions L)\<rparr>;
                            L2 = update_account (tx_from tx)
                                   (\<lambda>acc. acc\<lparr>balance_muon := balance_muon acc - total_muon,
                                              next_nonce := next_nonce acc + 1\<rparr>) L1;
                            L3 = update_account (tx_to tx)
                                   (\<lambda>acc. if is_confirmed tx
                                           then acc\<lparr>balance_muon := balance_muon acc + amount_muon tx\<rparr>
                                           else acc\<lparr>pending_received := pending_received acc + amount_muon tx\<rparr>) L2;
                            L4 = L3\<lparr>velocity := record_outbound (tx_from tx) (timestamp_ms tx)
                                                  (amount_muon tx) (velocity L3)\<rparr> in
                        (Ok Accepted, L4))"

definition add_witness ::
  "serializer \<Rightarrow> string \<Rightarrow> string \<Rightarrow> LocalLedger \<Rightarrow> bool result \<times> LocalLedger" where
  "add_witness ser txid peer_id L =
     (case tree_get (transactions L) txid of
        None \<Rightarrow> (Ok False, L)
      | Some tx0 \<Rightarrow>
          let was_unconfirmed = \<not> is_confirmed tx0;
              inserted = peer_id |\<notin>| witnesses tx0;
              tx = tx_add_witness tx0 peer_id in
          if \<not> inserted then (Ok False, L)
          else
            let store = (\<lambda>L'. case ser tx of
                                Inl e \<Rightarrow> (Err e, L')
                              | Inr _ \<Rightarrow> (Ok True, L'\<lparr>transactions := tree_put txid tx (transactions L')\<rparr>)) in
            if was_unconfirmed \<and> is_confirmed tx then
              let to = tx_to tx; amt = amount_muon tx; to_acc = account_state L to in
              case check_balance_cap (policy L) (balance_muon to_acc)
                     (sat_sub (pending_received to_acc) amt) amt of
                Inl msg \<Rightarrow> (Err msg, L)
              | Inr _ \<Rightarrow>
                  store (update_account to
                           (\<lambda>acc. acc\<lparr>pending_received := sat_sub (pending_received acc) amt,
                                      balance_muon := balance_muon acc + amt\<rparr>) L)
            else store L)"

definition transaction :: "LocalLedger \<Rightarrow> string \<Rightarrow> Transaction option" where
  "transaction L i = tree_get (transactions L) i"

text \<open>\<open>sort_by_key\<close> with \<open>Reverse\<close> of the timestamp is a stable descending sort.\<close>

definition recent_transactions :: "LocalLedger \<Rightarrow> nat \<Rightarrow> Transaction list" where
  "recent_transactions L limit =
     take limit (sort_key (\<lambda>tx. - int (unat (timestamp_ms tx))) (map snd (tree_iter (transactions L))))"

definition genesis_credit :: "string \<Rightarrow> u64 \<Rightarrow> LocalLedger \<Rightarrow> unit result \<times> LocalLedger" where
  "genesis_credit address amount L =
     (let acc = account_state L address in
      case check_balance_cap (policy L) (balance_muon acc) (pending_received acc) amount of
        Inl e \<Rightarrow> (Err e, L)
      | Inr _ \<Rightarrow> (Ok (), update_account address (\<lambda>acc. acc\<lparr>balance_muon := balance_muon acc + amount\<rparr>) L))"

definition refill_already_applied :: "LocalLedger \<Rightarrow> string \<Rightarrow> bool" where
  "refill_already_applied L request_id = tree_has (refill_applied L) request_id"

definition mark_refill_applied :: "string \<Rightarrow> LocalLedger \<Rightarrow> LocalLedger" where
  "mark_refill_applied request_id L = L\<lparr>refill_applied := tree_put request_id [1] (refill_applied L)\<rparr>"

section \<open>Each operation, branch by branch\<close>

lemma account_state_update:
  "account_state (update_account a f L) b = (if b = a then f (account_state L a) else account_state L b)"
  by (simp add: account_state_def update_account_def tree_get_put)

lemma update_account_fields [simp]:
  "transactions (update_account a f L) = transactions L"
  "refill_applied (update_account a f L) = refill_applied L"
  "velocity (update_account a f L) = velocity L"
  "policy (update_account a f L) = policy L"
  by (simp_all add: update_account_def)

lemma account_state_other_fields [simp]:
  "account_state (L\<lparr>transactions := t\<rparr>) = account_state L"
  "account_state (L\<lparr>velocity := w\<rparr>) = account_state L"
  "account_state (L\<lparr>refill_applied := r\<rparr>) = account_state L"
  "account_state (L\<lparr>policy := p\<rparr>) = account_state L"
  by (simp_all add: account_state_def fun_eq_iff)

text \<open>What \<open>apply_transaction\<close> requires of a transfer, and the ledger after it is accepted.\<close>

definition transfer_ok :: "crypto \<Rightarrow> serializer \<Rightarrow> Transaction \<Rightarrow> LocalLedger \<Rightarrow> bool" where
  "transfer_ok cr ser tx L \<longleftrightarrow>
     \<not> tree_has (transactions L) (tx_id tx) \<and> tx_verify cr tx \<and> tx_from tx \<noteq> tx_to tx \<and>
     tx_nonce tx = next_nonce (account_state L (tx_from tx)) \<and>
     unat (amount_muon tx) + unat (fee_muon tx) \<le> unat (balance_muon (account_state L (tx_from tx))) \<and>
     (case tx_memo tx of None \<Rightarrow> True | Some m \<Rightarrow> length m \<le> 64) \<and>
     check_transfer_amount (policy L) (amount_muon tx) = Ok () \<and>
     (case ser tx of Inl _ \<Rightarrow> False | Inr enc \<Rightarrow> length enc \<le> max_tx_bytes (policy L)) \<and>
     check_balance_cap (policy L) (balance_muon (account_state L (tx_to tx)))
       (pending_received (account_state L (tx_to tx))) (amount_muon tx) = Ok () \<and>
     check_velocity (policy L) (recent_for (velocity L) (tx_from tx)) (timestamp_ms tx) (amount_muon tx) = Ok ()"

definition debit :: "Transaction \<Rightarrow> AccountState \<Rightarrow> AccountState" where
  "debit tx acc = acc\<lparr>balance_muon := balance_muon acc - (amount_muon tx + fee_muon tx),
                      next_nonce := next_nonce acc + 1\<rparr>"

definition credit :: "Transaction \<Rightarrow> AccountState \<Rightarrow> AccountState" where
  "credit tx acc = (if is_confirmed tx then acc\<lparr>balance_muon := balance_muon acc + amount_muon tx\<rparr>
                    else acc\<lparr>pending_received := pending_received acc + amount_muon tx\<rparr>)"

definition transfer :: "Transaction \<Rightarrow> LocalLedger \<Rightarrow> LocalLedger" where
  "transfer tx L =
     (update_account (tx_to tx) (credit tx) (update_account (tx_from tx) (debit tx) L))
       \<lparr>transactions := tree_put (tx_id tx) tx (transactions L),
        velocity := record_outbound (tx_from tx) (timestamp_ms tx) (amount_muon tx) (velocity L)\<rparr>"

lemma checked_add_le:
  "unat (a::u64) + unat b \<le> unat (c::u64) \<Longrightarrow> checked_add a b = Some (a + b)"
  using unat_bound [of c] by (simp add: checked_add_def)

lemma apply_transaction_ok:
  assumes "transfer_ok cr ser tx L"
  shows "apply_transaction cr ser tx L = (Ok Accepted, transfer tx L)"
proof -
  define acc where "acc = account_state L (tx_from tx)"
  have le: "unat (amount_muon tx) + unat (fee_muon tx) \<le> unat (balance_muon acc)"
    using assms by (simp add: transfer_ok_def acc_def)
  have ca: "checked_add (amount_muon tx) (fee_muon tx) = Some (amount_muon tx + fee_muon tx)"
    using le by (rule checked_add_le)
  have "\<not> balance_muon acc < amount_muon tx + fee_muon tx"
    using le checked_add_Some [OF ca] by (simp add: word_less_unat)
  moreover obtain enc where "ser tx = Ok enc" "length enc \<le> max_tx_bytes (policy L)"
    using assms by (auto simp: transfer_ok_def split: sum.splits)
  ultimately show ?thesis
    using assms ca
    by (auto simp: transfer_ok_def apply_transaction_def Let_def check_tx_size_def acc_def
          transfer_def debit_def credit_def update_account_def account_state_def
          cong: if_cong split: option.splits)
qed

lemma apply_transaction_not_ok:
  assumes "\<not> transfer_ok cr ser tx L"
  shows "snd (apply_transaction cr ser tx L) = L" and "fst (apply_transaction cr ser tx L) \<noteq> Ok Accepted"
proof -
  have "snd (apply_transaction cr ser tx L) = L \<and> fst (apply_transaction cr ser tx L) \<noteq> Ok Accepted"
    using assms unfolding apply_transaction_def transfer_ok_def Let_def
    by (auto simp: check_tx_size_def word_nat not_less split: option.splits sum.splits dest: checked_add_Some)
  then show "snd (apply_transaction cr ser tx L) = L" and "fst (apply_transaction cr ser tx L) \<noteq> Ok Accepted"
    by simp_all
qed

end
