(* ===== verification/Ledger_Inv.thy ===== *)
theory Ledger_Inv
  imports Ledger
begin

text \<open>
  The ledger over its life time: the step relation of its operations, the states reachable from
  an empty database under one policy, and the invariants that make the ledger sound.  Every
  account stays under the vault cap, \<open>pending_received\<close> is the sum of the stored unconfirmed
  transfers to that account, the nonces of one sender are used once each, and the supply changes
  by credits and burned fees only.
\<close>

section \<open>Steps and reachable states\<close>

definition ser_total :: "serializer \<Rightarrow> bool" where
  "ser_total ser \<longleftrightarrow> (\<forall>tx. is_ok (ser tx))"

inductive ledger_step :: "crypto \<Rightarrow> serializer \<Rightarrow> LocalLedger \<Rightarrow> LocalLedger \<Rightarrow> bool"
  for cr :: crypto and ser :: serializer where
  step_apply: "ledger_step cr ser L (snd (apply_transaction cr ser tx L))"
| step_witness: "ledger_step cr ser L (snd (add_witness ser i p L))"
| step_genesis: "ledger_step cr ser L (snd (genesis_credit a n L))"
| step_refill: "ledger_step cr ser L (mark_refill_applied r L)"

inductive ledger_reach :: "crypto \<Rightarrow> serializer \<Rightarrow> LocalLedger \<Rightarrow> bool"
  for cr :: crypto and ser :: serializer where
  reach_init: "max_balance_muon p \<noteq> - 1 \<Longrightarrow> ledger_reach cr ser (set_policy p ledger_open)"
| reach_step: "ledger_reach cr ser L \<Longrightarrow> ledger_step cr ser L L' \<Longrightarrow> ledger_reach cr ser L'"

inductive_cases ledger_step_cases [elim]: "ledger_step cr ser L L'"

section \<open>The invariant\<close>

definition holdings :: "AccountState \<Rightarrow> nat" where
  "holdings acc = unat (balance_muon acc) + unat (pending_received acc)"

definition total_supply :: "LocalLedger \<Rightarrow> nat" where
  "total_supply L = tree_sum holdings (accounts L)"

definition unconfirmed_to :: "string \<Rightarrow> Transaction \<Rightarrow> nat" where
  "unconfirmed_to a tx = (if tx_to tx = a \<and> \<not> is_confirmed tx then unat (amount_muon tx) else 0)"

definition sent_by :: "string \<Rightarrow> Transaction \<Rightarrow> nat" where
  "sent_by a tx = (if tx_from tx = a then 1 else 0)"

definition trees_ok :: "LocalLedger \<Rightarrow> bool" where
  "trees_ok L \<longleftrightarrow> tree_ok (transactions L) \<and> tree_ok (accounts L) \<and> max_balance_muon (policy L) \<noteq> - 1"

definition caps_ok :: "LocalLedger \<Rightarrow> bool" where
  "caps_ok L \<longleftrightarrow> (\<forall>a. holdings (account_state L a) \<le> unat (max_balance_muon (policy L)))"

definition pending_ok :: "LocalLedger \<Rightarrow> bool" where
  "pending_ok L \<longleftrightarrow>
     (\<forall>a. unat (pending_received (account_state L a)) = tree_sum (unconfirmed_to a) (transactions L))"

definition windows_ok :: "LocalLedger \<Rightarrow> bool" where
  "windows_ok L \<longleftrightarrow> (\<forall>a. length (recent_for (velocity L) a) \<le> MAX_STORED_EVENTS)"

text \<open>The nonces of a sender's stored transfers count up from 0, each used once.  The counter is a
  64-bit number, so this holds as long as fewer than \<open>2 ^ 64\<close> transfers are stored.\<close>

definition nonces_counted :: "LocalLedger \<Rightarrow> bool" where
  "nonces_counted L \<longleftrightarrow>
     (\<forall>a. unat (next_nonce (account_state L a)) = tree_sum (sent_by a) (transactions L))"

definition nonces_below :: "LocalLedger \<Rightarrow> bool" where
  "nonces_below L \<longleftrightarrow>
     (\<forall>i tx. tree_get (transactions L) i = Some tx \<longrightarrow>
        unat (tx_nonce tx) < unat (next_nonce (account_state L (tx_from tx))))"

definition nonces_unique :: "LocalLedger \<Rightarrow> bool" where
  "nonces_unique L \<longleftrightarrow>
     (\<forall>i j tx tx'. tree_get (transactions L) i = Some tx \<longrightarrow> tree_get (transactions L) j = Some tx' \<longrightarrow>
        tx_from tx = tx_from tx' \<longrightarrow> tx_nonce tx = tx_nonce tx' \<longrightarrow> i = j)"

definition nonces_ok :: "LocalLedger \<Rightarrow> bool" where
  "nonces_ok L \<longleftrightarrow>
     (length (transactions L) < 2 ^ 64 \<longrightarrow> nonces_counted L \<and> nonces_below L \<and> nonces_unique L)"

lemmas ledger_inv_defs = trees_ok_def caps_ok_def pending_ok_def windows_ok_def

section \<open>Credits and debits in exact arithmetic\<close>

lemma holdings_debit:
  assumes "unat (amount_muon tx) + unat (fee_muon tx) \<le> unat (balance_muon acc)"
  shows "holdings (debit tx acc) + unat (amount_muon tx) + unat (fee_muon tx) = holdings acc"
proof -
  have s: "unat (amount_muon tx + fee_muon tx) = unat (amount_muon tx) + unat (fee_muon tx)"
    using assms unat_bound [of "balance_muon acc"] by (intro unat_add_no_wrap) simp
  then have "amount_muon tx + fee_muon tx \<le> balance_muon acc"
    using assms by (simp add: word_le_unat)
  then show ?thesis
    using s assms by (simp add: holdings_def debit_def unat_sub)
qed

lemma cap_no_wrap:
  assumes "check_balance_cap p b q i = Ok ()" "max_balance_muon p \<noteq> - 1"
  shows "unat (b + i) = unat b + unat i" and "unat (q + i) = unat q + unat i"
proof -
  have "unat b + unat q + unat i < 2 ^ 64"
    using check_balance_cap_exact [OF assms] unat_u64_bound [of "max_balance_muon p"] by simp
  then show "unat (b + i) = unat b + unat i" and "unat (q + i) = unat q + unat i"
    by (simp_all add: unat_add_no_wrap)
qed

lemma holdings_credit:
  assumes "check_balance_cap p (balance_muon acc) (pending_received acc) (amount_muon tx) = Ok ()"
    and "max_balance_muon p \<noteq> - 1"
  shows "holdings (credit tx acc) = holdings acc + unat (amount_muon tx)"
  using cap_no_wrap [OF assms] by (simp add: holdings_def credit_def)

lemma holdings_default: "tree_get (accounts L) a = None \<Longrightarrow> holdings (account_state L a) = 0"
  by (simp add: account_state_def holdings_def)

lemma supply_update:
  assumes "tree_ok (accounts L)"
  shows "total_supply (update_account a f L) + holdings (account_state L a) =
           total_supply L + holdings (f (account_state L a))"
  using tree_sum_put [OF assms, of holdings a "f (account_state L a)"] holdings_default [of L a]
  by (auto simp: total_supply_def update_account_def account_state_def split: option.splits)

lemma tree_ok_update: "tree_ok (accounts L) \<Longrightarrow> tree_ok (accounts (update_account a f L))"
  by (simp add: update_account_def tree_ok_put)

lemma transfer_account:
  assumes "tx_from tx \<noteq> tx_to tx"
  shows "account_state (transfer tx L) a =
           (if a = tx_from tx then debit tx (account_state L a)
            else if a = tx_to tx then credit tx (account_state L a)
            else account_state L a)"
  using assms by (simp add: transfer_def account_state_update)

lemma transfer_fields [simp]:
  "transactions (transfer tx L) = tree_put (tx_id tx) tx (transactions L)"
  "velocity (transfer tx L) = record_outbound (tx_from tx) (timestamp_ms tx) (amount_muon tx) (velocity L)"
  "policy (transfer tx L) = policy L"
  "refill_applied (transfer tx L) = refill_applied L"
  by (simp_all add: transfer_def)

lemma supply_transfer:
  assumes "transfer_ok cr ser tx L" "trees_ok L"
  shows "total_supply (transfer tx L) + unat (fee_muon tx) = total_supply L"
proof -
  let ?L1 = "update_account (tx_from tx) (debit tx) L"
  have ok: "tree_ok (accounts L)" "tree_ok (accounts ?L1)"
    using assms(2) by (simp_all add: trees_ok_def tree_ok_update)
  have neq: "tx_from tx \<noteq> tx_to tx"
    using assms(1) by (simp add: transfer_ok_def)
  have "total_supply ?L1 + unat (amount_muon tx) + unat (fee_muon tx) = total_supply L"
    using supply_update [OF ok(1), of "tx_from tx" "debit tx"]
      holdings_debit [of tx "account_state L (tx_from tx)"] assms(1)
    by (simp add: transfer_ok_def)
  moreover have "total_supply (update_account (tx_to tx) (credit tx) ?L1) = total_supply ?L1 + unat (amount_muon tx)"
    using supply_update [OF ok(2), of "tx_to tx" "credit tx"] neq assms
      holdings_credit [of "policy L" "account_state L (tx_to tx)" tx]
    by (simp add: account_state_update transfer_ok_def trees_ok_def)
  ultimately show ?thesis
    by (simp add: transfer_def total_supply_def)
qed

section \<open>A transfer keeps the invariant\<close>

lemma trees_ok_transfer: "trees_ok L \<Longrightarrow> trees_ok (transfer tx L)"
  by (simp add: trees_ok_def transfer_def tree_ok_put update_account_def)

lemma caps_ok_transfer:
  assumes "transfer_ok cr ser tx L" "trees_ok L" "caps_ok L"
  shows "caps_ok (transfer tx L)"
  unfolding caps_ok_def
proof
  fix a
  have neq: "tx_from tx \<noteq> tx_to tx"
    using assms(1) by (simp add: transfer_ok_def)
  have cap: "holdings (account_state L b) \<le> unat (max_balance_muon (policy L))" for b
    using assms(3) by (simp add: caps_ok_def)
  have "holdings (debit tx (account_state L (tx_from tx))) \<le> unat (max_balance_muon (policy L))"
    using holdings_debit [of tx "account_state L (tx_from tx)"] assms(1) cap [of "tx_from tx"]
    by (simp add: transfer_ok_def)
  moreover have "holdings (credit tx (account_state L (tx_to tx))) \<le> unat (max_balance_muon (policy L))"
    using holdings_credit [of "policy L" "account_state L (tx_to tx)" tx] assms(1,2)
      check_balance_cap_exact [of "policy L" "balance_muon (account_state L (tx_to tx))"
        "pending_received (account_state L (tx_to tx))" "amount_muon tx"]
    by (simp add: transfer_ok_def trees_ok_def holdings_def)
  ultimately show "holdings (account_state (transfer tx L) a)
      \<le> unat (max_balance_muon (policy (transfer tx L)))"
    using cap by (simp add: transfer_account [OF neq])
qed

lemma pending_ok_transfer:
  assumes "transfer_ok cr ser tx L" "trees_ok L" "pending_ok L"
  shows "pending_ok (transfer tx L)"
  unfolding pending_ok_def
proof
  fix a
  let ?c = "account_state L (tx_to tx)"
  have neq: "tx_from tx \<noteq> tx_to tx"
    using assms(1) by (simp add: transfer_ok_def)
  have "unat (pending_received ?c + amount_muon tx) = unat (pending_received ?c) + unat (amount_muon tx)"
    using assms(1,2) cap_no_wrap(2) [of "policy L" "balance_muon ?c" "pending_received ?c" "amount_muon tx"]
    by (simp add: transfer_ok_def trees_ok_def)
  moreover have "tree_sum (unconfirmed_to a) (transactions (transfer tx L)) =
      tree_sum (unconfirmed_to a) (transactions L) + unconfirmed_to a tx"
    using assms(1,2) by (simp add: transfer_ok_def trees_ok_def tree_sum_put_new)
  ultimately show "unat (pending_received (account_state (transfer tx L) a)) =
      tree_sum (unconfirmed_to a) (transactions (transfer tx L))"
    using assms(3) neq
    by (simp add: pending_ok_def transfer_account unconfirmed_to_def debit_def credit_def)
qed

lemma windows_ok_transfer: "windows_ok L \<Longrightarrow> windows_ok (transfer tx L)"
  by (simp add: windows_ok_def recent_for_record length_velocity_push)

section \<open>A witness keeps the invariant\<close>

definition settle :: "u64 \<Rightarrow> AccountState \<Rightarrow> AccountState" where
  "settle amt acc = acc\<lparr>pending_received := sat_sub (pending_received acc) amt,
                        balance_muon := balance_muon acc + amt\<rparr>"

definition witnessed :: "string \<Rightarrow> string \<Rightarrow> Transaction \<Rightarrow> LocalLedger \<Rightarrow> LocalLedger" where
  "witnessed i p tx L =
     (if \<not> is_confirmed tx \<and> is_confirmed (tx_add_witness tx p)
      then update_account (tx_to tx) (settle (amount_muon tx)) L else L)
     \<lparr>transactions := tree_put i (tx_add_witness tx p) (transactions L)\<rparr>"

lemma tx_add_witness_fields [simp]:
  "tx_to (tx_add_witness tx p) = tx_to tx" "tx_from (tx_add_witness tx p) = tx_from tx"
  "amount_muon (tx_add_witness tx p) = amount_muon tx" "tx_nonce (tx_add_witness tx p) = tx_nonce tx"
  "tx_id (tx_add_witness tx p) = tx_id tx"
  by (simp_all add: tx_add_witness_def)

text \<open>An unconfirmed stored transfer is part of the pending sum of its receiver.\<close>

lemma unconfirmed_le_pending:
  assumes "pending_ok L" "tree_get (transactions L) i = Some tx" "\<not> is_confirmed tx"
  shows "unat (amount_muon tx) \<le> unat (pending_received (account_state L (tx_to tx)))"
  using tree_sum_get_le [OF assms(2), of "unconfirmed_to (tx_to tx)"] assms(1,3)
  by (simp add: pending_ok_def unconfirmed_to_def)

lemma settle_exact:
  assumes "unat amt \<le> unat (pending_received acc)" "holdings acc < 2 ^ 64"
  shows "unat (balance_muon (settle amt acc)) = unat (balance_muon acc) + unat amt"
    and "unat (pending_received (settle amt acc)) = unat (pending_received acc) - unat amt"
    and "holdings (settle amt acc) = holdings acc"
proof -
  show b: "unat (balance_muon (settle amt acc)) = unat (balance_muon acc) + unat amt"
    using assms by (simp add: settle_def holdings_def unat_add_no_wrap)
  show p: "unat (pending_received (settle amt acc)) = unat (pending_received acc) - unat amt"
    by (simp add: settle_def unat_sat_sub)
  show "holdings (settle amt acc) = holdings acc"
    using b p assms(1) by (simp add: holdings_def)
qed

lemma holdings_lt: "caps_ok L \<Longrightarrow> holdings (account_state L a) < 2 ^ 64"
  using unat_bound [of "max_balance_muon (policy L)"] by (auto simp: caps_ok_def intro: le_less_trans)

lemma add_witness_new:
  assumes inv: "caps_ok L" "pending_ok L" and ser: "ser_total ser"
    and get: "tree_get (transactions L) i = Some tx" and new: "p |\<notin>| witnesses tx"
  shows "add_witness ser i p L = (Ok True, witnessed i p tx L)"
proof -
  let ?acc = "account_state L (tx_to tx)"
  obtain e where e: "ser (tx_add_witness tx p) = Ok e"
    using ser by (cases "ser (tx_add_witness tx p)") (auto simp: ser_total_def dest: spec [of _ "tx_add_witness tx p"])
  have "check_balance_cap (policy L) (balance_muon ?acc)
      (sat_sub (pending_received ?acc) (amount_muon tx)) (amount_muon tx) = Ok ()" if "\<not> is_confirmed tx"
    using unconfirmed_le_pending [OF inv(2) get that] inv(1)
    by (simp add: check_balance_cap_Ok unat_sat_sub caps_ok_def holdings_def min.coboundedI1)
  then show ?thesis
    using get new e
    by (auto simp: add_witness_def witnessed_def Let_def settle_def [abs_def])
qed

lemma add_witness_old:
  "tree_get (transactions L) i = None \<or> (\<exists>tx. tree_get (transactions L) i = Some tx \<and> p |\<in>| witnesses tx) \<Longrightarrow>
   add_witness ser i p L = (Ok False, L)"
  by (auto simp: add_witness_def Let_def)

lemma witnessed_account:
  "account_state (witnessed i p tx L) a =
     (if a = tx_to tx \<and> \<not> is_confirmed tx \<and> is_confirmed (tx_add_witness tx p)
      then settle (amount_muon tx) (account_state L a) else account_state L a)"
  by (simp add: witnessed_def account_state_update)

lemma witnessed_fields [simp]:
  "transactions (witnessed i p tx L) = tree_put i (tx_add_witness tx p) (transactions L)"
  "velocity (witnessed i p tx L) = velocity L"
  "policy (witnessed i p tx L) = policy L"
  "refill_applied (witnessed i p tx L) = refill_applied L"
  by (simp_all add: witnessed_def)

lemma witnessed_inv:
  assumes inv: "trees_ok L" "caps_ok L" "pending_ok L" and get: "tree_get (transactions L) i = Some tx"
  shows "trees_ok (witnessed i p tx L)" and "caps_ok (witnessed i p tx L)"
    and "pending_ok (witnessed i p tx L)" and "total_supply (witnessed i p tx L) = total_supply L"
proof -
  let ?now = "\<not> is_confirmed tx \<and> is_confirmed (tx_add_witness tx p)"
  let ?acc = "account_state L (tx_to tx)"
  have ex: "unat (pending_received (settle (amount_muon tx) ?acc)) =
              unat (pending_received ?acc) - unat (amount_muon tx)"
    "holdings (settle (amount_muon tx) ?acc) = holdings ?acc"
    "unat (amount_muon tx) \<le> unat (pending_received ?acc)" if ?now
    using unconfirmed_le_pending [OF inv(3) get] that
      settle_exact [OF _ holdings_lt [OF inv(2)], of "amount_muon tx" "tx_to tx"]
    by simp_all
  show "trees_ok (witnessed i p tx L)"
    using inv(1) by (simp add: trees_ok_def witnessed_def tree_ok_put tree_ok_update)
  show "caps_ok (witnessed i p tx L)"
    using inv(2) ex(2) by (simp add: caps_ok_def witnessed_account)
  show "total_supply (witnessed i p tx L) = total_supply L"
    using inv(1) ex(2) supply_update [of L "tx_to tx" "settle (amount_muon tx)"]
    by (auto simp: total_supply_def witnessed_def trees_ok_def)
  have conf: "is_confirmed (tx_add_witness tx p)" if "is_confirmed tx"
    using that by (rule is_confirmed_add_witness)
  have sum: "tree_sum (unconfirmed_to a) (tree_put i (tx_add_witness tx p) (transactions L)) + unconfirmed_to a tx =
          tree_sum (unconfirmed_to a) (transactions L) + unconfirmed_to a (tx_add_witness tx p)" for a
    using tree_sum_put [of "transactions L" "unconfirmed_to a" i "tx_add_witness tx p"] inv(1) get
    by (simp add: trees_ok_def)
  have pend: "tree_sum (unconfirmed_to a) (transactions L) = unat (pending_received (account_state L a))" for a
    using inv(3) by (simp add: pending_ok_def)
  show "pending_ok (witnessed i p tx L)"
    unfolding pending_ok_def
  proof
    fix a
    show "unat (pending_received (account_state (witnessed i p tx L) a)) =
        tree_sum (unconfirmed_to a) (transactions (witnessed i p tx L))"
    proof (cases "a = tx_to tx \<and> ?now")
      case True
      then show ?thesis
        using sum [of a] pend [of a] ex(1,3) by (simp add: witnessed_account unconfirmed_to_def)
    next
      case False
      then have "unconfirmed_to a (tx_add_witness tx p) = unconfirmed_to a tx"
        using conf by (auto simp: unconfirmed_to_def)
      then show ?thesis
        using False sum [of a] pend [of a] by (auto simp: witnessed_account)
    qed
  qed
qed

section \<open>Credits\<close>

lemma genesis_credit_ok:
  assumes "check_balance_cap (policy L) (balance_muon (account_state L a))
             (pending_received (account_state L a)) n = Ok ()"
  shows "genesis_credit a n L =
           (Ok (), update_account a (\<lambda>acc. acc\<lparr>balance_muon := balance_muon acc + n\<rparr>) L)"
  using assms by (simp add: genesis_credit_def Let_def)

lemma genesis_credit_not_ok:
  assumes "check_balance_cap (policy L) (balance_muon (account_state L a))
             (pending_received (account_state L a)) n \<noteq> Ok ()"
  shows "snd (genesis_credit a n L) = L" and "fst (genesis_credit a n L) \<noteq> Ok ()"
  using assms by (auto simp: genesis_credit_def Let_def split: sum.splits)

lemma genesis_inv:
  assumes inv: "trees_ok L" "caps_ok L" "pending_ok L"
  shows "trees_ok (snd (genesis_credit a n L))" and "caps_ok (snd (genesis_credit a n L))"
    and "pending_ok (snd (genesis_credit a n L))"
    and "total_supply (snd (genesis_credit a n L)) =
           total_supply L + (if fst (genesis_credit a n L) = Ok () then unat n else 0)"
proof -
  let ?acc = "account_state L a"
  let ?L = "snd (genesis_credit a n L)"
  have "trees_ok ?L \<and> caps_ok ?L \<and> pending_ok ?L \<and>
        total_supply ?L = total_supply L + (if fst (genesis_credit a n L) = Ok () then unat n else 0)"
  proof (cases "check_balance_cap (policy L) (balance_muon ?acc) (pending_received ?acc) n = Ok ()")
    case True
    have nw: "unat (balance_muon ?acc + n) = unat (balance_muon ?acc) + unat n"
      using cap_no_wrap(1) [OF True] inv(1) by (simp add: trees_ok_def)
    show ?thesis
      using inv nw check_balance_cap_exact [OF True] tree_ok_update
        supply_update [of L a "\<lambda>acc. acc\<lparr>balance_muon := balance_muon acc + n\<rparr>"]
      by (simp add: genesis_credit_ok [OF True] trees_ok_def caps_ok_def pending_ok_def
            account_state_update holdings_def)
  qed (use inv genesis_credit_not_ok in simp)
  then show "trees_ok ?L" "caps_ok ?L" "pending_ok ?L"
    "total_supply ?L = total_supply L + (if fst (genesis_credit a n L) = Ok () then unat n else 0)"
    by simp_all
qed

lemma genesis_fields [simp]:
  "transactions (snd (genesis_credit a n L)) = transactions L"
  "velocity (snd (genesis_credit a n L)) = velocity L"
  "policy (snd (genesis_credit a n L)) = policy L"
  "next_nonce (account_state (snd (genesis_credit a n L)) b) = next_nonce (account_state L b)"
  by (auto simp: genesis_credit_def Let_def account_state_update split: sum.splits)

section \<open>Nonces\<close>

lemma sent_le_length: "tree_sum (sent_by a) t \<le> length t"
  by (rule tree_sum_le_length) (simp add: sent_by_def)

lemma transfer_next_nonce:
  assumes "tx_from tx \<noteq> tx_to tx" "nonces_counted L" "Suc (length (transactions L)) < 2 ^ 64"
  shows "unat (next_nonce (account_state (transfer tx L) a)) =
           unat (next_nonce (account_state L a)) + sent_by a tx"
proof -
  have "unat (next_nonce (account_state L a) + 1) = Suc (unat (next_nonce (account_state L a)))"
    using assms(2,3) sent_le_length [of a "transactions L"]
    by (simp add: unat_add_no_wrap nonces_counted_def)
  then show ?thesis
    using assms(1) by (simp add: transfer_account debit_def credit_def sent_by_def)
qed

lemma nonces_ok_transfer:
  assumes ok: "transfer_ok cr ser tx L" "trees_ok L" "nonces_ok L"
  shows "nonces_ok (transfer tx L)"
proof (cases "length (transactions (transfer tx L)) < 2 ^ 64")
  case True
  let ?T = "transactions L"
  have new: "\<not> tree_has ?T (tx_id tx)" and neq: "tx_from tx \<noteq> tx_to tx"
    and nonce: "tx_nonce tx = next_nonce (account_state L (tx_from tx))"
    using ok(1) by (simp_all add: transfer_ok_def)
  have tok: "tree_ok ?T"
    using ok(2) by (simp add: trees_ok_def)
  have len: "Suc (length ?T) < 2 ^ 64"
    using True new by (simp add: length_tree_put [OF tok])
  have cnt: "nonces_counted L" and below: "nonces_below L" and uniq: "nonces_unique L"
    using ok(3) len by (simp_all add: nonces_ok_def)
  note nn = transfer_next_nonce [OF neq cnt len]
  have "nonces_counted (transfer tx L)"
    using cnt nn tree_sum_put_new [OF tok new] by (simp add: nonces_counted_def)
  moreover have "nonces_below (transfer tx L)"
    using below nonce nn
    by (auto simp: nonces_below_def tree_get_put sent_by_def trans_less_add1)
  moreover have "nonces_unique (transfer tx L)"
    using uniq below nonce by (force simp: nonces_unique_def nonces_below_def tree_get_put)
  ultimately show ?thesis
    by (simp add: nonces_ok_def)
qed (simp add: nonces_ok_def)

lemma nonces_ok_cong:
  assumes "nonces_ok L" and "length (transactions L') = length (transactions L)"
    and "\<And>a. next_nonce (account_state L' a) = next_nonce (account_state L a)"
    and "\<And>a. tree_sum (sent_by a) (transactions L') = tree_sum (sent_by a) (transactions L)"
    and "\<And>i tx'. tree_get (transactions L') i = Some tx' \<Longrightarrow>
           \<exists>tx. tree_get (transactions L) i = Some tx \<and> tx_from tx = tx_from tx' \<and> tx_nonce tx = tx_nonce tx'"
  shows "nonces_ok L'"
proof -
  have "nonces_below L \<Longrightarrow> nonces_below L'" "nonces_unique L \<Longrightarrow> nonces_unique L'"
    using assms(3,5) unfolding nonces_below_def nonces_unique_def by metis+
  then show ?thesis
    using assms(1-4) by (simp add: nonces_ok_def nonces_counted_def)
qed

lemma nonces_ok_witnessed:
  assumes "nonces_ok L" "trees_ok L" and get: "tree_get (transactions L) i = Some tx"
  shows "nonces_ok (witnessed i p tx L)"
proof (rule nonces_ok_cong [OF assms(1)])
  have ok: "tree_ok (transactions L)"
    using assms(2) by (simp add: trees_ok_def)
  show "length (transactions (witnessed i p tx L)) = length (transactions L)"
    using get by (simp add: length_tree_put [OF ok] tree_has_def)
  show "next_nonce (account_state (witnessed i p tx L) a) = next_nonce (account_state L a)" for a
    by (simp add: witnessed_account settle_def)
  show "tree_sum (sent_by a) (transactions (witnessed i p tx L)) = tree_sum (sent_by a) (transactions L)" for a
    using tree_sum_put [OF ok, of "sent_by a" i "tx_add_witness tx p"] get by (simp add: sent_by_def)
qed (use get in \<open>auto simp: tree_get_put split: if_splits\<close>)

section \<open>Every reachable ledger\<close>

definition ledger_inv :: "LocalLedger \<Rightarrow> bool" where
  "ledger_inv L \<longleftrightarrow> trees_ok L \<and> caps_ok L \<and> pending_ok L \<and> windows_ok L \<and> nonces_ok L"

lemma ledger_inv_init: "max_balance_muon p \<noteq> - 1 \<Longrightarrow> ledger_inv (set_policy p ledger_open)"
  by (simp add: ledger_inv_def ledger_inv_defs nonces_ok_def nonces_counted_def nonces_below_def
        nonces_unique_def set_policy_def ledger_open_def
        account_state_def holdings_def recent_for_def)

lemma ledger_inv_apply: "ledger_inv L \<Longrightarrow> ledger_inv (snd (apply_transaction cr ser tx L))"
proof (cases "transfer_ok cr ser tx L")
  case True
  assume "ledger_inv L"
  then show ?thesis
    using True trees_ok_transfer caps_ok_transfer pending_ok_transfer windows_ok_transfer nonces_ok_transfer
    by (simp add: apply_transaction_ok ledger_inv_def)
qed (simp add: apply_transaction_not_ok)

lemma ledger_inv_witness:
  assumes "ledger_inv L" "ser_total ser"
  shows "ledger_inv (snd (add_witness ser i p L))"
proof (cases "\<exists>tx. tree_get (transactions L) i = Some tx \<and> p |\<notin>| witnesses tx")
  case True
  then obtain tx where "tree_get (transactions L) i = Some tx" "p |\<notin>| witnesses tx"
    by blast
  then show ?thesis
    using assms witnessed_inv [of L i tx p] nonces_ok_witnessed [of L i tx p] add_witness_new
    by (simp add: ledger_inv_def windows_ok_def)
next
  case False
  then have "add_witness ser i p L = (Ok False, L)"
    by (intro add_witness_old) (cases "tree_get (transactions L) i"; auto)
  then show ?thesis
    using assms by simp
qed

lemma ledger_inv_genesis: "ledger_inv L \<Longrightarrow> ledger_inv (snd (genesis_credit a n L))"
  using genesis_inv [of L a n] nonces_ok_cong [of L "snd (genesis_credit a n L)"]
  by (simp add: ledger_inv_def windows_ok_def)

lemma ledger_inv_refill: "ledger_inv L \<Longrightarrow> ledger_inv (mark_refill_applied r L)"
  using nonces_ok_cong [of L "mark_refill_applied r L"]
  by (simp add: ledger_inv_def ledger_inv_defs mark_refill_applied_def)

lemma ledger_inv_step:
  "ledger_step cr ser L L' \<Longrightarrow> ser_total ser \<Longrightarrow> ledger_inv L \<Longrightarrow> ledger_inv L'"
  by (erule ledger_step.cases)
    (simp_all add: ledger_inv_apply ledger_inv_witness ledger_inv_genesis ledger_inv_refill)

lemma ledger_inv_reach: "ledger_reach cr ser L \<Longrightarrow> ser_total ser \<Longrightarrow> ledger_inv L"
  by (induction rule: ledger_reach.induct) (blast intro: ledger_inv_init ledger_inv_step)+

end
