(* ===== verification/Ledger_Props.thy ===== *)
theory Ledger_Props
  imports Ledger_Inv
begin

text \<open>
  The properties of the coin ledger, with a small concrete ledger the witnesses evaluate:
  Alice has been credited 5 MXC and sends Bob 2 MXC.
\<close>

section \<open>A concrete ledger\<close>

definition demo_ser :: serializer where "demo_ser tx = Ok [0]"
definition alice :: string where "alice = address_from_keypair demo_crypto [1]"
definition bob :: string where "bob = address_from_keypair demo_crypto [2]"

definition demo_policy_ledger :: LocalLedger where
  "demo_policy_ledger = set_policy beta_defaults ledger_open"

definition demo_ledger :: LocalLedger where
  "demo_ledger = snd (genesis_credit alice 5000000 demo_policy_ledger)"

definition unsigned_tx :: Transaction where
  "unsigned_tx =
     \<lparr>tx_id = ''t1'', tx_from = alice, tx_to = bob, amount_muon = 2000000, fee_muon = 1000,
      timestamp_ms = 1000, tx_nonce = 0, tx_memo = None, from_public_key = [1],
      tx_signature = [], witnesses = {||}\<rparr>"

definition demo_tx :: Transaction where
  "demo_tx = unsigned_tx\<lparr>tx_signature := 1 # tx_bytes_for_signing unsigned_tx\<rparr>"

lemma demo_ser_total [simp]: "ser_total demo_ser"
  by (simp add: ser_total_def demo_ser_def)

lemma demo_addresses [simp]: "validate_address demo_crypto alice" "validate_address demo_crypto bob"
  by (simp_all add: alice_def bob_def address_from_keypair_def validate_address_from_public_key)

lemma alice_bob [simp]: "alice \<noteq> bob" "bob \<noteq> alice"
  by (simp_all add: alice_def bob_def address_from_keypair_def address_from_public_key_def
        demo_crypto_def string_of_bytes_def)

lemma beta_cap [simp]: "max_balance_muon beta_defaults \<noteq> - 1"
  by (simp add: beta_defaults_def settlement_consts)

lemmas demo_simps = beta_defaults_def settlement_consts sat_sub_def sat_add_def account_state_def
  check_balance_cap_def check_transfer_amount_def check_velocity_def recent_for_def tree_has_def

lemma demo_ledger_eq:
  "demo_ledger =
     \<lparr>transactions = [],
      accounts = [(alice, \<lparr>acc_address = alice, balance_muon = 5000000, next_nonce = 0, pending_received = 0\<rparr>)],
      refill_applied = [], velocity = [], policy = beta_defaults\<rparr>"
  by (simp add: demo_ledger_def demo_policy_ledger_def genesis_credit_def set_policy_def ledger_open_def
        update_account_def demo_simps)

lemma demo_tx_fields [simp]:
  "tx_id demo_tx = ''t1''" "tx_from demo_tx = alice" "tx_to demo_tx = bob" "amount_muon demo_tx = 2000000"
  "fee_muon demo_tx = 1000" "timestamp_ms demo_tx = 1000" "tx_nonce demo_tx = 0" "tx_memo demo_tx = None"
  "from_public_key demo_tx = [1]" "witnesses demo_tx = {||}"
  by (simp_all add: demo_tx_def unsigned_tx_def)

lemma demo_tx_verify [simp]: "tx_verify demo_crypto demo_tx"
proof -
  have "tx_signature demo_tx = 1 # tx_bytes_for_signing demo_tx"
    by (simp add: demo_tx_def tx_bytes_for_signing_def unsigned_tx_def)
  moreover have "address_from_public_key demo_crypto [1] = alice"
    by (simp add: alice_def address_from_keypair_def demo_crypto_def)
  ultimately show ?thesis
    by (simp add: tx_verify_def) (simp add: demo_crypto_def)
qed

lemma demo_transfer_ok: "transfer_ok demo_crypto demo_ser demo_tx demo_ledger"
  by (simp add: transfer_ok_def demo_ledger_eq demo_ser_def demo_simps)

lemma demo_reach: "ledger_reach demo_crypto demo_ser demo_ledger"
  unfolding demo_ledger_def demo_policy_ledger_def
  by (rule reach_step [OF reach_init step_genesis]) simp

definition demo_sent :: LocalLedger where
  "demo_sent = snd (apply_transaction demo_crypto demo_ser demo_tx demo_ledger)"

lemma demo_sent_eq: "demo_sent = transfer demo_tx demo_ledger"
  by (simp add: demo_sent_def apply_transaction_ok demo_transfer_ok)

lemma demo_sent_reach: "ledger_reach demo_crypto demo_ser demo_sent"
  unfolding demo_sent_def by (rule reach_step [OF demo_reach step_apply])

lemma demo_sent_transactions: "transactions demo_sent = [(''t1'', demo_tx)]"
  by (simp add: demo_sent_eq) (simp add: demo_ledger_eq)

section \<open>Properties\<close>

text \<open>C1. In every ledger reached from an empty database by applying transactions, adding witnesses,
  crediting and marking refills, no account holds more than the vault cap (confirmed plus pending),
  and the pending amount of an account is the sum of the stored transfers to it that have fewer than
  three witnesses.\<close>

theorem ledger_caps_and_pending:
  assumes "ledger_reach cr ser L" "ser_total ser"
  shows "unat (balance_muon (account_state L a)) + unat (pending_received (account_state L a))
           \<le> unat (max_balance_muon (policy L)) \<and>
         unat (pending_received (account_state L a)) =
           (\<Sum>(_, tx)\<leftarrow>tree_iter (transactions L).
              if tx_to tx = a \<and> \<not> is_confirmed tx then unat (amount_muon tx) else 0)"
proof -
  have "holdings (account_state L a) \<le> unat (max_balance_muon (policy L))"
    and "unat (pending_received (account_state L a)) = tree_sum (unconfirmed_to a) (transactions L)"
    using ledger_inv_reach [OF assms] by (simp_all add: ledger_inv_def caps_ok_def pending_ok_def)
  then show ?thesis
    by (simp add: holdings_def tree_iter_def tree_sum_def unconfirmed_to_def)
qed

theorem ledger_caps_and_pending_witness:
  "ledger_reach demo_crypto demo_ser demo_sent \<and> ser_total demo_ser \<and>
   unat (pending_received (account_state demo_sent bob)) = 2000000 \<and>
   unat (balance_muon (account_state demo_sent bob)) + unat (pending_received (account_state demo_sent bob))
     \<le> unat (max_balance_muon (policy demo_sent))"
  using ledger_caps_and_pending [OF demo_sent_reach demo_ser_total, of bob] demo_sent_reach
  by (simp add: demo_sent_transactions tree_iter_def is_confirmed_def fcard_fempty)

text \<open>C2. Conservation: applying a transaction to a reachable ledger either is accepted, and then the
  sum of all confirmed and pending holdings drops by exactly the fee, or changes nothing at all.\<close>

theorem apply_transaction_conserves:
  assumes "ledger_reach cr ser L" "ser_total ser"
  shows "if fst (apply_transaction cr ser tx L) = Ok Accepted
         then total_supply (snd (apply_transaction cr ser tx L)) + unat (fee_muon tx) = total_supply L
         else snd (apply_transaction cr ser tx L) = L"
proof (cases "transfer_ok cr ser tx L")
  case True
  then show ?thesis
    using supply_transfer [OF True] ledger_inv_reach [OF assms]
    by (simp add: apply_transaction_ok ledger_inv_def)
qed (simp add: apply_transaction_not_ok)

theorem apply_transaction_conserves_witness:
  "fst (apply_transaction demo_crypto demo_ser demo_tx demo_ledger) = Ok Accepted \<and>
   total_supply demo_sent + 1000 = total_supply demo_ledger"
  using apply_transaction_conserves [OF demo_reach demo_ser_total, of demo_tx] demo_transfer_ok
  by (simp add: apply_transaction_ok demo_sent_def)

text \<open>C3. No double spending: in a reachable ledger with fewer than \<open>2 ^ 64\<close> stored transactions two
  stored transactions of one sender with the same nonce are the same row, the sender's
  \<open>next_nonce\<close> is the number of its stored transactions, and a further transaction that reuses
  the nonce of a stored one of the same sender is never accepted, whatever its identifier.\<close>

theorem ledger_no_double_spend:
  assumes "ledger_reach cr ser L" "ser_total ser" "length (transactions L) < 2 ^ 64"
    and "transaction L i = Some tx"
  shows "(transaction L j = Some tx' \<and> tx_from tx' = tx_from tx \<and> tx_nonce tx' = tx_nonce tx \<longrightarrow> j = i) \<and>
         unat (next_nonce (account_state L a)) =
           length (filter (\<lambda>t. tx_from t = a) (map snd (tree_iter (transactions L)))) \<and>
         (tx_from new = tx_from tx \<and> tx_nonce new = tx_nonce tx \<longrightarrow>
           fst (apply_transaction cr ser new L) \<noteq> Ok Accepted)"
proof -
  have cnt: "nonces_counted L" and below: "nonces_below L" and uniq: "nonces_unique L"
    using ledger_inv_reach [OF assms(1,2)] assms(3) by (simp_all add: ledger_inv_def nonces_ok_def)
  have "transaction L j = Some tx' \<and> tx_from tx' = tx_from tx \<and> tx_nonce tx' = tx_nonce tx \<longrightarrow> j = i"
    using uniq assms(4) by (simp add: nonces_unique_def transaction_def)
  moreover have "tree_sum (sent_by a) t = length (filter (\<lambda>t. tx_from t = a) (map snd (tree_iter t)))" for t :: "(string, Transaction) tree"
    by (induction t) (auto simp: tree_sum_def sent_by_def tree_iter_def)
  then have "unat (next_nonce (account_state L a)) =
      length (filter (\<lambda>t. tx_from t = a) (map snd (tree_iter (transactions L))))"
    using cnt by (simp add: nonces_counted_def)
  moreover have "fst (apply_transaction cr ser new L) \<noteq> Ok Accepted"
    if "tx_from new = tx_from tx" "tx_nonce new = tx_nonce tx"
  proof -
    have "unat (tx_nonce tx) < unat (next_nonce (account_state L (tx_from tx)))"
      using below assms(4) by (simp add: nonces_below_def transaction_def)
    then have "\<not> transfer_ok cr ser new L"
      using that by (auto simp: transfer_ok_def)
    then show ?thesis
      by (rule apply_transaction_not_ok)
  qed
  ultimately show ?thesis
    by blast
qed

theorem ledger_no_double_spend_witness:
  "transaction demo_sent ''t1'' = Some demo_tx \<and>
   fst (apply_transaction demo_crypto demo_ser (demo_tx\<lparr>tx_id := ''t2''\<rparr>) demo_sent) \<noteq> Ok Accepted \<and>
   unat (next_nonce (account_state demo_sent alice)) = 1"
proof -
  have get: "transaction demo_sent ''t1'' = Some demo_tx"
    by (simp add: transaction_def demo_sent_transactions)
  have len: "length (transactions demo_sent) < 2 ^ 64"
    by (simp add: demo_sent_transactions)
  show ?thesis
    using get ledger_no_double_spend [OF demo_sent_reach demo_ser_total len get,
        of "''t1''" demo_tx alice "demo_tx\<lparr>tx_id := ''t2''\<rparr>"]
    by (simp add: demo_sent_transactions tree_iter_def)
qed

text \<open>C4. \<open>apply_transaction\<close> branch by branch: it answers \<open>Accepted\<close> exactly when the identifier is new, the
  signature verifies, sender and receiver differ, the nonce is the sender's next one, the balance
  covers amount plus fee in exact arithmetic, the memo has at most 64 bytes, the encoding fits and the
  transfer, vault and velocity checks pass; and then the sender pays amount plus fee and moves to the
  next nonce, the receiver is credited (pending below three witnesses), and the transaction and the
  velocity event are stored.\<close>

theorem apply_transaction_accepts_iff:
  "(fst (apply_transaction cr ser tx L) = Ok Accepted \<longleftrightarrow> transfer_ok cr ser tx L) \<and>
   (transfer_ok cr ser tx L \<longrightarrow>
      (let L' = snd (apply_transaction cr ser tx L); from = tx_from tx; to = tx_to tx in
       account_state L' from = (account_state L from)
         \<lparr>balance_muon := balance_muon (account_state L from) - (amount_muon tx + fee_muon tx),
          next_nonce := next_nonce (account_state L from) + 1\<rparr> \<and>
       account_state L' to = (if is_confirmed tx
         then (account_state L to)\<lparr>balance_muon := balance_muon (account_state L to) + amount_muon tx\<rparr>
         else (account_state L to)\<lparr>pending_received := pending_received (account_state L to) + amount_muon tx\<rparr>) \<and>
       (\<forall>a. a \<noteq> from \<and> a \<noteq> to \<longrightarrow> account_state L' a = account_state L a) \<and>
       (\<forall>i. transaction L' i = (if i = tx_id tx then Some tx else transaction L i)) \<and>
       recent_for (velocity L') from =
         velocity_push (recent_for (velocity L) from) (timestamp_ms tx) (amount_muon tx)))"
proof (cases "transfer_ok cr ser tx L")
  case True
  then have "tx_from tx \<noteq> tx_to tx"
    by (simp add: transfer_ok_def)
  then show ?thesis
    using True
    by (simp add: apply_transaction_ok transfer_account debit_def credit_def transaction_def tree_get_put
          recent_for_record Let_def)
qed (simp add: apply_transaction_not_ok)

theorem apply_transaction_accepts_iff_witness:
  "transfer_ok demo_crypto demo_ser demo_tx demo_ledger \<and>
   fst (apply_transaction demo_crypto demo_ser demo_tx demo_ledger) = Ok Accepted \<and>
   balance_muon (account_state demo_sent alice) = 2999000 \<and>
   pending_received (account_state demo_sent bob) = 2000000"
  using apply_transaction_accepts_iff [of demo_crypto demo_ser demo_tx demo_ledger] demo_transfer_ok
  by (simp add: demo_sent_def Let_def is_confirmed_def fcard_fempty) (simp add: demo_ledger_eq account_state_def)

text \<open>C5. On a reachable ledger \<open>add_witness\<close> never fails and never creates or destroys value: it answers
  \<open>false\<close> and changes nothing when the transaction is unknown or the peer has witnessed it already, and
  otherwise stores the witness; the receiver's amount moves from pending to confirmed at the
  moment the third witness arrives, and at no other.\<close>

theorem add_witness_settles:
  assumes "ledger_reach cr ser L" "ser_total ser"
  shows "case transaction L i of
           None \<Rightarrow> add_witness ser i p L = (Ok False, L)
         | Some tx \<Rightarrow>
             if p |\<in>| witnesses tx then add_witness ser i p L = (Ok False, L)
             else fst (add_witness ser i p L) = Ok True \<and>
               (let L' = snd (add_witness ser i p L);
                    acc = account_state L (tx_to tx); acc' = account_state L' (tx_to tx) in
                transaction L' i = Some (tx\<lparr>witnesses := finsert p (witnesses tx)\<rparr>) \<and>
                total_supply L' = total_supply L \<and>
                (if fcard (witnesses tx) = 2
                 then unat (balance_muon acc') = unat (balance_muon acc) + unat (amount_muon tx) \<and>
                      unat (pending_received acc) = unat (pending_received acc') + unat (amount_muon tx)
                 else acc' = acc))"
proof -
  have inv: "trees_ok L" "caps_ok L" "pending_ok L"
    using ledger_inv_reach [OF assms] by (simp_all add: ledger_inv_def)
  show ?thesis
  proof (cases "\<exists>tx. transaction L i = Some tx \<and> p |\<notin>| witnesses tx")
    case True
    then obtain tx where get: "tree_get (transactions L) i = Some tx" and new: "p |\<notin>| witnesses tx"
      by (auto simp: transaction_def)
    have now: "\<not> is_confirmed tx \<and> is_confirmed (tx_add_witness tx p) \<longleftrightarrow> fcard (witnesses tx) = 2"
      using new by (auto simp: is_confirmed_def tx_add_witness_def fcard_finsert_disjoint)
    have "unat (amount_muon tx) \<le> unat (pending_received (account_state L (tx_to tx)))"
      if "fcard (witnesses tx) = 2"
      using unconfirmed_le_pending [OF inv(3) get] that by (simp add: is_confirmed_def)
    then show ?thesis
      using get new witnessed_inv(4) [OF inv get, of p] now
        settle_exact [OF _ holdings_lt [OF inv(2)], of "amount_muon tx" "tx_to tx"]
      by (simp add: transaction_def add_witness_new [OF inv(2,3) assms(2) get new] witnessed_account
            tree_get_put Let_def) (simp add: tx_add_witness_def)
  next
    case False
    then have "add_witness ser i p L = (Ok False, L)"
      by (intro add_witness_old) (cases "tree_get (transactions L) i"; auto simp: transaction_def)
    then show ?thesis
      using False by (simp split: option.split)
  qed
qed

theorem add_witness_settles_witness:
  "ledger_reach demo_crypto demo_ser demo_sent \<and> fst (add_witness demo_ser ''t1'' ''peer'' demo_sent) = Ok True \<and>
   transaction (snd (add_witness demo_ser ''t1'' ''peer'' demo_sent)) ''t1'' =
     Some (demo_tx\<lparr>witnesses := {|''peer''|}\<rparr>)"
  using add_witness_settles [OF demo_sent_reach demo_ser_total, of "''t1''" "''peer''"] demo_sent_reach
  by (simp add: transaction_def demo_sent_transactions Let_def)

text \<open>C6. An accepted transfer respects the velocity limits in exact arithmetic: counted with it, the
  sender has at most \<open>max_tx_per_hour\<close> stored transfers and sends at most
  \<open>max_outbound_muon_per_hour\<close> in the hour that ends with the transfer's own time stamp.\<close>

theorem accepted_transfer_velocity:
  assumes "ledger_reach cr ser L" "ser_total ser" "max_outbound_muon_per_hour (policy L) \<noteq> - 1"
    and "fst (apply_transaction cr ser tx L) = Ok Accepted"
  shows "length (filter (\<lambda>(ts, _). sat_sub (timestamp_ms tx) HOUR_MS \<le> ts) (recent_for (velocity L) (tx_from tx))) + 1
           \<le> unat (max_tx_per_hour (policy L)) \<and>
         (\<Sum>(_, amt)\<leftarrow>filter (\<lambda>(ts, _). sat_sub (timestamp_ms tx) HOUR_MS \<le> ts)
             (recent_for (velocity L) (tx_from tx)). unat amt) + unat (amount_muon tx)
           \<le> unat (max_outbound_muon_per_hour (policy L))"
proof -
  have "transfer_ok cr ser tx L"
    using assms(4) apply_transaction_not_ok(2) by blast
  then have ok: "check_velocity (policy L) (recent_for (velocity L) (tx_from tx)) (timestamp_ms tx) (amount_muon tx) = Ok ()"
    by (simp add: transfer_ok_def)
  have len: "length (recent_for (velocity L) (tx_from tx)) < 2 ^ 32"
    using ledger_inv_reach [OF assms(1,2)]
    by (auto simp: ledger_inv_def windows_ok_def MAX_STORED_EVENTS_def intro: le_less_trans)
  have "unat (max_outbound_muon_per_hour (policy L)) < 2 ^ 64 - 1"
    using assms(3) unat_u64_bound [of "max_outbound_muon_per_hour (policy L)"]
      word_unat_eq_iff [of "max_outbound_muon_per_hour (policy L)" "- 1"] unat_minus_one_max [where 'a = 64]
    by simp
  then show ?thesis
    using check_velocity_Ok [OF len ok] by (auto simp: in_window_def)
qed

theorem accepted_transfer_velocity_witness:
  "fst (apply_transaction demo_crypto demo_ser demo_tx demo_ledger) = Ok Accepted \<and>
   max_outbound_muon_per_hour (policy demo_ledger) \<noteq> - 1 \<and>
   unat (amount_muon demo_tx) \<le> unat (max_outbound_muon_per_hour (policy demo_ledger))"
proof -
  have acc: "fst (apply_transaction demo_crypto demo_ser demo_tx demo_ledger) = Ok Accepted"
    by (simp add: apply_transaction_ok demo_transfer_ok)
  have ne: "max_outbound_muon_per_hour (policy demo_ledger) \<noteq> - 1"
    by (simp add: demo_ledger_eq demo_simps)
  show ?thesis
    using accepted_transfer_velocity [OF demo_reach demo_ser_total ne acc] acc ne by simp
qed

text \<open>The witness set is not covered by the signature: whoever relays an acceptable unwitnessed transfer
  can attach any three names (as long as the encoding still fits), and a node that receives it credits
  the receiver's confirmed balance at once, with no witness message ever seen.\<close>

theorem attached_witnesses_confirm:
  assumes "transfer_ok cr ser tx L" "fcard w = 3"
    and "ser (tx\<lparr>witnesses := w\<rparr>) = Ok enc" "length enc \<le> max_tx_bytes (policy L)"
  shows "fst (apply_transaction cr ser (tx\<lparr>witnesses := w\<rparr>) L) = Ok Accepted \<and>
         balance_muon (account_state (snd (apply_transaction cr ser (tx\<lparr>witnesses := w\<rparr>) L)) (tx_to tx)) =
           balance_muon (account_state L (tx_to tx)) + amount_muon tx"
proof -
  have "transfer_ok cr ser (tx\<lparr>witnesses := w\<rparr>) L"
    using assms by (simp add: transfer_ok_def)
  then show ?thesis
    using assms
    by (auto simp: apply_transaction_ok transfer_account transfer_ok_def credit_def is_confirmed_def)
qed

theorem attached_witnesses_confirm_witness:
  "transfer_ok demo_crypto demo_ser demo_tx demo_ledger \<and> fcard {|''a'', ''b'', ''c''|} = 3 \<and>
   balance_muon (account_state (snd (apply_transaction demo_crypto demo_ser
     (demo_tx\<lparr>witnesses := {|''a'', ''b'', ''c''|}\<rparr>) demo_ledger)) bob) = 2000000"
proof -
  have card: "fcard {|''a'', ''b'', ''c''|} = 3"
    by (simp add: fcard_finsert_if)
  show ?thesis
    using attached_witnesses_confirm [OF demo_transfer_ok card, of "[0]"] demo_transfer_ok card
    by (simp add: demo_ser_def) (simp add: demo_ledger_eq demo_simps)
qed

text \<open>A transaction built by \<open>Transaction::new\<close> for a valid receiver passes \<open>verify\<close>, and changing any
  signed number of it (amount, fee, time stamp or nonce) changes the signed bytes.\<close>

theorem tx_new_signed:
  assumes "crypto_ok cr" "tx_new cr now to amount fee nonce memo kp = Ok tx" "validate_address cr to"
  shows "tx_verify cr tx \<and>
         (tx_bytes_for_signing (tx\<lparr>amount_muon := a, fee_muon := f, timestamp_ms := t, tx_nonce := n\<rparr>) =
            tx_bytes_for_signing tx \<longrightarrow> a = amount \<and> f = fee \<and> t = now \<and> n = nonce)"
  using tx_new_verifies [OF assms] tx_new_fields [OF assms(2)]
  by (auto simp: tx_bytes_for_signing_def)

theorem tx_new_signed_witness:
  "\<exists>tx. tx_new demo_crypto 1000 bob 2000000 1000 0 None [1] = Ok tx \<and> tx_verify demo_crypto tx"
proof -
  obtain tx where tx: "tx_new demo_crypto 1000 bob 2000000 1000 0 None [1] = Ok tx"
    by (simp add: tx_new_def demo_crypto_def Let_def)
  then show ?thesis
    using tx_new_signed [OF crypto_ok_demo tx demo_addresses(2)] by blast
qed

text \<open>\<open>recent_transactions\<close> lists at most \<open>limit\<close> stored transactions, newest first, and leaves out a stored
  one only for transactions that are at least as new.\<close>

theorem recent_transactions_newest:
  assumes "tree_ok (transactions L)"
  shows "let r = recent_transactions L limit in
         length r = min limit (length (transactions L)) \<and>
         sorted_wrt (\<lambda>x y. timestamp_ms y \<le> timestamp_ms x) r \<and>
         set r \<subseteq> {tx. \<exists>i. transaction L i = Some tx} \<and>
         (\<forall>i tx. transaction L i = Some tx \<and> tx \<notin> set r \<longrightarrow> (\<forall>x\<in>set r. timestamp_ms tx \<le> timestamp_ms x))"
proof -
  let ?k = "\<lambda>tx. - int (unat (timestamp_ms tx))"
  define xs where "xs = map snd (tree_iter (transactions L))"
  define ys where "ys = sort_key ?k xs"
  have r: "recent_transactions L limit = take limit ys"
    by (simp add: recent_transactions_def xs_def ys_def)
  have stored: "tx \<in> set ys \<longleftrightarrow> (\<exists>i. transaction L i = Some tx)" for tx
    using tree.iter_get [OF assms] by (force simp: ys_def xs_def transaction_def image_iff)
  have sorted: "sorted_wrt (\<lambda>x y. timestamp_ms y \<le> timestamp_ms x) ys"
    using sorted_sort_key [of ?k xs] by (simp add: sorted_map ys_def word_le_def)
  then have "sorted_wrt (\<lambda>x y. timestamp_ms y \<le> timestamp_ms x) (take limit ys @ drop limit ys)"
    by simp
  then have split: "sorted_wrt (\<lambda>x y. timestamp_ms y \<le> timestamp_ms x) (take limit ys)"
    "\<forall>x\<in>set (take limit ys). \<forall>y\<in>set (drop limit ys). timestamp_ms y \<le> timestamp_ms x"
    unfolding sorted_wrt_append by blast+
  have "\<forall>i tx. transaction L i = Some tx \<and> tx \<notin> set (take limit ys) \<longrightarrow> tx \<in> set (drop limit ys)"
    using stored by (metis Un_iff append_take_drop_id set_append)
  moreover have "length ys = length (transactions L)"
    by (simp add: ys_def xs_def tree_iter_def)
  ultimately show ?thesis
    using split stored by (auto simp: r Let_def min.commute dest: in_set_takeD)
qed

theorem recent_transactions_newest_witness:
  "tree_ok (transactions demo_sent) \<and> length (recent_transactions demo_sent 5) = 1"
proof -
  have ok: "tree_ok (transactions demo_sent)"
    by (simp add: demo_sent_transactions tree_ok_def)
  show ?thesis
    using recent_transactions_newest [OF ok, of 5] ok by (simp add: demo_sent_transactions Let_def)
qed

end
