(* ===== verification/Coin_Node.thy ===== *)
theory Coin_Node
  imports Ledger_Inv
begin

text \<open>
  \<open>mycelium-coin/src/node.rs\<close>, \<open>payload.rs\<close>, \<open>refill.rs\<close> and \<open>hot_wallet.rs\<close>: the coin node that applies
  incoming frames to its ledger and answers on the mesh, the signed refill requests between a hot and a
  cold wallet, and the hot wallet's two maintenance operations.  The environment (\<open>bincode\<close>, the
  transport of the host, the identity store, the clock during one call) is the record \<open>coin_env\<close>;
  the frames handed to the transport are kept in the order of the calls.
\<close>

section \<open>Refill requests and payloads\<close>

definition REFILL_REQUEST_TTL_MS :: u64 where "REFILL_REQUEST_TTL_MS = 15 * 60 * 1000"

record RefillRequest =
  rr_request_id :: string
  hot_address :: string
  cold_address :: string
  rr_amount_muon :: u64
  rr_fee_muon :: u64
  rr_created_at_ms :: u64
  rr_expires_at_ms :: u64
  hot_public_key :: bytes
  rr_signature :: bytes

definition refill_bytes_for_signing :: "RefillRequest \<Rightarrow> bytes" where
  "refill_bytes_for_signing r =
     bytes_of (rr_request_id r) @ bytes_of (hot_address r) @ bytes_of (cold_address r) @
     le64 (rr_amount_muon r) @ le64 (rr_fee_muon r) @ le64 (rr_created_at_ms r) @
     le64 (rr_expires_at_ms r) @ hot_public_key r"

text \<open>The fresh UUID and the clock reading are arguments.\<close>

definition refill_new_signed ::
  "crypto \<Rightarrow> string \<Rightarrow> u64 \<Rightarrow> keypair \<Rightarrow> string \<Rightarrow> u64 \<Rightarrow> u64 \<Rightarrow> RefillRequest result" where
  "refill_new_signed cr uuid now kp cold amount fee =
     (let req = \<lparr>rr_request_id = uuid, hot_address = address_from_keypair cr kp, cold_address = cold,
                 rr_amount_muon = amount, rr_fee_muon = fee, rr_created_at_ms = now,
                 rr_expires_at_ms = sat_add now REFILL_REQUEST_TTL_MS,
                 hot_public_key = pk_encode cr (kp_public cr kp), rr_signature = []\<rparr> in
      case kp_sign cr kp (refill_bytes_for_signing req) of
        Inl e \<Rightarrow> Err (''refill sign failed: '' @ e)
      | Inr sig \<Rightarrow> Ok (req\<lparr>rr_signature := sig\<rparr>))"

definition refill_verify :: "crypto \<Rightarrow> RefillRequest \<Rightarrow> bool" where
  "refill_verify cr r =
     (if \<not> validate_address cr (hot_address r) \<or> \<not> validate_address cr (cold_address r) then False
      else if hot_address r = cold_address r then False
      else if rr_expires_at_ms r < rr_created_at_ms r then False
      else
        case pk_decode cr (hot_public_key r) of
          None \<Rightarrow> False
        | Some pk \<Rightarrow>
            if address_from_public_key cr pk \<noteq> hot_address r then False
            else pk_verify cr pk (refill_bytes_for_signing r) (rr_signature r))"

datatype CoinPayload =
    TransactionP Transaction
  | Witness string string
  | BalanceQuery string
  | BalanceResponse string u64 u64
  | RefillRequestP RefillRequest

section \<open>Coin node\<close>

record coin_env =
  ce_crypto :: crypto
  ce_ser :: serializer
  ce_payload_ser :: "CoinPayload \<Rightarrow> bytes result"
  ce_load_keypair :: "string \<Rightarrow> keypair result"
  ce_broadcast :: "bytes \<Rightarrow> unit result"
  ce_send_direct :: "string \<Rightarrow> bytes \<Rightarrow> unit result"
  ce_debug :: "ApplyResult \<Rightarrow> string"
  ce_now :: u64

datatype coin_frame = BroadcastFrame CoinPayload | DirectFrame string CoinPayload

record CoinNode =
  ledger :: LocalLedger
  local_address :: string
  local_peer_id :: string
  coin_identity_path :: string
  outbox :: "coin_frame list"

definition broadcast_coin_payload :: "coin_env \<Rightarrow> CoinPayload \<Rightarrow> CoinNode \<Rightarrow> unit result \<times> CoinNode" where
  "broadcast_coin_payload env payload n =
     (case ce_payload_ser env payload of
        Inl e \<Rightarrow> (Err e, n)
      | Inr inner \<Rightarrow> (ce_broadcast env inner, n\<lparr>outbox := outbox n @ [BroadcastFrame payload]\<rparr>))"

definition send_direct_coin_payload ::
  "coin_env \<Rightarrow> string \<Rightarrow> CoinPayload \<Rightarrow> CoinNode \<Rightarrow> unit result \<times> CoinNode" where
  "send_direct_coin_payload env to payload n =
     (case ce_payload_ser env payload of
        Inl e \<Rightarrow> (Err e, n)
      | Inr inner \<Rightarrow> (ce_send_direct env to inner, n\<lparr>outbox := outbox n @ [DirectFrame to payload]\<rparr>))"

definition send_transaction :: "coin_env \<Rightarrow> Transaction \<Rightarrow> CoinNode \<Rightarrow> unit result \<times> CoinNode" where
  "send_transaction env tx n =
     (let (r, L) = apply_transaction (ce_crypto env) (ce_ser env) tx (ledger n); n' = n\<lparr>ledger := L\<rparr> in
      case r of
        Inl e \<Rightarrow> (Err e, n')
      | Inr Accepted \<Rightarrow> broadcast_coin_payload env (TransactionP tx) n'
      | Inr result \<Rightarrow> (Err (''TX rejected: '' @ ce_debug env result), n'))"

definition submit_transfer_from_identity_path ::
  "coin_env \<Rightarrow> string \<Rightarrow> string \<Rightarrow> u64 \<Rightarrow> u64 \<Rightarrow> string option \<Rightarrow> CoinNode \<Rightarrow> unit result \<times> CoinNode" where
  "submit_transfer_from_identity_path env path to amount fee memo n =
     (case ce_load_keypair env path of
        Inl e \<Rightarrow> (Err e, n)
      | Inr kp \<Rightarrow>
          if address_from_keypair (ce_crypto env) kp \<noteq> local_address n then
            (Err ''identity does not match coin address'', n)
          else
            let nonce = next_nonce (account_state (ledger n) (local_address n)) in
            case tx_new (ce_crypto env) (ce_now env) to amount fee nonce memo kp of
              Inl e \<Rightarrow> (Err e, n)
            | Inr tx \<Rightarrow> send_transaction env tx n)"

text \<open>The witness the node adds for itself and announces; \<open>announce\<close> tells from the answer of
  \<open>add_witness\<close> whether to broadcast.\<close>

definition witness_and_announce ::
  "coin_env \<Rightarrow> (bool \<Rightarrow> bool) \<Rightarrow> string \<Rightarrow> CoinNode \<Rightarrow> unit result \<times> CoinNode" where
  "witness_and_announce env announce txid n =
     (let (r, L) = add_witness (ce_ser env) txid (local_peer_id n) (ledger n); n' = n\<lparr>ledger := L\<rparr> in
      case r of
        Inl e \<Rightarrow> (Err e, n')
      | Inr updated \<Rightarrow>
          if announce updated then broadcast_coin_payload env (Witness txid (local_peer_id n)) n'
          else (Ok (), n'))"

definition handle_transaction :: "coin_env \<Rightarrow> Transaction \<Rightarrow> CoinNode \<Rightarrow> unit result \<times> CoinNode" where
  "handle_transaction env tx n =
     (let (r, L) = apply_transaction (ce_crypto env) (ce_ser env) tx (ledger n); n' = n\<lparr>ledger := L\<rparr> in
      case r of
        Inl e \<Rightarrow> (Err e, n')
      | Inr Accepted \<Rightarrow> witness_and_announce env (\<lambda>_. True) (tx_id tx) n'
      | Inr Duplicate \<Rightarrow> witness_and_announce env (\<lambda>updated. updated) (tx_id tx) n'
      | Inr _ \<Rightarrow> (Ok (), n'))"

definition handle_refill :: "coin_env \<Rightarrow> RefillRequest \<Rightarrow> CoinNode \<Rightarrow> unit result \<times> CoinNode" where
  "handle_refill env req n =
     (if cold_address req \<noteq> local_address n then (Ok (), n)
      else if ce_now env > rr_expires_at_ms req then (Ok (), n)
      else if \<not> refill_verify (ce_crypto env) req then (Ok (), n)
      else if refill_already_applied (ledger n) (rr_request_id req) then (Ok (), n)
      else
        case submit_transfer_from_identity_path env (coin_identity_path n) (hot_address req)
               (rr_amount_muon req) (rr_fee_muon req) (Some ''refill'') n of
          (Inr _, n') \<Rightarrow> (Ok (), n'\<lparr>ledger := mark_refill_applied (rr_request_id req) (ledger n')\<rparr>)
        | (Inl _, n') \<Rightarrow> (Ok (), n'))"

definition coin_handle_incoming :: "coin_env \<Rightarrow> CoinPayload \<Rightarrow> string \<Rightarrow> CoinNode \<Rightarrow> unit result \<times> CoinNode" where
  "coin_handle_incoming env payload from_peer n =
     (case payload of
        TransactionP tx \<Rightarrow> handle_transaction env tx n
      | Witness txid peer_id \<Rightarrow>
          let (r, L) = add_witness (ce_ser env) txid peer_id (ledger n); n' = n\<lparr>ledger := L\<rparr> in
          (case r of Inl e \<Rightarrow> (Err e, n') | Inr _ \<Rightarrow> (Ok (), n'))
      | BalanceQuery address \<Rightarrow>
          let acc = account_state (ledger n) address in
          send_direct_coin_payload env from_peer
            (BalanceResponse address (balance_muon acc) (pending_received acc)) n
      | BalanceResponse _ _ _ \<Rightarrow> (Ok (), n)
      | RefillRequestP req \<Rightarrow> handle_refill env req n)"

definition coin_balance :: "CoinNode \<Rightarrow> u64 \<times> u64" where
  "coin_balance n =
     (let acc = account_state (ledger n) (local_address n) in (balance_muon acc, pending_received acc))"

definition request_faucet_coins :: "CoinNode \<Rightarrow> unit result \<times> CoinNode" where
  "request_faucet_coins n =
     (let acc = account_state (ledger n) (local_address n) in
      if balance_muon acc = 0 \<and> pending_received acc = 0 then
        let (r, L) = genesis_credit (local_address n) (10 * MUON_PER_MXC) (ledger n) in
        (r, n\<lparr>ledger := L\<rparr>)
      else (Ok (), n))"

section \<open>Hot wallet\<close>

record HotWalletConfig =
  max_cache_muon :: u64
  refill_threshold_muon :: u64
  refill_amount_muon :: u64
  cold_wallet_address :: "string option"

definition hot_wallet_default :: HotWalletConfig where
  "hot_wallet_default =
     (let m = 50 * MUON_PER_MXC in
      \<lparr>max_cache_muon = m, refill_threshold_muon = m * 80 div 100, refill_amount_muon = m,
       cold_wallet_address = None\<rparr>)"

datatype RefillResult = NoColdWallet | NotNeeded u64 | RefillBroadcast u64 string

definition maybe_refill ::
  "coin_env \<Rightarrow> string \<Rightarrow> string \<Rightarrow> HotWalletConfig \<Rightarrow> CoinNode \<Rightarrow> RefillResult result \<times> CoinNode" where
  "maybe_refill env uuid identity_path config n =
     (let (confirmed, _) = coin_balance n in
      case cold_wallet_address config of
        None \<Rightarrow> (Ok NoColdWallet, n)
      | Some cold \<Rightarrow>
          if confirmed \<ge> refill_threshold_muon config then (Ok (NotNeeded confirmed), n)
          else
            let to_request = sat_sub (refill_amount_muon config) confirmed in
            case ce_load_keypair env identity_path of
              Inl e \<Rightarrow> (Err e, n)
            | Inr kp \<Rightarrow>
                case refill_new_signed (ce_crypto env) uuid (ce_now env) kp cold to_request 1000 of
                  Inl e \<Rightarrow> (Err e, n)
                | Inr req \<Rightarrow>
                    case broadcast_coin_payload env (RefillRequestP req) n of
                      (Inl e, n') \<Rightarrow> (Err e, n')
                    | (Inr _, n') \<Rightarrow> (Ok (RefillBroadcast to_request (rr_request_id req)), n'))"

section \<open>Transfers the node submits\<close>

lemma send_transaction_Ok:
  assumes "send_transaction env tx n = (Ok (), n')"
  shows "transfer_ok (ce_crypto env) (ce_ser env) tx (ledger n)"
    and "ledger n' = transfer tx (ledger n)"
    and "n' = n\<lparr>ledger := transfer tx (ledger n), outbox := outbox n @ [BroadcastFrame (TransactionP tx)]\<rparr>"
proof -
  have ok: "transfer_ok (ce_crypto env) (ce_ser env) tx (ledger n)"
  proof (rule ccontr)
    assume no: "\<not> ?thesis"
    obtain r L where a: "apply_transaction (ce_crypto env) (ce_ser env) tx (ledger n) = (r, L)"
      by (cases "apply_transaction (ce_crypto env) (ce_ser env) tx (ledger n)")
    then have "r \<noteq> Ok Accepted"
      using apply_transaction_not_ok(2) [OF no] by simp
    then show False
      using assms a by (auto simp: send_transaction_def Let_def split: sum.splits ApplyResult.splits)
  qed
  then show "transfer_ok (ce_crypto env) (ce_ser env) tx (ledger n)" .
  show n': "n' = n\<lparr>ledger := transfer tx (ledger n), outbox := outbox n @ [BroadcastFrame (TransactionP tx)]\<rparr>"
    using assms apply_transaction_ok [OF ok]
    by (auto simp: send_transaction_def broadcast_coin_payload_def Let_def split: sum.splits)
  then show "ledger n' = transfer tx (ledger n)"
    by simp
qed

lemma submit_transfer_Ok:
  assumes "submit_transfer_from_identity_path env path to amount fee memo n = (Ok (), n')"
  obtains tx where "transfer_ok (ce_crypto env) (ce_ser env) tx (ledger n)"
    and "n' = n\<lparr>ledger := transfer tx (ledger n), outbox := outbox n @ [BroadcastFrame (TransactionP tx)]\<rparr>"
    and "tx_from tx = local_address n" "tx_to tx = to" "amount_muon tx = amount" "fee_muon tx = fee"
    and "timestamp_ms tx = ce_now env" "tx_memo tx = memo" "witnesses tx = {||}"
proof -
  obtain kp tx where kp: "address_from_keypair (ce_crypto env) kp = local_address n"
    and new: "tx_new (ce_crypto env) (ce_now env) to amount fee
        (next_nonce (account_state (ledger n) (local_address n))) memo kp = Ok tx"
    and send: "send_transaction env tx n = (Ok (), n')"
    using assms
    by (auto simp: submit_transfer_from_identity_path_def Let_def split: sum.splits if_splits)
  show thesis
    using that [of tx] send_transaction_Ok [OF send] tx_new_fields [OF new] kp by simp
qed

lemma submit_transfer_succeeds:
  assumes "ce_load_keypair env path = Ok kp" "address_from_keypair (ce_crypto env) kp = local_address n"
    and "tx_new (ce_crypto env) (ce_now env) to amount fee
           (next_nonce (account_state (ledger n) (local_address n))) memo kp = Ok tx"
    and "transfer_ok (ce_crypto env) (ce_ser env) tx (ledger n)"
    and "ce_payload_ser env (TransactionP tx) = Ok inner"
  shows "submit_transfer_from_identity_path env path to amount fee memo n =
           (ce_broadcast env inner,
            n\<lparr>ledger := transfer tx (ledger n), outbox := outbox n @ [BroadcastFrame (TransactionP tx)]\<rparr>)"
  using assms
  by (simp add: submit_transfer_from_identity_path_def send_transaction_def broadcast_coin_payload_def
        apply_transaction_ok Let_def)

lemma submit_transfer_balance:
  assumes "submit_transfer_from_identity_path env path to amount fee memo n = (Ok (), n')"
  shows "unat (balance_muon (account_state (ledger n') (local_address n'))) + unat amount + unat fee =
           unat (balance_muon (account_state (ledger n) (local_address n)))"
    and "local_address n' = local_address n" and "amount \<noteq> 0"
    and "policy (ledger n') = policy (ledger n)"
proof -
  obtain tx where ok: "transfer_ok (ce_crypto env) (ce_ser env) tx (ledger n)"
    and n': "n' = n\<lparr>ledger := transfer tx (ledger n), outbox := outbox n @ [BroadcastFrame (TransactionP tx)]\<rparr>"
    and tx: "tx_from tx = local_address n" "amount_muon tx = amount" "fee_muon tx = fee"
    using submit_transfer_Ok [OF assms] by metis
  let ?acc = "account_state (ledger n) (local_address n)"
  have le: "unat (amount_muon tx) + unat (fee_muon tx) \<le> unat (balance_muon ?acc)"
    and neq: "tx_from tx \<noteq> tx_to tx" and amt: "check_transfer_amount (policy (ledger n)) (amount_muon tx) = Ok ()"
    using ok tx by (simp_all add: transfer_ok_def)
  have "account_state (ledger n') (local_address n') = debit tx ?acc"
    using neq tx by (simp add: n' transfer_account)
  then show "unat (balance_muon (account_state (ledger n') (local_address n'))) + unat amount + unat fee =
      unat (balance_muon ?acc)"
    using holdings_debit [OF le] tx by (simp add: holdings_def debit_def)
  show "local_address n' = local_address n" "policy (ledger n') = policy (ledger n)"
    by (simp_all add: n')
  show "amount \<noteq> 0"
    using amt tx by (auto simp: check_transfer_amount_Ok)
qed

section \<open>Returning the excess\<close>

text \<open>The loop of \<open>enforce_cap\<close>.  A transfer of nothing is refused by the ledger, so each successful round
  lowers \<open>excess\<close> and the loop ends.\<close>

function return_excess :: "coin_env \<Rightarrow> string \<Rightarrow> string \<Rightarrow> u64 \<Rightarrow> u64 \<Rightarrow> CoinNode \<Rightarrow> unit result \<times> CoinNode" where
  "return_excess env path cold chunk excess n =
     (if excess > 0 then
        let amt = min excess chunk in
        case submit_transfer_from_identity_path env path cold amt 1000 (Some ''auto-cap-return'') n of
          (Inl e, n') \<Rightarrow> (Err e, n')
        | (Inr _, n') \<Rightarrow> return_excess env path cold chunk (excess - amt) n'
      else (Ok (), n))"
  by pat_completeness auto
termination
proof (relation "measure (\<lambda>(env, path, cold, chunk, excess, n). unat excess)", goal_cases)
  case (2 env path cold chunk excess n amt r n' u)
  then have "amt \<noteq> 0" "amt \<le> excess"
    by (auto dest: submit_transfer_balance(3) [OF sym])
  then show ?case
    using 2(1) by (simp add: unat_sub word_less_nat_alt unat_gt_0)
qed simp

declare return_excess.simps [simp del]

definition enforce_cap :: "coin_env \<Rightarrow> string \<Rightarrow> HotWalletConfig \<Rightarrow> CoinNode \<Rightarrow> unit result \<times> CoinNode" where
  "enforce_cap env identity_path config n =
     (let (confirmed, _) = coin_balance n;
          maybe_return = (if confirmed > max_cache_muon config then
                            let excess = confirmed - max_cache_muon config in
                            map_option (\<lambda>c. (c, excess)) (cold_wallet_address config)
                          else None) in
      case maybe_return of
        None \<Rightarrow> (Ok (), n)
      | Some (cold_addr, excess) \<Rightarrow>
          let chunk = max_transfer_muon (policy (ledger n)) in
          return_excess env identity_path cold_addr chunk excess n)"

text \<open>Each round moves the amount and burns the fee of 1000.\<close>

lemma return_excess_balance:
  assumes "return_excess env path cold chunk excess n = (Ok (), n')"
  shows "unat (balance_muon (account_state (ledger n') (local_address n'))) + unat excess
           \<le> unat (balance_muon (account_state (ledger n) (local_address n)))"
  using assms
proof (induction env path cold chunk excess n rule: return_excess.induct)
  case (1 env path cold chunk excess n)
  show ?case
  proof (cases "excess > 0")
    case False
    with 1 show ?thesis
      by (simp add: return_excess.simps word_less_nat_alt)
  next
    case True
    let ?amt = "min excess chunk"
    obtain n1 where sub: "submit_transfer_from_identity_path env path cold ?amt 1000 (Some ''auto-cap-return'') n = (Ok (), n1)"
      and rec: "return_excess env path cold chunk (excess - ?amt) n1 = (Ok (), n')"
      using 1(2) True
      by (auto simp: return_excess.simps [of env path cold chunk excess n] Let_def split: prod.splits sum.splits)
    have "unat (excess - ?amt) = unat excess - unat ?amt" "unat ?amt \<le> unat excess"
      by (simp_all add: unat_sub word_le_nat_alt [symmetric])
    then show ?thesis
      using 1(1) [OF True refl sub [symmetric] refl rec] submit_transfer_balance(1) [OF sub] by simp
  qed
qed

section \<open>The node only makes ledger steps\<close>

lemma ledger_broadcast [simp]:
  "ledger (snd (broadcast_coin_payload env p n)) = ledger n"
  "ledger (snd (send_direct_coin_payload env to p n)) = ledger n"
  by (simp_all add: broadcast_coin_payload_def send_direct_coin_payload_def split: sum.splits)

lemma ledger_send_transaction:
  "ledger (snd (send_transaction env tx n)) = snd (apply_transaction (ce_crypto env) (ce_ser env) tx (ledger n))"
  by (simp add: send_transaction_def Let_def split: prod.splits sum.splits ApplyResult.splits)

lemma ledger_witness_and_announce:
  "ledger (snd (witness_and_announce env f i n)) = snd (add_witness (ce_ser env) i (local_peer_id n) (ledger n))"
  by (simp add: witness_and_announce_def Let_def split: prod.splits sum.splits)

abbreviation node_reach :: "coin_env \<Rightarrow> LocalLedger \<Rightarrow> bool" where
  "node_reach env \<equiv> ledger_reach (ce_crypto env) (ce_ser env)"

lemma reach_send_transaction:
  "node_reach env (ledger n) \<Longrightarrow> node_reach env (ledger (snd (send_transaction env tx n)))"
  by (auto simp: ledger_send_transaction intro: reach_step step_apply)

lemma reach_submit_transfer:
  "node_reach env (ledger n) \<Longrightarrow>
   node_reach env (ledger (snd (submit_transfer_from_identity_path env path to a f m n)))"
  using reach_send_transaction
  by (simp add: submit_transfer_from_identity_path_def Let_def split: sum.splits)

lemma reach_handle_transaction:
  assumes "node_reach env (ledger n)"
  shows "node_reach env (ledger (snd (handle_transaction env tx n)))"
proof -
  obtain r L where a: "apply_transaction (ce_crypto env) (ce_ser env) tx (ledger n) = (r, L)"
    by (cases "apply_transaction (ce_crypto env) (ce_ser env) tx (ledger n)")
  have L: "node_reach env L"
    using reach_step [OF assms step_apply, of tx] a by simp
  then have "node_reach env (ledger (snd (witness_and_announce env f i (n\<lparr>ledger := L\<rparr>))))" for f i
    by (auto simp: ledger_witness_and_announce intro: reach_step step_witness)
  with a L show ?thesis
    by (auto simp: handle_transaction_def Let_def split: sum.splits ApplyResult.splits)
qed

lemma reach_handle_refill:
  assumes "node_reach env (ledger n)"
  shows "node_reach env (ledger (snd (handle_refill env req n)))"
  using assms reach_submit_transfer [OF assms, of "coin_identity_path n" "hot_address req"
      "rr_amount_muon req" "rr_fee_muon req" "Some ''refill''"]
  by (auto simp: handle_refill_def split: prod.splits sum.splits intro: reach_step step_refill)

lemma reach_handle_incoming:
  assumes "node_reach env (ledger n)"
  shows "node_reach env (ledger (snd (coin_handle_incoming env payload from n)))"
proof (cases payload)
  case (Witness i p)
  then show ?thesis
    using reach_step [OF assms step_witness, of i p]
    by (auto simp: coin_handle_incoming_def Let_def split: prod.splits sum.splits)
qed (use assms reach_handle_transaction [OF assms] reach_handle_refill [OF assms] in
      \<open>simp_all add: coin_handle_incoming_def Let_def\<close>)

lemma reach_faucet:
  assumes "ledger_reach cr ser (ledger n)"
  shows "ledger_reach cr ser (ledger (snd (request_faucet_coins n)))"
  using assms reach_step [OF assms step_genesis, of "local_address n" "10 * MUON_PER_MXC"]
  by (auto simp: request_faucet_coins_def Let_def split: prod.splits)

lemma reach_maybe_refill:
  assumes "node_reach env (ledger n)"
  shows "node_reach env (ledger (snd (maybe_refill env uuid path cfg n)))"
proof -
  have "ledger n' = ledger n" if "broadcast_coin_payload env p n = (r, n')" for p r n'
    using ledger_broadcast(1) [of env p n] that by simp
  then show ?thesis
    using assms by (auto simp: maybe_refill_def Let_def split: prod.splits option.splits sum.splits)
qed

lemma reach_return_excess:
  assumes "node_reach env (ledger n)"
  shows "node_reach env (ledger (snd (return_excess env path cold chunk excess n)))"
  using assms
proof (induction env path cold chunk excess n rule: return_excess.induct)
  case (1 env path cold chunk excess n)
  show ?case
    using 1(1) [OF _ refl] 1(2) reach_submit_transfer [OF 1(2), of path cold "min excess chunk" 1000 "Some ''auto-cap-return''"]
    by (auto simp: return_excess.simps [of env path cold chunk excess n] Let_def split: prod.splits sum.splits)
qed

lemma reach_enforce_cap:
  assumes "node_reach env (ledger n)"
  shows "node_reach env (ledger (snd (enforce_cap env path cfg n)))"
  using assms reach_return_excess [OF assms]
  by (auto simp: enforce_cap_def Let_def split: prod.splits option.splits)

section \<open>Refill requests\<close>

lemma refill_new_signed_fields:
  assumes "refill_new_signed cr uuid now kp cold amount fee = Ok r"
  shows "rr_request_id r = uuid" "hot_address r = address_from_keypair cr kp" "cold_address r = cold"
    "rr_amount_muon r = amount" "rr_fee_muon r = fee" "rr_created_at_ms r = now"
    "rr_expires_at_ms r = sat_add now REFILL_REQUEST_TTL_MS"
    "hot_public_key r = pk_encode cr (kp_public cr kp)"
    "kp_sign cr kp (refill_bytes_for_signing r) = Ok (rr_signature r)"
  using assms by (auto simp: refill_new_signed_def Let_def refill_bytes_for_signing_def split: sum.splits)

lemma refill_new_signed_verifies:
  assumes ok: "crypto_ok cr" and new: "refill_new_signed cr uuid now kp cold amount fee = Ok r"
  shows "refill_verify cr r \<longleftrightarrow> validate_address cr cold \<and> address_from_keypair cr kp \<noteq> cold"
  using refill_new_signed_fields [OF new] validate_address_from_public_key [OF ok] crypto_okD(3,4) [OF ok]
  by (simp add: refill_verify_def address_from_keypair_def less_sat_add)

section \<open>When a submission fails\<close>

text \<open>If encoding and broadcasting do not fail, a submission that fails has not touched the ledger.\<close>

lemma submit_failed_ledger:
  assumes "\<And>payload. is_ok (ce_payload_ser env payload)" "\<And>inner. ce_broadcast env inner = Ok ()"
    and "fst (submit_transfer_from_identity_path env path to a f m n) \<noteq> Ok ()"
  shows "ledger (snd (submit_transfer_from_identity_path env path to a f m n)) = ledger n"
proof -
  have "ledger (snd (send_transaction env tx n)) = ledger n" if fail: "fst (send_transaction env tx n) \<noteq> Ok ()" for tx
  proof (cases "transfer_ok (ce_crypto env) (ce_ser env) tx (ledger n)")
    case True
    obtain inner where "ce_payload_ser env (TransactionP tx) = Ok inner"
      using assms(1) [of "TransactionP tx"] by (cases "ce_payload_ser env (TransactionP tx)") auto
    then have "fst (send_transaction env tx n) = Ok ()"
      using True assms(2) by (simp add: send_transaction_def apply_transaction_ok broadcast_coin_payload_def Let_def)
    with fail show ?thesis
      by simp
  qed (simp add: ledger_send_transaction apply_transaction_not_ok)
  with assms(3) show ?thesis
    by (auto simp: submit_transfer_from_identity_path_def Let_def split: sum.splits if_splits)
qed

end
