(* ===== verification/Coin_Props.thy ===== *)
theory Coin_Props
  imports Coin_Node Ledger_Props
begin

text \<open>
  The properties of the coin node, the refill protocol and the hot wallet.
\<close>

section \<open>Runs of a coin node\<close>

text \<open>One call of a public operation, under any environment with the given packages.\<close>

inductive coin_step :: "crypto \<Rightarrow> serializer \<Rightarrow> CoinNode \<Rightarrow> CoinNode \<Rightarrow> bool"
  for cr :: crypto and ser :: serializer where
  coin_incoming: "ce_crypto env = cr \<Longrightarrow> ce_ser env = ser \<Longrightarrow>
     coin_step cr ser n (snd (coin_handle_incoming env payload from_peer n))"
| coin_submit: "ce_crypto env = cr \<Longrightarrow> ce_ser env = ser \<Longrightarrow>
     coin_step cr ser n (snd (submit_transfer_from_identity_path env path to amount fee memo n))"
| coin_send: "ce_crypto env = cr \<Longrightarrow> ce_ser env = ser \<Longrightarrow>
     coin_step cr ser n (snd (send_transaction env tx n))"
| coin_faucet: "coin_step cr ser n (snd (request_faucet_coins n))"
| coin_maybe_refill: "ce_crypto env = cr \<Longrightarrow> ce_ser env = ser \<Longrightarrow>
     coin_step cr ser n (snd (maybe_refill env uuid path cfg n))"
| coin_enforce_cap: "ce_crypto env = cr \<Longrightarrow> ce_ser env = ser \<Longrightarrow>
     coin_step cr ser n (snd (enforce_cap env path cfg n))"

inductive coin_reach :: "crypto \<Rightarrow> serializer \<Rightarrow> CoinNode \<Rightarrow> bool"
  for cr :: crypto and ser :: serializer where
  coin_start: "ledger n = ledger_open \<Longrightarrow> coin_reach cr ser n"
| coin_next: "coin_reach cr ser n \<Longrightarrow> coin_step cr ser n n' \<Longrightarrow> coin_reach cr ser n'"

lemma coin_step_reach:
  assumes "coin_step cr ser n n'" "ledger_reach cr ser (ledger n)"
  shows "ledger_reach cr ser (ledger n')"
  using assms
proof (cases rule: coin_step.cases)
  case (coin_incoming env payload from_peer)
  then show ?thesis
    using assms(2) reach_handle_incoming [of env n payload from_peer] by simp
next
  case (coin_submit env path to amount fee memo)
  then show ?thesis
    using assms(2) reach_submit_transfer [of env n path to amount fee memo] by simp
next
  case (coin_send env tx)
  then show ?thesis
    using assms(2) reach_send_transaction [of env n tx] by simp
next
  case coin_faucet
  then show ?thesis
    using reach_faucet [OF assms(2)] by simp
next
  case (coin_maybe_refill env uuid path cfg)
  then show ?thesis
    using assms(2) reach_maybe_refill [of env n uuid path cfg] by simp
next
  case (coin_enforce_cap env path cfg)
  then show ?thesis
    using assms(2) reach_enforce_cap [of env n path cfg] by simp
qed

section \<open>A concrete node\<close>

definition demo_env :: coin_env where
  "demo_env = \<lparr>ce_crypto = demo_crypto, ce_ser = demo_ser, ce_payload_ser = \<lambda>_. Ok [],
     ce_load_keypair = \<lambda>_. Ok [1], ce_broadcast = \<lambda>_. Ok (), ce_send_direct = \<lambda>_ _. Ok (),
     ce_debug = \<lambda>_. [], ce_now = 1000\<rparr>"

definition demo_node :: CoinNode where
  "demo_node = \<lparr>ledger = demo_ledger, local_address = alice, local_peer_id = ''pa'',
     coin_identity_path = ''id'', outbox = []\<rparr>"

lemma demo_address [simp]: "address_from_keypair demo_crypto [1] = alice" "address_from_keypair demo_crypto [2] = bob"
  by (simp_all add: alice_def bob_def)

lemma demo_account: "account_state demo_ledger alice =
    \<lparr>acc_address = alice, balance_muon = 5000000, next_nonce = 0, pending_received = 0\<rparr>"
  by (simp add: demo_ledger_eq account_state_def)

text \<open>Alice's node can send Bob up to 4 MXC for a fee of 1000 muon.\<close>

lemma demo_new_ok:
  assumes new: "tx_new demo_crypto 1000 bob amount 1000 0 memo [1] = Ok tx"
    and "0 < unat amount" "unat amount \<le> 4000000" "case memo of None \<Rightarrow> True | Some m \<Rightarrow> length m \<le> 64"
  shows "transfer_ok demo_crypto demo_ser tx demo_ledger"
proof -
  note f = tx_new_fields [OF new]
  have "tx_verify demo_crypto tx"
    by (rule tx_new_verifies [OF crypto_ok_demo new demo_addresses(2)])
  moreover have "check_transfer_amount beta_defaults amount = Ok ()"
    "check_balance_cap beta_defaults 0 0 amount = Ok ()"
    using assms by (simp_all add: check_transfer_amount_Ok check_balance_cap_Ok beta_defaults_def settlement_consts)
  moreover have "check_velocity beta_defaults [] 1000 amount = Ok ()"
    using assms by (simp add: check_velocity_def beta_defaults_def settlement_consts word_nat unat_sat_add_u64)
  moreover have "1 \<le> max_tx_bytes beta_defaults"
    by (simp add: beta_defaults_def settlement_consts)
  ultimately show ?thesis
    using assms f demo_address by (simp add: transfer_ok_def demo_ser_def demo_ledger_eq tree_has_def account_state_def recent_for_def)
qed

lemma demo_submit:
  assumes "0 < unat amount" "unat amount \<le> 4000000" "case memo of None \<Rightarrow> True | Some m \<Rightarrow> length m \<le> 64"
  obtains tx where "tx_new demo_crypto 1000 bob amount 1000 0 memo [1] = Ok tx"
    and "submit_transfer_from_identity_path demo_env path bob amount 1000 memo demo_node =
      (Ok (), demo_node\<lparr>ledger := transfer tx demo_ledger, outbox := [BroadcastFrame (TransactionP tx)]\<rparr>)"
proof -
  obtain tx where new: "tx_new demo_crypto 1000 bob amount 1000 0 memo [1] = Ok tx"
    by (simp add: tx_new_def demo_crypto_def Let_def)
  have "submit_transfer_from_identity_path demo_env path bob amount 1000 memo demo_node =
      (Ok (), demo_node\<lparr>ledger := transfer tx demo_ledger, outbox := [BroadcastFrame (TransactionP tx)]\<rparr>)"
    using submit_transfer_succeeds [of demo_env path "[1]" demo_node bob amount 1000 memo tx "[]"]
      new demo_new_ok [OF new assms]
    by (simp add: demo_env_def demo_node_def demo_account)
  then show thesis
    using that new by blast
qed

section \<open>Properties\<close>

text \<open>C7. Refinement: whatever frames arrive and whatever its owner calls, a coin node started on an empty
  database performs only ledger steps, so its ledger is always one of the reachable ledgers; in
  particular no account of it, its own included, ever exceeds the vault cap.\<close>

theorem coin_node_refines_ledger:
  assumes "coin_reach cr ser n" "ser_total ser"
  shows "ledger_reach cr ser (ledger n) \<and>
         unat (balance_muon (account_state (ledger n) a)) + unat (pending_received (account_state (ledger n) a))
           \<le> unat (max_balance_muon (policy (ledger n)))"
proof -
  have reach: "ledger_reach cr ser (ledger n)"
    using assms(1)
  proof (induction rule: coin_reach.induct)
    case (coin_start n)
    then show ?case
      using reach_init [of beta_defaults cr ser] by (simp add: set_policy_def ledger_open_def)
  qed (rule coin_step_reach)
  then have "caps_ok (ledger n)"
    using ledger_inv_reach assms(2) by (auto simp: ledger_inv_def)
  with reach show ?thesis
    by (simp add: caps_ok_def holdings_def)
qed

theorem coin_node_refines_ledger_witness:
  "let n = snd (request_faucet_coins (demo_node\<lparr>ledger := ledger_open\<rparr>)) in
   coin_reach demo_crypto demo_ser n \<and> ledger_reach demo_crypto demo_ser (ledger n) \<and>
   balance_muon (account_state (ledger n) alice) = 10000000"
proof -
  let ?n0 = "demo_node\<lparr>ledger := ledger_open\<rparr>"
  have reach: "coin_reach demo_crypto demo_ser (snd (request_faucet_coins ?n0))"
    by (rule coin_next [OF coin_start coin_faucet]) simp
  have "balance_muon (account_state (ledger (snd (request_faucet_coins ?n0))) alice) = 10000000"
    by (simp add: request_faucet_coins_def ledger_open_def genesis_credit_def demo_node_def
          update_account_def demo_simps)
  then show ?thesis
    using reach coin_node_refines_ledger [OF reach demo_ser_total] by (simp add: Let_def)
qed

text \<open>When \<open>enforce_cap\<close> succeeds and a cold wallet is configured, the confirmed balance of the hot wallet
  ends at or below \<open>max_cache_muon\<close>; the loop always ends, because the ledger refuses an empty
  transfer, and at or below the cap nothing is sent.\<close>

theorem enforce_cap_bound:
  assumes "enforce_cap env path cfg n = (Ok (), n')" "cold_wallet_address cfg = Some cold"
  shows "unat (fst (coin_balance n')) \<le> unat (max_cache_muon cfg) \<and>
         (unat (fst (coin_balance n)) \<le> unat (max_cache_muon cfg) \<longrightarrow> n' = n)"
proof (cases "max_cache_muon cfg < fst (coin_balance n)")
  case True
  let ?b = "fst (coin_balance n)"
  have ret: "return_excess env path cold (max_transfer_muon (policy (ledger n))) (?b - max_cache_muon cfg) n = (Ok (), n')"
    using assms True by (simp add: enforce_cap_def coin_balance_def Let_def)
  have "unat (?b - max_cache_muon cfg) = unat ?b - unat (max_cache_muon cfg)"
    using True by (simp add: unat_sub [OF less_imp_le])
  then show ?thesis
    using return_excess_balance [OF ret] True by (auto simp: coin_balance_def Let_def word_less_unat)
next
  case False
  then show ?thesis
    using assms by (simp add: enforce_cap_def coin_balance_def Let_def word_less_unat)
qed

theorem enforce_cap_bound_witness:
  "\<exists>n'. enforce_cap demo_env ''id'' (hot_wallet_default\<lparr>max_cache_muon := 4000000, cold_wallet_address := Some bob\<rparr>) demo_node = (Ok (), n') \<and>
        unat (fst (coin_balance n')) \<le> 4000000"
proof -
  let ?cfg = "hot_wallet_default\<lparr>max_cache_muon := 4000000, cold_wallet_address := Some bob\<rparr>"
  obtain tx where sub: "submit_transfer_from_identity_path demo_env ''id'' bob 1000000 1000 (Some ''auto-cap-return'') demo_node =
      (Ok (), demo_node\<lparr>ledger := transfer tx demo_ledger, outbox := [BroadcastFrame (TransactionP tx)]\<rparr>)"
    by (rule demo_submit [of 1000000 "Some ''auto-cap-return''" "''id''"]) auto
  let ?n' = "demo_node\<lparr>ledger := transfer tx demo_ledger, outbox := [BroadcastFrame (TransactionP tx)]\<rparr>"
  have pol: "max_transfer_muon (policy demo_ledger) = 25000000"
    by (simp add: demo_ledger_eq beta_defaults_def settlement_consts)
  have "return_excess demo_env ''id'' bob 25000000 1000000 demo_node = (Ok (), ?n')"
    by (subst return_excess.simps) (simp add: sub return_excess.simps [of _ _ _ _ 0] min_def)
  then have run: "enforce_cap demo_env ''id'' ?cfg demo_node = (Ok (), ?n')"
    using pol by (simp add: enforce_cap_def coin_balance_def demo_node_def demo_account)
  then show ?thesis
    using enforce_cap_bound [OF run] by (auto simp: hot_wallet_default_def)
qed


text \<open>A request Bob signs for 2 MXC from Alice's node.\<close>

definition bob_request :: RefillRequest where
  "bob_request = (case refill_new_signed demo_crypto ''r1'' 900 [2] alice 2000000 1000 of
     Inr r \<Rightarrow> r | Inl _ \<Rightarrow> undefined)"

lemma bob_request_signed: "refill_new_signed demo_crypto ''r1'' 900 [2] alice 2000000 1000 = Ok bob_request"
  by (simp add: bob_request_def refill_new_signed_def demo_crypto_def Let_def)

lemma bob_request_paid:
  obtains tx where "tx_new demo_crypto 1000 bob 2000000 1000 0 (Some ''refill'') [1] = Ok tx"
    and "coin_handle_incoming demo_env (RefillRequestP bob_request) peer demo_node =
      (Ok (), demo_node\<lparr>ledger := mark_refill_applied ''r1'' (transfer tx demo_ledger),
                        outbox := [BroadcastFrame (TransactionP tx)]\<rparr>)"
proof -
  obtain tx where new: "tx_new demo_crypto 1000 bob 2000000 1000 0 (Some ''refill'') [1] = Ok tx"
    and sub: "submit_transfer_from_identity_path demo_env ''id'' bob 2000000 1000 (Some ''refill'') demo_node =
      (Ok (), demo_node\<lparr>ledger := transfer tx demo_ledger, outbox := [BroadcastFrame (TransactionP tx)]\<rparr>)"
    by (rule demo_submit [of 2000000 "Some ''refill''" "''id''"]) auto
  note f = refill_new_signed_fields [OF bob_request_signed]
  have ver: "refill_verify demo_crypto bob_request"
    using refill_new_signed_verifies [OF crypto_ok_demo bob_request_signed] by simp
  have "coin_handle_incoming demo_env (RefillRequestP bob_request) peer demo_node =
      (Ok (), demo_node\<lparr>ledger := mark_refill_applied ''r1'' (transfer tx demo_ledger),
                        outbox := [BroadcastFrame (TransactionP tx)]\<rparr>)"
    using sub f ver
    by (simp add: coin_handle_incoming_def handle_refill_def refill_already_applied_def)
      (simp add: demo_node_def demo_env_def demo_ledger_eq tree_has_def sat_add_def REFILL_REQUEST_TTL_MS_def)
  then show thesis
    using that new by blast
qed


text \<open>The cold node pays whoever asks: a request signed with any key whatsoever, for the key's own
  address, that names the node as its cold wallet passes every check of the handler, and the node
  submits the transfer.  Nothing ties the hot address to a wallet the owner has configured.\<close>

theorem refill_request_from_any_key:
  assumes "crypto_ok (ce_crypto env)"
    and "refill_new_signed (ce_crypto env) uuid t kp (local_address n) amount fee = Ok req"
    and "validate_address (ce_crypto env) (local_address n)"
    and "address_from_keypair (ce_crypto env) kp \<noteq> local_address n"
    and "ce_now env \<le> sat_add t REFILL_REQUEST_TTL_MS" "\<not> refill_already_applied (ledger n) uuid"
    and "submit_transfer_from_identity_path env (coin_identity_path n) (address_from_keypair (ce_crypto env) kp)
           amount fee (Some ''refill'') n = (Ok (), n1)"
  shows "coin_handle_incoming env (RefillRequestP req) from_peer n =
           (Ok (), n1\<lparr>ledger := mark_refill_applied uuid (ledger n1)\<rparr>)"
proof -
  have "refill_verify (ce_crypto env) req"
    using refill_new_signed_verifies [OF assms(1,2)] assms(3,4) by simp
  then show ?thesis
    using refill_new_signed_fields [OF assms(2)] assms(5-)
    by (simp add: coin_handle_incoming_def handle_refill_def)
qed

theorem refill_request_from_any_key_witness:
  "refill_new_signed demo_crypto ''r1'' 900 [2] alice 2000000 1000 = Ok bob_request \<and>
   (\<exists>n1. coin_handle_incoming demo_env (RefillRequestP bob_request) ''stranger'' demo_node =
           (Ok (), n1\<lparr>ledger := mark_refill_applied ''r1'' (ledger n1)\<rparr>) \<and>
         outbox n1 \<noteq> [])"
proof -
  obtain tx where sub: "submit_transfer_from_identity_path demo_env ''id'' bob 2000000 1000 (Some ''refill'') demo_node =
      (Ok (), demo_node\<lparr>ledger := transfer tx demo_ledger, outbox := [BroadcastFrame (TransactionP tx)]\<rparr>)"
    by (rule demo_submit [of 2000000 "Some ''refill''" "''id''"]) auto
  let ?n1 = "demo_node\<lparr>ledger := transfer tx demo_ledger, outbox := [BroadcastFrame (TransactionP tx)]\<rparr>"
  have e: "ce_crypto demo_env = demo_crypto" "ce_now demo_env = 1000" "local_address demo_node = alice"
    "coin_identity_path demo_node = ''id''" "ledger demo_node = demo_ledger"
    by (simp_all add: demo_env_def demo_node_def)
  have "coin_handle_incoming demo_env (RefillRequestP bob_request) ''stranger'' demo_node =
      (Ok (), ?n1\<lparr>ledger := mark_refill_applied ''r1'' (ledger ?n1)\<rparr>)"
    by (rule refill_request_from_any_key [where kp = "[2]" and t = 900 and amount = 2000000 and fee = 1000])
      (use sub bob_request_signed in \<open>simp_all add: e refill_already_applied_def demo_ledger_eq tree_has_def
        sat_add_def REFILL_REQUEST_TTL_MS_def\<close>)
  then show ?thesis
    using bob_request_signed by (intro conjI exI [of _ ?n1]) simp_all
qed

text \<open>The default hot wallet cannot be refilled when it is nearly empty: with the default configuration and
  less than 25 MXC confirmed, \<open>maybe_refill\<close> asks for more than the 25 MXC the default settlement
  policy allows in one transfer, and a cold node with that policy answers the request by doing nothing.\<close>

theorem default_refill_refused:
  assumes "maybe_refill env uuid path (hot_wallet_default\<lparr>cold_wallet_address := Some cold\<rparr>) hot =
             (Ok (RefillBroadcast asked rid), hot')"
    and "unat (fst (coin_balance hot)) < 25 * unat MUON_PER_MXC"
    and "rr_amount_muon req = asked" "policy (ledger n) = beta_defaults"
  shows "asked > max_transfer_muon beta_defaults \<and>
         ledger (snd (coin_handle_incoming env' (RefillRequestP req) from_peer n)) = ledger n"
proof -
  have asked: "asked = sat_sub 50000000 (fst (coin_balance hot))"
    using assms(1) by (auto simp: maybe_refill_def hot_wallet_default_def Let_def MUON_PER_MXC_def
        split: prod.splits if_splits sum.splits)
  have big: "asked > max_transfer_muon beta_defaults"
    using assms(2) by (simp add: asked word_nat beta_defaults_def settlement_consts)
  have no: "\<not> transfer_ok cr ser tx (ledger n)" if "amount_muon tx = asked" for cr ser tx
    using that big assms(4) by (auto simp: transfer_ok_def check_transfer_amount_Ok word_less_unat)
  have sub: "ledger (snd (submit_transfer_from_identity_path env' p to asked f m n)) = ledger n" for p to f m
  proof (cases "ce_load_keypair env' p")
    case (Inr kp)
    then show ?thesis
      using no tx_new_fields(3)
      by (auto simp: submit_transfer_from_identity_path_def Let_def ledger_send_transaction
            apply_transaction_not_ok split: sum.splits)
  qed (simp add: submit_transfer_from_identity_path_def)
  have "submit_transfer_from_identity_path env' p to asked f m n \<noteq> (Ok (), n')" for p to f m n'
    using submit_transfer_Ok [of env' p to asked f m n n'] no by metis
  then have "ledger (snd (handle_refill env' req n)) = ledger n"
    using sub assms(3) by (auto simp: handle_refill_def split: prod.splits sum.splits) (metis snd_conv)
  with big show ?thesis
    by (simp add: coin_handle_incoming_def)
qed

theorem default_refill_refused_witness:
  "\<exists>hot' rid req. maybe_refill demo_env ''r'' ''id'' (hot_wallet_default\<lparr>cold_wallet_address := Some bob\<rparr>) demo_node =
       (Ok (RefillBroadcast 45000000 rid), hot') \<and> rr_amount_muon req = 45000000 \<and>
     ledger (snd (coin_handle_incoming demo_env (RefillRequestP req) ''p'' (demo_node\<lparr>ledger := ledger_open\<rparr>))) = ledger_open"
proof -
  obtain hot' rid where run: "maybe_refill demo_env ''r'' ''id'' (hot_wallet_default\<lparr>cold_wallet_address := Some bob\<rparr>) demo_node =
      (Ok (RefillBroadcast 45000000 rid), hot')"
    by (simp add: maybe_refill_def coin_balance_def demo_node_def demo_account hot_wallet_default_def
          MUON_PER_MXC_def demo_env_def refill_new_signed_def broadcast_coin_payload_def sat_sub_def Let_def)
      (simp add: demo_crypto_def broadcast_coin_payload_def)
  let ?n = "demo_node\<lparr>ledger := ledger_open\<rparr>"
  have "ledger (snd (coin_handle_incoming demo_env (RefillRequestP (bob_request\<lparr>rr_amount_muon := 45000000\<rparr>)) ''p'' ?n)) = ledger ?n"
    using default_refill_refused [OF run, of "bob_request\<lparr>rr_amount_muon := 45000000\<rparr>" ?n demo_env "''p''"]
    by (simp add: coin_balance_def demo_node_def demo_account MUON_PER_MXC_def ledger_open_def)
  then show ?thesis
    using run by (intro exI [of _ hot'] exI [of _ rid] exI [of _ "bob_request\<lparr>rr_amount_muon := 45000000\<rparr>"]) simp
qed

text \<open>A transfer that is applied but whose broadcast fails is reported as failed, so the request is not
  recorded as applied although the refill has been paid: the same request can be paid again.\<close>

lemma refill_not_recorded_after_failed_broadcast:
  assumes "cold_address req = local_address n" "ce_now env \<le> rr_expires_at_ms req"
    and "refill_verify (ce_crypto env) req" "\<not> refill_already_applied (ledger n) (rr_request_id req)"
    and "ce_load_keypair env (coin_identity_path n) = Ok kp"
    and "address_from_keypair (ce_crypto env) kp = local_address n"
    and "tx_new (ce_crypto env) (ce_now env) (hot_address req) (rr_amount_muon req) (rr_fee_muon req)
           (next_nonce (account_state (ledger n) (local_address n))) (Some ''refill'') kp = Ok tx"
    and "transfer_ok (ce_crypto env) (ce_ser env) tx (ledger n)"
    and "ce_payload_ser env (TransactionP tx) = Ok inner" "ce_broadcast env inner = Err e"
  shows "ledger (snd (coin_handle_incoming env (RefillRequestP req) from_peer n)) = transfer tx (ledger n) \<and>
         \<not> refill_already_applied (ledger (snd (coin_handle_incoming env (RefillRequestP req) from_peer n)))
             (rr_request_id req)"
  using submit_transfer_succeeds [OF assms(5-9)] assms(1-4,10)
  by (simp add: coin_handle_incoming_def handle_refill_def refill_already_applied_def)

end
