(* ===== verification/Payment.thy ===== *)
theory Payment
  imports Prelude
begin

text \<open>
  \<open>mycelium-coin/src/payment.rs\<close>: payment requests and their \<open>mxcpay:\<close> URI.  The percent encoding of
  the \<open>urlencoding\<close> package is a pair of parameters.
\<close>

record PaymentRequest =
  to_address :: string
  pay_amount_muon :: u64
  pay_memo :: "string option"
  pay_expires_at_ms :: "u64 option"
  pay_request_id :: string

definition payment_new :: "u64 \<Rightarrow> string \<Rightarrow> string \<Rightarrow> u64 \<Rightarrow> string option \<Rightarrow> PaymentRequest" where
  "payment_new now uuid to amount memo =
     \<lparr>to_address = to, pay_amount_muon = amount, pay_memo = memo,
      pay_expires_at_ms = Some (sat_add now (30 * 60 * 1000)), pay_request_id = uuid\<rparr>"

definition to_uri :: "(string \<Rightarrow> string) \<Rightarrow> PaymentRequest \<Rightarrow> string" where
  "to_uri url_encode r =
     ''mxcpay:'' @ to_address r @ ''?amount='' @ dec (unat (pay_amount_muon r)) @
     (case pay_memo r of Some memo \<Rightarrow> ''&memo='' @ url_encode memo | None \<Rightarrow> []) @
     (case pay_expires_at_ms r of Some e \<Rightarrow> ''&expires='' @ dec (unat e) | None \<Rightarrow> [])"

text \<open>The loop over the parameters; an undecodable memo ends it with the error.\<close>

fun parse_params ::
  "(string \<Rightarrow> string result) \<Rightarrow> string list \<Rightarrow> u64 \<times> string option \<times> u64 option \<Rightarrow>
   (u64 \<times> string option \<times> u64 option) result" where
  "parse_params url_decode [] acc = Ok acc"
| "parse_params url_decode (param # rest) (amount, memo, expires) =
     (case strip_prefix ''amount='' param of
        Some v \<Rightarrow> parse_params url_decode rest
                   ((case parse_u64 v of Some n \<Rightarrow> n | None \<Rightarrow> 0), memo, expires)
      | None \<Rightarrow>
          case strip_prefix ''memo='' param of
            Some v \<Rightarrow> (case url_decode v of
                         Inl e \<Rightarrow> Err e
                       | Inr m \<Rightarrow> parse_params url_decode rest (amount, Some m, expires))
          | None \<Rightarrow>
              case strip_prefix ''expires='' param of
                Some v \<Rightarrow> parse_params url_decode rest (amount, memo, parse_u64 v)
              | None \<Rightarrow> parse_params url_decode rest (amount, memo, expires))"

definition from_uri :: "(string \<Rightarrow> string result) \<Rightarrow> string \<Rightarrow> string \<Rightarrow> PaymentRequest result" where
  "from_uri url_decode uuid uri =
     (case strip_prefix ''mxcpay:'' uri of
        None \<Rightarrow> Err ''not a mxcpay URI''
      | Some rest \<Rightarrow>
          let (address, params) = (case split_once (CHR ''?'') rest of Some ap \<Rightarrow> ap | None \<Rightarrow> (rest, [])) in
          case parse_params url_decode (filter (\<lambda>p. p \<noteq> []) (split_on (CHR ''&'') params)) (0, None, None) of
            Inl e \<Rightarrow> Err e
          | Inr (amount, memo, expires) \<Rightarrow>
              Ok \<lparr>to_address = address, pay_amount_muon = amount, pay_memo = memo,
                  pay_expires_at_ms = expires, pay_request_id = uuid\<rparr>)"

definition pay_is_expired :: "u64 \<Rightarrow> PaymentRequest \<Rightarrow> bool" where
  "pay_is_expired now r = (case pay_expires_at_ms r of Some e \<Rightarrow> e < now | None \<Rightarrow> False)"

section \<open>Round trip\<close>

text \<open>Percent encoding, as documented: decoding undoes encoding, and the encoded text has no ampersand.\<close>

definition url_ok :: "(string \<Rightarrow> string) \<Rightarrow> (string \<Rightarrow> string result) \<Rightarrow> bool" where
  "url_ok enc decd \<longleftrightarrow> (\<forall>m. decd (enc m) = Ok m \<and> CHR ''&'' \<notin> set (enc m))"

lemma no_amp_dec: "CHR ''&'' \<notin> set (dec n)"
  by (rule dec_no_char) simp

lemma prefix_conflicts:
  "strip_prefix ''amount='' (''amount='' @ v) = Some v"
  "strip_prefix ''amount='' (''memo='' @ v) = None" "strip_prefix ''memo='' (''memo='' @ v) = Some v"
  "strip_prefix ''amount='' (''expires='' @ v) = None" "strip_prefix ''memo='' (''expires='' @ v) = None"
  "strip_prefix ''expires='' (''expires='' @ v) = Some v"
  by (simp_all add: strip_prefix_def starts_with_def)

text \<open>The three kinds of parameter \<open>to_uri\<close> prints.\<close>

definition amount_param :: "u64 \<Rightarrow> string" where "amount_param w = ''amount='' @ dec (unat w)"
definition memo_param :: "string \<Rightarrow> string" where "memo_param v = ''memo='' @ v"
definition expires_param :: "u64 \<Rightarrow> string" where "expires_param w = ''expires='' @ dec (unat w)"

lemma params_nonempty [simp]: "amount_param w \<noteq> []" "memo_param v \<noteq> []" "expires_param w \<noteq> []"
  by (simp_all add: amount_param_def memo_param_def expires_param_def)

lemma params_no_amp [simp]:
  "CHR ''&'' \<notin> set (amount_param w)" "CHR ''&'' \<notin> set (expires_param w)"
  "CHR ''&'' \<notin> set v \<Longrightarrow> CHR ''&'' \<notin> set (memo_param v)"
  using no_amp_dec by (simp_all add: amount_param_def memo_param_def expires_param_def)

lemma parse_param [simp]:
  "parse_params decd (amount_param w # rest) (a, m, e) = parse_params decd rest (w, m, e)"
  "decd v = Ok x \<Longrightarrow> parse_params decd (memo_param v # rest) (a, m, e) = parse_params decd rest (a, Some x, e)"
  "parse_params decd (expires_param w # rest) (a, m, e) = parse_params decd rest (a, m, Some w)"
  by (simp_all only: parse_params.simps amount_param_def memo_param_def expires_param_def
        prefix_conflicts option.case sum.case parse_u64_dec)

definition uri_params :: "(string \<Rightarrow> string) \<Rightarrow> PaymentRequest \<Rightarrow> string" where
  "uri_params enc r = amount_param (pay_amount_muon r) @
     (case pay_memo r of Some memo \<Rightarrow> CHR ''&'' # memo_param (enc memo) | None \<Rightarrow> []) @
     (case pay_expires_at_ms r of Some e \<Rightarrow> CHR ''&'' # expires_param e | None \<Rightarrow> [])"

lemma to_uri_params: "to_uri enc r = ''mxcpay:'' @ to_address r @ CHR ''?'' # uri_params enc r"
  by (simp add: to_uri_def uri_params_def amount_param_def memo_param_def expires_param_def split: option.split)

lemma parse_uri_params:
  assumes "url_ok enc decd"
  shows "parse_params decd (filter (\<lambda>p. p \<noteq> []) (split_on (CHR ''&'') (uri_params enc r))) (0, None, None) =
           Ok (pay_amount_muon r, pay_memo r, pay_expires_at_ms r)"
proof -
  have "decd (enc m) = Ok m" "CHR ''&'' \<notin> set (enc m)" for m
    using assms by (simp_all add: url_ok_def)
  then show ?thesis
    by (cases "pay_memo r"; cases "pay_expires_at_ms r")
      (simp_all add: uri_params_def split_on_append split_on_none del: parse_params.simps(2))
qed

text \<open>C9. A payment request survives its URI: parsing what \<open>to_uri\<close> printed gives the same address, amount, memo
  and expiry (under a fresh identifier), for every address without a question mark.\<close>

theorem payment_uri_roundtrip:
  assumes "url_ok enc decd" "CHR ''?'' \<notin> set (to_address r)"
  shows "from_uri decd uuid (to_uri enc r) = Ok (r\<lparr>pay_request_id := uuid\<rparr>)"
proof -
  have once: "split_once (CHR ''?'') (to_address r @ CHR ''?'' # uri_params enc r) =
      Some (to_address r, uri_params enc r)"
    using assms(2) by (rule split_once_append)
  show ?thesis
    unfolding from_uri_def to_uri_params strip_prefix_append option.case once
    by (simp add: parse_uri_params [OF assms(1)])
qed

text \<open>A percent encoding of the two characters that matter here.\<close>

fun demo_encode :: "string \<Rightarrow> string" where
  "demo_encode [] = []"
| "demo_encode (c # cs) =
     (if c = CHR ''&'' then ''%26'' else if c = CHR ''%'' then ''%25'' else [c]) @ demo_encode cs"

fun demo_decode :: "string \<Rightarrow> string" where
  "demo_decode (c # d # e # cs) =
     (if c = CHR ''%'' then (if e = CHR ''6'' then CHR ''&'' else CHR ''%'') # demo_decode cs
      else c # demo_decode (d # e # cs))"
| "demo_decode cs = cs"

lemma demo_decode_Cons: "c \<noteq> CHR ''%'' \<Longrightarrow> demo_decode (c # cs) = c # demo_decode cs"
  by (cases cs; cases "tl cs") auto

lemma demo_url_ok: "url_ok demo_encode (\<lambda>s. Ok (demo_decode s))"
proof -
  have "demo_decode (demo_encode m) = m \<and> CHR ''&'' \<notin> set (demo_encode m)" for m
    by (induction m) (auto simp: demo_decode_Cons)
  then show ?thesis
    by (simp add: url_ok_def)
qed

theorem payment_uri_roundtrip_witness:
  "let r = \<lparr>to_address = ''mxc1abc'', pay_amount_muon = 5, pay_memo = Some ''a&b'',
            pay_expires_at_ms = Some 7, pay_request_id = ''x''\<rparr> in
   url_ok demo_encode (\<lambda>s. Ok (demo_decode s)) \<and>
   from_uri (\<lambda>s. Ok (demo_decode s)) ''y'' (to_uri demo_encode r) = Ok (r\<lparr>pay_request_id := ''y''\<rparr>)"
  unfolding Let_def
  by (intro conjI demo_url_ok payment_uri_roundtrip) (simp_all add: demo_url_ok)

end
