(* ===== verification/Bloom.thy ===== *)
theory Bloom
  imports Prelude
begin

text \<open>
  \<open>mycelium-core/src/sync.rs\<close>: the Bloom filter two nodes exchange to find out which messages the other
  one lacks.  The 64-bit hash of a seed and an identifier (\<open>DefaultHasher\<close>, whose algorithm the standard
  library leaves open) is the parameter \<open>hash\<close>.
\<close>

section \<open>The filter\<close>

unbundle bit_operations_syntax

record BloomFilter =
  bloom_bits :: "u64 list"
  bloom_k :: u8

type_synonym bloom_hash = "string \<Rightarrow> u64 \<Rightarrow> u64"

definition bloom_new :: BloomFilter where
  "bloom_new = \<lparr>bloom_bits = replicate 128 0, bloom_k = 3\<rparr>"

text \<open>The bit position of one probe, and the body of the two loops.\<close>

definition bloom_bit :: "bloom_hash \<Rightarrow> string \<Rightarrow> nat \<Rightarrow> nat" where
  "bloom_bit hash i n = unat (hash i (of_nat n)) mod 8192"

definition set_probe :: "bloom_hash \<Rightarrow> string \<Rightarrow> nat \<Rightarrow> u64 list \<Rightarrow> u64 list" where
  "set_probe hash i n bs =
     (let bit = bloom_bit hash i n in
      bs[bit div 64 := (bs ! (bit div 64)) OR push_bit (bit mod 64) 1])"

definition bloom_insert :: "bloom_hash \<Rightarrow> string \<Rightarrow> BloomFilter \<Rightarrow> BloomFilter" where
  "bloom_insert hash i b = b\<lparr>bloom_bits := fold (set_probe hash i) [0..<unat (bloom_k b)] (bloom_bits b)\<rparr>"

definition probe_set :: "bloom_hash \<Rightarrow> string \<Rightarrow> nat \<Rightarrow> u64 list \<Rightarrow> bool" where
  "probe_set hash i n bs =
     (let bit = bloom_bit hash i n in (bs ! (bit div 64)) AND push_bit (bit mod 64) 1 \<noteq> 0)"

definition bloom_contains :: "bloom_hash \<Rightarrow> BloomFilter \<Rightarrow> string \<Rightarrow> bool" where
  "bloom_contains hash b i = (\<forall>n\<in>set [0..<unat (bloom_k b)]. probe_set hash i n (bloom_bits b))"

definition bloom_to_bytes :: "BloomFilter \<Rightarrow> bytes" where
  "bloom_to_bytes b = concat (map le64 (bloom_bits b))"

fun chunks8 :: "bytes \<Rightarrow> bytes list" where
  "chunks8 [] = []"
| "chunks8 (b # bs) = take 8 (b # bs) # chunks8 (drop 8 (b # bs))"

text \<open>\<open>try_into\<close> fails on a chunk that has not eight bytes.\<close>

fun words_of_chunks :: "bytes list \<Rightarrow> u64 list option" where
  "words_of_chunks [] = Some []"
| "words_of_chunks (c # cs) =
     (if length c = 8 then map_option (\<lambda>ws. of_nat (from_le c) # ws) (words_of_chunks cs) else None)"

definition bloom_from_bytes :: "bytes \<Rightarrow> BloomFilter option" where
  "bloom_from_bytes bs =
     (if length bs \<noteq> 1024 then None
      else map_option (\<lambda>ws. \<lparr>bloom_bits = ws, bloom_k = 3\<rparr>) (words_of_chunks (chunks8 bs)))"

definition bloom_ok :: "BloomFilter \<Rightarrow> bool" where
  "bloom_ok b \<longleftrightarrow> length (bloom_bits b) = 128 \<and> bloom_k b = 3"

section \<open>Bits of the filter\<close>

lemma bloom_bit_less: "bloom_bit hash i n div 64 < 128" "bloom_bit hash i n mod 64 < 64"
  by (simp_all add: bloom_bit_def less_mult_imp_div_less)

lemma probe_set_iff:
  "probe_set hash i n bs \<longleftrightarrow> bit (bs ! (bloom_bit hash i n div 64)) (bloom_bit hash i n mod 64)"
  by (simp only: probe_set_def Let_def bit_iff_and_push_bit_not_eq_0)

lemma length_set_probe [simp]: "length (set_probe hash i n bs) = length bs"
  by (simp add: set_probe_def Let_def)

lemma length_fold_set_probe [simp]: "length (fold (set_probe hash i) ns bs) = length bs"
  by (induction ns arbitrary: bs) simp_all

lemma probe_after_set:
  assumes "length bs = 128"
  shows "probe_set hash j m (set_probe hash i n bs) \<longleftrightarrow>
           probe_set hash j m bs \<or> bloom_bit hash j m = bloom_bit hash i n"
proof -
  let ?a = "bloom_bit hash i n" and ?b = "bloom_bit hash j m"
  have eq: "?b = ?a \<longleftrightarrow> ?b div 64 = ?a div 64 \<and> ?b mod 64 = ?a mod 64"
    by (metis div_mult_mod_eq)
  show ?thesis
    using assms bloom_bit_less [of hash i n] bloom_bit_less [of hash j m] unfolding eq
    by (auto simp: probe_set_iff set_probe_def Let_def nth_list_update bit_or_iff bit_exp_iff)
qed

lemma probe_after_fold:
  assumes "length bs = 128"
  shows "probe_set hash j m (fold (set_probe hash i) ns bs) \<longleftrightarrow>
           probe_set hash j m bs \<or> (\<exists>n\<in>set ns. bloom_bit hash j m = bloom_bit hash i n)"
  using assms by (induction ns arbitrary: bs) (auto simp: probe_after_set)

text \<open>What membership means: every probe of the identifier hits a probe of some inserted one.\<close>

lemma bloom_contains_insert:
  assumes "bloom_ok b"
  shows "bloom_contains hash (bloom_insert hash i b) j \<longleftrightarrow>
           (\<forall>m<3. probe_set hash j m (bloom_bits b) \<or> (\<exists>n<3. bloom_bit hash j m = bloom_bit hash i n))"
  using assms by (auto simp: bloom_ok_def bloom_contains_def bloom_insert_def probe_after_fold Ball_def Bex_def)

lemma bloom_ok_insert: "bloom_ok b \<Longrightarrow> bloom_ok (bloom_insert hash i b)"
  by (simp add: bloom_ok_def bloom_insert_def)

lemma bloom_ok_new: "bloom_ok bloom_new"
  by (simp add: bloom_ok_def bloom_new_def)

lemma bloom_ok_fold: "bloom_ok b \<Longrightarrow> bloom_ok (fold (bloom_insert hash) ids b)"
  by (induction ids arbitrary: b) (simp_all add: bloom_ok_insert)

lemma probe_fold_insert:
  assumes "bloom_ok b" "m < 3"
  shows "probe_set hash j m (bloom_bits (fold (bloom_insert hash) ids b)) \<longleftrightarrow>
           probe_set hash j m (bloom_bits b) \<or> (\<exists>i\<in>set ids. \<exists>n<3. bloom_bit hash j m = bloom_bit hash i n)"
  using assms
proof (induction ids arbitrary: b)
  case (Cons i ids)
  have "probe_set hash j m (bloom_bits (bloom_insert hash i b)) \<longleftrightarrow>
      probe_set hash j m (bloom_bits b) \<or> (\<exists>n<3. bloom_bit hash j m = bloom_bit hash i n)"
    using Cons(2) by (auto simp: bloom_ok_def bloom_insert_def probe_after_fold Bex_def)
  then show ?case
    using Cons by (auto simp: bloom_ok_insert)
qed simp

lemma probe_new [simp]: "\<not> probe_set hash j m (bloom_bits bloom_new)"
  using bloom_bit_less [of hash j m] by (simp add: probe_set_iff bloom_new_def)

section \<open>Bytes\<close>

lemma chunks8_concat: "chunks8 (concat (map le64 ws)) = map le64 ws"
proof (induction ws)
  case (Cons w ws)
  obtain b bs where l: "le64 w = b # bs"
    by (cases "le64 w") (use length_le64 [of w] in auto)
  have "take 8 (le64 w @ r) = le64 w" "drop 8 (le64 w @ r) = r" for r
    by simp_all
  then show ?case
    using Cons l by (metis append_Cons chunks8.simps(2) concat.simps(2) list.simps(9))
qed simp

lemma words_of_chunks_le64: "words_of_chunks (map le64 ws) = Some ws"
  by (induction ws) simp_all

lemma length_concat_le64: "length (concat (map le64 ws)) = 8 * length ws"
  by (induction ws) simp_all

lemma bloom_bytes_roundtrip: "bloom_ok b \<Longrightarrow> bloom_from_bytes (bloom_to_bytes b) = Some b"
  by (simp add: bloom_ok_def bloom_from_bytes_def bloom_to_bytes_def length_concat_le64 chunks8_concat
        words_of_chunks_le64)

lemma words_of_chunks_Some:
  "8 dvd length bs \<Longrightarrow> \<exists>ws. words_of_chunks (chunks8 bs) = Some ws \<and> concat (map le64 ws) = bs \<and> 8 * length ws = length bs"
proof (induction bs rule: chunks8.induct)
  case (2 b bs)
  then have len: "8 \<le> length (b # bs)"
    by (metis dvd_imp_le length_greater_0_conv list.distinct(1))
  then have "8 dvd length (drop 8 (b # bs))"
    using dvd_diff_nat [OF 2(2) dvd_refl] by (simp only: length_drop)
  then obtain ws where "words_of_chunks (chunks8 (drop 8 (b # bs))) = Some ws"
    "concat (map le64 ws) = drop 8 (b # bs)" "8 * length ws = length (drop 8 (b # bs))"
    using 2(1) by blast
  then show ?case
    using len le64_of_nat_from_le [of "take 8 (b # bs)"] append_take_drop_id [of 8 "b # bs"]
    by (auto simp del: take_Cons_numeral drop_Cons_numeral take_Suc_Cons drop_Suc_Cons)
qed simp

section \<open>Properties\<close>

text \<open>C10. What a peer learns from a filter: a filter built from a list of identifiers arrives unchanged over the
  wire, and it reports an identifier exactly when each of its three probes hits a probe of some inserted
  identifier; in particular it has no false negatives.\<close>

theorem bloom_membership:
  "let b = fold (bloom_insert hash) ids bloom_new in
   bloom_from_bytes (bloom_to_bytes b) = Some b \<and>
   (bloom_contains hash b j \<longleftrightarrow> (\<forall>m<3. \<exists>i\<in>set ids. \<exists>n<3. bloom_bit hash j m = bloom_bit hash i n)) \<and>
   (j \<in> set ids \<longrightarrow> bloom_contains hash b j)"
proof -
  let ?b = "fold (bloom_insert hash) ids bloom_new"
  have ok: "bloom_ok ?b"
    by (rule bloom_ok_fold [OF bloom_ok_new])
  then have "bloom_contains hash ?b j \<longleftrightarrow> (\<forall>m<3. probe_set hash j m (bloom_bits ?b))"
    by (auto simp: bloom_contains_def bloom_ok_def)
  then show ?thesis
    using bloom_bytes_roundtrip [OF ok] probe_fold_insert [OF bloom_ok_new] by (auto simp: Let_def)
qed

theorem bloom_membership_witness:
  "let b = fold (bloom_insert (\<lambda>_ s. s)) [''a'', ''b''] bloom_new in
   bloom_contains (\<lambda>_ s. s) b ''b'' \<and> bloom_from_bytes (bloom_to_bytes b) = Some b"
  using bloom_membership [of "\<lambda>_ s. s" "[''a'', ''b'']" "''b''"]
  unfolding Let_def by (elim conjE impE, simp_all only: conj_absorb list.set insert_iff simp_thms)

text \<open>Decoding a filter from the wire never reads past a short word: exactly the byte strings of length 1024
  decode, each to a well-formed filter of 128 words that encodes back to the same bytes.\<close>

theorem bloom_from_bytes_exact:
  "(bloom_from_bytes bs = None \<longleftrightarrow> length bs \<noteq> 1024) \<and>
   (\<forall>b. bloom_from_bytes bs = Some b \<longrightarrow> bloom_ok b \<and> bloom_to_bytes b = bs)"
proof (cases "length bs = 1024")
  case True
  then have "8 dvd length bs"
    by simp
  from words_of_chunks_Some [OF this] show ?thesis
    using True by (auto simp: bloom_from_bytes_def bloom_to_bytes_def bloom_ok_def)
qed (simp add: bloom_from_bytes_def)

theorem bloom_from_bytes_exact_witness:
  "\<exists>b. bloom_from_bytes (replicate 1024 7) = Some b \<and> bloom_to_bytes b = replicate 1024 7"
  using bloom_from_bytes_exact [of "replicate 1024 7"] by (simp del: replicate.simps) blast

end
