(* ===== verification/Framing.thy ===== *)
theory Framing
  imports Prelude
begin

text \<open>
  Framing and text formats of \<open>mycelium-core/src\<close>: the author frame inside end-to-end ciphertexts
  (\<open>e2e_direct_wrap.rs\<close>), invites (\<open>invite.rs\<close>) and the lists of dial targets kept in text files
  (\<open>bootstrap.rs\<close>), with what they use of Rust's \<open>str\<close>: UTF-8 validity, \<open>trim\<close> and \<open>lines\<close>.
\<close>

section \<open>Rust strings\<close>

definition cont_byte :: "u8 \<Rightarrow> bool" where
  "cont_byte b \<longleftrightarrow> 128 \<le> b \<and> b \<le> 191"

text \<open>\<open>std::str::from_utf8\<close>: well-formed UTF-8.\<close>

fun utf8_valid :: "bytes \<Rightarrow> bool" where
  "utf8_valid [] = True"
| "utf8_valid (b # bs) =
     (if b \<le> 127 then utf8_valid bs
      else if 194 \<le> b \<and> b \<le> 223 then
        (case bs of c1 # r \<Rightarrow> cont_byte c1 \<and> utf8_valid r | _ \<Rightarrow> False)
      else if 224 \<le> b \<and> b \<le> 239 then
        (case bs of
           c1 # c2 # r \<Rightarrow>
             (if b = 224 then 160 \<le> c1 \<and> c1 \<le> 191 else if b = 237 then 128 \<le> c1 \<and> c1 \<le> 159 else cont_byte c1)
             \<and> cont_byte c2 \<and> utf8_valid r
         | _ \<Rightarrow> False)
      else if 240 \<le> b \<and> b \<le> 244 then
        (case bs of
           c1 # c2 # c3 # r \<Rightarrow>
             (if b = 240 then 144 \<le> c1 \<and> c1 \<le> 191 else if b = 244 then 128 \<le> c1 \<and> c1 \<le> 143 else cont_byte c1)
             \<and> cont_byte c2 \<and> cont_byte c3 \<and> utf8_valid r
         | _ \<Rightarrow> False)
      else False)"

text \<open>The characters with the Unicode property \<open>White_Space\<close>, in UTF-8.\<close>

definition white_space :: "string list" where
  "white_space =
     map (\<lambda>n. [char_of (n::nat)]) [9, 10, 11, 12, 13, 32] @
     map (map (\<lambda>n. char_of (n::nat)))
       ([[194, 133], [194, 160], [225, 154, 128]] @ map (\<lambda>n. [226, 128, n]) ([128..<139] @ [168, 169, 175]) @
        [[226, 129, 159], [227, 128, 128]])"

lemma white_space_nonempty: "w \<in> set white_space \<Longrightarrow> w \<noteq> []"
  by (auto simp: white_space_def)

function trim_with :: "string list \<Rightarrow> string \<Rightarrow> string" where
  "trim_with ws s =
     (case find (\<lambda>w. w \<noteq> [] \<and> starts_with s w) ws of
        Some w \<Rightarrow> trim_with ws (drop (length w) s)
      | None \<Rightarrow> s)"
  by pat_completeness auto
termination
proof (relation "measure (\<lambda>(ws, s). length s)", goal_cases)
  case (2 ws s w)
  then have "w \<noteq> []" "starts_with s w"
    by (auto simp: find_Some_iff)
  then show ?case
    by (auto simp: starts_with_iff)
qed simp

declare trim_with.simps [simp del]

definition trim_start :: "string \<Rightarrow> string" where
  "trim_start s = trim_with white_space s"

definition trim_end :: "string \<Rightarrow> string" where
  "trim_end s = rev (trim_with (map rev white_space) (rev s))"

definition trim :: "string \<Rightarrow> string" where
  "trim s = trim_end (trim_start s)"

lemma length_trim_with: "length (trim_with ws s) \<le> length s"
proof (induction ws s rule: trim_with.induct)
  case (1 ws s)
  show ?case
  proof (cases "find (\<lambda>w. w \<noteq> [] \<and> starts_with s w) ws")
    case (Some w)
    with 1 [OF Some] show ?thesis
      by (subst trim_with.simps) simp
  qed (subst trim_with.simps, simp)
qed

lemma length_trim: "length (trim s) \<le> length s"
  using length_trim_with [of white_space s] length_trim_with [of "map rev white_space" "rev (trim_with white_space s)"]
  by (simp add: trim_def trim_start_def trim_end_def)

text \<open>\<open>str::lines\<close>: split at newlines, drop one carriage return before each, no empty last line.\<close>

definition lines :: "string \<Rightarrow> string list" where
  "lines s =
     (let parts = split_on (CHR 0x0A) s;
          parts' = (if last parts = [] then butlast parts else parts) in
      map (\<lambda>l. case strip_suffix [CHR 0x0D] l of Some l' \<Rightarrow> l' | None \<Rightarrow> l) parts')"

definition contains_str :: "string \<Rightarrow> string \<Rightarrow> bool" where
  "contains_str s p = (\<exists>i\<in>set [0..<length s + 1]. starts_with (drop i s) p)"

section \<open>End-to-end author frame\<close>

definition MAGIC :: bytes where "MAGIC = bytes_of ''MYCDR01'' @ [0]"
definition MAX_AUTHOR_BYTES :: nat where "MAX_AUTHOR_BYTES = 512"

text \<open>\<open>None\<close> is the failed assertion.\<close>

definition wrap_inner :: "string \<Rightarrow> bytes \<Rightarrow> bytes option" where
  "wrap_inner author_peer_id app =
     (let auth = bytes_of author_peer_id in
      if length auth \<le> MAX_AUTHOR_BYTES
      then Some (MAGIC @ rev (le32 (of_nat (length auth))) @ auth @ app) else None)"

definition unwrap_inner :: "bytes \<Rightarrow> string \<Rightarrow> string \<times> bytes" where
  "unwrap_inner dat relay_from =
     (if length dat < length MAGIC + 4 \<or> take (length MAGIC) dat \<noteq> MAGIC then (relay_from, dat)
      else
        let rest = drop (length MAGIC) dat in
        if length rest < 4 then (relay_from, dat)
        else
          let n = from_le (rev (take 4 rest)) in
          if n > MAX_AUTHOR_BYTES \<or> length rest < 4 + n then (relay_from, dat)
          else
            let author_bytes = take n (drop 4 rest);
                author = (if utf8_valid author_bytes then string_of_bytes author_bytes else []);
                author' = (if author = [] then relay_from else author);
                app = drop (4 + n) rest in
            (author', app))"

section \<open>Invites\<close>

definition PREFIX_V1 :: string where "PREFIX_V1 = ''mycelium://invite/v1#''"

definition encode_invite :: "string \<Rightarrow> string" where
  "encode_invite peer_id = PREFIX_V1 @ trim peer_id"

datatype InviteTarget = PeerIdTarget string | MultiaddrTarget string

definition looks_like_peer_id :: "string \<Rightarrow> bool" where
  "looks_like_peer_id s \<longleftrightarrow> length s \<ge> 40 \<and> starts_with s ''12D3Koo''"

text \<open>\<open>parse::<u16>\<close> succeeds.\<close>

definition parse_u16_ok :: "string \<Rightarrow> bool" where
  "parse_u16_ok s = (case parse_u64 s of Some n \<Rightarrow> unat n < 2 ^ 16 | None \<Rightarrow> False)"

definition legacy_host_port_to_multiaddr :: "string \<Rightarrow> InviteTarget option" where
  "legacy_host_port_to_multiaddr input =
     (case split_on (CHR ''@'') input of
        [p0, p1] \<Rightarrow>
          let peer_id = trim p0 in
          (case split_on (CHR '':'') p1 of
             [host, port] \<Rightarrow>
               if peer_id = [] then None
               else if \<not> parse_u16_ok port then None
               else Some (MultiaddrTarget (''/ip4/'' @ host @ ''/tcp/'' @ port @ ''/p2p/'' @ peer_id))
           | _ \<Rightarrow> None)
      | _ \<Rightarrow> None)"

definition parse_invite :: "string \<Rightarrow> InviteTarget option" where
  "parse_invite raw =
     (let input = trim raw in
      if input = [] then None
      else
        case strip_prefix PREFIX_V1 input of
          Some p \<Rightarrow> let peer_id = trim p in if peer_id = [] then None else Some (PeerIdTarget peer_id)
        | None \<Rightarrow>
            if starts_with input ''/'' then Some (MultiaddrTarget input)
            else if looks_like_peer_id input then Some (PeerIdTarget input)
            else legacy_host_port_to_multiaddr input)"

section \<open>Dial targets\<close>

definition RELAY_IPV4 :: string where "RELAY_IPV4 = ''149.248.194.198''"

definition RELAY_PEER_ID :: string where
  "RELAY_PEER_ID = ''12D3KooWSkVL5ThExB7paWskDKc2pUobKrV9yWVabMpUdw8hE2wj''"

definition is_relay_peer :: "string \<Rightarrow> bool" where
  "is_relay_peer peer_id = (trim peer_id = RELAY_PEER_ID)"

definition BOOTSTRAP_PEERS :: "string list" where
  "BOOTSTRAP_PEERS =
     [''/ip4/149.248.194.198/tcp/4001/p2p/12D3KooWSkVL5ThExB7paWskDKc2pUobKrV9yWVabMpUdw8hE2wj'',
      ''/ip4/149.248.194.198/udp/4001/quic-v1/p2p/12D3KooWSkVL5ThExB7paWskDKc2pUobKrV9yWVabMpUdw8hE2wj'']"

definition relay_circuit_multiaddr :: "string \<Rightarrow> string option" where
  "relay_circuit_multiaddr remote_peer_id =
     (let remote = trim remote_peer_id in
      if remote = [] then None
      else case find (\<lambda>addr. contains_str addr ''/tcp/'') BOOTSTRAP_PEERS of
             None \<Rightarrow> None
           | Some base \<Rightarrow> Some (base @ ''/p2p-circuit/p2p/'' @ remote))"

fun to_dial_multiaddr :: "InviteTarget \<Rightarrow> string option" where
  "to_dial_multiaddr (MultiaddrTarget addr) = Some addr"
| "to_dial_multiaddr (PeerIdTarget i) = relay_circuit_multiaddr i"

definition shareable_dial_multiaddrs :: "string \<Rightarrow> string list \<Rightarrow> string list" where
  "shareable_dial_multiaddrs local_peer_id listen_addrs =
     [encode_invite local_peer_id] @
     (case relay_circuit_multiaddr local_peer_id of Some c \<Rightarrow> [c] | None \<Rightarrow> []) @
     concat (map (\<lambda>addr. let trimmed = trim addr in
                         if trimmed = [] then []
                         else if contains_str trimmed ''/p2p/'' then [trimmed]
                         else [trimmed @ ''/p2p/'' @ local_peer_id]) listen_addrs)"

text \<open>The files below the database directory, by directory and file name; \<open>None\<close> is a file that does not
  exist or cannot be read.  Writes are taken to succeed.\<close>

type_synonym file_system = "string \<times> string \<Rightarrow> string option"

definition read_peer_lines :: "string \<Rightarrow> string list" where
  "read_peer_lines content =
     filter (\<lambda>l. l \<noteq> [] \<and> \<not> starts_with l ''#'') (map trim (lines content))"

definition load_custom_bootstrap_peers :: "file_system \<Rightarrow> string \<Rightarrow> string list" where
  "load_custom_bootstrap_peers fs db =
     (case fs (db, ''bootstrap.txt'') of None \<Rightarrow> [] | Some content \<Rightarrow> read_peer_lines content)"

definition load_bootstrap_peers :: "string option \<Rightarrow> file_system \<Rightarrow> string \<Rightarrow> string list" where
  "load_bootstrap_peers env_var fs db =
     (let from_env = (case env_var of
                        Some v \<Rightarrow> filter (\<lambda>s. s \<noteq> []) (map trim (split_on (CHR '','') v))
                      | None \<Rightarrow> []) in
      if from_env \<noteq> [] then from_env
      else
        let from_file = load_custom_bootstrap_peers fs db in
        if from_file \<noteq> [] then from_file else BOOTSTRAP_PEERS)"

definition DIAL_PEERS_FILE :: string where "DIAL_PEERS_FILE = ''dial_peers.txt''"

definition load_persisted_dial_peers :: "file_system \<Rightarrow> string \<Rightarrow> string list" where
  "load_persisted_dial_peers fs db =
     (case fs (db, DIAL_PEERS_FILE) of None \<Rightarrow> [] | Some content \<Rightarrow> read_peer_lines content)"

fun join_with :: "char \<Rightarrow> string list \<Rightarrow> string" where
  "join_with c [] = []"
| "join_with c [x] = x"
| "join_with c (x # y # ys) = x @ c # join_with c (y # ys)"

definition persist_dial_peer :: "file_system \<Rightarrow> string \<Rightarrow> string \<Rightarrow> file_system" where
  "persist_dial_peer fs db multiaddr =
     (let trimmed = trim multiaddr in
      if trimmed = [] then fs
      else
        let peers = load_persisted_dial_peers fs db in
        if trimmed \<in> set peers then fs
        else fs((db, DIAL_PEERS_FILE) \<mapsto> join_with (CHR 0x0A) (peers @ [trimmed])))"

definition save_custom_bootstrap_peers :: "file_system \<Rightarrow> string \<Rightarrow> string list \<Rightarrow> file_system" where
  "save_custom_bootstrap_peers fs db peers =
     (if peers = [] then fs((db, ''bootstrap.txt'') := None)
      else fs((db, ''bootstrap.txt'') \<mapsto> join_with (CHR 0x0A) peers))"

section \<open>Author frame: round trip\<close>

lemma length_MAGIC [simp]: "length MAGIC = 8"
  by (simp add: MAGIC_def)

lemma from_le_le32: "n < 2 ^ 32 \<Longrightarrow> from_le (le32 (of_nat n)) = n"
  by (simp add: le32_def from_le_to_le unat_of_nat)

text \<open>The recipient of a relayed end-to-end message learns its author: unwrapping what \<open>wrap_inner\<close> built
  gives back the author and the payload, whoever relayed it, and a text without the frame's magic is
  passed on whole with the relay as author.\<close>

theorem wrap_unwrap_inner:
  assumes "utf8_valid (bytes_of author)" "author \<noteq> []" "length author \<le> MAX_AUTHOR_BYTES"
  shows "(\<exists>d. wrap_inner author app = Some d \<and> unwrap_inner d relay = (author, app)) \<and>
         (take 8 app \<noteq> MAGIC \<longrightarrow> unwrap_inner app relay = (relay, app))"
proof -
  have n: "from_le (le32 (of_nat (length author))) = length author"
    using assms(3) by (intro from_le_le32) (simp add: MAX_AUTHOR_BYTES_def)
  show ?thesis
    using assms n by (simp add: wrap_inner_def unwrap_inner_def Let_def)
qed

theorem wrap_unwrap_inner_witness:
  "\<exists>d. wrap_inner ''peer'' [1, 2] = Some d \<and> unwrap_inner d ''relay'' = (''peer'', [1, 2])"
  using wrap_unwrap_inner [of "''peer''" "[1, 2]" "''relay''"]
  by (simp add: bytes_of_def MAX_AUTHOR_BYTES_def)

section \<open>Invites: round trip\<close>

lemma trim_with_result: "find (\<lambda>w. w \<noteq> [] \<and> starts_with (trim_with ws s) w) ws = None"
proof (induction ws s rule: trim_with.induct)
  case (1 ws s)
  then show ?case
    by (subst trim_with.simps) (auto split: option.split simp del: find_None_iff)
qed

lemma trim_with_fixed: "(\<And>w. w \<in> set ws \<Longrightarrow> w \<noteq> [] \<Longrightarrow> \<not> starts_with s w) \<Longrightarrow> trim_with ws s = s"
  by (subst trim_with.simps) (auto simp: find_None_iff split: option.split dest!: find_Some_iff [THEN iffD1])

lemma trim_with_none: "w \<in> set ws \<Longrightarrow> w \<noteq> [] \<Longrightarrow> \<not> starts_with (trim_with ws s) w"
  using trim_with_result [of ws s] by (auto simp: find_None_iff)

text \<open>White space characters share no byte with printable ASCII.\<close>

lemma white_space_bytes: "w \<in> set white_space \<Longrightarrow> c \<in> set w \<Longrightarrow> of_char c \<le> (32::nat) \<or> 128 \<le> (of_char c :: nat)"
  by (auto simp: white_space_def)

lemma not_starts_with_white:
  assumes "w \<in> set ws" "set ws \<subseteq> set white_space \<union> rev ` set white_space"
    and "32 < (of_char c :: nat)" "(of_char c :: nat) < 128" "w \<noteq> []"
  shows "\<not> starts_with (c # s) w"
proof
  assume "starts_with (c # s) w"
  then have "c \<in> set w"
    using assms(5) by (cases w) (auto simp: starts_with_def)
  moreover have "\<exists>v\<in>set white_space. set w = set v"
  proof (cases "w \<in> set white_space")
    case False
    then obtain v where "v \<in> set white_space" "w = rev v"
      using assms(1,2) by blast
    then show ?thesis
      by (intro bexI [of _ v]) simp_all
  qed blast
  ultimately show False
    using white_space_bytes assms(3,4) by fastforce
qed

text \<open>Appending to a text that ends in printable ASCII does not let white space in.\<close>

lemma starts_with_append_white:
  assumes "w \<in> rev ` set white_space" "32 < (of_char c :: nat)" "(of_char c :: nat) < 128"
    and "starts_with (t @ c # s) w"
  shows "starts_with t w"
proof -
  have "c \<notin> set w"
    using assms(1-3) white_space_bytes by fastforce
  then have "length w \<le> length t"
  proof (rule contrapos_np)
    assume "\<not> length w \<le> length t"
    then have "w ! length t = c" "length t < length w"
      using assms(4) unfolding starts_with_def by (metis not_le nth_append_length nth_take)+
    then show "c \<in> set w"
      by (metis nth_mem)
  qed
  then show ?thesis
    using assms(4) by (simp add: starts_with_def)
qed

lemma trim_with_suffix: "\<exists>x. s = x @ trim_with ws s"
proof (induction ws s rule: trim_with.induct)
  case (1 ws s)
  show ?case
  proof (cases "find (\<lambda>w. w \<noteq> [] \<and> starts_with s w) ws")
    case (Some w)
    then have "starts_with s w"
      by (auto simp: find_Some_iff)
    then obtain r where r: "s = w @ r"
      by (auto simp: starts_with_iff)
    obtain x where "r = x @ trim_with ws r"
      using 1 [OF Some] r by auto
    then have "s = (w @ x) @ trim_with ws r"
      using r by simp
    moreover have "trim_with ws s = trim_with ws r"
      using Some r by (subst trim_with.simps) simp
    ultimately show ?thesis
      by metis
  qed (subst trim_with.simps, simp)
qed

lemma trim_end_prefix: "\<exists>y. s = trim_end s @ y"
  using trim_with_suffix [of "rev s" "map rev white_space"]
  by (metis rev_append rev_rev_ident trim_end_def)

lemma trim_end_fixed: "(\<And>w. w \<in> rev ` set white_space \<Longrightarrow> \<not> starts_with (rev s) w) \<Longrightarrow> trim_end s = s"
  using trim_with_fixed [of "map rev white_space" "rev s"] by (simp add: trim_end_def)

lemma trim_end_none: "w \<in> rev ` set white_space \<Longrightarrow> \<not> starts_with (rev (trim_end s)) w"
  using trim_with_none [of w "map rev white_space" "rev s"] white_space_nonempty by (auto simp: trim_end_def)

lemma trim_start_fixed: "(\<And>w. w \<in> set white_space \<Longrightarrow> \<not> starts_with s w) \<Longrightarrow> trim_start s = s"
  using trim_with_fixed [of white_space s] by (simp add: trim_start_def)

lemma trim_start_none: "w \<in> set white_space \<Longrightarrow> \<not> starts_with (trim_start s) w"
  using trim_with_none white_space_nonempty by (simp add: trim_start_def)

lemma trim_end_trim: "trim_end (trim s) = trim s"
  using trim_end_none by (intro trim_end_fixed) (simp add: trim_def)

lemma trim_idem [simp]: "trim (trim s) = trim s"
proof -
  obtain y where y: "trim_start s = trim s @ y"
    using trim_end_prefix [of "trim_start s"] by (auto simp: trim_def)
  have "trim_start (trim s) = trim s"
  proof (rule trim_start_fixed)
    fix w
    assume "w \<in> set white_space"
    then have "\<not> starts_with (trim s @ y) w"
      using trim_start_none [of w s] y by simp
    then show "\<not> starts_with (trim s) w"
      by (auto simp: starts_with_iff)
  qed
  then show ?thesis
    by (simp add: trim_def [of "trim s"] trim_end_trim)
qed

lemma trim_printable:
  assumes "\<And>c. c \<in> set s \<Longrightarrow> 32 < (of_char c :: nat) \<and> (of_char c :: nat) < 128"
  shows "trim s = s"
proof -
  have *: "\<not> starts_with r w" if "w \<in> set white_space \<union> rev ` set white_space" "set r \<subseteq> set s" for r w
  proof (cases r)
    case Nil
    then show ?thesis
      using that white_space_nonempty by (auto simp: starts_with_def)
  next
    case (Cons c t)
    then show ?thesis
      using that assms [of c] not_starts_with_white [of w "white_space @ map rev white_space" c t] white_space_nonempty by auto
  qed
  have "trim_start s = s"
    by (rule trim_start_fixed) (use * in auto)
  moreover have "trim_end s = s"
    by (rule trim_end_fixed) (use * [of _ "rev s"] in auto)
  ultimately show ?thesis
    by (simp add: trim_def)
qed

lemma trim_prefixed: "trim (PREFIX_V1 @ trim p) = PREFIX_V1 @ trim p"
proof -
  have "trim_start (PREFIX_V1 @ trim p) = PREFIX_V1 @ trim p"
    using not_starts_with_white [of _ white_space "CHR ''m''"] white_space_nonempty
    by (intro trim_start_fixed) (auto simp: PREFIX_V1_def)
  moreover have "trim_end (PREFIX_V1 @ trim p) = PREFIX_V1 @ trim p"
  proof (rule trim_end_fixed)
    fix w
    assume w: "w \<in> rev ` set white_space"
    have "\<not> starts_with (rev (trim p)) w"
      using trim_end_none [OF w, of "trim p"] by (simp add: trim_end_trim)
    then show "\<not> starts_with (rev (PREFIX_V1 @ trim p)) w"
      using starts_with_append_white [OF w, of "CHR ''#''" "rev (trim p)"] by (auto simp: PREFIX_V1_def)
  qed
  ultimately show ?thesis
    by (simp add: trim_def [of "PREFIX_V1 @ trim p"])
qed

text \<open>An invite code is read back as the peer it was made for, and it leads to a dial address through the
  public relay: the peer identifier without surrounding white space, behind the relay's circuit address.\<close>

theorem invite_roundtrip:
  assumes "trim peer \<noteq> []"
  shows "parse_invite (encode_invite peer) = Some (PeerIdTarget (trim peer)) \<and>
         to_dial_multiaddr (PeerIdTarget (trim peer)) =
           Some (''/ip4/'' @ RELAY_IPV4 @ ''/tcp/4001/p2p/'' @ RELAY_PEER_ID @ ''/p2p-circuit/p2p/'' @ trim peer)"
proof -
  have "contains_str (hd BOOTSTRAP_PEERS) ''/tcp/''"
    unfolding contains_str_def
    by (rule bexI [of _ 20]) (simp_all add: BOOTSTRAP_PEERS_def starts_with_def del: upt_Suc)
  then have "find (\<lambda>addr. contains_str addr ''/tcp/'') BOOTSTRAP_PEERS = Some (hd BOOTSTRAP_PEERS)"
    by (simp add: BOOTSTRAP_PEERS_def)
  then show ?thesis
    using assms trim_prefixed [of peer]
    by (simp add: parse_invite_def encode_invite_def Let_def relay_circuit_multiaddr_def)
      (simp add: BOOTSTRAP_PEERS_def RELAY_IPV4_def RELAY_PEER_ID_def PREFIX_V1_def)
qed

theorem invite_roundtrip_witness:
  "trim ''12D3KooWabc'' \<noteq> [] \<and> parse_invite (encode_invite ''12D3KooWabc'') = Some (PeerIdTarget (trim ''12D3KooWabc''))"
proof -
  have "trim ''12D3KooWabc'' = ''12D3KooWabc''"
  proof -
    have "trim_start ''12D3KooWabc'' = ''12D3KooWabc''"
      using not_starts_with_white [of _ white_space "CHR ''1''"] white_space_nonempty
      by (intro trim_start_fixed) auto
    moreover have "trim_end ''12D3KooWabc'' = ''12D3KooWabc''"
      using not_starts_with_white [of _ "map rev white_space" "CHR ''c''"] white_space_nonempty
      by (intro trim_end_fixed) auto
    ultimately show ?thesis
      by (simp add: trim_def)
  qed
  then show ?thesis
    using invite_roundtrip [of "''12D3KooWabc''"] by simp
qed

end
