(* ===== verification/Windows.thy ===== *)
theory Windows
  imports Prelude
begin

text \<open>
  The two windows of message identifiers a node keeps to drop what it has seen: \<open>BasicSeenCache\<close> of
  \<open>mycelium-node/src/node.rs\<close> and the entry of one author in \<open>AuthorReplayWindow\<close> of
  \<open>ingest_guard.rs\<close>.  Both keep a set and a queue.  The locale \<open>id_window\<close> says what their
  clients rely on: the window is the list of the last \<open>cap\<close> distinct identifiers.
\<close>

section \<open>The interface\<close>

locale id_window =
  fixes mem :: "'s \<Rightarrow> 'k \<Rightarrow> bool"
    and ins :: "'k \<Rightarrow> 's \<Rightarrow> 's"
    and hist :: "'s \<Rightarrow> 'k list"
    and cap :: "'s \<Rightarrow> nat"
    and ok :: "'s \<Rightarrow> bool"
  assumes mem_hist: "ok s \<Longrightarrow> mem s x \<longleftrightarrow> x \<in> set (hist s)"
    and ok_ins: "ok s \<Longrightarrow> ok (ins x s)"
    and ok_bound: "ok s \<Longrightarrow> length (hist s) \<le> cap s \<and> distinct (hist s)"
    and cap_ins: "ok s \<Longrightarrow> cap (ins x s) = cap s"
    and hist_ins: "ok s \<Longrightarrow> hist (ins x s) =
      (if x \<in> set (hist s) then hist s else drop (Suc (length (hist s)) - cap s) (hist s @ [x]))"
begin

lemma mem_ins_other:
  assumes "ok s" "mem (ins y s) x" "x \<noteq> y"
  shows "mem s x"
  using assms by (auto simp: mem_hist ok_ins hist_ins dest: in_set_dropD split: if_splits)

lemma mem_ins_same: "ok s \<Longrightarrow> 0 < cap s \<Longrightarrow> mem (ins x s) x"
  using ok_bound [of s] by (auto simp: mem_hist ok_ins hist_ins Suc_diff_le split: if_splits)

lemma ok_fold: "ok s \<Longrightarrow> ok (fold ins ys s) \<and> cap (fold ins ys s) = cap s"
  by (induction ys arbitrary: s) (simp_all add: ok_ins cap_ins)

text \<open>An identifier at position \<open>i\<close> from the young end survives \<open>cap - 1 - i\<close> more insertions.\<close>

lemma young_survives:
  "ok s \<Longrightarrow> \<exists>a b. hist s = a @ x # b \<and> length b + length ys < cap s \<Longrightarrow> mem (fold ins ys s) x"
proof (induction ys arbitrary: s)
  case Nil
  then show ?case
    by (auto simp: mem_hist)
next
  case (Cons y ys)
  obtain a b where ab: "hist s = a @ x # b" "length b + length (y # ys) < cap s"
    using Cons(3) by blast
  have "\<exists>a' b'. hist (ins y s) = a' @ x # b' \<and> length b' + length ys < cap (ins y s)"
  proof (cases "y \<in> set (hist s)")
    case True
    then show ?thesis
      using ab Cons(2) by (intro exI [of _ a] exI [of _ b]) (simp add: hist_ins cap_ins)
  next
    case False
    let ?d = "Suc (length (hist s)) - cap s"
    have "?d \<le> length a"
      using ab ok_bound [OF Cons(2)] by simp
    then have "hist (ins y s) = drop ?d a @ x # (b @ [y])"
      using False ab(1) Cons(2) by (simp add: hist_ins)
    then show ?thesis
      using ab(2) Cons(2) by (intro exI [of _ "drop ?d a"] exI [of _ "b @ [y]"]) (simp add: cap_ins)
  qed
  then show ?case
    using Cons(1) [of "ins y s"] Cons(2) by (simp add: ok_ins)
qed

lemma remembered:
  assumes "ok s" "\<not> mem s x" "length ys < cap s"
  shows "mem (fold ins ys (ins x s)) x"
proof (rule young_survives [OF ok_ins [OF assms(1)]])
  have "hist (ins x s) = drop (Suc (length (hist s)) - cap s) (hist s) @ [x]"
    using assms ok_bound [OF assms(1)] by (simp add: hist_ins mem_hist Suc_diff_le)
  then show "\<exists>a b. hist (ins x s) = a @ x # b \<and> length b + length ys < cap (ins x s)"
    using assms
    by (intro exI [of _ "drop (Suc (length (hist s)) - cap s) (hist s)"] exI [of _ "[]"]) (simp add: cap_ins)
qed

end

section \<open>Evicting from the front\<close>

text \<open>The loop \<open>while order.len() > cap\<close> that both structures run after a push.\<close>

fun evict :: "nat \<Rightarrow> 'k list \<Rightarrow> 'k set \<Rightarrow> 'k list \<times> 'k set" where
  "evict cap [] S = ([], S)"
| "evict cap (old # rest) S =
     (if length (old # rest) > cap then evict cap rest (S - {old}) else (old # rest, S))"

lemma evict_drop:
  "distinct xs \<Longrightarrow> evict cap xs (set xs) = (drop (length xs - cap) xs, set (drop (length xs - cap) xs))"
proof (induction xs)
  case (Cons x xs)
  then have "set (x # xs) - {x} = set xs"
    by auto
  with Cons show ?case
    by (auto simp: Suc_diff_le)
qed simp

lemma distinct_push_drop: "distinct xs \<Longrightarrow> x \<notin> set xs \<Longrightarrow> distinct (drop n (xs @ [x]))"
  by (rule distinct_drop) simp

section \<open>Seen cache\<close>

record BasicSeenCache =
  sc_cap :: nat
  sc_order :: "string list"
  sc_set :: "string set"

definition seen_new :: "nat \<Rightarrow> BasicSeenCache" where
  "seen_new c = \<lparr>sc_cap = c, sc_order = [], sc_set = {}\<rparr>"

definition seen_len :: "BasicSeenCache \<Rightarrow> nat" where
  "seen_len s = card (sc_set s)"

definition seen_contains :: "BasicSeenCache \<Rightarrow> string \<Rightarrow> bool" where
  "seen_contains s message_id = (message_id \<in> sc_set s)"

definition seen_insert :: "string \<Rightarrow> BasicSeenCache \<Rightarrow> BasicSeenCache" where
  "seen_insert message_id s =
     (let order = (if message_id \<notin> sc_set s then sc_order s @ [message_id] else sc_order s);
          (order', set') = evict (sc_cap s) order (insert message_id (sc_set s)) in
      s\<lparr>sc_order := order', sc_set := set'\<rparr>)"

definition seen_ok :: "BasicSeenCache \<Rightarrow> bool" where
  "seen_ok s \<longleftrightarrow> sc_set s = set (sc_order s) \<and> distinct (sc_order s) \<and> length (sc_order s) \<le> sc_cap s"

lemma seen_insert_ok:
  assumes "seen_ok s"
  shows "seen_insert x s = s\<lparr>sc_order := (if x \<in> set (sc_order s) then sc_order s
           else drop (Suc (length (sc_order s)) - sc_cap s) (sc_order s @ [x])),
         sc_set := set (if x \<in> set (sc_order s) then sc_order s
           else drop (Suc (length (sc_order s)) - sc_cap s) (sc_order s @ [x]))\<rparr>"
proof (cases "x \<in> set (sc_order s)")
  case True
  then have "insert x (sc_set s) = set (sc_order s)"
    using assms by (auto simp: seen_ok_def)
  then show ?thesis
    using True assms evict_drop [of "sc_order s" "sc_cap s"]
    by (simp add: seen_insert_def seen_ok_def Let_def)
next
  case False
  then have "insert x (sc_set s) = set (sc_order s @ [x])" "distinct (sc_order s @ [x])"
    using assms by (auto simp: seen_ok_def)
  then show ?thesis
    using False assms evict_drop [of "sc_order s @ [x]" "sc_cap s"]
    by (simp add: seen_insert_def seen_ok_def Let_def del: drop_append set_append)
qed

lemma seen_ok_insert:
  assumes "seen_ok s"
  shows "seen_ok (seen_insert x s)"
  using assms
  by (auto simp: seen_insert_ok [OF assms] seen_ok_def distinct_push_drop simp del: drop_append)

interpretation seen: id_window seen_contains seen_insert sc_order sc_cap seen_ok
  by unfold_locales
    (simp_all add: seen_ok_insert, simp_all add: seen_insert_ok, simp_all add: seen_contains_def seen_ok_def)

lemma seen_ok_new [simp]: "seen_ok (seen_new c)"
  by (simp add: seen_ok_def seen_new_def)

section \<open>Replay window of one author\<close>

record author_window =
  aw_max :: nat
  aw_set :: "string set"
  aw_order :: "string list"

definition aw_new :: "nat \<Rightarrow> author_window" where
  "aw_new n = \<lparr>aw_max = n, aw_set = {}, aw_order = []\<rparr>"

text \<open>\<open>is_duplicate\<close> on the entry of the author: the answer and the entry after it.\<close>

definition aw_is_duplicate :: "string \<Rightarrow> author_window \<Rightarrow> bool \<times> author_window" where
  "aw_is_duplicate message_id w =
     (if message_id \<in> aw_set w then (True, w)
      else
        let (order', set') = evict (aw_max w) (aw_order w @ [message_id]) (insert message_id (aw_set w)) in
        (False, w\<lparr>aw_set := set', aw_order := order'\<rparr>))"

definition aw_mem :: "author_window \<Rightarrow> string \<Rightarrow> bool" where
  "aw_mem w x = (x \<in> aw_set w)"

definition aw_ok :: "author_window \<Rightarrow> bool" where
  "aw_ok w \<longleftrightarrow> aw_set w = set (aw_order w) \<and> distinct (aw_order w) \<and> length (aw_order w) \<le> aw_max w"

lemma aw_is_duplicate_fst: "fst (aw_is_duplicate x w) = aw_mem w x"
  by (simp add: aw_is_duplicate_def aw_mem_def split: prod.splits)

lemma aw_is_duplicate_ok:
  assumes "aw_ok w"
  shows "snd (aw_is_duplicate x w) =
           (if x \<in> set (aw_order w) then w
            else w\<lparr>aw_set := set (drop (Suc (length (aw_order w)) - aw_max w) (aw_order w @ [x])),
                   aw_order := drop (Suc (length (aw_order w)) - aw_max w) (aw_order w @ [x])\<rparr>)"
proof (cases "x \<in> set (aw_order w)")
  case False
  then have "insert x (aw_set w) = set (aw_order w @ [x])" "distinct (aw_order w @ [x])"
    using assms by (auto simp: aw_ok_def)
  then show ?thesis
    using False assms evict_drop [of "aw_order w @ [x]" "aw_max w"]
    by (simp add: aw_is_duplicate_def aw_ok_def del: drop_append set_append)
qed (use assms in \<open>simp add: aw_is_duplicate_def aw_ok_def\<close>)

lemma aw_ok_dup:
  assumes "aw_ok w"
  shows "aw_ok (snd (aw_is_duplicate x w))"
  using assms
  by (auto simp: aw_is_duplicate_ok [OF assms] aw_ok_def distinct_push_drop simp del: drop_append)

interpretation aw: id_window aw_mem "\<lambda>x w. snd (aw_is_duplicate x w)" aw_order aw_max aw_ok
  by unfold_locales
    (simp_all add: aw_ok_dup, simp_all add: aw_is_duplicate_ok, simp_all add: aw_mem_def aw_ok_def)

lemma aw_ok_new [simp]: "aw_ok (aw_new n)"
  by (simp add: aw_ok_def aw_new_def)

end
