(* ===== verification/Envelopes.thy ===== *)
theory Envelopes
  imports Crypto
begin

text \<open>
  \<open>mycelium-core/src/data.rs\<close> and \<open>transport.rs\<close>: the envelope every mesh message travels in, the bytes its
  signature covers, the wire messages, and the scope patterns.  The clock reading and the crypto packages
  are arguments; a \<open>libp2p::PeerId\<close> is the pair of its multihash code and digest.
\<close>

section \<open>Envelopes\<close>

type_synonym peer_id = "nat \<times> bytes"
type_synonym ContentId = string

definition SIG_V1_LAUNCH_MS :: u64 where "SIG_V1_LAUNCH_MS = 1779430651000"
definition SIG_TRANSITION_MS :: u64 where "SIG_TRANSITION_MS = 7 * 24 * 60 * 60 * 1000"

datatype Priority = Low | Normal | High

record Envelope =
  env_id :: ContentId
  from_peer :: string
  to_peer :: "string option"
  payload :: bytes
  created_at_ms :: u64
  ttl_secs :: u32
  priority :: Priority
  signature :: "bytes option"
  sig_version :: u8
  hop_count :: u8
  max_hops :: u8
  author_peer :: "string option"

definition content_id_from_bytes :: "crypto \<Rightarrow> bytes \<Rightarrow> ContentId" where
  "content_id_from_bytes cr b = to_hex cr (blake3 cr b)"

definition default_max_hops :: u8 where "default_max_hops = 8"

definition envelope_new :: "crypto \<Rightarrow> u64 \<Rightarrow> string \<Rightarrow> string option \<Rightarrow> bytes \<Rightarrow> Envelope" where
  "envelope_new cr now from to pl =
     (let digest_input = bytes_of from @ pl @ le64 now in
      \<lparr>env_id = content_id_from_bytes cr digest_input, from_peer = from, to_peer = to, payload = pl,
       created_at_ms = now, ttl_secs = 7 * 24 * 60 * 60, priority = Normal, signature = None,
       sig_version = 1, hop_count = 0, max_hops = default_max_hops, author_peer = None\<rparr>)"

definition envelope_new_unsigned :: "crypto \<Rightarrow> u64 \<Rightarrow> string \<Rightarrow> string option \<Rightarrow> bytes \<Rightarrow> Envelope" where
  "envelope_new_unsigned cr now from to pl =
     (envelope_new cr now from to pl)\<lparr>signature := None, sig_version := 0\<rparr>"

text \<open>\<open>priority as u8\<close>.\<close>

fun priority_byte :: "Priority \<Rightarrow> u8" where
  "priority_byte Low = 0"
| "priority_byte Normal = 1"
| "priority_byte High = 2"

definition bytes_for_signing_v0 :: "Envelope \<Rightarrow> bytes" where
  "bytes_for_signing_v0 e =
     bytes_of (from_peer e) @ (case to_peer e of Some to \<Rightarrow> bytes_of to | None \<Rightarrow> []) @ payload e @
     le64 (created_at_ms e) @ le32 (ttl_secs e) @ [priority_byte (priority e), hop_count e, max_hops e]"

definition bytes_for_signing :: "Envelope \<Rightarrow> bytes" where
  "bytes_for_signing e =
     bytes_of (env_id e) @ bytes_of (from_peer e) @
     (case to_peer e of Some to \<Rightarrow> bytes_of to | None \<Rightarrow> []) @ payload e @
     le64 (created_at_ms e) @ le32 (ttl_secs e) @ [priority_byte (priority e), hop_count e, max_hops e]"

definition envelope_sign :: "crypto \<Rightarrow> keypair \<Rightarrow> Envelope \<Rightarrow> unit result \<times> Envelope" where
  "envelope_sign cr kp e =
     (let e1 = e\<lparr>sig_version := 1\<rparr> in
      case kp_sign cr kp (bytes_for_signing e1) of
        Inl err \<Rightarrow> (Err (''failed to sign envelope: '' @ err), e1)
      | Inr sig \<Rightarrow> (Ok (), e1\<lparr>signature := Some sig\<rparr>))"

definition envelope_verify :: "crypto \<Rightarrow> Envelope \<Rightarrow> peer_id \<Rightarrow> bool" where
  "envelope_verify cr e pid =
     (case signature e of
        None \<Rightarrow> False
      | Some sig \<Rightarrow>
          let bytes = (if sig_version e = 0 then bytes_for_signing_v0 e else bytes_for_signing e) in
          if fst pid \<noteq> 0 then False
          else case pk_decode cr (snd pid) of
                 None \<Rightarrow> False
               | Some pk \<Rightarrow> pk_verify cr pk bytes sig)"

definition signature_author_peer :: "Envelope \<Rightarrow> string" where
  "signature_author_peer e = (case author_peer e of Some a \<Rightarrow> a | None \<Rightarrow> from_peer e)"

definition signature_transition_active :: "u64 \<Rightarrow> bool" where
  "signature_transition_active now = (now < sat_add SIG_V1_LAUNCH_MS SIG_TRANSITION_MS)"

definition verify_or_transition :: "crypto \<Rightarrow> u64 \<Rightarrow> Envelope \<Rightarrow> peer_id \<Rightarrow> bool" where
  "verify_or_transition cr now e pid =
     (if envelope_verify cr e pid then True
      else if signature_transition_active now then True
      else False)"

section \<open>Wire messages\<close>

record DirectMessage =
  envelope :: Envelope
  body :: string

datatype WireMessage =
    Data DirectMessage
  | SyncBloom bytes u64
  | SyncIds "string list"
  | SyncRequest "string list"
  | SyncData "DirectMessage list"
  | ScopeAnnounce "string list"
  | EncryptedDirect (ed_to_peer: string) (ed_sender_enc_pubkey: string) (ed_encrypted_payload: bytes)
      (ed_mesh_signature: "bytes option") (ed_hop_count: u8) (ed_max_hops: u8)
  | EncryptedGroup string bytes
  | PeerInfo string "string option" "string list"

definition encrypted_direct_signing_bytes :: "string \<Rightarrow> string \<Rightarrow> bytes \<Rightarrow> u8 \<Rightarrow> u8 \<Rightarrow> bytes" where
  "encrypted_direct_signing_bytes to pub pl hop maxh =
     bytes_of ''MYCEL/ENC_DIRECT/v1'' @ [0] @ bytes_of to @ [0] @ bytes_of pub @ [0] @
     le32 (of_nat (length pl)) @ pl @ [hop, maxh]"

definition sign_encrypted_direct :: "crypto \<Rightarrow> keypair \<Rightarrow> WireMessage \<Rightarrow> unit result \<times> WireMessage" where
  "sign_encrypted_direct cr kp m =
     (case m of
        EncryptedDirect to pub pl sig hop maxh \<Rightarrow>
          (case kp_sign cr kp (encrypted_direct_signing_bytes to pub pl hop maxh) of
             Inl e \<Rightarrow> (Err (''failed to sign EncryptedDirect: '' @ e), m)
           | Inr s \<Rightarrow> (Ok (), EncryptedDirect to pub pl (Some s) hop maxh))
      | _ \<Rightarrow> (Err ''not EncryptedDirect'', m))"

definition verify_encrypted_direct :: "crypto \<Rightarrow> WireMessage \<Rightarrow> peer_id \<Rightarrow> bool" where
  "verify_encrypted_direct cr m pid =
     (case m of
        EncryptedDirect to pub pl sig hop maxh \<Rightarrow>
          (case sig of
             None \<Rightarrow> False
           | Some s \<Rightarrow>
               let bytes = encrypted_direct_signing_bytes to pub pl hop maxh in
               if fst pid \<noteq> 0 then False
               else case pk_decode cr (snd pid) of
                      None \<Rightarrow> False
                    | Some pk \<Rightarrow> pk_verify cr pk bytes s)
      | _ \<Rightarrow> False)"

text \<open>\<open>ttl_secs as u64 * 1000\<close> fits 64 bits, the sum saturates.\<close>

definition is_expired :: "DirectMessage \<Rightarrow> u64 \<Rightarrow> bool" where
  "is_expired m now =
     (let expiry = sat_add (created_at_ms (envelope m)) (ucast (ttl_secs (envelope m)) * 1000) in
      now \<ge> expiry)"

datatype ConnectivityMode = Internet | MeshOnly

definition scope_matches :: "string \<Rightarrow> string \<Rightarrow> bool" where
  "scope_matches scope pattern =
     (case strip_suffix ''/*'' pattern of
        Some prefix \<Rightarrow> starts_with scope prefix
      | None \<Rightarrow> scope = pattern)"

section \<open>Properties of the signed bytes\<close>

lemma envelope_sign_verifies:
  assumes "crypto_ok cr" "envelope_sign cr kp e = (Ok (), e')"
    and "peer_parse cr (peer_string cr (kp_public cr kp)) = Some pid"
  shows "envelope_verify cr e' pid"
proof -
  obtain sig where s: "kp_sign cr kp (bytes_for_signing (e\<lparr>sig_version := 1\<rparr>)) = Ok sig"
    and e': "e' = e\<lparr>sig_version := 1, signature := Some sig\<rparr>"
    using assms(2) by (auto simp: envelope_sign_def Let_def split: sum.splits)
  have "bytes_for_signing e' = bytes_for_signing (e\<lparr>sig_version := 1\<rparr>)"
    by (simp add: e' bytes_for_signing_def)
  then show ?thesis
    using crypto_okD(3,4,5) [OF assms(1)] assms(3) s
    by (auto simp: envelope_verify_def e' Let_def)
qed

text \<open>The last bytes of the signed text: time, life time, priority, hop count and hop limit.\<close>

lemma signing_v0_tail:
  assumes "a @ bytes_for_signing_v0 e = b @ bytes_for_signing_v0 e'"
  shows "created_at_ms e = created_at_ms e' \<and> ttl_secs e = ttl_secs e' \<and>
         priority_byte (priority e) = priority_byte (priority e') \<and> hop_count e = hop_count e' \<and> max_hops e = max_hops e'"
proof -
  define A where "A x = bytes_of (from_peer x) @ (case to_peer x of Some to \<Rightarrow> bytes_of to | None \<Rightarrow> []) @ payload x"
    for x :: Envelope
  define T where "T x = le64 (created_at_ms x) @ le32 (ttl_secs x) @
      [priority_byte (priority x), hop_count x, max_hops x]" for x :: Envelope
  have s: "bytes_for_signing_v0 x = A x @ T x" for x
    by (simp add: bytes_for_signing_v0_def A_def T_def)
  have "(a @ A e) @ T e = (b @ A e') @ T e'"
    using assms by (simp add: s)
  moreover have "length (T x) = 15" for x
    by (simp add: T_def)
  ultimately have "T e = T e'"
    by (simp del: append_assoc)
  then show ?thesis
    by (simp add: T_def)
qed

lemma bytes_for_signing_eq: "bytes_for_signing e = bytes_of (env_id e) @ bytes_for_signing_v0 e"
  by (simp add: bytes_for_signing_def bytes_for_signing_v0_def)

lemmas bytes_for_signing_tail = signing_v0_tail [of "bytes_of (env_id e)" e "bytes_of (env_id e')" e' for e e',
    folded bytes_for_signing_eq]

text \<open>What a signature of either version covers.\<close>

definition signed_bytes :: "Envelope \<Rightarrow> bytes" where
  "signed_bytes e = (if sig_version e = 0 then bytes_for_signing_v0 e else bytes_for_signing e)"

lemma signed_bytes_hops: "signed_bytes e = signed_bytes e' \<Longrightarrow> sig_version e = sig_version e' \<Longrightarrow> hop_count e = hop_count e'"
  using signing_v0_tail [of "[]" e "[]" e'] bytes_for_signing_tail [of e e']
  by (simp add: signed_bytes_def split: if_splits)

lemma envelope_verify_iff:
  "envelope_verify cr e pid \<longleftrightarrow>
     (\<exists>sig pk. signature e = Some sig \<and> fst pid = 0 \<and> pk_decode cr (snd pid) = Some pk \<and>
        pk_verify cr pk (signed_bytes e) sig)"
  by (auto simp: envelope_verify_def signed_bytes_def Let_def split: option.splits)

lemma hop_changes_signed_bytes:
  "bytes_for_signing (e\<lparr>from_peer := p, hop_count := hop_count e + 1\<rparr>) \<noteq> bytes_for_signing e"
  using bytes_for_signing_tail [of "e\<lparr>from_peer := p, hop_count := hop_count e + 1\<rparr>" e] by auto

lemma sign_encrypted_direct_verifies:
  assumes "crypto_ok cr" "sign_encrypted_direct cr kp m = (Ok (), m')"
    and "peer_parse cr (peer_string cr (kp_public cr kp)) = Some pid"
  shows "verify_encrypted_direct cr m' pid"
  using assms crypto_okD(3,4,5) [OF assms(1)]
  by (auto simp: sign_encrypted_direct_def verify_encrypted_direct_def Let_def
      split: WireMessage.splits sum.splits)

lemma unat_ttl: "unat (ucast (ttl :: u32) * 1000 :: u64) = unat ttl * 1000"
proof -
  have "unat ttl < 2 ^ 32"
    using unat_bound [of ttl] by simp
  then have "unat (ucast ttl :: u64) = unat ttl"
    by (simp add: unsigned_ucast_eq take_bit_nat_eq_self)
  then show ?thesis
    using \<open>unat ttl < 2 ^ 32\<close> by (simp add: unat_mult_lem [THEN iffD1])
qed

lemma is_expired_iff:
  "is_expired m now \<longleftrightarrow>
     min (unat (created_at_ms (envelope m)) + unat (ttl_secs (envelope m)) * 1000) (2 ^ 64 - 1) \<le> unat now"
  by (simp add: is_expired_def word_le_unat unat_sat_add_u64 unat_ttl Let_def)

lemma scope_matches_wildcard: "scope_matches s (p @ ''/*'') \<longleftrightarrow> (\<exists>r. s = p @ r)"
  by (simp add: scope_matches_def starts_with_iff)

end
