(* ===== verification/Ingest.thy ===== *)
theory Ingest
  imports Windows Envelopes
begin

text \<open>
  \<open>mycelium-node/src/ingest_guard.rs\<close>: freshness of envelopes, the fixed-window rate limiter, the replay
  window per author and the guard that combines them.  The locale \<open>keyed_limiter\<close> is the contract of
  a rate limiter; it is stated on one key at a time, since keys do not interfere.
\<close>

section \<open>Limits and freshness\<close>

definition MAX_GOSSIP_PAYLOAD_BYTES :: nat where "MAX_GOSSIP_PAYLOAD_BYTES = 65536"
definition REPLAY_MAX_AGE_MS :: u64 where "REPLAY_MAX_AGE_MS = 30 * 60 * 1000"
definition REPLAY_MAX_FUTURE_SKEW_MS :: u64 where "REPLAY_MAX_FUTURE_SKEW_MS = 5 * 60 * 1000"
definition DIRECT_RATE_PER_MINUTE :: u32 where "DIRECT_RATE_PER_MINUTE = 120"
definition GOSSIP_RATE_PER_MINUTE :: u32 where "GOSSIP_RATE_PER_MINUTE = 60"
definition RATE_WINDOW_MS :: u64 where "RATE_WINDOW_MS = 60 * 1000"
definition AUTHOR_ID_WINDOW :: nat where "AUTHOR_ID_WINDOW = 512"

lemmas ingest_consts = MAX_GOSSIP_PAYLOAD_BYTES_def REPLAY_MAX_AGE_MS_def REPLAY_MAX_FUTURE_SKEW_MS_def
  DIRECT_RATE_PER_MINUTE_def GOSSIP_RATE_PER_MINUTE_def RATE_WINDOW_MS_def AUTHOR_ID_WINDOW_def

datatype IngestReject = Stale | Replay | RateLimit | Oversize

definition check_envelope_freshness :: "u64 \<Rightarrow> u64 \<Rightarrow> bool" where
  "check_envelope_freshness created now =
     (if created > sat_add now REPLAY_MAX_FUTURE_SKEW_MS then False
      else sat_sub now created \<le> REPLAY_MAX_AGE_MS)"

section \<open>Rate limiter\<close>

record FixedWindowRateLimiter =
  limit :: u32
  window_ms :: u64
  buckets :: "string \<rightharpoonup> u32 \<times> u64"

definition limiter_new :: "u32 \<Rightarrow> u64 \<Rightarrow> FixedWindowRateLimiter" where
  "limiter_new l w = \<lparr>limit = l, window_ms = w, buckets = Map.empty\<rparr>"

definition limiter_allow :: "string \<Rightarrow> u64 \<Rightarrow> FixedWindowRateLimiter \<Rightarrow> bool \<times> FixedWindowRateLimiter" where
  "limiter_allow key now r =
     (let entry = (case buckets r key of Some e \<Rightarrow> e | None \<Rightarrow> (0, now));
          entry' = (if sat_sub now (snd entry) \<ge> window_ms r then (0, now) else entry) in
      if fst entry' \<ge> limit r then (False, r\<lparr>buckets := (buckets r)(key \<mapsto> entry')\<rparr>)
      else (True, r\<lparr>buckets := (buckets r)(key \<mapsto> (fst entry' + 1, snd entry'))\<rparr>))"

section \<open>Replay window\<close>

record AuthorReplayWindow =
  max_per_author :: nat
  by_author :: "string \<rightharpoonup> author_window"

definition replay_new :: "nat \<Rightarrow> AuthorReplayWindow" where
  "replay_new n = \<lparr>max_per_author = n, by_author = Map.empty\<rparr>"

definition author_entry :: "AuthorReplayWindow \<Rightarrow> string \<Rightarrow> author_window" where
  "author_entry r author = (case by_author r author of Some w \<Rightarrow> w | None \<Rightarrow> aw_new (max_per_author r))"

definition is_duplicate :: "string \<Rightarrow> string \<Rightarrow> AuthorReplayWindow \<Rightarrow> bool \<times> AuthorReplayWindow" where
  "is_duplicate author message_id r =
     (let (dup, w) = aw_is_duplicate message_id (author_entry r author) in
      (dup, r\<lparr>by_author := (by_author r)(author \<mapsto> w)\<rparr>))"

section \<open>Guard\<close>

record IngestGuard =
  rate_direct :: FixedWindowRateLimiter
  rate_gossip :: FixedWindowRateLimiter
  replay :: AuthorReplayWindow

definition guard_new :: IngestGuard where
  "guard_new =
     \<lparr>rate_direct = limiter_new DIRECT_RATE_PER_MINUTE RATE_WINDOW_MS,
      rate_gossip = limiter_new GOSSIP_RATE_PER_MINUTE RATE_WINDOW_MS,
      replay = replay_new AUTHOR_ID_WINDOW\<rparr>"

definition allow_direct ::
  "string \<Rightarrow> DirectMessage \<Rightarrow> u64 \<Rightarrow> IngestGuard \<Rightarrow> (IngestReject + unit) \<times> IngestGuard" where
  "allow_direct author msg now g =
     (if \<not> check_envelope_freshness (created_at_ms (envelope msg)) now then (Inl Stale, g)
      else
        let (dup, rep) = is_duplicate author (env_id (envelope msg)) (replay g); g1 = g\<lparr>replay := rep\<rparr> in
        if dup then (Inl Replay, g1)
        else
          let (allowed, lim) = limiter_allow author now (rate_direct g1); g2 = g1\<lparr>rate_direct := lim\<rparr> in
          if \<not> allowed then (Inl RateLimit, g2) else (Inr (), g2))"

definition check_gossip_payload ::
  "string \<Rightarrow> nat \<Rightarrow> u64 \<Rightarrow> IngestGuard \<Rightarrow> (IngestReject + unit) \<times> IngestGuard" where
  "check_gossip_payload from payload_len now g =
     (if payload_len > MAX_GOSSIP_PAYLOAD_BYTES then (Inl Oversize, g)
      else
        let (allowed, lim) = limiter_allow from now (rate_gossip g); g1 = g\<lparr>rate_gossip := lim\<rparr> in
        if \<not> allowed then (Inl RateLimit, g1) else (Inr (), g1))"

definition check_gossip_message ::
  "string \<Rightarrow> string \<Rightarrow> u64 \<Rightarrow> u64 \<Rightarrow> IngestGuard \<Rightarrow> (IngestReject + unit) \<times> IngestGuard" where
  "check_gossip_message from message_id created now g =
     (if \<not> check_envelope_freshness created now then (Inl Stale, g)
      else
        let (dup, rep) = is_duplicate from message_id (replay g); g1 = g\<lparr>replay := rep\<rparr> in
        if dup then (Inl Replay, g1) else (Inr (), g1))"

definition allow_gossip ::
  "string \<Rightarrow> nat \<Rightarrow> string \<Rightarrow> u64 \<Rightarrow> u64 \<Rightarrow> IngestGuard \<Rightarrow> (IngestReject + unit) \<times> IngestGuard" where
  "allow_gossip from payload_len message_id created now g =
     (case check_gossip_payload from payload_len now g of
        (Inl e, g1) \<Rightarrow> (Inl e, g1)
      | (Inr _, g1) \<Rightarrow> check_gossip_message from message_id created now g1)"

section \<open>Contract of a limiter\<close>

text \<open>How many of the calls in a list are allowed for the key.\<close>

fun allowed_calls :: "('k \<Rightarrow> 't \<Rightarrow> 's \<Rightarrow> bool \<times> 's) \<Rightarrow> 'k \<Rightarrow> ('k \<times> 't) list \<Rightarrow> 's \<Rightarrow> nat" where
  "allowed_calls call k [] s = 0"
| "allowed_calls call k ((k', t) # cs) s =
     (if k' = k \<and> fst (call k' t s) then 1 else 0) + allowed_calls call k cs (snd (call k' t s))"

text \<open>One call at time \<open>t\<close> on a limiter state.  \<open>start\<close> and \<open>used\<close> read the window that is open for the
  observed key; a call may open a new window only when the old one is over.\<close>

locale keyed_limiter =
  fixes call :: "'k \<Rightarrow> 't \<Rightarrow> 's \<Rightarrow> bool \<times> 's"
    and used :: "'s \<Rightarrow> 'k \<Rightarrow> nat"
    and over :: "'s \<Rightarrow> 'k \<Rightarrow> 't \<Rightarrow> bool"
    and lim :: "'s \<Rightarrow> nat"
    and near :: "'s \<Rightarrow> 't \<Rightarrow> 't \<Rightarrow> bool"
  assumes other: "k' \<noteq> k \<Longrightarrow> used (snd (call k' t s)) k = used s k"
    and other_over: "k' \<noteq> k \<Longrightarrow> over (snd (call k' t s)) k u = over s k u"
    and lim_call: "lim (snd (call k t s)) = lim s"
    and near_call: "near (snd (call k t s)) u v = near s u v"
    and same_window: "\<not> over s k t \<Longrightarrow>
       used (snd (call k t s)) k = used s k + (if fst (call k t s) then 1 else 0) \<and>
       (\<forall>u. over (snd (call k t s)) k u = over s k u)"
    and new_window: "over s k t \<Longrightarrow>
       used (snd (call k t s)) k = (if fst (call k t s) then 1 else 0) \<and>
       (\<forall>u. near s u t \<longrightarrow> \<not> over (snd (call k t s)) k u)"
    and allowed: "fst (call k t s) \<Longrightarrow> used (snd (call k t s)) k \<le> lim s"
begin

lemma count_in_window:
  "\<forall>(k', t)\<in>set cs. \<not> over s k t \<Longrightarrow> allowed_calls call k cs s \<le> lim s - used s k"
proof (induction cs arbitrary: s)
  case (Cons c cs)
  obtain k' t where c: "c = (k', t)"
    by (cases c)
  let ?s = "snd (call k' t s)"
  have "\<forall>(k'', u)\<in>set cs. \<not> over ?s k u"
    using Cons(2) same_window [of s k t] other_over [of k' k t s] by (cases "k' = k") (auto simp: c)
  then have "allowed_calls call k cs ?s \<le> lim s - used ?s k"
    using Cons(1) [of ?s] by (simp add: lim_call)
  then show ?case
    using Cons(2) same_window [of s k t] other [of k' k t s] allowed [of k t s]
    by (cases "k' = k") (auto simp: c)
qed simp

lemma count_two_windows:
  "\<forall>(k', t)\<in>set cs. \<forall>(k'', u)\<in>set cs. near s u t \<Longrightarrow> allowed_calls call k cs s \<le> (lim s - used s k) + lim s"
proof (induction cs arbitrary: s)
  case (Cons c cs)
  obtain k' t where c: "c = (k', t)"
    by (cases c)
  let ?s = "snd (call k' t s)"
  have IH: "allowed_calls call k cs ?s \<le> (lim s - used ?s k) + lim s"
  proof -
    have "\<forall>(k', t)\<in>set cs. \<forall>(k'', u)\<in>set cs. near s u t"
      using Cons(2) by fastforce
    then show ?thesis
      using Cons(1) [of ?s] by (simp add: lim_call near_call)
  qed
  show ?case
  proof (cases "k' = k \<and> over s k t")
    case True
    then have "\<forall>(k'', u)\<in>set cs. \<not> over ?s k u"
      using new_window [of s k t] Cons(2) by (auto simp: c)
    then have "allowed_calls call k cs ?s \<le> lim s - used ?s k"
      using count_in_window [of cs ?s k] by (simp add: lim_call)
    then show ?thesis
      using True new_window [of s k t] allowed [of k t s] by (auto simp: c)
  next
    case False
    then show ?thesis
    proof (cases "k' = k")
      case True
      with False have "used ?s k = used s k + (if fst (call k t s) then 1 else 0)"
        using same_window [of s k t] by simp
      then show ?thesis
        using IH allowed [of k t s] True by (simp add: c split: if_splits)
    next
      case False
      then show ?thesis
        using IH other [of k' k t s] by (simp add: c)
    qed
  qed
qed simp

end

section \<open>The fixed-window limiter meets the contract\<close>

definition limiter_used :: "FixedWindowRateLimiter \<Rightarrow> string \<Rightarrow> nat" where
  "limiter_used r key = (case buckets r key of Some e \<Rightarrow> unat (fst e) | None \<Rightarrow> 0)"

definition limiter_over :: "FixedWindowRateLimiter \<Rightarrow> string \<Rightarrow> u64 \<Rightarrow> bool" where
  "limiter_over r key now =
     (case buckets r key of Some e \<Rightarrow> sat_sub now (snd e) \<ge> window_ms r | None \<Rightarrow> True)"

definition limiter_near :: "FixedWindowRateLimiter \<Rightarrow> u64 \<Rightarrow> u64 \<Rightarrow> bool" where
  "limiter_near r u t \<longleftrightarrow> sat_sub u t < window_ms r"

lemma unat_Suc_below:
  assumes "a < (b :: 'a::len word)"
  shows "unat (a + 1) = unat a + 1"
proof -
  have "unat a + unat (1 :: 'a word) < 2 ^ LENGTH('a)"
    using assms unat_bound [of b] unfolding word_less_unat unat_1 by linarith
  then show ?thesis
    by (simp add: unat_add_no_wrap)
qed

lemma limiter_allow_fields [simp]:
  "limit (snd (limiter_allow k t r)) = limit r" "window_ms (snd (limiter_allow k t r)) = window_ms r"
  by (simp_all add: limiter_allow_def Let_def)

lemma limiter_allow_other [simp]: "k' \<noteq> k \<Longrightarrow> buckets (snd (limiter_allow k' t r)) k = buckets r k"
  by (simp add: limiter_allow_def Let_def)

lemma limiter_same_window:
  assumes "\<not> limiter_over r k t"
  obtains c st where "buckets r k = Some (c, st)"
    and "fst (limiter_allow k t r) \<longleftrightarrow> c < limit r"
    and "buckets (snd (limiter_allow k t r)) k = Some (if c < limit r then c + 1 else c, st)"
proof -
  obtain c st where b: "buckets r k = Some (c, st)" and w: "\<not> window_ms r \<le> sat_sub t st"
    using assms by (auto simp: limiter_over_def split: option.splits)
  show thesis
    using w by (intro that [OF b]) (auto simp: limiter_allow_def b Let_def not_less)
qed

lemma limiter_new_window:
  assumes "limiter_over r k t"
  shows "fst (limiter_allow k t r) \<longleftrightarrow> 0 < limit r"
    and "buckets (snd (limiter_allow k t r)) k = Some (if 0 < limit r then 1 else 0, t)"
  using assms by (auto simp: limiter_over_def limiter_allow_def Let_def not_le word_gt_0 split: option.splits)

interpretation limiter: keyed_limiter limiter_allow limiter_used limiter_over "\<lambda>r. unat (limit r)" limiter_near
proof (unfold_locales, goal_cases)
  case (5 s k t)
  then obtain c st where "buckets s k = Some (c, st)" "fst (limiter_allow k t s) \<longleftrightarrow> c < limit s"
    "buckets (snd (limiter_allow k t s)) k = Some (if c < limit s then c + 1 else c, st)"
    by (rule limiter_same_window)
  then show ?case
    by (simp add: limiter_used_def limiter_over_def unat_Suc_below)
next
  case (6 s k t)
  from limiter_new_window [OF this] show ?case
    by (auto simp: limiter_used_def limiter_over_def limiter_near_def)
next
  case (7 k t s)
  show ?case
  proof (cases "limiter_over s k t")
    case True
    from limiter_new_window [OF this] 7 show ?thesis
      by (simp add: limiter_used_def word_less_unat)
  next
    case False
    then obtain c st where "fst (limiter_allow k t s) \<longleftrightarrow> c < limit s"
      "buckets (snd (limiter_allow k t s)) k = Some (if c < limit s then c + 1 else c, st)"
      by (rule limiter_same_window)
    then show ?thesis
      using 7 by (simp add: limiter_used_def unat_Suc_below word_less_unat)
  qed
qed (simp_all add: limiter_used_def limiter_over_def limiter_near_def split: option.split)

section \<open>Freshness and replay\<close>

lemma freshness_iff:
  "check_envelope_freshness c now \<longleftrightarrow>
     unat c \<le> min (unat now + 300000) (2 ^ 64 - 1) \<and> unat now \<le> unat c + 1800000"
  by (auto simp: check_envelope_freshness_def word_nat unat_sat_add_u64 unat_sat_sub ingest_consts)

definition replay_ok :: "AuthorReplayWindow \<Rightarrow> bool" where
  "replay_ok r \<longleftrightarrow> (\<forall>a. aw_ok (author_entry r a) \<and> aw_max (author_entry r a) = max_per_author r)"

lemma replay_ok_new [simp]: "replay_ok (replay_new n)"
  by (simp add: replay_ok_def author_entry_def replay_new_def) (simp add: aw_new_def)

lemma author_entry_dup:
  "author_entry (snd (is_duplicate a i r)) b =
     (if b = a then snd (aw_is_duplicate i (author_entry r a)) else author_entry r b)"
proof (cases "aw_is_duplicate i (author_entry r a)")
  case (Pair d w)
  then show ?thesis
    by (simp add: is_duplicate_def) (simp add: author_entry_def split: option.split)
qed

lemma is_duplicate_fst: "fst (is_duplicate a i r) = aw_mem (author_entry r a) i"
  by (simp add: is_duplicate_def aw_is_duplicate_fst [symmetric] split: prod.splits)

lemma max_per_author_dup [simp]: "max_per_author (snd (is_duplicate a i r)) = max_per_author r"
  by (simp add: is_duplicate_def split: prod.splits)

lemma replay_ok_dup: "replay_ok r \<Longrightarrow> replay_ok (snd (is_duplicate a i r))"
  by (simp add: replay_ok_def author_entry_dup aw.ok_ins aw.cap_ins)

definition guard_ok :: "IngestGuard \<Rightarrow> bool" where
  "guard_ok g \<longleftrightarrow> replay_ok (replay g) \<and> max_per_author (replay g) = AUTHOR_ID_WINDOW"

lemma guard_ok_new [simp]: "guard_ok guard_new"
  by (simp add: guard_ok_def guard_new_def) (simp add: replay_new_def)

lemma allow_direct_replay:
  "replay (snd (allow_direct a m now g)) =
     (if check_envelope_freshness (created_at_ms (envelope m)) now
      then snd (is_duplicate a (env_id (envelope m)) (replay g)) else replay g)"
  by (simp add: allow_direct_def Let_def split: prod.splits)

lemma gossip_replay:
  "replay (snd (check_gossip_payload a n now g)) = replay g"
  "replay (snd (check_gossip_message a i c now g)) =
     (if check_envelope_freshness c now then snd (is_duplicate a i (replay g)) else replay g)"
  by (simp_all add: check_gossip_payload_def check_gossip_message_def Let_def split: prod.splits)

lemma guard_ok_steps:
  assumes "guard_ok g"
  shows "guard_ok (snd (allow_direct a m now g))" and "guard_ok (snd (check_gossip_payload a n now g))"
    and "guard_ok (snd (check_gossip_message a i c now g))"
  using assms by (simp_all add: guard_ok_def allow_direct_replay gossip_replay replay_ok_dup)

lemma allow_direct_result:
  "fst (allow_direct a m now g) =
     (if \<not> check_envelope_freshness (created_at_ms (envelope m)) now then Inl Stale
      else if aw_mem (author_entry (replay g) a) (env_id (envelope m)) then Inl Replay
      else if fst (limiter_allow a now (rate_direct g)) then Inr () else Inl RateLimit)"
  using is_duplicate_fst [of a "env_id (envelope m)" "replay g"]
  by (auto simp: allow_direct_def Let_def split: prod.splits)

text \<open>The messages an author sends, as seen by the replay window.\<close>

fun direct_run :: "string \<Rightarrow> (DirectMessage \<times> u64) list \<Rightarrow> IngestGuard \<Rightarrow> IngestGuard" where
  "direct_run a [] g = g"
| "direct_run a ((m, t) # ms) g = direct_run a ms (snd (allow_direct a m t g))"

lemma direct_run_entry:
  "\<exists>ids. length ids \<le> length ms \<and>
     author_entry (replay (direct_run a ms g)) a =
       fold (\<lambda>x w. snd (aw_is_duplicate x w)) ids (author_entry (replay g) a)"
proof (induction ms arbitrary: g)
  case (Cons c ms)
  obtain m t where c: "c = (m, t)"
    by (cases c)
  obtain ids where ids: "length ids \<le> length ms"
    "author_entry (replay (direct_run a (c # ms) g)) a =
       fold (\<lambda>x w. snd (aw_is_duplicate x w)) ids (author_entry (replay (snd (allow_direct a m t g))) a)"
    using Cons [of "snd (allow_direct a m t g)"] by (auto simp: c)
  show ?case
  proof (cases "check_envelope_freshness (created_at_ms (envelope m)) t")
    case True
    then show ?thesis
      using ids by (intro exI [of _ "env_id (envelope m) # ids"]) (simp add: allow_direct_replay author_entry_dup)
  next
    case False
    then show ?thesis
      using ids by (intro exI [of _ ids]) (simp add: allow_direct_replay)
  qed
qed (intro exI [of _ "[]"], simp)

section \<open>Properties\<close>

text \<open>A concrete message, created at time 1000 with identifier \<open>x\<close>.\<close>

definition demo_msg :: "string \<Rightarrow> DirectMessage" where
  "demo_msg i = \<lparr>envelope = (envelope_new demo_crypto 1000 ''p'' None [])\<lparr>env_id := i\<rparr>, body = ''b''\<rparr>"

lemma demo_msg_simps [simp]: "env_id (envelope (demo_msg i)) = i" "created_at_ms (envelope (demo_msg i)) = 1000"
  by (simp_all add: demo_msg_def envelope_new_def Let_def)

text \<open>C11. No replay: a message the guard has let through (or has refused for the rate only) is not let through
  again among the author's next 511 messages, whatever those are and whenever it is tried again.\<close>

theorem direct_replay_rejected:
  assumes "guard_ok g"
    and "fst (allow_direct a m t g) = Inr () \<or> fst (allow_direct a m t g) = Inl RateLimit"
    and "length between < AUTHOR_ID_WINDOW" "env_id (envelope m') = env_id (envelope m)"
  shows "fst (allow_direct a m' t' (direct_run a between (snd (allow_direct a m t g)))) \<in> {Inl Replay, Inl Stale}"
proof -
  let ?x = "env_id (envelope m)"
  let ?ins = "\<lambda>x w. snd (aw_is_duplicate x w)"
  let ?g1 = "snd (allow_direct a m t g)"
  have fresh: "check_envelope_freshness (created_at_ms (envelope m)) t"
    and new: "\<not> aw_mem (author_entry (replay g) a) ?x"
    using assms(2) by (auto simp: allow_direct_result split: if_splits)
  have ok: "aw_ok (author_entry (replay g) a)" "aw_max (author_entry (replay g) a) = AUTHOR_ID_WINDOW"
    using assms(1) by (simp_all add: guard_ok_def replay_ok_def)
  obtain ids where ids: "length ids \<le> length between"
    "author_entry (replay (direct_run a between ?g1)) a = fold ?ins ids (?ins ?x (author_entry (replay g) a))"
    using direct_run_entry [of between a ?g1] fresh by (auto simp: allow_direct_replay author_entry_dup)
  have "aw_mem (author_entry (replay (direct_run a between ?g1)) a) ?x"
    using aw.remembered [OF ok(1) new, of ids] ids assms(3) ok(2) by simp
  then show ?thesis
    using assms(4) by (simp add: allow_direct_result)
qed

theorem direct_replay_rejected_witness:
  "fst (allow_direct ''a'' (demo_msg ''x'') 2000 guard_new) = Inr () \<and>
   fst (allow_direct ''a'' (demo_msg ''x'') 4000
     (direct_run ''a'' [(demo_msg ''y'', 3000)] (snd (allow_direct ''a'' (demo_msg ''x'') 2000 guard_new))))
     \<in> {Inl Replay, Inl Stale}"
proof -
  have "fst (allow_direct ''a'' (demo_msg ''x'') 2000 guard_new) = Inr ()"
    by (simp add: allow_direct_result freshness_iff)
      (simp add: guard_new_def author_entry_def replay_new_def aw_mem_def aw_new_def limiter_allow_def
        limiter_new_def ingest_consts sat_sub_def)
  then show ?thesis
    using direct_replay_rejected [of guard_new "''a''" "demo_msg ''x''" 2000 "[(demo_msg ''y'', 3000)]" "demo_msg ''x''" 4000]
    by (simp add: AUTHOR_ID_WINDOW_def)
qed

text \<open>C12. The rate limit bounds what one author gets through: among any calls whose times lie within one window of
  each other, however they interleave with the calls of others, a fresh limiter allows an author at most
  \<open>limit\<close> and a limiter in any state at most twice \<open>limit\<close> of them.\<close>

theorem rate_limit_bound:
  assumes "\<forall>(k1, t)\<in>set calls. \<forall>(k2, u)\<in>set calls. sat_sub u t < window_ms r"
  shows "allowed_calls limiter_allow key calls r \<le> 2 * unat (limit r) \<and>
         (buckets r key = None \<longrightarrow> allowed_calls limiter_allow key calls r \<le> unat (limit r))"
proof -
  have near: "\<forall>(k1, t)\<in>set calls. \<forall>(k2, u)\<in>set calls. limiter_near r u t"
    using assms by (simp add: limiter_near_def)
  have two: "allowed_calls limiter_allow key calls r \<le> 2 * unat (limit r)"
    using limiter.count_two_windows [OF near, of key] by simp
  have one: "allowed_calls limiter_allow key calls r \<le> unat (limit r)" if none: "buckets r key = None"
    using near none
  proof (induction calls arbitrary: r)
    case (Cons c cs)
    obtain k t where c: "c = (k, t)"
      by (cases c)
    let ?r = "snd (limiter_allow k t r)"
    have near': "\<forall>(k1, t)\<in>set cs. \<forall>(k2, u)\<in>set cs. limiter_near ?r u t"
      using Cons(2) by (fastforce simp: limiter_near_def)
    show ?case
    proof (cases "k = key")
      case True
      then have over: "limiter_over r key t"
        using Cons(3) by (simp add: limiter_over_def)
      then have "\<forall>(k2, u)\<in>set cs. \<not> limiter_over ?r key u"
        using limiter.new_window [OF over] Cons(2) True by (auto simp: c)
      then have "allowed_calls limiter_allow key cs ?r \<le> unat (limit r) - limiter_used ?r key"
        using limiter.count_in_window [of cs ?r key] by simp
      then show ?thesis
        using limiter.new_window [OF over] limiter.allowed [of key t r] True by (auto simp: c)
    next
      case False
      then show ?thesis
        using Cons(1) [OF near'] Cons(3) by (simp add: c)
    qed
  qed simp
  show ?thesis
    using two one by blast
qed

theorem rate_limit_bound_witness:
  "allowed_calls limiter_allow ''a'' [(''a'', 10), (''b'', 20), (''a'', 30), (''a'', 40)] (limiter_new 2 60) \<le> 2"
  using rate_limit_bound [of "[(''a'', 10), (''b'', 20), (''a'', 30), (''a'', 40)]" "limiter_new 2 60" "''a''"]
  by (simp add: limiter_new_def sat_sub_def)

end
