(* ===== verification/Forwarding.thy ===== *)
theory Forwarding
  imports Windows Envelopes Trees
begin

text \<open>
  \<open>mycelium-node/src/forwarding.rs\<close>, \<open>security.rs\<close> and \<open>storage.rs\<close>, with the node states of
  \<open>mycelium-core/src/energy.rs\<close>: which peers a message is forwarded to, which signatures are required, and
  how a message enters the store.  The store is a tree with an in-memory list of arrival times;
  encoding of a message and the database itself are taken not to fail.
\<close>

section \<open>Energy and forwarding policy\<close>

datatype NodeState = Active | Intermittent | Passive

fun sync_interval_secs :: "NodeState \<Rightarrow> u64" where
  "sync_interval_secs Active = 2"
| "sync_interval_secs Intermittent = 10"
| "sync_interval_secs Passive = 45"

text \<open>\<open>Debug\<close> of a node state.\<close>

fun show_state :: "NodeState \<Rightarrow> string" where
  "show_state Active = ''Active''"
| "show_state Intermittent = ''Intermittent''"
| "show_state Passive = ''Passive''"

datatype ForwardDecision = DeliverLocal | ForwardTo "string list" | Hold | Drop string

fun can_forward :: "NodeState \<Rightarrow> Priority \<Rightarrow> bool" where
  "can_forward Active p = True"
| "can_forward Intermittent p = (p \<noteq> Low)"
| "can_forward Passive p = (p = High)"

fun base_fanout :: "NodeState \<Rightarrow> Priority \<Rightarrow> nat" where
  "base_fanout Active p = (case p of High \<Rightarrow> 4 | Normal \<Rightarrow> 3 | Low \<Rightarrow> 2)"
| "base_fanout Intermittent p = (case p of High \<Rightarrow> 2 | Normal \<Rightarrow> 1 | Low \<Rightarrow> 0)"
| "base_fanout Passive p = (case p of High \<Rightarrow> 1 | _ \<Rightarrow> 0)"

definition should_forward_to :: "crypto \<Rightarrow> string \<Rightarrow> DirectMessage \<Rightarrow> NodeState \<Rightarrow> bool" where
  "should_forward_to cr peer msg state =
     (let seed = env_id (envelope msg) @ '':'' @ peer @ '':'' @ show_state state;
          h = blake3 cr (bytes_of seed);
          r = from_le (take 2 h) mod 1000;
          threshold = (case state of Active \<Rightarrow> 850 | Intermittent \<Rightarrow> 550 | Passive \<Rightarrow> 250) in
      r < threshold)"

text \<open>The selection loop: peers in order, until \<open>fanout\<close> of them are selected.\<close>

fun select_peers :: "(string \<Rightarrow> bool) \<Rightarrow> nat \<Rightarrow> string list \<Rightarrow> string list \<Rightarrow> string list" where
  "select_peers want fanout [] selected = selected"
| "select_peers want fanout (peer # peers) selected =
     (if want peer then
        let selected' = selected @ [peer] in
        if length selected' \<ge> fanout then selected' else select_peers want fanout peers selected'
      else select_peers want fanout peers selected)"

definition decide :: "crypto \<Rightarrow> u64 \<Rightarrow> DirectMessage \<Rightarrow> string \<Rightarrow> string list \<Rightarrow> NodeState \<Rightarrow> ForwardDecision" where
  "decide cr now msg local_peer known_peers state =
     (if to_peer (envelope msg) = Some local_peer then DeliverLocal
      else if is_expired msg now then Drop ''expired''
      else
        let fanout = base_fanout state (priority (envelope msg)) in
        if fanout = 0 \<or> known_peers = [] then Hold
        else
          let selected = select_peers (\<lambda>p. should_forward_to cr p msg state) fanout known_peers [] in
          if selected = [] then Hold else ForwardTo selected)"

section \<open>Signatures and relay candidates\<close>

definition UNSIGNED_GRACE_PERIOD_UNTIL_MS :: u64 where "UNSIGNED_GRACE_PERIOD_UNTIL_MS = 0"

datatype Sd030DropReason = NoSignature | InvalidSignature | UnparseableAuthor

definition is_gossip_relay_body :: "string \<Rightarrow> bool" where
  "is_gossip_relay_body b \<longleftrightarrow> b = ''[mycelium:group]'' \<or> b = ''[appstore]''"

definition validate_data_message_signature :: "crypto \<Rightarrow> DirectMessage \<Rightarrow> u64 \<Rightarrow> Sd030DropReason + unit" where
  "validate_data_message_signature cr message now =
     (if is_gossip_relay_body (body message) then Inr ()
      else
        case signature (envelope message) of
          None \<Rightarrow> Inl NoSignature
        | Some _ \<Rightarrow>
            (case peer_parse cr (signature_author_peer (envelope message)) of
               None \<Rightarrow> Inl UnparseableAuthor
             | Some author_id \<Rightarrow>
                 if envelope_verify cr (envelope message) author_id then Inr () else Inl InvalidSignature))"

definition select_relay_candidates ::
  "string list \<Rightarrow> string \<Rightarrow> (string \<rightharpoonup> u8) \<Rightarrow> nat \<Rightarrow> string list" where
  "select_relay_candidates peers to strikes max_fanout =
     (let scored = map (\<lambda>p. (p, case strikes p of Some n \<Rightarrow> n | None \<Rightarrow> 0)) (filter (\<lambda>p. p \<noteq> to) peers);
          sorted = sort_key snd scored in
      map fst (take max_fanout sorted))"

section \<open>Message store\<close>

record SledMessageStore =
  st_db :: "(string, DirectMessage) tree"
  st_order :: "(u64 \<times> string) list"

text \<open>\<open>open\<close> on a database with the given contents.\<close>

definition store_open :: "(string, DirectMessage) tree \<Rightarrow> SledMessageStore" where
  "store_open db = \<lparr>st_db = db, st_order = []\<rparr>"

definition GC_AGE_MS :: u64 where "GC_AGE_MS = 7 * 24 * 60 * 60 * 1000"

definition store_gc_expired :: "u64 \<Rightarrow> SledMessageStore \<Rightarrow> nat \<times> SledMessageStore" where
  "store_gc_expired now s =
     (let to_delete = map snd (filter (\<lambda>(ts, _). sat_sub now ts > GC_AGE_MS) (st_order s));
          kept = filter (\<lambda>(ts, _). \<not> sat_sub now ts > GC_AGE_MS) (st_order s) in
      (length to_delete, s\<lparr>st_order := kept, st_db := fold tree_del to_delete (st_db s)\<rparr>))"

definition store_stats :: "SledMessageStore \<Rightarrow> nat \<times> u64" where
  "store_stats s =
     (length (st_order s), case st_order s of (ts, _) # _ \<Rightarrow> ts | [] \<Rightarrow> 0)"

definition store_persist :: "u64 \<Rightarrow> DirectMessage \<Rightarrow> SledMessageStore \<Rightarrow> SledMessageStore" where
  "store_persist now m s =
     (let key = env_id (envelope m) in
      s\<lparr>st_db := tree_put key m (st_db s), st_order := st_order s @ [(now, key)]\<rparr>)"

definition store_recent :: "SledMessageStore \<Rightarrow> nat \<Rightarrow> DirectMessage list" where
  "store_recent s lim = List.map_filter (\<lambda>(_, key). tree_get (st_db s) key) (take lim (rev (st_order s)))"

definition store_contains :: "SledMessageStore \<Rightarrow> string \<Rightarrow> bool" where
  "store_contains s message_id = tree_has (st_db s) message_id"

definition store_load_by_id :: "SledMessageStore \<Rightarrow> string \<Rightarrow> DirectMessage option" where
  "store_load_by_id s message_id = tree_get (st_db s) message_id"

definition store_list_ids_window :: "u64 \<Rightarrow> u64 \<Rightarrow> SledMessageStore \<Rightarrow> string list" where
  "store_list_ids_window now window s =
     (let cutoff = sat_sub now window in map snd (filter (\<lambda>(ts, _). ts \<ge> cutoff) (st_order s)))"

section \<open>Ingest pipeline\<close>

definition ingest ::
  "crypto \<Rightarrow> u64 \<Rightarrow> DirectMessage \<Rightarrow> bool \<Rightarrow> BasicSeenCache \<Rightarrow> SledMessageStore \<Rightarrow>
   bool \<times> BasicSeenCache \<times> SledMessageStore" where
  "ingest cr now msg verify seen store =
     (if is_expired msg now then (False, seen, store)
      else if verify \<and> (case peer_parse cr (signature_author_peer (envelope msg)) of
                            None \<Rightarrow> True
                          | Some pid \<Rightarrow> \<not> verify_or_transition cr now (envelope msg) pid)
      then (False, seen, store)
      else
        let message_id = env_id (envelope msg) in
        if seen_contains seen message_id \<or> store_contains store message_id then (False, seen, store)
        else (True, seen_insert message_id seen, store_persist now msg store))"

section \<open>Contract of the store\<close>

locale message_store =
  fixes load :: "'s \<Rightarrow> string \<Rightarrow> DirectMessage option"
    and has :: "'s \<Rightarrow> string \<Rightarrow> bool"
    and persist :: "u64 \<Rightarrow> DirectMessage \<Rightarrow> 's \<Rightarrow> 's"
  assumes has_load: "has s i \<longleftrightarrow> load s i \<noteq> None"
    and load_persist: "load (persist t m s) i = (if i = env_id (envelope m) then Some m else load s i)"
begin

lemma has_persist: "has (persist t m s) i \<longleftrightarrow> i = env_id (envelope m) \<or> has s i"
  by (simp add: has_load load_persist)

lemma load_persist_new: "\<not> has s (env_id (envelope m)) \<Longrightarrow> load s i = Some x \<Longrightarrow> load (persist t m s) i = Some x"
  by (auto simp: has_load load_persist)

end

interpretation store: message_store store_load_by_id store_contains store_persist
  by unfold_locales
    (auto simp: store_load_by_id_def store_contains_def store_persist_def Let_def tree_has_def tree_get_put)

section \<open>Runs of the pipeline\<close>

fun ingest_run ::
  "crypto \<Rightarrow> (u64 \<times> DirectMessage \<times> bool) list \<Rightarrow> BasicSeenCache \<Rightarrow> SledMessageStore \<Rightarrow>
   DirectMessage list \<times> BasicSeenCache \<times> SledMessageStore" where
  "ingest_run cr [] seen store = ([], seen, store)"
| "ingest_run cr ((now, m, v) # ms) seen store =
     (let (new, seen1, store1) = ingest cr now m v seen store;
          (acc, seen2, store2) = ingest_run cr ms seen1 store1 in
      (if new then m # acc else acc, seen2, store2))"

lemma ingest_True:
  assumes "ingest cr now m v seen st = (True, seen', st')"
  shows "\<not> store_contains st (env_id (envelope m))" and "st' = store_persist now m st"
    and "\<not> is_expired m now"
    and "v \<Longrightarrow> \<exists>pid. peer_parse cr (signature_author_peer (envelope m)) = Some pid \<and>
                     verify_or_transition cr now (envelope m) pid"
  using assms by (auto simp: ingest_def Let_def split: if_splits option.splits)

lemma ingest_False: "ingest cr now m v seen st = (False, seen', st') \<Longrightarrow> st' = st \<and> seen' = seen"
  by (auto simp: ingest_def Let_def split: if_splits)

lemma ingest_run_spec:
  assumes "ingest_run cr ms seen st = (acc, seen', st')"
  shows "distinct (map (env_id \<circ> envelope) acc) \<and>
         (\<forall>m\<in>set acc. \<not> store_contains st (env_id (envelope m)) \<and> store_load_by_id st' (env_id (envelope m)) = Some m) \<and>
         (\<forall>i m. store_load_by_id st i = Some m \<longrightarrow> store_load_by_id st' i = Some m)"
  using assms
proof (induction cr ms seen st arbitrary: acc seen' st' rule: ingest_run.induct)
  case (2 cr now m v ms seen st)
  obtain new seen1 st1 where i: "ingest cr now m v seen st = (new, seen1, st1)"
    by (cases "ingest cr now m v seen st")
  obtain acc2 where r: "ingest_run cr ms seen1 st1 = (acc2, seen', st')"
    and acc: "acc = (if new then m # acc2 else acc2)"
    using 2(2) i by (auto split: prod.splits)
  note IH = 2(1) [OF i [symmetric] refl refl r]
  show ?case
  proof (cases new)
    case True
    then have i': "ingest cr now m v seen st = (True, seen1, st1)"
      using i by simp
    note t = ingest_True [OF i']
    have has: "store_contains st1 i \<longleftrightarrow> i = env_id (envelope m) \<or> store_contains st i" for i
      using t(2) by (simp add: store.has_persist)
    have self: "store_load_by_id st1 (env_id (envelope m)) = Some m"
      using t(2) by (simp add: store.load_persist)
    have keep: "store_load_by_id st1 i = Some x" if "store_load_by_id st i = Some x" for i x
      using t(1,2) that store.load_persist_new by simp
    have "env_id (envelope m) \<notin> (env_id \<circ> envelope) ` set acc2"
      using IH has by auto
    then show ?thesis
      using IH has self keep t(1) True unfolding acc by simp
  next
    case False
    then show ?thesis
      using IH ingest_False [of cr now m v seen st seen1 st1] i by (simp add: acc)
  qed
qed simp

section \<open>The life of a store\<close>

text \<open>What a store opened on a database goes through: the pipeline and the collection of old messages.\<close>

inductive store_reach :: "(string, DirectMessage) tree \<Rightarrow> SledMessageStore \<Rightarrow> bool" for db where
  opened: "store_reach db (store_open db)"
| ingested: "store_reach db s \<Longrightarrow> ingest cr now m v seen s = (new, seen', s') \<Longrightarrow> store_reach db s'"
| collected: "store_reach db s \<Longrightarrow> store_reach db (snd (store_gc_expired now s))"

definition store_ok :: "(string, DirectMessage) tree \<Rightarrow> SledMessageStore \<Rightarrow> bool" where
  "store_ok db s \<longleftrightarrow> distinct (map snd (st_order s)) \<and>
     (\<forall>i\<in>set (map snd (st_order s)). store_contains s i \<and> \<not> tree_has db i) \<and>
     (\<forall>i m. tree_get db i = Some m \<longrightarrow> store_load_by_id s i = Some m)"

lemma store_ok_open: "store_ok db (store_open db)"
  by (simp add: store_ok_def store_open_def store_load_by_id_def)

lemma store_ok_ingest:
  assumes "store_ok db s" "ingest cr now m v seen s = (new, seen', s')"
  shows "store_ok db s'"
proof (cases new)
  case True
  then have t: "\<not> store_contains s (env_id (envelope m))" "s' = store_persist now m s"
    using ingest_True(1,2) [of cr now m v seen s seen' s'] assms(2) by simp_all
  have "st_order s' = st_order s @ [(now, env_id (envelope m))]"
    by (simp add: t(2) store_persist_def Let_def)
  moreover have "tree_get db (env_id (envelope m)) = None"
    using assms(1) t(1) by (cases "tree_get db (env_id (envelope m))") (auto simp: store_ok_def store.has_load)
  ultimately show ?thesis
    using assms(1) t(1) unfolding store_ok_def t(2)
    by (auto simp: store.has_persist store.load_persist store.has_load tree_has_def)
next
  case False
  then show ?thesis
    using assms ingest_False [of cr now m v seen s seen' s'] by simp
qed

lemma tree_get_fold_del: "tree_get (fold tree_del ks t) k = (if k \<in> set ks then None else tree_get t k)"
  by (induction ks arbitrary: t) (simp_all add: tree_get_del)

lemma store_gc_fields:
  "st_order (snd (store_gc_expired now s)) = filter (\<lambda>(ts, _). sat_sub now ts \<le> GC_AGE_MS) (st_order s)"
  "store_load_by_id (snd (store_gc_expired now s)) i =
     (if \<exists>ts. (ts, i) \<in> set (st_order s) \<and> sat_sub now ts > GC_AGE_MS then None else store_load_by_id s i)"
  by (force simp: store_gc_expired_def store_load_by_id_def Let_def tree_get_fold_del not_less)+

lemma distinct_snd_unique:
  "distinct (map snd xs) \<Longrightarrow> (a, i) \<in> set xs \<Longrightarrow> (b, i) \<in> set xs \<Longrightarrow> a = b"
  by (induction xs) force+

lemma store_ok_gc:
  assumes "store_ok db s"
  shows "store_ok db (snd (store_gc_expired now s))"
proof -
  have d: "distinct (map snd (st_order s))"
    and own: "\<And>ts i. (ts, i) \<in> set (st_order s) \<Longrightarrow> store_load_by_id s i \<noteq> None \<and> tree_get db i = None"
    and db: "\<And>i m. tree_get db i = Some m \<Longrightarrow> store_load_by_id s i = Some m"
    using assms by (auto simp: store_ok_def store.has_load tree_has_def)
  show ?thesis
    unfolding store_ok_def store_gc_fields store.has_load tree_has_def
    using d own db by (fastforce simp: distinct_map_filter not_less dest: distinct_snd_unique [OF d])
qed

lemma store_reach_ok: "store_reach db s \<Longrightarrow> store_ok db s"
  by (induction rule: store_reach.induct) (auto intro: store_ok_open store_ok_ingest store_ok_gc)

section \<open>Selection\<close>

lemma select_peers_prefix:
  "length selected < fanout \<Longrightarrow>
   select_peers want fanout peers selected = selected @ take (fanout - length selected) (filter want peers)"
proof (induction want fanout peers selected rule: select_peers.induct)
  case (2 want fanout peer peers selected)
  show ?case
  proof (cases "want peer \<and> Suc (length selected) < fanout")
    case True
    then have "fanout - length selected = Suc (fanout - Suc (length selected))"
      by linarith
    with 2 True show ?thesis
      by (simp add: Let_def)
  next
    case False
    then have "fanout - length selected = 1" if "want peer"
      using that 2(3) by simp
    with 2 False show ?thesis
      by (auto simp: Let_def)
  qed
qed simp

section \<open>Properties\<close>

text \<open>C13. Every message enters the node once: whatever sequence of messages the pipeline is given, with or without
  signature checks and however small the seen cache, the messages it reports as new have pairwise
  different identifiers, none of them was stored before, and each can be loaded from the store afterwards.\<close>

theorem ingest_exactly_once:
  "case ingest_run cr ms seen st of (acc, seen', st') \<Rightarrow>
     distinct (map (\<lambda>m. env_id (envelope m)) acc) \<and>
     (\<forall>m\<in>set acc. \<not> store_contains st (env_id (envelope m)) \<and> store_load_by_id st' (env_id (envelope m)) = Some m)"
  using ingest_run_spec [of cr ms seen st] by (auto simp: comp_def split: prod.splits)

theorem ingest_exactly_once_witness:
  "case ingest_run demo_crypto [(0, \<lparr>envelope = envelope_new demo_crypto 5 ''p'' None [7], body = ''b''\<rparr>, False)]
      (seen_new 4) (store_open []) of (acc, seen', st') \<Rightarrow>
   length acc = 1 \<and> (\<forall>m\<in>set acc. store_load_by_id st' (env_id (envelope m)) = Some m)"
proof -
  let ?m = "\<lparr>envelope = envelope_new demo_crypto 5 ''p'' None [7], body = ''b''\<rparr>"
  have "\<not> is_expired ?m 0"
    by (simp add: is_expired_iff envelope_new_def Let_def)
  then have "fst (ingest demo_crypto 0 ?m False (seen_new 4) (store_open []))"
    by (simp add: ingest_def seen_contains_def seen_new_def store_contains_def tree_has_def store_open_def Let_def)
  then show ?thesis
    using ingest_exactly_once [where cr = demo_crypto and ms = "[(0, ?m, False)]" and seen = "seen_new 4"
        and st = "store_open []"]
    by (auto split: prod.splits)
qed

text \<open>Forwarding is bounded and respects the energy policy: a decision to forward names at least one and at most
  \<open>base_fanout\<close> (never more than four) of the known peers, in their order, and it is made only when
  the energy policy allows forwarding, the message is not for the local peer and has not expired.\<close>

theorem decide_forward_bounded:
  assumes "decide cr now msg local_peer known_peers state = ForwardTo sel"
  shows "sel \<noteq> [] \<and> length sel \<le> base_fanout state (priority (envelope msg)) \<and> length sel \<le> 4 \<and>
         set sel \<subseteq> set known_peers \<and> (distinct known_peers \<longrightarrow> distinct sel) \<and>
         can_forward state (priority (envelope msg)) \<and>
         to_peer (envelope msg) \<noteq> Some local_peer \<and> \<not> is_expired msg now"
proof -
  let ?f = "base_fanout state (priority (envelope msg))"
  have sel: "sel = take ?f (filter (\<lambda>p. should_forward_to cr p msg state) known_peers)" and f: "0 < ?f"
    and rest: "sel \<noteq> []" "to_peer (envelope msg) \<noteq> Some local_peer" "\<not> is_expired msg now"
    using assms select_peers_prefix [of "[]" ?f "\<lambda>p. should_forward_to cr p msg state" known_peers]
    by (auto simp: decide_def Let_def split: if_splits)
  have "?f \<le> 4" "can_forward state (priority (envelope msg))"
    using f by (cases state; cases "priority (envelope msg)"; simp)+
  then show ?thesis
    using sel rest by (auto simp: dest: in_set_takeD)
qed

theorem decide_forward_bounded_witness:
  "let m = \<lparr>envelope = envelope_new demo_crypto 5 ''p'' None [7], body = ''b''\<rparr>;
       cr = demo_crypto\<lparr>blake3 := \<lambda>_. replicate 32 0\<rparr> in
   decide cr 6 m ''me'' [''a'', ''b'', ''c'', ''d'', ''e''] Active = ForwardTo [''a'', ''b'', ''c''] \<and>
   length [''a'', ''b'', ''c''] \<le> base_fanout Active (priority (envelope m))"
proof -
  let ?m = "\<lparr>envelope = envelope_new demo_crypto 5 ''p'' None [7], body = ''b''\<rparr>"
  let ?cr = "demo_crypto\<lparr>blake3 := \<lambda>_. replicate 32 0\<rparr>"
  have w: "should_forward_to ?cr p ?m Active" for p
    by (simp add: should_forward_to_def Let_def take_replicate numeral_2_eq_2)
  have "\<not> is_expired ?m 6"
    by (simp add: is_expired_iff envelope_new_def Let_def)
  then have d: "decide ?cr 6 ?m ''me'' [''a'', ''b'', ''c'', ''d'', ''e''] Active = ForwardTo [''a'', ''b'', ''c'']"
    using w by (simp add: decide_def Let_def) (simp add: envelope_new_def Let_def)
  show ?thesis
    using decide_forward_bounded [OF d] d by (simp add: Let_def)
qed

text \<open>Relay candidates: at most \<open>max_fanout\<close> peers, never the addressee, and no peer is chosen while one with fewer
  strikes is left out.\<close>

theorem relay_candidates_least_strikes:
  "let sel = select_relay_candidates peers to strikes n;
       score = (\<lambda>p. case strikes p of Some k \<Rightarrow> k | None \<Rightarrow> 0) in
   length sel = min n (length (filter (\<lambda>p. p \<noteq> to) peers)) \<and> to \<notin> set sel \<and> set sel \<subseteq> set peers \<and>
   sorted (map score sel) \<and>
   (\<forall>p\<in>set peers. p \<noteq> to \<and> p \<notin> set sel \<longrightarrow> (\<forall>q\<in>set sel. score q \<le> score p))"
proof -
  define score where "score = (\<lambda>p. case strikes p of Some k \<Rightarrow> k | None \<Rightarrow> (0 :: u8))"
  define cand where "cand = map (\<lambda>p. (p, score p)) (filter (\<lambda>p. p \<noteq> to) peers)"
  define ys where "ys = sort_key snd cand"
  have sel: "select_relay_candidates peers to strikes n = map fst (take n ys)"
    by (simp add: select_relay_candidates_def ys_def cand_def score_def Let_def)
  have els: "set ys = (\<lambda>p. (p, score p)) ` {p \<in> set peers. p \<noteq> to}"
    by (simp add: ys_def cand_def)
  then have snd_ys: "\<forall>x\<in>set ys. snd x = score (fst x)"
    by auto
  have "sorted (map snd ys)"
    unfolding ys_def by (rule sorted_sort_key)
  then have "sorted (map snd (take n ys) @ map snd (drop n ys))"
    by (metis append_take_drop_id map_append)
  then have split: "sorted (map snd (take n ys))"
    "\<forall>x\<in>set (take n ys). \<forall>y\<in>set (drop n ys). snd x \<le> snd y"
    by (auto simp: sorted_append)
  have "map (score \<circ> fst) (take n ys) = map snd (take n ys)"
    using snd_ys by (force dest: in_set_takeD)
  then have "sorted (map (score \<circ> fst) (take n ys))"
    using split(1) by (simp only:)
  moreover have "score q \<le> score p"
    if p: "p \<in> set peers" "p \<noteq> to" "p \<notin> fst ` set (take n ys)" and q: "q \<in> fst ` set (take n ys)" for p q
  proof -
    have "(p, score p) \<in> set (take n ys) \<union> set (drop n ys)"
      using p els by (metis (mono_tags, lifting) append_take_drop_id image_eqI mem_Collect_eq set_append)
    then have "(p, score p) \<in> set (drop n ys)"
      using p(3) by force
    moreover obtain x where x: "x \<in> set (take n ys)" "q = fst x"
      using q by blast
    moreover have "snd x = score q"
      using snd_ys x in_set_takeD [OF x(1)] by simp
    ultimately show ?thesis
      using split(2) by fastforce
  qed
  moreover have "length ys = length (filter (\<lambda>p. p \<noteq> to) peers)"
    by (simp add: ys_def cand_def)
  ultimately show ?thesis
    using els unfolding sel score_def [symmetric] Let_def
    by (auto simp: min.commute dest!: in_set_takeD)
qed

theorem relay_candidates_least_strikes_witness:
  "let sel = select_relay_candidates [''a'', ''b'', ''t''] ''t'' [''a'' \<mapsto> 3] 1 in
   sel = [''b''] \<and> length sel = 1 \<and> ''t'' \<notin> set sel"
  using relay_candidates_least_strikes [of "[''a'', ''b'', ''t'']" "''t''" "[''a'' \<mapsto> 3]" 1]
  by (simp add: Let_def select_relay_candidates_def)

text \<open>Collection of old messages: in every store the node can reach after opening a database, \<open>gc_expired\<close> removes
  exactly the messages persisted more than seven days ago since the store was opened and changes no other one; the
  rows that were in the database before are never collected, and the synchronisation never offers them.\<close>

theorem store_gc_window:
  assumes "store_reach db s"
  shows "let s' = snd (store_gc_expired now s) in
     (\<forall>(ts, i)\<in>set (st_order s). store_load_by_id s i \<noteq> None \<and>
        store_load_by_id s' i = (if sat_sub now ts > GC_AGE_MS then None else store_load_by_id s i)) \<and>
     (\<forall>i m. tree_get db i = Some m \<longrightarrow>
        store_load_by_id s' i = Some m \<and> i \<notin> set (store_list_ids_window t w s'))"
proof -
  have ok: "store_ok db s" "store_ok db (snd (store_gc_expired now s))"
    using store_reach_ok assms store_reach.collected by blast+
  have uniq: "distinct (map snd (st_order s))"
    using ok(1) by (simp add: store_ok_def)
  have own: "store_load_by_id s i \<noteq> None" if "(ts, i) \<in> set (st_order s)" for ts i
    using ok(1) that by (force simp: store_ok_def store.has_load)
  have "\<forall>(ts, i)\<in>set (st_order s). store_load_by_id s i \<noteq> None \<and> store_load_by_id (snd (store_gc_expired now s)) i =
      (if sat_sub now ts > GC_AGE_MS then None else store_load_by_id s i)"
    using own by (auto simp: store_gc_fields dest: distinct_snd_unique [OF uniq])
  moreover have "store_load_by_id (snd (store_gc_expired now s)) i = Some m \<and>
      i \<notin> set (store_list_ids_window t w (snd (store_gc_expired now s)))" if "tree_get db i = Some m" for i m
    using ok(2) that by (auto simp: store_ok_def store_list_ids_window_def Let_def tree_has_def)
  ultimately show ?thesis
    unfolding Let_def by blast
qed

theorem store_gc_window_witness:
  "let m = \<lparr>envelope = (envelope_new demo_crypto 5 ''p'' None [7])\<lparr>env_id := ''new''\<rparr>, body = ''b''\<rparr>;
       db = [(''old'', m)];
       s = snd (snd (ingest demo_crypto 10 m False (seen_new 4) (store_open db)));
       s' = snd (store_gc_expired 700000000 s) in
   st_order s = [(10, ''new'')] \<and> store_load_by_id s' (''new'') = None \<and>
   store_load_by_id s' ''old'' = Some m"
proof -
  define m where "m = \<lparr>envelope = (envelope_new demo_crypto 5 ''p'' None [7])\<lparr>env_id := ''new''\<rparr>, body = ''b''\<rparr>"
  define db where "db = [(''old'', m)]"
  define s where "s = snd (snd (ingest demo_crypto 10 m False (seen_new 4) (store_open db)))"
  have "\<not> is_expired m 10"
    by (simp add: is_expired_iff m_def envelope_new_def Let_def)
  moreover have i: "env_id (envelope m) = ''new''"
    by (simp add: m_def)
  ultimately have s: "s = store_persist 10 m (store_open db)"
    by (simp add: s_def ingest_def seen_contains_def seen_new_def store_contains_def tree_has_def store_open_def
        db_def Let_def)
  have "store_reach db s"
    unfolding s_def by (rule store_reach.ingested [OF store_reach.opened]) (auto simp: prod_eq_iff)
  moreover have o: "st_order s = [(10, ''new'')]"
    by (simp add: s i store_persist_def store_open_def Let_def)
  ultimately have "store_load_by_id (snd (store_gc_expired 700000000 s)) (''new'') = None \<and>
      store_load_by_id (snd (store_gc_expired 700000000 s)) ''old'' = Some m"
    using store_gc_window [of db s 700000000 0 0] by (simp add: Let_def db_def sat_sub_def GC_AGE_MS_def)
  then show ?thesis
    using o unfolding Let_def m_def [symmetric] db_def [symmetric] s_def [symmetric] by simp
qed

end
