(* ===== verification/Node_State.thy ===== *)
theory Node_State
  imports Forwarding Ingest Bloom Framing
begin

text \<open>
  The state of a mesh node (\<open>NodeRunner\<close> in \<open>mycelium-node/src/node.rs\<close>), the bounded queue of messages waiting
  to be sent, the strikes and throttling of peers, and the rotating relay identity.  What the node
  reads from its surroundings while it handles one event is the record \<open>node_env\<close>: the packages, the
  clock, the peers the transport knows, the answers of the transport.  What it asks of the
  transport is kept as a list of actions.  A hash map or hash set that the code iterates over is a list in
  some fixed order.
\<close>

section \<open>State\<close>

definition SYSTEM_SCOPES :: "string list" where
  "SYSTEM_SCOPES = [''mycelium/chat'', ''mycelium/coin/v1'', ''mycelium/appstore/v1'']"

definition RELAY_KEY_ROTATION_SECS :: u64 where "RELAY_KEY_ROTATION_SECS = 86400"

text \<open>The configuration; \<open>connectivity_rx\<close>, a channel, is given by whether it is set.\<close>

record NodeConfig =
  cfg_listen_addr :: string
  cfg_db_path :: string
  cfg_keypair_path :: "string option"
  cfg_forwarding_interval_ms :: u64
  cfg_sync_interval_secs :: u64
  cfg_bootstrap_peers :: "string list"
  cfg_has_connectivity_rx :: bool
  cfg_display_name :: "string option"
  cfg_storage_key :: "bytes option"
  cfg_max_relay_fanout :: nat
  cfg_rendezvous_enabled :: bool
  cfg_bulletin_subscriptions :: "string list"
  cfg_max_peers :: nat

definition default_max_peers :: nat where "default_max_peers = 50"

definition default_max_relay_fanout :: nat where "default_max_relay_fanout = 3"

definition with_defaults :: "string \<Rightarrow> NodeConfig" where
  "with_defaults db =
     \<lparr>cfg_listen_addr = ''/ip4/0.0.0.0/tcp/0'', cfg_db_path = db, cfg_keypair_path = Some (db @ ''/identity''),
      cfg_forwarding_interval_ms = 500, cfg_sync_interval_secs = 30, cfg_bootstrap_peers = [],
      cfg_has_connectivity_rx = False, cfg_display_name = None, cfg_storage_key = None,
      cfg_max_relay_fanout = default_max_relay_fanout, cfg_rendezvous_enabled = True,
      cfg_bulletin_subscriptions = [], cfg_max_peers = default_max_peers\<rparr>"

definition config_default :: NodeConfig where
  "config_default =
     \<lparr>cfg_listen_addr = ''/ip4/0.0.0.0/tcp/0'', cfg_db_path = ''.mycelium-node'',
      cfg_keypair_path = Some ''.mycelium-node/identity'',
      cfg_forwarding_interval_ms = 500, cfg_sync_interval_secs = 30, cfg_bootstrap_peers = [],
      cfg_has_connectivity_rx = False, cfg_display_name = None, cfg_storage_key = None,
      cfg_max_relay_fanout = default_max_relay_fanout, cfg_rendezvous_enabled = True,
      cfg_bulletin_subscriptions = [], cfg_max_peers = default_max_peers\<rparr>"

datatype NodeCommand =
    CmdSendDirect string string
  | CmdSendDirectPayload string string bytes
  | CmdBroadcast string string
  | CmdBroadcastPayload string string bytes
  | CmdSendWire string WireMessage
  | CmdAddBootstrapPeer string
  | CmdSubscribeScope string
  | CmdUnsubscribeScope string
  | CmdSubscribeBulletinScope string
  | CmdUnsubscribeBulletinScope string
  | CmdGcNow
  | CmdStoreStats
  | CmdListPeers
  | CmdSetEnergyState NodeState
  | CmdSetRendezvousEnabled bool

datatype TransportEvent =
    Listening string
  | PeerUp string
  | PeerDown string
  | DirectReceived string WireMessage
  | ScopedReceived string string bytes
  | DirectAck string string bool
  | SendFailure string string
  | ConnectivityChanged ConnectivityMode

record NodeMetrics =
  messages_forwarded :: u64
  messages_dropped_ttl :: u64
  messages_dropped_hops :: u64
  messages_dropped_queue :: u64
  messages_dropped_invalid_sig :: u64
  messages_dropped_no_sig :: u64
  messages_dropped_rate_limit :: u64
  messages_dropped_replay :: u64
  messages_dropped_oversize :: u64
  messages_delivered_local :: u64
  pending_queue_size :: nat
  seen_cache_size :: nat
  connected_peers :: nat
  m_max_peers :: nat
  peer_cap_rejections :: u64

definition metrics_default :: NodeMetrics where
  "metrics_default = \<lparr>messages_forwarded = 0, messages_dropped_ttl = 0, messages_dropped_hops = 0,
     messages_dropped_queue = 0, messages_dropped_invalid_sig = 0, messages_dropped_no_sig = 0,
     messages_dropped_rate_limit = 0, messages_dropped_replay = 0, messages_dropped_oversize = 0,
     messages_delivered_local = 0, pending_queue_size = 0, seen_cache_size = 0, connected_peers = 0,
     m_max_peers = 0, peer_cap_rejections = 0\<rparr>"

record PeerReputationSnapshot =
  strikes :: u8
  last_strike_ms :: u64
  throttled_until_ms :: u64

definition reputation_default :: PeerReputationSnapshot where
  "reputation_default = \<lparr>strikes = 0, last_strike_ms = 0, throttled_until_ms = 0\<rparr>"

record PendingMessage =
  pm_to_peer :: string
  pm_message :: DirectMessage

record RelayIdentity =
  relay_keypair :: keypair
  relay_created_at :: u64  \<comment> \<open>seconds of a monotonic clock\<close>

datatype transport_action =
    SendDirectA string WireMessage
  | PublishScopedA string bytes
  | SubscribeA string
  | UnsubscribeA string
  | RememberAndDialA string
  | KadFindA string
  | RegisterRendezvousA bool
  | RedialStoredA

record node_env =
  ne_crypto :: crypto
  ne_now :: u64
  ne_instant :: u64
  ne_known_peers :: "string list"
  ne_connected_peer_count :: nat
  ne_max_direct_peers :: nat
  ne_peer_cap_rejections :: u64
  ne_send :: "string \<Rightarrow> WireMessage \<Rightarrow> unit result"
  ne_publish :: "string \<Rightarrow> bytes \<Rightarrow> unit result"
  ne_dial :: "string \<Rightarrow> unit result"
  ne_decode_wire :: "bytes \<Rightarrow> WireMessage option"
  ne_decrypt :: "bytes \<Rightarrow> keypair \<Rightarrow> bytes result"
  ne_parse_x25519 :: "string \<Rightarrow> bytes option"
  ne_enc_public_hex :: "keypair \<Rightarrow> string"
  ne_hash :: bloom_hash
  ne_new_keypair :: keypair

record NodeRunner =
  node_keypair :: "keypair option"
  local_id :: string
  store :: SledMessageStore
  seen_cache :: BasicSeenCache
  node_state :: NodeState
  pending :: "PendingMessage list"
  pending_cap :: nat
  forwarding_interval_ms :: u64
  node_sync_interval_secs :: u64
  metrics :: NodeMetrics
  incoming :: "DirectMessage list"
  peers :: "string list"
  subscribed_scopes :: "string list"
  peer_scopes :: "(string \<times> string list) list"
  peer_reputations :: "string \<rightharpoonup> PeerReputationSnapshot"
  enc_keypair :: keypair
  display_name :: "string option"
  peer_x25519 :: "string \<rightharpoonup> bytes"
  max_relay_fanout :: nat
  listen_addrs :: "string list"
  rendezvous_enabled :: bool
  db_path :: string
  files :: file_system
  relay_identity :: RelayIdentity
  bulletin_subscriptions :: "string list"
  ingest_guard :: IngestGuard
  actions :: "transport_action list"

type_synonym node_result = "unit result \<times> NodeRunner"

text \<open>Insertion into a hash set or hash map kept as a list.\<close>

definition set_insert :: "'a \<Rightarrow> 'a list \<Rightarrow> 'a list" where
  "set_insert x xs = (if x \<in> set xs then xs else xs @ [x])"

fun assoc_insert :: "'k \<Rightarrow> 'v \<Rightarrow> ('k \<times> 'v) list \<Rightarrow> ('k \<times> 'v) list" where
  "assoc_insert k v [] = [(k, v)]"
| "assoc_insert k v ((k', v') # t) = (if k' = k then (k, v) # t else (k', v') # assoc_insert k v t)"

text \<open>The addresses \<open>new\<close> passes to the transport, and the path of the identity.\<close>

definition initial_dial_peers :: "string option \<Rightarrow> file_system \<Rightarrow> NodeConfig \<Rightarrow> string list" where
  "initial_dial_peers env_var fs cfg =
     fold (\<lambda>extra ps. if extra \<in> set ps then ps else ps @ [extra])
       (load_persisted_dial_peers fs (cfg_db_path cfg))
       (if cfg_bootstrap_peers cfg = [] then load_bootstrap_peers env_var fs (cfg_db_path cfg)
        else cfg_bootstrap_peers cfg)"

definition identity_path :: "NodeConfig \<Rightarrow> string" where
  "identity_path cfg = (case cfg_keypair_path cfg of Some p \<Rightarrow> p | None \<Rightarrow> cfg_db_path cfg @ ''/identity'')"

definition node_new ::
  "NodeConfig \<Rightarrow> string \<Rightarrow> keypair option \<Rightarrow> keypair \<Rightarrow> RelayIdentity \<Rightarrow> (string, DirectMessage) tree \<Rightarrow>
   file_system \<Rightarrow> NodeRunner" where
  "node_new cfg peer kp enc relay db fs =
     \<lparr>node_keypair = kp, local_id = peer, store = store_open db, seen_cache = seen_new 16384,
      node_state = Active, pending = [], pending_cap = 1024,
      forwarding_interval_ms = cfg_forwarding_interval_ms cfg,
      node_sync_interval_secs = cfg_sync_interval_secs cfg, metrics = metrics_default, incoming = [],
      peers = [], subscribed_scopes = set_insert ''mycelium/group/*'' SYSTEM_SCOPES, peer_scopes = [],
      peer_reputations = Map.empty, enc_keypair = enc, display_name = cfg_display_name cfg,
      peer_x25519 = Map.empty, max_relay_fanout = cfg_max_relay_fanout cfg, listen_addrs = [],
      rendezvous_enabled = cfg_rendezvous_enabled cfg, db_path = cfg_db_path cfg, files = fs,
      relay_identity = relay, bulletin_subscriptions = cfg_bulletin_subscriptions cfg,
      ingest_guard = guard_new, actions = []\<rparr>"

section \<open>Relay identity\<close>

definition relay_peer_id :: "crypto \<Rightarrow> RelayIdentity \<Rightarrow> string" where
  "relay_peer_id cr r = peer_string cr (kp_public cr (relay_keypair r))"

definition age_secs :: "u64 \<Rightarrow> RelayIdentity \<Rightarrow> u64" where
  "age_secs now r = sat_sub now (relay_created_at r)"

definition maybe_rotate :: "u64 \<Rightarrow> keypair \<Rightarrow> RelayIdentity \<Rightarrow> RelayIdentity" where
  "maybe_rotate now fresh r =
     (if age_secs now r > RELAY_KEY_ROTATION_SECS then \<lparr>relay_keypair = fresh, relay_created_at = now\<rparr> else r)"

definition apply_relay_forward_mask :: "crypto \<Rightarrow> RelayIdentity \<Rightarrow> DirectMessage \<Rightarrow> DirectMessage" where
  "apply_relay_forward_mask cr relay m =
     (let relay_id = relay_peer_id cr relay;
          e = envelope m;
          e1 = (case author_peer e of None \<Rightarrow> e\<lparr>author_peer := Some (from_peer e)\<rparr> | Some _ \<Rightarrow> e) in
      m\<lparr>envelope := e1\<lparr>from_peer := relay_id\<rparr>\<rparr>)"

section \<open>Strikes\<close>

definition is_throttled :: "u64 \<Rightarrow> string \<Rightarrow> NodeRunner \<Rightarrow> bool \<times> NodeRunner" where
  "is_throttled now peer n =
     (case peer_reputations n peer of
        Some rep \<Rightarrow>
          let rep' = (if sat_sub now (last_strike_ms rep) > 10 * 60 * 1000 then rep\<lparr>strikes := 0\<rparr> else rep) in
          (now < throttled_until_ms rep', n\<lparr>peer_reputations := (peer_reputations n)(peer \<mapsto> rep')\<rparr>)
      | None \<Rightarrow> (False, n))"

definition strike :: "u64 \<Rightarrow> PeerReputationSnapshot \<Rightarrow> PeerReputationSnapshot" where
  "strike now rep =
     (let rep1 = (if sat_sub now (last_strike_ms rep) > 60 * 1000 then rep\<lparr>strikes := 0\<rparr> else rep);
          rep2 = rep1\<lparr>strikes := sat_add (strikes rep1) 1, last_strike_ms := now\<rparr> in
      if strikes rep2 \<ge> 3 then rep2\<lparr>throttled_until_ms := now + 5 * 60 * 1000\<rparr> else rep2)"

definition register_strike :: "u64 \<Rightarrow> string \<Rightarrow> NodeRunner \<Rightarrow> NodeRunner" where
  "register_strike now peer n =
     (let rep = (case peer_reputations n peer of Some r \<Rightarrow> r | None \<Rightarrow> reputation_default) in
      n\<lparr>peer_reputations := (peer_reputations n)(peer \<mapsto> strike now rep)\<rparr>)"

definition reward_peer :: "string \<Rightarrow> NodeRunner \<Rightarrow> NodeRunner" where
  "reward_peer peer n =
     (case peer_reputations n peer of
        Some rep \<Rightarrow> n\<lparr>peer_reputations := (peer_reputations n)(peer \<mapsto> rep\<lparr>strikes := strikes rep div 2\<rparr>)\<rparr>
      | None \<Rightarrow> n)"

definition record_ingest_reject :: "IngestReject \<Rightarrow> NodeRunner \<Rightarrow> NodeRunner" where
  "record_ingest_reject reason n =
     n\<lparr>metrics := (case reason of
         RateLimit \<Rightarrow> (metrics n)\<lparr>messages_dropped_rate_limit := messages_dropped_rate_limit (metrics n) + 1\<rparr>
       | Replay \<Rightarrow> (metrics n)\<lparr>messages_dropped_replay := messages_dropped_replay (metrics n) + 1\<rparr>
       | Stale \<Rightarrow> (metrics n)\<lparr>messages_dropped_replay := messages_dropped_replay (metrics n) + 1\<rparr>
       | Oversize \<Rightarrow> (metrics n)\<lparr>messages_dropped_oversize := messages_dropped_oversize (metrics n) + 1\<rparr>)\<rparr>"

section \<open>Queue of pending messages\<close>

fun priority_rank :: "Priority \<Rightarrow> u8" where
  "priority_rank Low = 0"
| "priority_rank Normal = 1"
| "priority_rank High = 2"

definition evict_expired :: "u64 \<Rightarrow> PendingMessage list \<Rightarrow> PendingMessage list" where
  "evict_expired now q = filter (\<lambda>item. \<not> is_expired (pm_message item) now) q"

text \<open>The scan for the candidate: the first item of the lowest rank, stopping at rank 0.\<close>

fun evict_candidate :: "PendingMessage list \<Rightarrow> nat \<Rightarrow> u8 \<Rightarrow> nat option \<Rightarrow> nat option" where
  "evict_candidate [] idx cand_rank cand = cand"
| "evict_candidate (item # items) idx cand_rank cand =
     (let rank = priority_rank (priority (envelope (pm_message item))) in
      if rank < cand_rank then
        (if rank = 0 then Some idx else evict_candidate items (Suc idx) rank (Some idx))
      else evict_candidate items (Suc idx) cand_rank cand)"

definition remove_nth :: "nat \<Rightarrow> 'a list \<Rightarrow> 'a list" where
  "remove_nth i xs = take i xs @ drop (Suc i) xs"

definition evict_one :: "u64 \<Rightarrow> nat \<Rightarrow> PendingMessage list \<Rightarrow> PendingMessage list" where
  "evict_one now cap q =
     (let q1 = evict_expired now q in
      if length q1 < cap then q1
      else case evict_candidate q1 0 3 None of
             Some idx \<Rightarrow> remove_nth idx q1
           | None \<Rightarrow> tl q1)"

definition enqueue :: "u64 \<Rightarrow> string \<Rightarrow> DirectMessage \<Rightarrow> NodeRunner \<Rightarrow> node_result" where
  "enqueue now to m n =
     (if is_expired m now then (Ok (), n)
      else
        let n1 = (if length (pending n) \<ge> pending_cap n
                  then n\<lparr>pending := evict_one now (pending_cap n) (pending n)\<rparr> else n) in
        if length (pending n1) \<ge> pending_cap n1 then
          (Err ''pending queue is full'',
           n1\<lparr>metrics := (metrics n1)\<lparr>messages_dropped_queue := messages_dropped_queue (metrics n1) + 1\<rparr>\<rparr>)
        else
          let n2 = n1\<lparr>pending := pending n1 @ [\<lparr>pm_to_peer = to, pm_message = m\<rparr>]\<rparr> in
          (Ok (), n2\<lparr>metrics := (metrics n2)\<lparr>pending_queue_size := length (pending n2),
                                             seen_cache_size := seen_len (seen_cache n2)\<rparr>\<rparr>))"

end
