(* ===== verification/Node.thy ===== *)
theory Node
  imports Node_State
begin

text \<open>
  The event handlers of \<open>NodeRunner\<close> in \<open>mycelium-node/src/node.rs\<close>: commands of the application, events of the
  transport, direct wire messages, scoped gossip, synchronisation and the timer ticks, each as a
  function from the environment of the call and the node to a result and the node after it.
\<close>

section \<open>Actions on the transport\<close>

definition act :: "transport_action \<Rightarrow> NodeRunner \<Rightarrow> NodeRunner" where
  "act a n = n\<lparr>actions := actions n @ [a]\<rparr>"

definition send_direct :: "node_env \<Rightarrow> string \<Rightarrow> WireMessage \<Rightarrow> NodeRunner \<Rightarrow> node_result" where
  "send_direct env to m n = (ne_send env to m, act (SendDirectA to m) n)"

definition publish_scoped :: "node_env \<Rightarrow> string \<Rightarrow> bytes \<Rightarrow> NodeRunner \<Rightarrow> node_result" where
  "publish_scoped env scope pl n = (ne_publish env scope pl, act (PublishScopedA scope pl) n)"

definition add_metric :: "(NodeMetrics \<Rightarrow> NodeMetrics) \<Rightarrow> NodeRunner \<Rightarrow> NodeRunner" where
  "add_metric f n = n\<lparr>metrics := f (metrics n)\<rparr>"

definition deliver :: "DirectMessage \<Rightarrow> NodeRunner \<Rightarrow> NodeRunner" where
  "deliver m n = n\<lparr>incoming := incoming n @ [m]\<rparr>"

text \<open>The ingest pipeline on the node's cache and store.\<close>

definition node_ingest :: "node_env \<Rightarrow> DirectMessage \<Rightarrow> bool \<Rightarrow> NodeRunner \<Rightarrow> bool \<times> NodeRunner" where
  "node_ingest env m verify n =
     (let (new, seen, st) = ingest (ne_crypto env) (ne_now env) m verify (seen_cache n) (store n) in
      (new, n\<lparr>seen_cache := seen, store := st\<rparr>))"

section \<open>Sending\<close>

definition targets_for_scope :: "NodeRunner \<Rightarrow> string \<Rightarrow> string list" where
  "targets_for_scope n scope =
     map fst (filter (\<lambda>(peer, scopes). \<exists>pattern\<in>set scopes. scope_matches scope pattern) (peer_scopes n))"

text \<open>\<open>Envelope::new\<close> and, when the node has a keypair, \<open>sign\<close> with its error ignored.\<close>

definition own_envelope :: "node_env \<Rightarrow> NodeRunner \<Rightarrow> string option \<Rightarrow> bytes \<Rightarrow> Envelope" where
  "own_envelope env n to pl =
     (let e = envelope_new (ne_crypto env) (ne_now env) (local_id n) to pl in
      case node_keypair n of Some kp \<Rightarrow> snd (envelope_sign (ne_crypto env) kp e) | None \<Rightarrow> e)"

definition send_direct_internal :: "node_env \<Rightarrow> string \<Rightarrow> string \<Rightarrow> bytes \<Rightarrow> NodeRunner \<Rightarrow> node_result" where
  "send_direct_internal env to bd pl n =
     (let msg = \<lparr>envelope = own_envelope env n (Some to) pl, body = bd\<rparr>;
          (_, n1) = node_ingest env msg False n;
          ps = ne_known_peers env in
      if to \<in> set ps then enqueue (ne_now env) to msg n1
      else if ps = [] then (Ok (), n1)
      else
        let strk = (\<lambda>p. map_option strikes (peer_reputations n1 p));
            cands = select_relay_candidates ps to strk (max_relay_fanout n1) in
        for_each (\<lambda>p. enqueue (ne_now env) p msg) cands n1)"

definition broadcast_scoped :: "node_env \<Rightarrow> string \<Rightarrow> string \<Rightarrow> bytes \<Rightarrow> NodeRunner \<Rightarrow> node_result" where
  "broadcast_scoped env scope bd pl n =
     (let targets = targets_for_scope n scope in
      if targets = [] then publish_scoped env scope pl n
      else
        for_each (\<lambda>to n'.
            let msg = \<lparr>envelope = own_envelope env n' None pl, body = bd\<rparr>;
                (_, n1) = node_ingest env msg False n' in
            enqueue (ne_now env) to msg n1) targets n)"

definition bloom_of_ids :: "bloom_hash \<Rightarrow> string list \<Rightarrow> BloomFilter" where
  "bloom_of_ids h ids = fold (bloom_insert h) ids bloom_new"

definition SYNC_WINDOW_MS :: u64 where "SYNC_WINDOW_MS = 600 * 1000"

definition send_sync_bloom :: "node_env \<Rightarrow> string \<Rightarrow> NodeRunner \<Rightarrow> node_result" where
  "send_sync_bloom env peer n =
     (let ids = store_list_ids_window (ne_now env) SYNC_WINDOW_MS (store n) in
      if ids = [] then (Ok (), n)
      else send_direct env peer
             (SyncBloom (bloom_to_bytes (bloom_of_ids (ne_hash env) ids)) (of_nat (length ids))) n)"

definition send_scope_announce :: "node_env \<Rightarrow> string \<Rightarrow> NodeRunner \<Rightarrow> node_result" where
  "send_scope_announce env peer n = send_direct env peer (ScopeAnnounce (subscribed_scopes n)) n"

definition send_peer_info :: "node_env \<Rightarrow> string \<Rightarrow> NodeRunner \<Rightarrow> node_result" where
  "send_peer_info env peer n =
     send_direct env peer
       (PeerInfo (ne_enc_public_hex env (enc_keypair n)) (display_name n) (subscribed_scopes n)) n"

definition sync_known_peers :: "node_env \<Rightarrow> NodeRunner \<Rightarrow> node_result" where
  "sync_known_peers env n = for_each (send_sync_bloom env) (ne_known_peers env) n"

text \<open>A failed send is logged and the loop goes on.\<close>

definition forward_wire_to_others :: "node_env \<Rightarrow> string \<Rightarrow> WireMessage \<Rightarrow> NodeRunner \<Rightarrow> node_result" where
  "forward_wire_to_others env from m n =
     (Ok (), fold (\<lambda>p n'. snd (send_direct env p m n')) (filter (\<lambda>p. p \<noteq> from) (ne_known_peers env)) n)"

section \<open>Timer ticks\<close>

fun forward_budget :: "NodeState \<Rightarrow> nat" where
  "forward_budget Active = 10"
| "forward_budget Intermittent = 4"
| "forward_budget Passive = 1"

fun forward_loop :: "node_env \<Rightarrow> nat \<Rightarrow> NodeRunner \<Rightarrow> NodeRunner" where
  "forward_loop env 0 n = n"
| "forward_loop env (Suc b) n =
     (case pending n of
        [] \<Rightarrow> n
      | pm # rest \<Rightarrow>
          let n1 = n\<lparr>pending := rest\<rparr> in
          if is_expired (pm_message pm) (ne_now env) then forward_loop env b n1
          else if \<not> can_forward (node_state n1) (priority (envelope (pm_message pm))) then forward_loop env b n1
          else
            let (r, n2) = send_direct env (pm_to_peer pm) (Data (pm_message pm)) n1 in
            forward_loop env b
              (if is_ok r then add_metric (\<lambda>m. m\<lparr>messages_forwarded := messages_forwarded m + 1\<rparr>) n2 else n2))"

definition forward_once :: "node_env \<Rightarrow> NodeRunner \<Rightarrow> node_result" where
  "forward_once env n =
     (let n1 = n\<lparr>relay_identity := maybe_rotate (ne_instant env) (ne_new_keypair env) (relay_identity n)\<rparr>;
          n2 = n1\<lparr>pending := evict_expired (ne_now env) (pending n1)\<rparr>;
          n3 = forward_loop env (forward_budget (node_state n2)) n2 in
      (Ok (), add_metric (\<lambda>m. m\<lparr>pending_queue_size := length (pending n3),
                                seen_cache_size := seen_len (seen_cache n3),
                                connected_peers := ne_connected_peer_count env,
                                m_max_peers := ne_max_direct_peers env,
                                peer_cap_rejections := ne_peer_cap_rejections env\<rparr>) n3))"

definition gc_tick :: "node_env \<Rightarrow> NodeRunner \<Rightarrow> node_result" where
  "gc_tick env n = (Ok (), n\<lparr>store := snd (store_gc_expired (ne_now env) (store n))\<rparr>)"

definition dial_rendezvous_list :: "node_env \<Rightarrow> string list \<Rightarrow> NodeRunner \<Rightarrow> NodeRunner" where
  "dial_rendezvous_list env remote_ids n =
     (let known = set (peers n) \<union> set (ne_known_peers env) in
      fold (\<lambda>remote n'.
          if remote = local_id n' \<or> remote = RELAY_PEER_ID \<or> remote \<in> known then n'
          else case relay_circuit_multiaddr remote of
                 None \<Rightarrow> n'
               | Some addr \<Rightarrow> act (RememberAndDialA addr) n') remote_ids n)"

section \<open>Commands\<close>

definition handle_command :: "node_env \<Rightarrow> NodeCommand \<Rightarrow> NodeRunner \<Rightarrow> node_result" where
  "handle_command env cmd n =
     (case cmd of
        CmdSendDirect to bd \<Rightarrow> send_direct_internal env to bd (bytes_of bd) n
      | CmdSendDirectPayload to bd pl \<Rightarrow> send_direct_internal env to bd pl n
      | CmdBroadcast scope bd \<Rightarrow> broadcast_scoped env scope bd (bytes_of bd) n
      | CmdBroadcastPayload scope bd pl \<Rightarrow> broadcast_scoped env scope bd pl n
      | CmdSendWire to m \<Rightarrow>
          (case m of
             EncryptedDirect _ _ _ _ _ _ \<Rightarrow>
               (case node_keypair n of
                  Some kp \<Rightarrow>
                    (case sign_encrypted_direct (ne_crypto env) kp m of
                       (Inl e, _) \<Rightarrow> (Err e, n)
                     | (Inr _, m') \<Rightarrow> send_direct env to m' n)
                | None \<Rightarrow> send_direct env to m n)
           | _ \<Rightarrow> send_direct env to m n)
      | CmdListPeers \<Rightarrow> (Ok (), n\<lparr>peers := ne_known_peers env\<rparr>)
      | CmdAddBootstrapPeer addr \<Rightarrow>
          let n1 = n\<lparr>files := persist_dial_peer (files n) (db_path n) addr\<rparr> in
          (ne_dial env addr, act (RememberAndDialA addr) n1)
      | CmdSubscribeScope scope \<Rightarrow>
          let n1 = n\<lparr>subscribed_scopes := set_insert scope (subscribed_scopes n)\<rparr> in
          (Ok (), if CHR ''*'' \<notin> set scope then act (SubscribeA scope) n1 else n1)
      | CmdUnsubscribeScope scope \<Rightarrow>
          let n1 = n\<lparr>subscribed_scopes := removeAll scope (subscribed_scopes n)\<rparr> in
          (Ok (), if CHR ''*'' \<notin> set scope then act (UnsubscribeA scope) n1 else n1)
      | CmdSubscribeBulletinScope raw \<Rightarrow>
          let scope = trim raw in
          if scope = [] then (Ok (), n)
          else
            let n1 = n\<lparr>bulletin_subscriptions := set_insert scope (bulletin_subscriptions n),
                       subscribed_scopes := set_insert scope (subscribed_scopes n)\<rparr> in
            (Ok (), if CHR ''*'' \<notin> set scope then act (SubscribeA scope) n1 else n1)
      | CmdUnsubscribeBulletinScope scope \<Rightarrow>
          let n1 = n\<lparr>bulletin_subscriptions := filter (\<lambda>s. s \<noteq> scope) (bulletin_subscriptions n),
                     subscribed_scopes := removeAll scope (subscribed_scopes n)\<rparr> in
          (Ok (), if CHR ''*'' \<notin> set scope then act (UnsubscribeA scope) n1 else n1)
      | CmdGcNow \<Rightarrow> gc_tick env n
      | CmdStoreStats \<Rightarrow> (Ok (), n)
      | CmdSetEnergyState st \<Rightarrow> (Ok (), n\<lparr>node_state := st\<rparr>)
      | CmdSetRendezvousEnabled enabled \<Rightarrow>
          (Ok (), act (RegisterRendezvousA enabled) (n\<lparr>rendezvous_enabled := enabled\<rparr>)))"

section \<open>Incoming direct messages\<close>

definition inc_hops :: "DirectMessage \<Rightarrow> DirectMessage" where
  "inc_hops m = m\<lparr>envelope := (envelope m)\<lparr>hop_count := sat_add (hop_count (envelope m)) 1\<rparr>\<rparr>"

definition forwarded :: "node_env \<Rightarrow> NodeRunner \<Rightarrow> DirectMessage \<Rightarrow> DirectMessage" where
  "forwarded env n m = apply_relay_forward_mask (ne_crypto env) (relay_identity n) (inc_hops m)"

text \<open>What follows local delivery: choose where the message goes next.\<close>

definition route_data :: "node_env \<Rightarrow> string \<Rightarrow> DirectMessage \<Rightarrow> NodeRunner \<Rightarrow> node_result" where
  "route_data env from m n =
     (if to_peer (envelope m) = Some (local_id n) then
        (Ok (), add_metric (\<lambda>x. x\<lparr>messages_delivered_local := messages_delivered_local x + 1\<rparr>) n)
      else if is_expired m (ne_now env) then
        (Ok (), add_metric (\<lambda>x. x\<lparr>messages_dropped_ttl := messages_dropped_ttl x + 1\<rparr>) n)
      else if \<not> can_forward (node_state n) (priority (envelope m)) then (Ok (), n)
      else
        let ps = filter (\<lambda>p. p \<noteq> from) (ne_known_peers env);
            by_policy = (\<lambda>n'. case decide (ne_crypto env) (ne_now env) m (local_id n') ps (node_state n') of
                              ForwardTo targets \<Rightarrow>
                                for_each (\<lambda>t n''. enqueue (ne_now env) t (forwarded env n'' m) n'') targets n'
                            | _ \<Rightarrow> (Ok (), n')) in
        case to_peer (envelope m) of
          Some target \<Rightarrow>
            if target \<in> set ps then enqueue (ne_now env) target (forwarded env n m) n
            else by_policy (act (KadFindA target) n)
        | None \<Rightarrow> by_policy n)"

definition handle_data :: "node_env \<Rightarrow> string \<Rightarrow> DirectMessage \<Rightarrow> NodeRunner \<Rightarrow> node_result" where
  "handle_data env from m n =
     (case validate_data_message_signature (ne_crypto env) m (ne_now env) of
        Inl InvalidSignature \<Rightarrow>
          (Ok (), register_strike (ne_now env) from
                    (add_metric (\<lambda>x. x\<lparr>messages_dropped_invalid_sig := messages_dropped_invalid_sig x + 1\<rparr>) n))
      | Inl _ \<Rightarrow>
          (Ok (), add_metric (\<lambda>x. x\<lparr>messages_dropped_no_sig := messages_dropped_no_sig x + 1\<rparr>) n)
      | Inr _ \<Rightarrow>
          if hop_count (envelope m) \<ge> max_hops (envelope m) then
            (Ok (), add_metric (\<lambda>x. x\<lparr>messages_dropped_hops := messages_dropped_hops x + 1\<rparr>) n)
          else
            let author = signature_author_peer (envelope m);
                (r, g) = allow_direct author m (ne_now env) (ingest_guard n);
                n1 = n\<lparr>ingest_guard := g\<rparr> in
            case r of
              Inl reason \<Rightarrow>
                let n2 = record_ingest_reject reason n1 in
                (Ok (), if reason = RateLimit \<or> reason = Replay then register_strike (ne_now env) from n2 else n2)
            | Inr _ \<Rightarrow>
                let (should_process, n2) = node_ingest env m False n1 in
                if \<not> should_process then (Ok (), register_strike (ne_now env) from n2)
                else route_data env from m (deliver m (reward_peer from n2)))"

text \<open>The comparison of the number of own identifiers with four fifths of the remote count is made in double
  precision; it agrees with the exact one below as long as there are fewer than \<open>2 ^ 49\<close> own identifiers.\<close>

definition handle_sync_bloom :: "node_env \<Rightarrow> string \<Rightarrow> bytes \<Rightarrow> u64 \<Rightarrow> NodeRunner \<Rightarrow> node_result" where
  "handle_sync_bloom env from bloom cnt n =
     (case bloom_from_bytes bloom of
        None \<Rightarrow> (Ok (), n)
      | Some remote \<Rightarrow>
          let own = store_list_ids_window (ne_now env) SYNC_WINDOW_MS (store n);
              to_remote = filter (\<lambda>i. \<not> bloom_contains (ne_hash env) remote i) own in
          if 5 * length own > 4 * unat cnt \<and> to_remote \<noteq> [] then
            send_direct env from (SyncIds (take 256 to_remote)) n
          else if 5 * length own < 4 * unat cnt then
            send_direct env from
              (SyncBloom (bloom_to_bytes (bloom_of_ids (ne_hash env) own)) (of_nat (length own))) n
          else (Ok (), n))"

definition handle_sync_ids :: "node_env \<Rightarrow> string \<Rightarrow> string list \<Rightarrow> NodeRunner \<Rightarrow> node_result" where
  "handle_sync_ids env from ids n =
     (let missing = filter (\<lambda>i. \<not> store_contains (store n) i) (take 256 ids) in
      if missing \<noteq> [] then send_direct env from (SyncRequest missing) n else (Ok (), n))"

definition handle_sync_request :: "node_env \<Rightarrow> string \<Rightarrow> string list \<Rightarrow> NodeRunner \<Rightarrow> node_result" where
  "handle_sync_request env from ids n =
     (let ms = List.map_filter (store_load_by_id (store n)) (take 128 ids) in
      if ms \<noteq> [] then send_direct env from (SyncData ms) n else (Ok (), n))"

definition handle_sync_data :: "node_env \<Rightarrow> DirectMessage list \<Rightarrow> NodeRunner \<Rightarrow> node_result" where
  "handle_sync_data env ms n = (Ok (), fold (\<lambda>m n'. snd (node_ingest env m False n')) ms n)"

definition valid_scopes :: "string list \<Rightarrow> string list" where
  "valid_scopes scopes =
     remdups (take 32 (filter (\<lambda>s. s \<noteq> [] \<and> length s \<le> 128 \<and> CHR 0x00 \<notin> set s) scopes))"

definition handle_peer_info :: "node_env \<Rightarrow> string \<Rightarrow> string \<Rightarrow> string list \<Rightarrow> NodeRunner \<Rightarrow> node_result" where
  "handle_peer_info env from hex scopes n =
     (let n1 = (case ne_parse_x25519 env hex of
                  Some pk \<Rightarrow> n\<lparr>peer_x25519 := (peer_x25519 n)(from \<mapsto> pk)\<rparr> | None \<Rightarrow> n);
          v = valid_scopes scopes in
      (Ok (), if v \<noteq> [] then n1\<lparr>peer_scopes := assoc_insert from v (peer_scopes n1)\<rparr> else n1))"

definition handle_encrypted_direct ::
  "node_env \<Rightarrow> string \<Rightarrow> string \<Rightarrow> string \<Rightarrow> bytes \<Rightarrow> bytes option \<Rightarrow> u8 \<Rightarrow> u8 \<Rightarrow> NodeRunner \<Rightarrow> node_result" where
  "handle_encrypted_direct env from to pub ct sig hops maxh n =
     (if to = local_id n then
        (case ne_decrypt env ct (enc_keypair n) of
           Inl e \<Rightarrow> (Err e, n)
         | Inr plain \<Rightarrow>
             let (logical_from, app) = unwrap_inner plain from;
                 n1 = (case ne_parse_x25519 env pub of
                         Some pk \<Rightarrow> n\<lparr>peer_x25519 := (peer_x25519 n)(logical_from \<mapsto> pk)\<rparr> | None \<Rightarrow> n);
                 e = envelope_new (ne_crypto env) (ne_now env) logical_from (Some (local_id n)) app in
             (Ok (), add_metric (\<lambda>x. x\<lparr>messages_delivered_local := messages_delivered_local x + 1\<rparr>)
                       (deliver \<lparr>envelope = e, body = ''[encrypted]''\<rparr> n1)))
      else if hops < maxh then
        let fwd = EncryptedDirect to pub ct sig (sat_add hops 1) maxh;
            (_, fwd') = sign_encrypted_direct (ne_crypto env) (relay_keypair (relay_identity n)) fwd in
        forward_wire_to_others env from fwd' n
      else (Ok (), add_metric (\<lambda>x. x\<lparr>messages_dropped_hops := messages_dropped_hops x + 1\<rparr>) n))"

definition handle_scope_announce :: "node_env \<Rightarrow> string \<Rightarrow> string list \<Rightarrow> NodeRunner \<Rightarrow> node_result" where
  "handle_scope_announce env from scopes n =
     (if from \<notin> set (ne_known_peers env) then (Ok (), n)
      else
        let v = valid_scopes scopes in
        (Ok (), if v = [] then n else n\<lparr>peer_scopes := assoc_insert from v (peer_scopes n)\<rparr>))"

definition handle_incoming_direct :: "node_env \<Rightarrow> string \<Rightarrow> WireMessage \<Rightarrow> NodeRunner \<Rightarrow> node_result" where
  "handle_incoming_direct env from message n0 =
     (let (throttled, n) = is_throttled (ne_now env) from n0;
          cr = ne_crypto env in
      if throttled then (Ok (), n)
      else
        case message of
          Data m \<Rightarrow> handle_data env from m n
        | SyncBloom bloom cnt \<Rightarrow> handle_sync_bloom env from bloom cnt n
        | SyncIds ids \<Rightarrow> handle_sync_ids env from ids n
        | SyncRequest ids \<Rightarrow> handle_sync_request env from ids n
        | SyncData ms \<Rightarrow> handle_sync_data env ms n
        | PeerInfo hex _ scopes \<Rightarrow> handle_peer_info env from hex scopes n
        | EncryptedDirect to pub ct sig hops maxh \<Rightarrow>
            (if sig = None then
               (Ok (), add_metric (\<lambda>x. x\<lparr>messages_dropped_no_sig := messages_dropped_no_sig x + 1\<rparr>) n)
             else
               case peer_parse cr from of
                 None \<Rightarrow> (Ok (), n)
               | Some sender \<Rightarrow>
                   if \<not> verify_encrypted_direct cr message sender then
                     (Ok (), add_metric (\<lambda>x. x\<lparr>messages_dropped_invalid_sig := messages_dropped_invalid_sig x + 1\<rparr>) n)
                   else handle_encrypted_direct env from to pub ct sig hops maxh n)
        | EncryptedGroup _ _ \<Rightarrow> forward_wire_to_others env from message n
        | ScopeAnnounce scopes \<Rightarrow> handle_scope_announce env from scopes n)"

section \<open>Scoped gossip\<close>

text \<open>The common tail of the five routes: an unsigned envelope with the route's body tag, the gossip check, the
  pipeline, and delivery to the application.\<close>

definition ingest_gossip :: "node_env \<Rightarrow> string \<Rightarrow> bytes \<Rightarrow> string \<Rightarrow> NodeRunner \<Rightarrow> node_result" where
  "ingest_gossip env from pl tag n =
     (let e = envelope_new_unsigned (ne_crypto env) (ne_now env) from None pl;
          (r, g) = check_gossip_message from (env_id e) (created_at_ms e) (ne_now env) (ingest_guard n);
          n1 = n\<lparr>ingest_guard := g\<rparr> in
      case r of
        Inl reason \<Rightarrow> (Ok (), record_ingest_reject reason n1)
      | Inr _ \<Rightarrow>
          let stored = \<lparr>envelope = e, body = tag\<rparr>;
              (should_process, n2) = node_ingest env stored False n1 in
          (Ok (), if should_process then deliver stored n2 else n2))"

definition is_encrypted_group :: "WireMessage \<Rightarrow> bool" where
  "is_encrypted_group m = (case m of EncryptedGroup _ _ \<Rightarrow> True | _ \<Rightarrow> False)"

definition handle_scoped :: "node_env \<Rightarrow> string \<Rightarrow> string \<Rightarrow> bytes \<Rightarrow> NodeRunner \<Rightarrow> node_result" where
  "handle_scoped env from scope pl n =
     (let subscribed = (\<exists>pattern\<in>set (subscribed_scopes n). scope_matches scope pattern) in
      if \<not> subscribed then (Ok (), n)
      else
        let (r, g) = check_gossip_payload from (length pl) (ne_now env) (ingest_guard n);
            n1 = n\<lparr>ingest_guard := g\<rparr> in
        case r of
          Inl reason \<Rightarrow> (Ok (), record_ingest_reject reason n1)
        | Inr _ \<Rightarrow>
            if starts_with scope ''mycelium/group/'' \<and>
               (case ne_decode_wire env pl of Some wm \<Rightarrow> is_encrypted_group wm | None \<Rightarrow> False)
            then ingest_gossip env from pl ''[mycelium:group]'' n1
            else if scope = ''mycelium/appstore/v1'' then ingest_gossip env from pl ''[appstore]'' n1
            else if scope = ''mycelium/proximity/v1'' then ingest_gossip env from pl ''[proximity]'' n1
            else if subscribed \<and> (take 5 pl = bytes_of ''enc1:'' \<or> \<not> utf8_valid pl) then
              ingest_gossip env from pl (''[bulletin:'' @ scope @ '']'') n1
            else if utf8_valid pl then ingest_gossip env from pl (string_of_bytes pl) n1
            else (Ok (), n1))"

section \<open>Transport events and the loop\<close>

definition handle_transport_event :: "node_env \<Rightarrow> TransportEvent \<Rightarrow> NodeRunner \<Rightarrow> node_result" where
  "handle_transport_event env ev n =
     (case ev of
        Listening addr \<Rightarrow> (Ok (), n\<lparr>listen_addrs := set_insert addr (listen_addrs n)\<rparr>)
      | PeerUp peer \<Rightarrow>
          if is_relay_peer peer then (Ok (), n)
          else
            let n1 = n\<lparr>peers := set_insert peer (peers n)\<rparr> in
            and_then (send_scope_announce env peer n1) (\<lambda>_ n2.
            and_then (send_peer_info env peer n2) (\<lambda>_ n3.
            send_sync_bloom env peer n3))
      | PeerDown peer \<Rightarrow>
          (Ok (), n\<lparr>peers := filter (\<lambda>p. p \<noteq> peer) (peers n),
                    peer_scopes := filter (\<lambda>(p, _). p \<noteq> peer) (peer_scopes n),
                    peer_x25519 := (peer_x25519 n)(peer := None)\<rparr>)
      | DirectReceived from message \<Rightarrow> handle_incoming_direct env from message n
      | ScopedReceived from scope pl \<Rightarrow> handle_scoped env from scope pl n
      | DirectAck _ _ _ \<Rightarrow> (Ok (), n)
      | SendFailure _ _ \<Rightarrow> (Ok (), n)
      | ConnectivityChanged _ \<Rightarrow> (Ok (), n))"

text \<open>What \<open>run\<close> does before its loop: join the system scopes and the configured bulletin scopes, dial the stored
  targets.\<close>

definition node_start :: "NodeRunner \<Rightarrow> NodeRunner" where
  "node_start n =
     (let n1 = fold (\<lambda>s. act (SubscribeA s)) SYSTEM_SCOPES n in
      act RedialStoredA
        (fold (\<lambda>s n'. act (SubscribeA s) (n'\<lparr>subscribed_scopes := set_insert s (subscribed_scopes n')\<rparr>))
          (bulletin_subscriptions n1) n1))"

text \<open>One turn of the loop of \<open>run\<close>: what woke it up, and the handler it calls.\<close>

datatype node_wakeup =
    WakeEvent TransportEvent
  | WakeCommand NodeCommand
  | WakeRendezvous "string list"
  | WakeForward
  | WakeSync
  | WakeGc
  | WakeDial

definition node_turn :: "node_env \<Rightarrow> node_wakeup \<Rightarrow> NodeRunner \<Rightarrow> node_result" where
  "node_turn env w n =
     (case w of
        WakeEvent ev \<Rightarrow> handle_transport_event env ev n
      | WakeCommand cmd \<Rightarrow> handle_command env cmd n
      | WakeRendezvous ids \<Rightarrow> (Ok (), dial_rendezvous_list env ids n)
      | WakeForward \<Rightarrow> forward_once env n
      | WakeSync \<Rightarrow> sync_known_peers env n
      | WakeGc \<Rightarrow> gc_tick env n
      | WakeDial \<Rightarrow> (Ok (), act RedialStoredA n))"

text \<open>The loop on a finite run: it ends with the first error, otherwise it is still running.\<close>

definition node_run :: "(node_env \<times> node_wakeup) list \<Rightarrow> NodeRunner \<Rightarrow> node_result" where
  "node_run ws n = for_each (\<lambda>(env, w). node_turn env w) ws n"

end
