(* ===== verification/Node_Inv.thy ===== *)
theory Node_Inv
  imports Node
begin

text \<open>
  What every node keeps: the bounds of its queue and its windows, shown for each handler and then for every
  run of the loop.  Before that, the queue and the strikes by themselves.
\<close>

section \<open>Eviction\<close>

definition rank_of :: "PendingMessage \<Rightarrow> u8" where
  "rank_of x = priority_rank (priority (envelope (pm_message x)))"

lemma rank_of_less: "rank_of x < 3"
  by (cases "priority (envelope (pm_message x))") (simp_all add: rank_of_def)

lemma evict_candidate_spec:
  "(evict_candidate q i r c = c \<and> (\<forall>x\<in>set q. r \<le> rank_of x)) \<or>
   (\<exists>j<length q. evict_candidate q i r c = Some (i + j) \<and> rank_of (q ! j) < r \<and>
      (\<forall>x\<in>set q. rank_of (q ! j) \<le> rank_of x) \<and> (\<forall>l<j. rank_of (q ! j) < rank_of (q ! l)))"
proof (induction q arbitrary: i r c)
  case (Cons x q)
  consider "\<not> rank_of x < r" | "rank_of x < r" "rank_of x = 0" | "rank_of x < r" "rank_of x \<noteq> 0"
    by blast
  then show ?case
  proof cases
    case 1
    then have e: "evict_candidate (x # q) i r c = evict_candidate q (Suc i) r c"
      by (simp add: rank_of_def Let_def)
    from Cons [of "Suc i" r c] show ?thesis
    proof (elim disjE exE conjE)
      assume "evict_candidate q (Suc i) r c = c" "\<forall>x\<in>set q. r \<le> rank_of x"
      then show ?thesis
        using 1 e by auto
    next
      fix j
      assume j: "j < length q" "evict_candidate q (Suc i) r c = Some (Suc i + j)" "rank_of (q ! j) < r"
        "\<forall>x\<in>set q. rank_of (q ! j) \<le> rank_of x" "\<forall>l<j. rank_of (q ! j) < rank_of (q ! l)"
      then show ?thesis
        using 1 e by (intro disjI2 exI [of _ "Suc j"]) (auto simp: nth_Cons split: nat.split)
    qed
  next
    case 2
    then show ?thesis
      by (intro disjI2 exI [of _ 0]) (auto simp: rank_of_def Let_def)
  next
    case 3
    then have e: "evict_candidate (x # q) i r c = evict_candidate q (Suc i) (rank_of x) (Some i)"
      by (simp add: rank_of_def Let_def)
    from Cons [of "Suc i" "rank_of x" "Some i"] show ?thesis
    proof (elim disjE exE conjE)
      assume "evict_candidate q (Suc i) (rank_of x) (Some i) = Some i" "\<forall>y\<in>set q. rank_of x \<le> rank_of y"
      then show ?thesis
        using 3 e by (intro disjI2 exI [of _ 0]) auto
    next
      fix j
      assume j: "j < length q" "evict_candidate q (Suc i) (rank_of x) (Some i) = Some (Suc i + j)"
        "rank_of (q ! j) < rank_of x" "\<forall>y\<in>set q. rank_of (q ! j) \<le> rank_of y"
        "\<forall>l<j. rank_of (q ! j) < rank_of (q ! l)"
      then show ?thesis
        using 3 e by (intro disjI2 exI [of _ "Suc j"]) (auto simp: nth_Cons split: nat.split)
    qed
  qed
qed simp

text \<open>A full queue loses the first of its least urgent messages.\<close>

lemma evict_candidate_min:
  assumes "q \<noteq> []"
  obtains j where "j < length q" "evict_candidate q 0 3 None = Some j"
    "\<forall>x\<in>set q. rank_of (q ! j) \<le> rank_of x"
proof -
  have "\<not> (\<forall>x\<in>set q. 3 \<le> rank_of x)"
    using assms rank_of_less [of "hd q"] by (metis hd_in_set not_le)
  then show thesis
    using that evict_candidate_spec [of q 0 3 None] by auto
qed

lemma length_remove_nth: "i < length xs \<Longrightarrow> length (remove_nth i xs) = length xs - 1"
  by (simp add: remove_nth_def)

lemma set_remove_nth: "i < length xs \<Longrightarrow> set xs = insert (xs ! i) (set (remove_nth i xs))"
  using arg_cong [OF id_take_nth_drop, of i xs set] by (simp add: remove_nth_def)

lemma set_remove_nth_subset: "set (remove_nth i xs) \<subseteq> set xs"
  by (auto simp: remove_nth_def dest: in_set_takeD in_set_dropD)

text \<open>What \<open>evict_one\<close> leaves: fewer messages than the bound, all from the queue, and whatever is gone had
  expired or is no more urgent than anything that stays.\<close>

lemma evict_one_cases:
  assumes "0 < cap"
  obtains "evict_one now cap q = evict_expired now q" "length (evict_expired now q) < cap"
  | j where "evict_one now cap q = remove_nth j (evict_expired now q)" "j < length (evict_expired now q)"
      "\<forall>x\<in>set (evict_expired now q). rank_of (evict_expired now q ! j) \<le> rank_of x"
proof (cases "length (evict_expired now q) < cap")
  case True
  then show thesis
    using that(1) by (simp add: evict_one_def Let_def)
next
  case False
  then have "evict_expired now q \<noteq> []"
    using assms by auto
  then obtain j where "j < length (evict_expired now q)"
    "evict_candidate (evict_expired now q) 0 3 None = Some j"
    "\<forall>x\<in>set (evict_expired now q). rank_of (evict_expired now q ! j) \<le> rank_of x"
    by (rule evict_candidate_min)
  then show thesis
    using that(2) [of j] False by (simp add: evict_one_def Let_def)
qed

lemma evict_expired_le: "length (evict_expired now q) \<le> length q"
  by (simp add: evict_expired_def)

lemma evict_one_less:
  assumes "0 < cap" "length q \<le> cap"
  shows "length (evict_one now cap q) < cap"
  using assms(1)
proof (rule evict_one_cases [of cap now q])
  fix j
  assume "evict_one now cap q = remove_nth j (evict_expired now q)" "j < length (evict_expired now q)"
  then show ?thesis
    using assms evict_expired_le [of now q] length_remove_nth [of j "evict_expired now q"] by simp
qed simp

lemma evict_one_subset: "0 < cap \<Longrightarrow> set (evict_one now cap q) \<subseteq> set q"
  by (rule evict_one_cases [of cap now q])
     (auto simp: evict_expired_def dest: subsetD [OF set_remove_nth_subset])

lemma evict_one_urgency:
  assumes "0 < cap" "x \<in> set q" "x \<notin> set (evict_one now cap q)" "\<not> is_expired (pm_message x) now"
    and y: "y \<in> set (evict_one now cap q)"
  shows "rank_of x \<le> rank_of y"
  using assms(1)
proof (rule evict_one_cases [of cap now q])
  assume "evict_one now cap q = evict_expired now q"
  then show ?thesis
    using assms by (simp add: evict_expired_def)
next
  fix j
  assume e: "evict_one now cap q = remove_nth j (evict_expired now q)"
    and j: "j < length (evict_expired now q)"
    and least: "\<forall>x\<in>set (evict_expired now q). rank_of (evict_expired now q ! j) \<le> rank_of x"
  have s: "set (evict_expired now q) = insert (evict_expired now q ! j) (set (evict_one now cap q))"
    using set_remove_nth [OF j] by (simp only: e)
  have "x \<in> set (evict_expired now q)"
    using assms(2,4) by (simp add: evict_expired_def)
  then have "x = evict_expired now q ! j"
    using s assms(3) by simp
  moreover have "y \<in> set (evict_expired now q)"
    using s y by simp
  ultimately show ?thesis
    using least by simp
qed

section \<open>The queue invariant\<close>

definition queue_ok :: "NodeRunner \<Rightarrow> bool" where
  "queue_ok n \<longleftrightarrow> 0 < pending_cap n \<and> length (pending n) \<le> pending_cap n"

definition make_room :: "u64 \<Rightarrow> NodeRunner \<Rightarrow> PendingMessage list" where
  "make_room now n = (if length (pending n) \<ge> pending_cap n
     then evict_one now (pending_cap n) (pending n) else pending n)"

lemma make_room_less: "queue_ok n \<Longrightarrow> length (make_room now n) < pending_cap n"
  using evict_one_less [of "pending_cap n" "pending n" now] by (auto simp: make_room_def queue_ok_def)

lemma enqueue_ok:
  assumes "queue_ok n"
  shows "enqueue now to m n =
    (Ok (), if is_expired m now then n
            else n\<lparr>pending := make_room now n @ [\<lparr>pm_to_peer = to, pm_message = m\<rparr>],
                   metrics := (metrics n)\<lparr>pending_queue_size := Suc (length (make_room now n)),
                                          seen_cache_size := seen_len (seen_cache n)\<rparr>\<rparr>)"
  using make_room_less [OF assms, of now]
  by (auto simp: enqueue_def Let_def make_room_def)

section \<open>Invariants of the loop\<close>

text \<open>The part of a node the invariants below speak about.\<close>

definition same_core :: "NodeRunner \<Rightarrow> NodeRunner \<Rightarrow> bool" where
  "same_core n n' \<longleftrightarrow> pending n' = pending n \<and> pending_cap n' = pending_cap n \<and> seen_cache n' = seen_cache n \<and>
     store n' = store n \<and> ingest_guard n' = ingest_guard n \<and> peer_scopes n' = peer_scopes n \<and> incoming n' = incoming n"

definition guard_step :: "IngestGuard \<Rightarrow> IngestGuard \<Rightarrow> bool" where
  "guard_step g g' \<longleftrightarrow> (\<exists>a m t. g' = snd (allow_direct a m t g)) \<or> (\<exists>a k t. g' = snd (check_gossip_payload a k t g)) \<or>
     (\<exists>a i c t. g' = snd (check_gossip_message a i c t g))"

lemma guard_stepI [simp]:
  "guard_step g (snd (allow_direct a m t g))" "guard_step g (snd (check_gossip_payload a k t g))"
  "guard_step g (snd (check_gossip_message a i c t g))"
  unfolding guard_step_def by blast+

text \<open>A property of the node is kept by every turn of the loop when the primitive steps keep it: putting a message that
  may be queued into the queue, removing from it, the pipeline, the guard, delivery of a message that may be
  delivered, the scopes of a peer, the collection of old messages.\<close>

locale node_invariant =
  fixes P :: "NodeRunner \<Rightarrow> bool"
    and env_ok :: "node_env \<Rightarrow> bool"
    and may_queue :: "DirectMessage \<Rightarrow> bool"
    and may_deliver :: "DirectMessage \<Rightarrow> bool"
  assumes frame: "P n \<Longrightarrow> same_core n n' \<Longrightarrow> P n'"
    and enqueued: "P n \<Longrightarrow> may_queue m \<Longrightarrow> P (snd (enqueue now to m n))"
    and dequeued: "P n \<Longrightarrow> set q \<subseteq> set (pending n) \<Longrightarrow> length q \<le> length (pending n) \<Longrightarrow> P (n\<lparr>pending := q\<rparr>)"
    and ingested: "P n \<Longrightarrow> P (snd (node_ingest env m v n))"
    and guarded: "P n \<Longrightarrow> guard_step (ingest_guard n) g \<Longrightarrow> P (n\<lparr>ingest_guard := g\<rparr>)"
    and delivered: "P n \<Longrightarrow> may_deliver m \<Longrightarrow> P (deliver m n)"
    and scoped: "P n \<Longrightarrow> P (n\<lparr>peer_scopes := assoc_insert p (valid_scopes ss) (peer_scopes n)\<rparr>)"
    and unscoped: "P n \<Longrightarrow> P (n\<lparr>peer_scopes := filter (\<lambda>(p', _). p' \<noteq> p) (peer_scopes n)\<rparr>)"
    and collected: "P n \<Longrightarrow> P (n\<lparr>store := snd (store_gc_expired now (store n))\<rparr>)"
    and queue_own: "may_queue \<lparr>envelope = own_envelope env n dest pl, body = bd\<rparr>"
    and queue_forwarded: "env_ok env \<Longrightarrow> hop_count (envelope m) < max_hops (envelope m) \<Longrightarrow> may_queue (forwarded env n m)"
    and deliver_data: "env_ok env \<Longrightarrow> validate_data_message_signature (ne_crypto env) m t = Inr () \<Longrightarrow>
      hop_count (envelope m) < max_hops (envelope m) \<Longrightarrow> may_deliver m"
    and deliver_own: "may_deliver \<lparr>envelope = envelope_new cr t from dest pl, body = bd\<rparr>"
    and deliver_gossip: "may_deliver \<lparr>envelope = envelope_new_unsigned cr t from dest pl, body = bd\<rparr>"
begin

lemma frame_iff: "same_core n n' \<Longrightarrow> P n' = P n"
  using frame [of n n'] frame [of n' n] by (auto simp: same_core_def)

lemma frame_fields [simp]:
  "P (n\<lparr>actions := a\<rparr>) = P n" "P (n\<lparr>metrics := m\<rparr>) = P n" "P (n\<lparr>peers := ps\<rparr>) = P n"
  "P (n\<lparr>subscribed_scopes := ss\<rparr>) = P n" "P (n\<lparr>bulletin_subscriptions := ss\<rparr>) = P n"
  "P (n\<lparr>peer_reputations := r\<rparr>) = P n" "P (n\<lparr>peer_x25519 := x\<rparr>) = P n" "P (n\<lparr>listen_addrs := l\<rparr>) = P n"
  "P (n\<lparr>rendezvous_enabled := b\<rparr>) = P n" "P (n\<lparr>files := f\<rparr>) = P n" "P (n\<lparr>relay_identity := ri\<rparr>) = P n"
  "P (n\<lparr>node_state := s\<rparr>) = P n"
  by (rule frame_iff, simp add: same_core_def)+

lemma frame_calls [simp]:
  "P (act a n) = P n" "P (add_metric f n) = P n"
  "P (snd (is_throttled now p n)) = P n" "P (register_strike now p n) = P n" "P (reward_peer p n) = P n"
  "P (record_ingest_reject r n) = P n"
  by (simp_all add: act_def add_metric_def is_throttled_def register_strike_def reward_peer_def
      record_ingest_reject_def Let_def split: option.split)

lemma frame_sends [simp]:
  "P (snd (send_direct env to m n)) = P n" "P (snd (publish_scoped env sc pl n)) = P n"
  "P (snd (send_sync_bloom env to n)) = P n" "P (snd (send_scope_announce env to n)) = P n"
  "P (snd (send_peer_info env to n)) = P n"
  by (simp_all add: send_direct_def publish_scoped_def send_sync_bloom_def send_scope_announce_def
      send_peer_info_def Let_def)

lemma each: "P n \<Longrightarrow> (\<And>x s. P s \<Longrightarrow> P (snd (f x s))) \<Longrightarrow> P (snd (for_each f xs n))"
  by (rule for_each_inv)

lemma folded: "P n \<Longrightarrow> (\<And>x s. P s \<Longrightarrow> P (f x s)) \<Longrightarrow> P (fold f xs n)"
  by (induction xs arbitrary: n) auto

lemma chained: "P (snd r) \<Longrightarrow> (\<And>v s. P s \<Longrightarrow> P (snd (f v s))) \<Longrightarrow> P (snd (and_then r f))"
  by (rule and_then_inv) auto

lemmas steps = enqueued ingested each queue_own guarded delivered deliver_own deliver_gossip

lemma keeps_send: "P n \<Longrightarrow> P (snd (send_direct_internal env to bd pl n))"
  by (simp add: send_direct_internal_def Let_def case_prod_unfold steps)

lemma keeps_broadcast: "P n \<Longrightarrow> P (snd (broadcast_scoped env sc bd pl n))"
  by (simp add: broadcast_scoped_def Let_def case_prod_unfold steps)

lemma keeps_gc: "P n \<Longrightarrow> P (snd (gc_tick env n))"
  by (simp add: gc_tick_def collected)

lemma keeps_dial: "P n \<Longrightarrow> P (dial_rendezvous_list env ids n)"
  unfolding dial_rendezvous_list_def Let_def by (rule folded) (auto split: option.split)

lemma keeps_forward_loop: "P n \<Longrightarrow> P (forward_loop env b n)"
proof (induction env b n rule: forward_loop.induct)
  case (2 env b n)
  have "P (n\<lparr>pending := rest\<rparr>)" if "pending n = pm # rest" for pm rest
    using 2(4) that by (auto intro: dequeued)
  with 2 show ?case
    by (auto simp: Let_def send_direct_def split: list.split)
qed simp

lemma keeps_forward: "P n \<Longrightarrow> P (snd (forward_once env n))"
proof -
  assume "P n"
  then have "P (n\<lparr>relay_identity := r, pending := evict_expired now (pending n)\<rparr>)" for r now
    using dequeued [of "n\<lparr>relay_identity := r\<rparr>"] evict_expired_le by (auto simp: evict_expired_def)
  then show ?thesis
    by (simp add: forward_once_def Let_def keeps_forward_loop)
qed

lemma keeps_sync: "P n \<Longrightarrow> P (snd (sync_known_peers env n))"
  by (simp add: sync_known_peers_def each)

lemma keeps_forward_wire: "P n \<Longrightarrow> P (snd (forward_wire_to_others env from m n))"
  by (simp add: forward_wire_to_others_def folded)

lemma keeps_command: "P n \<Longrightarrow> P (snd (handle_command env cmd n))"
  by (cases cmd)
     (auto simp: handle_command_def Let_def keeps_send keeps_broadcast keeps_gc
       split: WireMessage.split option.split prod.split sum.split)

lemma keeps_route:
  "P n \<Longrightarrow> env_ok env \<Longrightarrow> hop_count (envelope m) < max_hops (envelope m) \<Longrightarrow> P (snd (route_data env from m n))"
  by (simp add: route_data_def Let_def steps queue_forwarded split: option.split ForwardDecision.split)

lemma keeps_data: "P n \<Longrightarrow> env_ok env \<Longrightarrow> P (snd (handle_data env from m n))"
  using deliver_data [of env m "ne_now env"]
  by (simp add: handle_data_def Let_def case_prod_unfold keeps_route steps not_le
      split: sum.split Sd030DropReason.split)

lemma keeps_sync_messages:
  assumes "P n"
  shows "P (snd (handle_sync_bloom env from b c n))" "P (snd (handle_sync_ids env from ids n))"
    "P (snd (handle_sync_request env from ids n))" "P (snd (handle_sync_data env ms n))"
  using assms
  by (simp_all add: handle_sync_bloom_def handle_sync_ids_def handle_sync_request_def handle_sync_data_def Let_def
      folded ingested split: option.split)

lemma keeps_scopes:
  assumes "P n"
  shows "P (snd (handle_peer_info env from hex ss n))" "P (snd (handle_scope_announce env from ss n))"
  using assms scoped [of "n\<lparr>peer_x25519 := x\<rparr>" "from" ss for x] scoped [of n "from" ss]
  by (simp_all add: handle_peer_info_def handle_scope_announce_def Let_def split: option.split)

lemma keeps_encrypted: "P n \<Longrightarrow> P (snd (handle_encrypted_direct env from to pub ct sig h mh n))"
  by (simp add: handle_encrypted_direct_def Let_def case_prod_unfold keeps_forward_wire steps
      split: sum.split option.split)

lemma keeps_incoming_direct: "P n \<Longrightarrow> env_ok env \<Longrightarrow> P (snd (handle_incoming_direct env from w n))"
  by (simp add: handle_incoming_direct_def Let_def case_prod_unfold keeps_data keeps_sync_messages keeps_scopes
      keeps_encrypted keeps_forward_wire split: WireMessage.split option.split)

lemma keeps_gossip: "P n \<Longrightarrow> P (snd (ingest_gossip env from pl tag n))"
  by (simp add: ingest_gossip_def Let_def case_prod_unfold steps split: sum.split)

lemma keeps_scoped: "P n \<Longrightarrow> P (snd (handle_scoped env from sc pl n))"
  by (simp add: handle_scoped_def Let_def case_prod_unfold keeps_gossip steps split: sum.split)

lemma keeps_event: "P n \<Longrightarrow> env_ok env \<Longrightarrow> P (snd (handle_transport_event env ev n))"
proof (cases ev)
  case (PeerUp p)
  assume "P n"
  then show ?thesis
    by (simp add: handle_transport_event_def PeerUp Let_def chained)
next
  case (PeerDown p)
  assume "P n"
  then show ?thesis
    using unscoped [of "n\<lparr>peers := filter (\<lambda>q. q \<noteq> p) (peers n)\<rparr>" p]
    by (simp add: handle_transport_event_def PeerDown)
qed (simp_all add: handle_transport_event_def keeps_incoming_direct keeps_scoped)

lemma keeps_turn: "P n \<Longrightarrow> env_ok env \<Longrightarrow> P (snd (node_turn env w n))"
  by (cases w)
     (simp_all add: node_turn_def keeps_event keeps_command keeps_dial keeps_forward keeps_sync keeps_gc)

lemma keeps_run: "P n \<Longrightarrow> \<forall>(env, w)\<in>set ws. env_ok env \<Longrightarrow> P (snd (node_run ws n))"
  unfolding node_run_def by (rule for_each_inv) (auto simp: keeps_turn)

lemma keeps_start: "P n \<Longrightarrow> P (node_start n)"
  by (simp add: node_start_def Let_def folded)

end

section \<open>The bounds are an invariant\<close>

text \<open>The bounded parts of a node.  The database is the one the store was opened on.\<close>

definition node_ok :: "(string, DirectMessage) tree \<Rightarrow> NodeRunner \<Rightarrow> bool" where
  "node_ok db n \<longleftrightarrow> pending_cap n = 1024 \<and> length (pending n) \<le> 1024 \<and>
     seen_ok (seen_cache n) \<and> sc_cap (seen_cache n) = 16384 \<and> store_ok db (store n) \<and> guard_ok (ingest_guard n) \<and>
     distinct (map fst (peer_scopes n)) \<and> (\<forall>(p, ss)\<in>set (peer_scopes n). length ss \<le> 32)"

lemma node_ok_queue: "node_ok db n \<Longrightarrow> queue_ok n"
  by (simp add: node_ok_def queue_ok_def)

lemma enqueue_ok_node: "node_ok db n \<Longrightarrow> node_ok db (snd (enqueue now to m n))"
  using make_room_less [OF node_ok_queue, of db n now]
  by (cases "is_expired m now") (auto simp: enqueue_ok [OF node_ok_queue] node_ok_def)

lemma node_ingest_ok: "node_ok db n \<Longrightarrow> node_ok db (snd (node_ingest env m v n))"
proof (cases "ingest (ne_crypto env) (ne_now env) m v (seen_cache n) (store n)")
  case (fields new seen' st')
  assume ok: "node_ok db n"
  have "seen' = seen_cache n \<or> seen' = seen_insert (env_id (envelope m)) (seen_cache n)"
    using fields by (auto simp: ingest_def Let_def split: if_splits)
  moreover have "store_ok db st'"
    using ok fields by (auto simp: node_ok_def intro: store_ok_ingest)
  ultimately show ?thesis
    using ok fields by (auto simp: node_ingest_def node_ok_def seen.ok_ins seen.cap_ins)
qed

lemma assoc_insert_scopes:
  assumes "distinct (map fst xs)" "\<forall>(p, ss)\<in>set xs. length ss \<le> 32" "length v \<le> 32"
  shows "distinct (map fst (assoc_insert k v xs)) \<and> (\<forall>(p, ss)\<in>set (assoc_insert k v xs). length ss \<le> 32) \<and>
         set (map fst (assoc_insert k v xs)) = insert k (set (map fst xs))"
  using assms by (induction k v xs rule: assoc_insert.induct) auto

lemma length_valid_scopes: "length (valid_scopes ss) \<le> 32"
proof -
  let ?xs = "take 32 (filter (\<lambda>s. s \<noteq> [] \<and> length s \<le> 128 \<and> CHR 0x00 \<notin> set s) ss)"
  have "length (remdups ?xs) \<le> length ?xs"
    by (rule length_remdups_leq)
  also have "length ?xs \<le> 32"
    by simp
  finally show ?thesis
    by (simp add: valid_scopes_def)
qed

lemma node_ok_scopes:
  "node_ok db n \<Longrightarrow> node_ok db (n\<lparr>peer_scopes := assoc_insert p (valid_scopes ss) (peer_scopes n)\<rparr>)"
  using assoc_insert_scopes [of "peer_scopes n" "valid_scopes ss" p] length_valid_scopes [of ss]
  by (simp add: node_ok_def)

lemma guard_ok_step: "guard_ok g \<Longrightarrow> guard_step g g' \<Longrightarrow> guard_ok g'"
  by (auto simp: guard_step_def guard_ok_steps)

interpretation bounds: node_invariant "node_ok db" "\<lambda>_. True" "\<lambda>_. True" "\<lambda>_. True" for db
proof (unfold_locales, goal_cases)
  case (1 n n')
  then show ?case
    by (simp add: node_ok_def same_core_def)
next
  case (5 n g)
  then show ?case
    using guard_ok_step [of "ingest_guard n" g] by (simp add: node_ok_def)
next
  case (8 n q)
  then show ?case
    by (auto simp: node_ok_def distinct_map_filter)
qed (simp_all add: enqueue_ok_node node_ingest_ok node_ok_scopes, simp_all add: node_ok_def deliver_def store_ok_gc)

lemma node_new_ok: "node_ok db (node_new cfg peer kp enc relay db fs)"
  by (simp add: node_ok_def node_new_def store_ok_open) (simp add: seen_new_def)

section \<open>What is delivered and what is queued\<close>

text \<open>A message the application gets has hops left and is one of three things: signed by its author, tagged as
  relayed gossip, or made here from something a peer sent, with no author claimed.\<close>

definition deliverable :: "crypto \<Rightarrow> DirectMessage \<Rightarrow> bool" where
  "deliverable cr m \<longleftrightarrow> hop_count (envelope m) < max_hops (envelope m) \<and>
     (is_gossip_relay_body (body m) \<or> (signature (envelope m) = None \<and> author_peer (envelope m) = None) \<or>
      (\<exists>pid. peer_parse cr (signature_author_peer (envelope m)) = Some pid \<and> envelope_verify cr (envelope m) pid))"

definition flow_ok :: "crypto \<Rightarrow> NodeRunner \<Rightarrow> bool" where
  "flow_ok cr n \<longleftrightarrow> (\<forall>m\<in>set (incoming n). deliverable cr m) \<and>
     (\<forall>x\<in>set (pending n). hop_count (envelope (pm_message x)) \<le> max_hops (envelope (pm_message x)))"

lemma hops_forwarded:
  "hop_count (envelope (forwarded env n m)) = sat_add (hop_count (envelope m)) 1"
  "max_hops (envelope (forwarded env n m)) = max_hops (envelope m)"
  by (simp_all add: forwarded_def apply_relay_forward_mask_def inc_hops_def Let_def split: option.split)

lemma hops_step: "(h :: u8) < k \<Longrightarrow> sat_add h 1 \<le> k"
  by (simp add: word_nat)

lemma hops_own: "hop_count (own_envelope env n to pl) = 0"
  by (simp add: own_envelope_def envelope_sign_def envelope_new_def Let_def split: option.split sum.split)

lemma set_evict_expired: "set (evict_expired now q) \<subseteq> set q"
  by (auto simp: evict_expired_def)

lemma set_evict_one: "set (evict_one now cap q) \<subseteq> set q"
  using set_remove_nth_subset [of _ "evict_expired now q"] set_evict_expired [of now q]
    set_drop_subset [of 1 "evict_expired now q"]
  by (auto simp: evict_one_def Let_def drop_Suc split: option.splits if_splits)

lemma enqueue_flow:
  "set (pending (snd (enqueue now to m n))) \<subseteq> insert \<lparr>pm_to_peer = to, pm_message = m\<rparr> (set (pending n))"
  "incoming (snd (enqueue now to m n)) = incoming n"
  using set_evict_one [of now "pending_cap n" "pending n"] by (auto simp: enqueue_def Let_def)

interpretation flow: node_invariant "flow_ok cr" "\<lambda>env. ne_crypto env = cr"
  "\<lambda>m. hop_count (envelope m) \<le> max_hops (envelope m)" "deliverable cr" for cr
proof (unfold_locales, goal_cases)
  case (2 n m now to)
  then show ?case
    using enqueue_flow [of now to m n] by (auto simp: flow_ok_def)
next
  case (10 env n to pl bd)
  then show ?case
    by (simp add: hops_own)
next
  case (11 env m n)
  then show ?case
    by (simp add: hops_forwarded hops_step)
next
  case (12 env m t)
  then show ?case
    by (auto simp: deliverable_def validate_data_message_signature_def split: if_splits option.splits)
qed (auto simp: flow_ok_def same_core_def deliver_def node_ingest_def deliverable_def envelope_new_def
    envelope_new_unsigned_def default_max_hops_def Let_def split: prod.split)

lemma node_new_flow: "flow_ok cr (node_new cfg peer kp enc relay db fs)"
  by (simp add: flow_ok_def node_new_def)

end
