(* ===== verification/Node_Props.thy ===== *)
theory Node_Props
  imports Node_Inv
begin

text \<open>
  The properties of the mesh node: its bounds over every run, the queue, the strikes, what happens to a message on
  its way through a relay, and the exchange of missing messages.
\<close>

section \<open>Bounds\<close>

text \<open>C14. A node stays bounded whatever its peers and its application do: after any run of the loop from a new
  node, even one that ends with an error, at most 1024 messages wait in the queue, at most 16384
  identifiers are remembered as seen, at most 512 per author in the replay windows, and at most 32 scopes are kept of
  each peer, with one entry per peer.\<close>

theorem node_bounded:
  "let n = snd (node_run ws (node_start (node_new cfg peer kp enc relay db fs))) in
   length (pending n) \<le> 1024 \<and> seen_len (seen_cache n) \<le> 16384 \<and>
   (\<forall>a. length (aw_order (author_entry (replay (ingest_guard n)) a)) \<le> 512) \<and>
   distinct (map fst (peer_scopes n)) \<and> (\<forall>x\<in>set (peer_scopes n). length (snd x) \<le> 32)"
proof -
  define n where "n = snd (node_run ws (node_start (node_new cfg peer kp enc relay db fs)))"
  have ok: "node_ok db n"
    unfolding n_def by (intro bounds.keeps_run bounds.keeps_start node_new_ok) simp
  then have so: "seen_ok (seen_cache n)" "sc_cap (seen_cache n) = 16384" and g: "guard_ok (ingest_guard n)"
    and rest: "length (pending n) \<le> 1024" "distinct (map fst (peer_scopes n))"
      "\<forall>(p, ss)\<in>set (peer_scopes n). length ss \<le> 32"
    unfolding node_ok_def by blast+
  have "seen_len (seen_cache n) = length (sc_order (seen_cache n))"
    using so(1) by (simp add: seen_len_def seen_ok_def distinct_card)
  then have "seen_len (seen_cache n) \<le> 16384"
    using seen.ok_bound [OF so(1)] so(2) by simp
  moreover have "length (aw_order (author_entry (replay (ingest_guard n)) a)) \<le> 512" for a
    using g aw.ok_bound [of "author_entry (replay (ingest_guard n)) a"]
    by (simp add: guard_ok_def replay_ok_def AUTHOR_ID_WINDOW_def)
  ultimately show ?thesis
    using rest unfolding n_def [symmetric] Let_def by (simp add: case_prod_unfold)
qed

text \<open>A concrete environment and node for examples.\<close>

definition demo_env :: node_env where
  "demo_env = \<lparr>ne_crypto = demo_crypto, ne_now = 1000, ne_instant = 0, ne_known_peers = [''a'', ''b''],
     ne_connected_peer_count = 2, ne_max_direct_peers = 50, ne_peer_cap_rejections = 0,
     ne_send = \<lambda>_ _. Ok (), ne_publish = \<lambda>_ _. Ok (), ne_dial = \<lambda>_. Ok (), ne_decode_wire = \<lambda>_. None,
     ne_decrypt = \<lambda>_ _. Err ''bad ciphertext'', ne_parse_x25519 = \<lambda>_. None, ne_enc_public_hex = \<lambda>_. ''00'',
     ne_hash = \<lambda>_ _. 0, ne_new_keypair = [9]\<rparr>"

definition demo_node :: NodeRunner where
  "demo_node = node_new (with_defaults ''db'') ''me'' (Some [1]) [2]
     \<lparr>relay_keypair = [3], relay_created_at = 0\<rparr> [] (\<lambda>_. None)"

lemma node_ok_demo [simp]: "node_ok [] demo_node"
  unfolding demo_node_def by (rule node_new_ok)

theorem node_bounded_witness:
  "length (pending (snd (node_run [(demo_env, WakeForward), (demo_env, WakeGc)] (node_start demo_node)))) \<le> 1024"
  using node_bounded [of "[(demo_env, WakeForward), (demo_env, WakeGc)]" "with_defaults ''db''" "''me''" "Some [1]" "[2]"
      "\<lparr>relay_keypair = [3], relay_created_at = 0\<rparr>" "[]" "\<lambda>_. None"]
  by (simp add: demo_node_def Let_def)

section \<open>Queue\<close>


lemma demo_fresh [simp]: "\<not> is_expired (demo_msg i) 1000"
  by (simp add: is_expired_iff demo_msg_def envelope_new_def Let_def)

lemma demo_node_queue [simp]: "queue_ok demo_node" "pending demo_node = []" "pending_cap demo_node = 1024"
  by (simp_all add: queue_ok_def demo_node_def node_new_def)


section \<open>Strikes\<close>

lemma reputation_after_strike:
  "peer_reputations (register_strike t p n) p =
     Some (strike t (case peer_reputations n p of Some r \<Rightarrow> r | None \<Rightarrow> reputation_default))"
  by (simp add: register_strike_def Let_def)

lemma strike_in_minute:
  "sat_sub t l \<le> 60000 \<Longrightarrow> strike t \<lparr>strikes = c, last_strike_ms = l, throttled_until_ms = h\<rparr> =
     \<lparr>strikes = sat_add c 1, last_strike_ms = t, throttled_until_ms = if 3 \<le> sat_add c 1 then t + 300000 else h\<rparr>"
  by (simp add: strike_def Let_def not_less [symmetric])

lemma strikes_dense:
  assumes "peer_reputations n p = None" "successively (\<lambda>t u. sat_sub u t \<le> 60000) ts" "ts \<noteq> []"
  shows "peer_reputations (fold (\<lambda>t. register_strike t p) ts n) p =
    Some \<lparr>strikes = of_nat (min (length ts) 255), last_strike_ms = last ts,
          throttled_until_ms = (if length ts \<ge> 3 then last ts + 300000 else 0)\<rparr>"
  using assms(2,3)
proof (induction ts rule: rev_induct)
  case (snoc t ts)
  show ?case
  proof (cases "ts = []")
    case True
    then show ?thesis
      using assms(1) by (simp add: reputation_after_strike strike_def reputation_default_def Let_def sat_add_def
          word_le_unat)
  next
    case False
    with snoc have IH: "peer_reputations (fold (\<lambda>t. register_strike t p) ts n) p =
        Some \<lparr>strikes = of_nat (min (length ts) 255), last_strike_ms = last ts,
              throttled_until_ms = (if length ts \<ge> 3 then last ts + 300000 else 0)\<rparr>"
      and gap: "sat_sub t (last ts) \<le> 60000"
      by (simp_all add: successively_append_iff)
    have u: "unat (of_nat (min k 255) :: u8) = min k 255" for k
      by (simp add: unat_of_nat)
    have sat: "sat_add (of_nat (min (length ts) 255)) 1 = (of_nat (min (Suc (length ts)) 255) :: u8)"
      unfolding word_unat_eq_iff unat_sat_add u by simp
    have three: "(3 :: u8) \<le> of_nat (min (Suc (length ts)) 255) \<longleftrightarrow> 3 \<le> Suc (length ts)"
      unfolding word_le_unat u by simp
    have "peer_reputations (fold (\<lambda>t. register_strike t p) (ts @ [t]) n) p =
        Some (strike t \<lparr>strikes = of_nat (min (length ts) 255), last_strike_ms = last ts,
              throttled_until_ms = (if length ts \<ge> 3 then last ts + 300000 else 0)\<rparr>)"
      by (simp add: reputation_after_strike IH)
    then show ?thesis
      unfolding strike_in_minute [OF gap] sat three by auto
  qed
qed simp

lemma strikes_sparse:
  assumes "peer_reputations n p = None" "successively (\<lambda>t u. sat_sub u t > 60000) ts" "ts \<noteq> []"
  shows "peer_reputations (fold (\<lambda>t. register_strike t p) ts n) p =
    Some \<lparr>strikes = 1, last_strike_ms = last ts, throttled_until_ms = 0\<rparr>"
  using assms(2,3)
proof (induction ts rule: rev_induct)
  case (snoc t ts)
  show ?case
  proof (cases "ts = []")
    case True
    then show ?thesis
      using assms(1) by (simp add: reputation_after_strike strike_def reputation_default_def Let_def sat_add_def
          word_le_unat)
  next
    case False
    then show ?thesis
      using snoc by (simp add: reputation_after_strike strike_def Let_def successively_append_iff sat_add_def
          word_le_unat)
  qed
qed simp

lemma throttled_drops:
  "fst (is_throttled (ne_now env) p n) \<Longrightarrow> handle_incoming_direct env p w n = (Ok (), snd (is_throttled (ne_now env) p n))"
  by (simp add: handle_incoming_direct_def case_prod_unfold)

text \<open>C17. Strikes: a peer without a record that is struck at least three times, each time within a minute of the last
  time, is throttled for exactly the five minutes after its last strike, and all its direct messages
  are dropped while it is; fewer strikes, or strikes more than a minute apart, never throttle it.\<close>

theorem strikes_throttle:
  assumes "peer_reputations n p = None" "ts \<noteq> []" "unat (last ts) + 300000 < 2 ^ 64"
    and "n' = fold (\<lambda>t. register_strike t p) ts n"
  shows "(successively (\<lambda>t u. sat_sub u t \<le> 60000) ts \<longrightarrow>
            (fst (is_throttled now p n') \<longleftrightarrow> 3 \<le> length ts \<and> unat now < unat (last ts) + 300000)) \<and>
         (successively (\<lambda>t u. sat_sub u t > 60000) ts \<longrightarrow> \<not> fst (is_throttled now p n')) \<and>
         (\<forall>(env :: node_env) w. ne_now env = now \<and> fst (is_throttled now p n') \<longrightarrow>
            fst (handle_incoming_direct env p w n') = Ok () \<and>
            incoming (snd (handle_incoming_direct env p w n')) = incoming n' \<and>
            store (snd (handle_incoming_direct env p w n')) = store n' \<and>
            actions (snd (handle_incoming_direct env p w n')) = actions n')"
proof (intro conjI impI allI)
  have u: "unat (last ts + 300000) = unat (last ts) + 300000"
    using assms(3) by (simp add: unat_add_no_wrap)
  assume "successively (\<lambda>t u. sat_sub u t \<le> 60000) ts"
  from strikes_dense [OF assms(1) this assms(2)]
  show "fst (is_throttled now p n') \<longleftrightarrow> 3 \<le> length ts \<and> unat now < unat (last ts) + 300000"
    by (simp add: is_throttled_def assms(4) Let_def word_less_unat u)
next
  assume "successively (\<lambda>t u. sat_sub u t > 60000) ts"
  from strikes_sparse [OF assms(1) this assms(2)]
  show "\<not> fst (is_throttled now p n')"
    by (simp add: is_throttled_def assms(4) Let_def)
next
  fix env :: node_env and w
  assume "ne_now env = now \<and> fst (is_throttled now p n')"
  then have h: "handle_incoming_direct env p w n' = (Ok (), snd (is_throttled now p n'))"
    using throttled_drops by blast
  show "fst (handle_incoming_direct env p w n') = Ok ()"
    "incoming (snd (handle_incoming_direct env p w n')) = incoming n'"
    "store (snd (handle_incoming_direct env p w n')) = store n'"
    "actions (snd (handle_incoming_direct env p w n')) = actions n'"
    unfolding h by (simp_all add: is_throttled_def Let_def split: option.split)
qed

theorem strikes_throttle_witness:
  "let n' = fold (\<lambda>t. register_strike t ''a'') [100, 200, 300] demo_node in
   fst (is_throttled 1000 ''a'' n') \<and> \<not> fst (is_throttled 300300 ''a'' n')"
  using strikes_throttle [of demo_node "''a''" "[100, 200, 300]" _ 1000, OF _ _ _ refl]
    strikes_throttle [of demo_node "''a''" "[100, 200, 300]" _ 300300, OF _ _ _ refl]
  by (simp add: Let_def demo_node_def node_new_def sat_sub_def)

section \<open>Relaying\<close>

text \<open>A signature is good for one text only: what makes a signature scheme unforgeable, stated per key.\<close>

definition sig_binding :: "crypto \<Rightarrow> bool" where
  "sig_binding cr \<longleftrightarrow> (\<forall>pk b b' s. pk_verify cr pk b s \<and> pk_verify cr pk b' s \<longrightarrow> b = b')"

lemma sig_bindingD: "sig_binding cr \<Longrightarrow> pk_verify cr pk b s \<Longrightarrow> pk_verify cr pk b' s \<Longrightarrow> b = b'"
  unfolding sig_binding_def by blast

lemma sig_binding_demo [simp]: "sig_binding demo_crypto"
  by (simp add: sig_binding_def demo_crypto_def)

lemma forwarded_fields:
  "signature (envelope (forwarded env n m)) = signature (envelope m)"
  "sig_version (envelope (forwarded env n m)) = sig_version (envelope m)"
  "signature_author_peer (envelope (forwarded env n m)) = signature_author_peer (envelope m)"
  "body (forwarded env n m) = body m"
  by (simp_all add: forwarded_def apply_relay_forward_mask_def inc_hops_def signature_author_peer_def Let_def
      split: option.split)

lemma sat_add_1_neq: "(h :: u8) < k \<Longrightarrow> sat_add h 1 \<noteq> h"
  using unat_bound [of k] by (auto simp: word_nat word_unat_eq_iff dest!: arg_cong [of _ _ unat])

lemma forwarded_unverifiable:
  assumes "sig_binding cr" "envelope_verify cr (envelope m) pid" "hop_count (envelope m) < max_hops (envelope m)"
  shows "\<not> envelope_verify cr (envelope (forwarded env n m)) pid"
proof
  assume "envelope_verify cr (envelope (forwarded env n m)) pid"
  then have "signed_bytes (envelope (forwarded env n m)) = signed_bytes (envelope m)"
    using assms(2) sig_bindingD [OF assms(1)] by (auto simp: envelope_verify_iff forwarded_fields)
  from signed_bytes_hops [OF this] show False
    using sat_add_1_neq [OF assms(3)] by (simp add: forwarded_fields hops_forwarded)
qed

text \<open>C18. A relayed message does not survive its second hop: the hop counter and the sender are part of what the
  author signed, and a relay changes both.  Any signed message that a node accepts and forwards with hops left is
  dropped by the next node as wrongly signed, and the relay gets a strike for it.\<close>

theorem relayed_data_rejected:
  assumes "sig_binding (ne_crypto env)" "validate_data_message_signature (ne_crypto env) m t = Inr ()"
    and "\<not> is_gossip_relay_body (body m)" "hop_count (envelope m) < max_hops (envelope m)"
    and "ne_crypto env' = ne_crypto env"
  shows "handle_data env' relay (forwarded env n m) n' =
    (Ok (), register_strike (ne_now env') relay
       (add_metric (\<lambda>x. x\<lparr>messages_dropped_invalid_sig := messages_dropped_invalid_sig x + 1\<rparr>) n'))"
proof -
  obtain sig pid where m: "signature (envelope m) = Some sig"
    "peer_parse (ne_crypto env) (signature_author_peer (envelope m)) = Some pid"
    "envelope_verify (ne_crypto env) (envelope m) pid"
    using assms(2,3) by (auto simp: validate_data_message_signature_def split: option.splits if_splits)
  have "\<not> envelope_verify (ne_crypto env) (envelope (forwarded env n m)) pid"
    by (rule forwarded_unverifiable [OF assms(1) m(3) assms(4)])
  then have "validate_data_message_signature (ne_crypto env) (forwarded env n m) (ne_now env') = Inl InvalidSignature"
    using m(1,2) assms(3) by (simp add: validate_data_message_signature_def forwarded_fields)
  then show ?thesis
    by (simp add: handle_data_def assms(5))
qed

definition demo_signed :: DirectMessage where
  "demo_signed = \<lparr>envelope = snd (envelope_sign demo_crypto (bytes_of ''p'') (envelope_new demo_crypto 1000 ''p'' None [7])),
     body = ''hi''\<rparr>"

lemma demo_signed_valid: "validate_data_message_signature demo_crypto demo_signed t = Inr ()"
proof -
  let ?e = "envelope_new demo_crypto 1000 ''p'' None [7]"
  have s: "envelope_sign demo_crypto (bytes_of ''p'') ?e = (Ok (), envelope demo_signed)"
    by (simp add: demo_signed_def envelope_sign_def demo_crypto_def Let_def)
  have "envelope_verify demo_crypto (envelope demo_signed) (0, bytes_of ''p'')"
    by (rule envelope_sign_verifies [OF crypto_ok_demo s]) (simp add: demo_crypto_def)
  moreover have "signature_author_peer (envelope demo_signed) = ''p''" "signature (envelope demo_signed) \<noteq> None"
    "body demo_signed = ''hi''"
    by (simp_all add: demo_signed_def envelope_sign_def envelope_new_def signature_author_peer_def demo_crypto_def Let_def)
  moreover have "peer_parse demo_crypto ''p'' = Some (0, bytes_of ''p'')"
    by (simp add: demo_crypto_def)
  ultimately show ?thesis
    by (auto simp: validate_data_message_signature_def is_gossip_relay_body_def)
qed

lemma demo_signed_hops: "hop_count (envelope demo_signed) < max_hops (envelope demo_signed)" "body demo_signed = ''hi''"
  by (simp_all add: demo_signed_def envelope_sign_def envelope_new_def default_max_hops_def demo_crypto_def Let_def)

theorem relayed_data_rejected_witness:
  "validate_data_message_signature demo_crypto demo_signed 0 = Inr () \<and>
   handle_data demo_env ''relay'' (forwarded demo_env demo_node demo_signed) demo_node =
    (Ok (), register_strike 1000 ''relay''
       (add_metric (\<lambda>x. x\<lparr>messages_dropped_invalid_sig := messages_dropped_invalid_sig x + 1\<rparr>) demo_node))"
  using relayed_data_rejected [of demo_env demo_signed 0 demo_env "''relay''" demo_node demo_node]
    demo_signed_valid [of 0] demo_signed_hops
  by (simp add: demo_env_def is_gossip_relay_body_def)

text \<open>A peer can end a node: one correctly signed encrypted message, addressed to the node, whose ciphertext does
  not decrypt makes the handler fail, and the loop of \<open>run\<close> returns that error instead of handling what
  comes after.\<close>

theorem undecryptable_stops_node:
  assumes "\<not> fst (is_throttled (ne_now env) p n)"
    and "peer_parse (ne_crypto env) p = Some pid"
    and "verify_encrypted_direct (ne_crypto env) (EncryptedDirect (local_id n) pub ct sig h mh) pid"
    and "ne_decrypt env ct (enc_keypair n) = Err e"
  shows "node_run ((env, WakeEvent (DirectReceived p (EncryptedDirect (local_id n) pub ct sig h mh))) # later) n =
    (Err e, snd (is_throttled (ne_now env) p n))"
proof -
  have sig: "sig \<noteq> None"
    using assms(3) by (cases sig) (simp_all add: verify_encrypted_direct_def)
  have "local_id (snd (is_throttled (ne_now env) p n)) = local_id n"
    "enc_keypair (snd (is_throttled (ne_now env) p n)) = enc_keypair n"
    by (simp_all add: is_throttled_def Let_def split: option.split)
  then have "handle_incoming_direct env p (EncryptedDirect (local_id n) pub ct sig h mh) n =
      (Err e, snd (is_throttled (ne_now env) p n))"
    using assms sig by (simp add: handle_incoming_direct_def handle_encrypted_direct_def case_prod_unfold Let_def)
  then show ?thesis
    by (simp add: node_run_def node_turn_def handle_transport_event_def)
qed

theorem undecryptable_stops_node_witness:
  "fst (node_run [(demo_env, WakeEvent (DirectReceived ''p''
      (snd (sign_encrypted_direct demo_crypto (bytes_of ''p'') (EncryptedDirect ''me'' ''00'' [1, 2] None 0 8))))),
      (demo_env, WakeForward)] demo_node) = Err ''bad ciphertext''"
proof -
  let ?m = "EncryptedDirect ''me'' ''00'' [1, 2]"
  let ?s = "bytes_of ''p'' @ encrypted_direct_signing_bytes ''me'' ''00'' [1, 2] 0 8"
  have s: "sign_encrypted_direct demo_crypto (bytes_of ''p'') (?m None 0 8) = (Ok (), ?m (Some ?s) 0 8)"
    by (simp add: sign_encrypted_direct_def demo_crypto_def)
  have v: "verify_encrypted_direct demo_crypto (?m (Some ?s) 0 8) (0, bytes_of ''p'')"
    by (rule sign_encrypted_direct_verifies [OF crypto_ok_demo s]) (simp add: demo_crypto_def)
  have n: "local_id demo_node = ''me''" "\<not> fst (is_throttled 1000 ''p'' demo_node)"
    by (simp_all add: demo_node_def node_new_def is_throttled_def)
  have "ne_crypto demo_env = demo_crypto" "ne_now demo_env = 1000" "ne_decrypt demo_env c k = Err ''bad ciphertext''"
    "peer_parse demo_crypto ''p'' = Some (0, bytes_of ''p'')" for c k
    by (simp_all add: demo_env_def demo_crypto_def)
  then show ?thesis
    using undecryptable_stops_node [of demo_env "''p''" demo_node "(0, bytes_of ''p'')" "''00''" "[1, 2]" "Some ?s" 0 8]
      v n s by simp
qed

section \<open>Delivery\<close>



section \<open>Synchronisation\<close>

lemma map_filter_Some: "y \<in> set (List.map_filter f xs) \<longleftrightarrow> (\<exists>x\<in>set xs. f x = Some y)"
  by (force simp: List.map_filter_def image_iff)

lemma node_ingest_store:
  "store_load_by_id (store (snd (node_ingest env m False n))) i =
     (if i = env_id (envelope m) \<and> \<not> is_expired m (ne_now env) \<and> \<not> seen_contains (seen_cache n) i \<and>
         \<not> store_contains (store n) i
      then Some m else store_load_by_id (store n) i)"
  "seen_contains (seen_cache (snd (node_ingest env m False n))) i \<Longrightarrow> seen_ok (seen_cache n) \<Longrightarrow>
     i = env_id (envelope m) \<or> seen_contains (seen_cache n) i"
  by (auto simp: node_ingest_def ingest_def Let_def store.load_persist dest: seen.mem_ins_other split: if_splits)

lemma node_ingest_seen_ok: "seen_ok (seen_cache n) \<Longrightarrow> seen_ok (seen_cache (snd (node_ingest env m v n)))"
  by (simp add: node_ingest_def ingest_def Let_def seen_ok_insert)

lemma node_ingest_keeps:
  "store_load_by_id (store n) i = Some x \<Longrightarrow> store_load_by_id (store (snd (node_ingest env m False n))) i = Some x"
  by (simp add: node_ingest_store store.has_load)

lemma ingest_all_keeps:
  "store_load_by_id (store n) i = Some x \<Longrightarrow>
   store_load_by_id (store (fold (\<lambda>m n'. snd (node_ingest env m False n')) ms n)) i = Some x"
  by (induction ms arbitrary: n) (simp_all add: node_ingest_keeps)

text \<open>A list of messages with one message per identifier, stored on a node that has not seen the identifier.\<close>

lemma ingest_all_stores:
  assumes "m \<in> set ms" "\<forall>m'\<in>set ms. env_id (envelope m') = env_id (envelope m) \<longrightarrow> m' = m"
    and "\<not> is_expired m (ne_now env)" "seen_ok (seen_cache n)"
    and "\<not> seen_contains (seen_cache n) (env_id (envelope m))" "\<not> store_contains (store n) (env_id (envelope m))"
  shows "store_load_by_id (store (fold (\<lambda>m n'. snd (node_ingest env m False n')) ms n)) (env_id (envelope m)) = Some m"
  using assms(1,2,4,5,6)
proof (induction ms arbitrary: n)
  case (Cons x ms)
  let ?n = "snd (node_ingest env x False n)"
  show ?case
  proof (cases "x = m")
    case True
    then have "store_load_by_id (store ?n) (env_id (envelope m)) = Some m"
      using Cons assms(3) by (simp add: node_ingest_store)
    then show ?thesis
      using ingest_all_keeps by simp
  next
    case False
    then have "env_id (envelope x) \<noteq> env_id (envelope m)" "m \<in> set ms"
      using Cons by auto
    moreover from this have "\<not> seen_contains (seen_cache ?n) (env_id (envelope m))"
      "\<not> store_contains (store ?n) (env_id (envelope m))"
      using Cons node_ingest_store(2) [of env x n "env_id (envelope m)"]
      by (auto simp: node_ingest_store store.has_load)
    ultimately show ?thesis
      using Cons(1) [of ?n] Cons(3,4) by (simp add: node_ingest_seen_ok)
  qed
qed simp


definition demo_holder :: NodeRunner where
  "demo_holder = demo_node\<lparr>store := store_persist 1000 (demo_msg ''x'') (store_open [])\<rparr>"

lemma demo_stores:
  "store_load_by_id (store demo_holder) i = (if i = ''x'' then Some (demo_msg ''x'') else None)"
  "store_load_by_id (store demo_node) i = None" "\<not> seen_contains (seen_cache demo_node) i" "ne_now demo_env = 1000"
  by (simp_all add: demo_holder_def demo_node_def demo_env_def node_new_def store.load_persist seen_contains_def seen_new_def)
     (simp_all add: store_load_by_id_def store_open_def)


text \<open>Synchronised messages are not checked: a message of \<open>SyncData\<close>, unsigned or wrongly signed, is stored under
  whatever identifier it carries, and a genuine message with that identifier that arrives later, however well
  signed, never reaches the application; its sender gets a strike.\<close>

theorem sync_data_unchecked:
  assumes "n1 = snd (handle_sync_data env [forged] n)"
    and "\<not> is_expired forged (ne_now env)"
    and "\<not> seen_contains (seen_cache n) (env_id (envelope forged))" "\<not> store_contains (store n) (env_id (envelope forged))"
    and "env_id (envelope m) = env_id (envelope forged)"
  shows "store_load_by_id (store n1) (env_id (envelope forged)) = Some forged \<and>
         (let n2 = snd (handle_data env' p m n1) in
          incoming n2 = incoming n1 \<and> store n2 = store n1 \<and> pending n2 = pending n1)"
proof -
  have l: "store_load_by_id (store n1) (env_id (envelope forged)) = Some forged"
    using assms by (simp add: handle_sync_data_def node_ingest_store)
  then have has: "store_contains (store n1) (env_id (envelope m))"
    by (simp add: store.has_load assms(5))
  have no: "node_ingest env' m False (n1\<lparr>ingest_guard := g\<rparr>) = (False, n1\<lparr>ingest_guard := g\<rparr>)" for g
    using has by (simp add: node_ingest_def ingest_def Let_def)
  have strike: "incoming (register_strike t p x) = incoming x" "store (register_strike t p x) = store x"
    "pending (register_strike t p x) = pending x" for t and x :: NodeRunner
    by (simp_all add: register_strike_def Let_def)
  have rej: "incoming (record_ingest_reject r x) = incoming x" "store (record_ingest_reject r x) = store x"
    "pending (record_ingest_reject r x) = pending x" for r and x :: NodeRunner
    by (simp_all add: record_ingest_reject_def)
  show ?thesis
    using l by (simp add: handle_data_def no strike rej add_metric_def Let_def case_prod_unfold
        split: sum.split Sd030DropReason.split)
qed

theorem sync_data_unchecked_witness:
  "let n1 = snd (handle_sync_data demo_env [demo_msg (env_id (envelope demo_signed))] demo_node) in
   validate_data_message_signature demo_crypto demo_signed 1000 = Inr () \<and>
   incoming (snd (handle_data demo_env ''p'' demo_signed n1)) = incoming n1"
  using sync_data_unchecked [OF refl, of "demo_msg (env_id (envelope demo_signed))" demo_env demo_node demo_signed demo_env "''p''"]
    demo_signed_valid
  by (simp add: demo_stores store.has_load Let_def)

end
