(* ===== verification/Transport.thy ===== *)
theory Transport
  imports Node_State
begin

text \<open>
  \<open>mycelium-node/src/transport.rs\<close> and \<open>connectivity.rs\<close>: the bounded set of direct peers with eviction of the least
  recently used one, and the translation of swarm events into transport events.  The swarm of
  \<open>libp2p\<close> is a parameter: what it answers is the record \<open>swarm_env\<close>, what it is asked is a list of
  actions.  A multiaddress and a peer identifier are their text; a hash map is a list in some
  order; an \<open>Instant\<close> is a number.
\<close>

section \<open>Direct peer cap\<close>

definition MAX_DIRECT_PEERS_DEFAULT :: nat where "MAX_DIRECT_PEERS_DEFAULT = 50"

datatype PeerAdmitAction = Admitted | Evict string | Reject

record DirectPeerCap =
  cap_max :: nat
  cap_peers :: "string list"
  cap_last_seen :: "(string \<times> nat) list"
  cap_rejections :: u64

definition cap_new :: "nat \<Rightarrow> DirectPeerCap" where
  "cap_new k = \<lparr>cap_max = k, cap_peers = [], cap_last_seen = [], cap_rejections = 0\<rparr>"

definition cap_len :: "DirectPeerCap \<Rightarrow> nat" where "cap_len c = length (cap_peers c)"

definition cap_contains :: "DirectPeerCap \<Rightarrow> string \<Rightarrow> bool" where "cap_contains c p = (p \<in> set (cap_peers c))"

definition cap_touch :: "nat \<Rightarrow> string \<Rightarrow> DirectPeerCap \<Rightarrow> DirectPeerCap" where
  "cap_touch now p c =
     (if cap_contains c p then c\<lparr>cap_last_seen := assoc_insert p now (cap_last_seen c)\<rparr> else c)"

definition cap_remove :: "string \<Rightarrow> DirectPeerCap \<Rightarrow> DirectPeerCap" where
  "cap_remove p c =
     c\<lparr>cap_peers := filter (\<lambda>q. q \<noteq> p) (cap_peers c),
       cap_last_seen := filter (\<lambda>(q, _). q \<noteq> p) (cap_last_seen c)\<rparr>"

definition cap_insert :: "nat \<Rightarrow> string \<Rightarrow> DirectPeerCap \<Rightarrow> DirectPeerCap" where
  "cap_insert now p c =
     c\<lparr>cap_peers := set_insert p (cap_peers c), cap_last_seen := assoc_insert p now (cap_last_seen c)\<rparr>"

text \<open>\<open>min_by_key\<close>: the first of the entries with the smallest time.\<close>

fun least_seen :: "(string \<times> nat) list \<Rightarrow> (string \<times> nat) option" where
  "least_seen [] = None"
| "least_seen ((p, t) # xs) =
     (case least_seen xs of None \<Rightarrow> Some (p, t) | Some (q, u) \<Rightarrow> if u < t then Some (q, u) else Some (p, t))"

definition find_least_recently_used_peer :: "DirectPeerCap \<Rightarrow> string option" where
  "find_least_recently_used_peer c = map_option fst (least_seen (cap_last_seen c))"

definition cap_admit :: "nat \<Rightarrow> string \<Rightarrow> DirectPeerCap \<Rightarrow> PeerAdmitAction \<times> DirectPeerCap" where
  "cap_admit now p c =
     (if cap_contains c p then (Admitted, cap_touch now p c)
      else if cap_len c \<ge> cap_max c then
        (case find_least_recently_used_peer c of
           Some oldest \<Rightarrow> (Evict oldest, cap_remove oldest c)
         | None \<Rightarrow> (Reject, c\<lparr>cap_rejections := sat_add (cap_rejections c) 1\<rparr>))
      else (Admitted, c))"

section \<open>Transport state\<close>

datatype swarm_action =
    SwListen string
  | SwDial string
  | SwDisconnect string
  | SwAddExplicit string
  | SwRemoveExplicit string
  | SwKadClient
  | SwKadAdd string string
  | SwKadBootstrap
  | SwKadClosest string
  | SwRequest string WireMessage
  | SwResponse string
  | SwPublish string bytes
  | SwSubscribe string
  | SwUnsubscribe string

record swarm_env =
  sw_instant :: nat
  sw_is_connected :: "string \<Rightarrow> bool"
  sw_parse_addr :: "string \<Rightarrow> string option"
  sw_addr_peer :: "string \<Rightarrow> string option"
  sw_addr_has_peer :: "string \<Rightarrow> string \<Rightarrow> bool"
  sw_addr_push_peer :: "string \<Rightarrow> string \<Rightarrow> string"
  sw_parse_peer :: "string \<Rightarrow> string option"
  sw_listen :: "string \<Rightarrow> unit result"
  sw_dial :: "string \<Rightarrow> unit result"
  sw_publish :: "string \<Rightarrow> bytes \<Rightarrow> unit result"
  sw_subscribe :: "string \<Rightarrow> bool result"
  sw_crypto :: crypto

record Libp2pTransport =
  tr_local_peer_id :: string
  tr_peer_cap :: DirectPeerCap
  tr_has_connectivity_rx :: bool
  tr_bootstrap_peers :: "string list"
  tr_out :: "swarm_action list"

definition sw :: "swarm_action \<Rightarrow> Libp2pTransport \<Rightarrow> Libp2pTransport" where
  "sw a t = t\<lparr>tr_out := tr_out t @ [a]\<rparr>"

definition on_cap :: "(DirectPeerCap \<Rightarrow> DirectPeerCap) \<Rightarrow> Libp2pTransport \<Rightarrow> Libp2pTransport" where
  "on_cap f t = t\<lparr>tr_peer_cap := f (tr_peer_cap t)\<rparr>"

text \<open>A failed dial is logged.\<close>

definition dial_all_bootstraps :: "Libp2pTransport \<Rightarrow> Libp2pTransport" where
  "dial_all_bootstraps t = fold (\<lambda>addr. sw (SwDial addr)) (tr_bootstrap_peers t) t"

text \<open>Listen on the first bootstrap address over TCP, through the relay.\<close>

definition enable_relay_inbound_listen :: "swarm_env \<Rightarrow> Libp2pTransport \<Rightarrow> Libp2pTransport" where
  "enable_relay_inbound_listen env t =
     (case find (\<lambda>a. contains_str a ''/tcp/'') (tr_bootstrap_peers t) of
        None \<Rightarrow> t
      | Some addr \<Rightarrow>
          (case sw_parse_addr env (addr @ ''/p2p-circuit'') of
             None \<Rightarrow> t
           | Some listen_addr \<Rightarrow> sw (SwListen listen_addr) t))"

definition setup_kad :: "swarm_env \<Rightarrow> Libp2pTransport \<Rightarrow> Libp2pTransport" where
  "setup_kad env t =
     (let t1 = fold (\<lambda>addr t'. case sw_addr_peer env addr of None \<Rightarrow> t' | Some p \<Rightarrow> sw (SwKadAdd p addr) t')
                 (tr_bootstrap_peers t) (sw SwKadClient t) in
      if tr_bootstrap_peers t \<noteq> [] then sw SwKadBootstrap t1 else t1)"

definition transport_new ::
  "swarm_env \<Rightarrow> string \<Rightarrow> string \<Rightarrow> string list \<Rightarrow> bool \<Rightarrow> nat \<Rightarrow> Libp2pTransport result" where
  "transport_new env local listen_addr boots has_rx max_peers =
     (case sw_listen env listen_addr of
        Inl e \<Rightarrow> Err e
      | Inr _ \<Rightarrow>
          let t = \<lparr>tr_local_peer_id = local,
                   tr_peer_cap = cap_new (if max_peers = 0 then MAX_DIRECT_PEERS_DEFAULT else max_peers),
                   tr_has_connectivity_rx = has_rx,
                   tr_bootstrap_peers = List.map_filter (sw_parse_addr env) boots,
                   tr_out = [SwListen listen_addr, SwListen ''/ip4/0.0.0.0/udp/0/quic-v1'']\<rparr> in
          Ok (setup_kad env (enable_relay_inbound_listen env (dial_all_bootstraps t))))"

section \<open>Connectivity\<close>

datatype KadConnectivityAction = Activate | Pause

fun kad_action_for_mode :: "ConnectivityMode \<Rightarrow> KadConnectivityAction" where
  "kad_action_for_mode Internet = Activate"
| "kad_action_for_mode MeshOnly = Pause"

text \<open>One probe of the monitor: the mode it remembers and what it sends.\<close>

definition monitor_probe :: "bool \<Rightarrow> ConnectivityMode \<Rightarrow> ConnectivityMode option \<times> ConnectivityMode" where
  "monitor_probe reachable current =
     (let new_mode = (if reachable then Internet else MeshOnly) in
      if new_mode \<noteq> current then (Some new_mode, new_mode) else (None, current))"

definition apply_kad_connectivity :: "KadConnectivityAction \<Rightarrow> Libp2pTransport \<Rightarrow> Libp2pTransport" where
  "apply_kad_connectivity action t =
     (let t1 = sw SwKadClient t in
      case action of Activate \<Rightarrow> sw SwKadBootstrap (dial_all_bootstraps t1) | Pause \<Rightarrow> t1)"

definition handle_connectivity_change :: "ConnectivityMode \<Rightarrow> Libp2pTransport \<Rightarrow> Libp2pTransport" where
  "handle_connectivity_change mode t = apply_kad_connectivity (kad_action_for_mode mode) t"

section \<open>Peers\<close>

fun kad_add_and_dial :: "swarm_env \<Rightarrow> string \<Rightarrow> string list \<Rightarrow> Libp2pTransport \<Rightarrow> Libp2pTransport" where
  "kad_add_and_dial env p [] t = t"
| "kad_add_and_dial env p (addr # addrs) t =
     (let t1 = sw (SwKadAdd p addr) t in
      if \<not> sw_is_connected env p then sw (SwDial addr) t1 else kad_add_and_dial env p addrs t1)"

definition kad_maybe_dial :: "swarm_env \<Rightarrow> string \<Rightarrow> string list \<Rightarrow> Libp2pTransport \<Rightarrow> Libp2pTransport" where
  "kad_maybe_dial env p addrs t =
     (if p = tr_local_peer_id t \<or> is_relay_peer p then t else kad_add_and_dial env p addrs t)"

definition handle_connection_established :: "swarm_env \<Rightarrow> string \<Rightarrow> Libp2pTransport \<Rightarrow> bool \<times> Libp2pTransport" where
  "handle_connection_established env p t =
     (if p = tr_local_peer_id t \<or> is_relay_peer p then (False, t)
      else if cap_contains (tr_peer_cap t) p then (False, on_cap (cap_touch (sw_instant env) p) t)
      else
        let (action, c) = cap_admit (sw_instant env) p (tr_peer_cap t);
            t1 = t\<lparr>tr_peer_cap := c\<rparr> in
        case action of
          Evict q \<Rightarrow> (True, on_cap (cap_insert (sw_instant env) p) (sw (SwDisconnect q) t1))
        | Reject \<Rightarrow> (False, sw (SwDisconnect p) t1)
        | Admitted \<Rightarrow> (True, on_cap (cap_insert (sw_instant env) p) t1))"

definition queue_dial_target :: "swarm_env \<Rightarrow> string \<Rightarrow> Libp2pTransport \<Rightarrow> unit result \<times> Libp2pTransport" where
  "queue_dial_target env multiaddr t =
     (case sw_parse_addr env multiaddr of
        None \<Rightarrow> (Err ''invalid multiaddr'', t)
      | Some addr \<Rightarrow>
          let t1 = (if addr \<in> set (tr_bootstrap_peers t) then t
                    else t\<lparr>tr_bootstrap_peers := tr_bootstrap_peers t @ [addr]\<rparr>) in
          (sw_dial env addr, sw (SwDial addr) t1))"

section \<open>The calls of the node\<close>

definition known_peers :: "Libp2pTransport \<Rightarrow> string list" where
  "known_peers t = filter (\<lambda>p. \<not> is_relay_peer p) (cap_peers (tr_peer_cap t))"

definition connected_peer_count :: "Libp2pTransport \<Rightarrow> nat" where
  "connected_peer_count t = cap_len (tr_peer_cap t)"

definition dial_peer :: "swarm_env \<Rightarrow> string \<Rightarrow> Libp2pTransport \<Rightarrow> unit result \<times> Libp2pTransport" where
  "dial_peer env multiaddr t =
     (case sw_parse_addr env multiaddr of
        None \<Rightarrow> (Err ''invalid multiaddr'', t)
      | Some addr \<Rightarrow> (sw_dial env addr, sw (SwDial addr) t))"

definition transport_send_direct ::
  "swarm_env \<Rightarrow> string \<Rightarrow> WireMessage \<Rightarrow> Libp2pTransport \<Rightarrow> unit result \<times> Libp2pTransport" where
  "transport_send_direct env to m t =
     (case sw_parse_peer env to of
        None \<Rightarrow> (Err ''invalid peer id'', t)
      | Some p \<Rightarrow> (Ok (), sw (SwRequest p m) (on_cap (cap_touch (sw_instant env) p) t)))"

definition transport_publish :: "swarm_env \<Rightarrow> string \<Rightarrow> bytes \<Rightarrow> Libp2pTransport \<Rightarrow> unit result \<times> Libp2pTransport" where
  "transport_publish env scope pl t = (sw_publish env scope pl, sw (SwPublish scope pl) t)"

definition subscribe_scope :: "swarm_env \<Rightarrow> string \<Rightarrow> Libp2pTransport \<Rightarrow> unit result \<times> Libp2pTransport" where
  "subscribe_scope env scope t =
     (case sw_subscribe env scope of
        Inl e \<Rightarrow> (Err e, sw (SwSubscribe scope) t)
      | Inr ok \<Rightarrow> (if ok then Ok () else Err (''failed to subscribe to gossip topic: '' @ scope), sw (SwSubscribe scope) t))"

definition unsubscribe_scope :: "string \<Rightarrow> Libp2pTransport \<Rightarrow> unit result \<times> Libp2pTransport" where
  "unsubscribe_scope scope t = (Ok (), sw (SwUnsubscribe scope) t)"

definition kad_find_peer :: "swarm_env \<Rightarrow> string \<Rightarrow> Libp2pTransport \<Rightarrow> Libp2pTransport" where
  "kad_find_peer env target t = (case sw_parse_peer env target of None \<Rightarrow> t | Some p \<Rightarrow> sw (SwKadClosest p) t)"

section \<open>Events of the swarm\<close>

definition blake3_hex :: "crypto \<Rightarrow> bytes \<Rightarrow> string" where
  "blake3_hex cr b = to_hex cr (blake3 cr b)"

fun message_id_for_wire :: "crypto \<Rightarrow> WireMessage \<Rightarrow> string" where
  "message_id_for_wire cr (Data m) = env_id (envelope m)"
| "message_id_for_wire cr (SyncBloom bloom cnt) = ''sync_bloom:'' @ dec (unat cnt) @ '':'' @ blake3_hex cr bloom"
| "message_id_for_wire cr (SyncIds ids) = ''sync_ids:'' @ blake3_hex cr (bytes_of (join_with CHR '','' ids))"
| "message_id_for_wire cr (SyncRequest ids) = ''sync_req:'' @ blake3_hex cr (bytes_of (join_with CHR '','' ids))"
| "message_id_for_wire cr (SyncData ms) =
     ''sync_data:'' @ blake3_hex cr (bytes_of (join_with CHR '','' (map (\<lambda>m. env_id (envelope m)) ms)))"
| "message_id_for_wire cr (ScopeAnnounce scopes) =
     ''scope_announce:'' @ blake3_hex cr (bytes_of (join_with CHR '','' scopes))"
| "message_id_for_wire cr (EncryptedDirect _ _ pl _ _ _) = ''enc_direct:'' @ blake3_hex cr pl"
| "message_id_for_wire cr (EncryptedGroup gid pl) = ''enc_group:'' @ gid @ '':'' @ blake3_hex cr pl"
| "message_id_for_wire cr (PeerInfo hex _ _) = ''peer_info:'' @ blake3_hex cr (bytes_of hex)"

datatype swarm_event =
    NewListenAddr string
  | MdnsDiscovered "(string \<times> string) list"
  | MdnsExpired "string list"
  | OutgoingConnectionError
  | ConnectionEstablished string
  | ConnectionClosed string
  | IdentifyReceived string
  | DirectRequest string WireMessage
  | DirectResponse string string bool
  | OutboundFailure string string
  | GossipMessage string string bytes
  | KadRoutingUpdated string "string list"
  | KadClosestPeers "(string \<times> string list) list"
  | OtherSwarmEvent

definition mdns_discovered :: "swarm_env \<Rightarrow> string \<times> string \<Rightarrow> Libp2pTransport \<Rightarrow> Libp2pTransport" where
  "mdns_discovered env pa t =
     (let (p, addr) = pa in
      if p = tr_local_peer_id t then t
      else
        let t1 = sw (SwAddExplicit p) t;
            dial_addr = (if sw_addr_has_peer env addr p then addr else sw_addr_push_peer env addr p);
            t2 = (if dial_addr \<in> set (tr_bootstrap_peers t1) then t1
                  else t1\<lparr>tr_bootstrap_peers := tr_bootstrap_peers t1 @ [dial_addr]\<rparr>) in
        sw (SwDial dial_addr) t2)"

definition mdns_expired :: "swarm_env \<Rightarrow> string \<Rightarrow> Libp2pTransport \<Rightarrow> Libp2pTransport" where
  "mdns_expired env p t =
     (if p = tr_local_peer_id t \<or> is_relay_peer p then t
      else if sw_is_connected env p then t
      else sw (SwRemoveExplicit p) t)"

definition peer_up :: "swarm_env \<Rightarrow> string \<Rightarrow> Libp2pTransport \<Rightarrow> TransportEvent option \<times> Libp2pTransport" where
  "peer_up env p t =
     (let (new, t1) = handle_connection_established env p t in
      if new then (Some (PeerUp p), sw (SwAddExplicit p) t1) else (None, t1))"

definition handle_swarm_event ::
  "swarm_env \<Rightarrow> swarm_event \<Rightarrow> Libp2pTransport \<Rightarrow> TransportEvent option \<times> Libp2pTransport" where
  "handle_swarm_event env ev t =
     (case ev of
        NewListenAddr a \<Rightarrow> (Some (Listening a), t)
      | MdnsDiscovered ps \<Rightarrow> (None, fold (mdns_discovered env) ps t)
      | MdnsExpired ps \<Rightarrow> (None, fold (mdns_expired env) ps t)
      | OutgoingConnectionError \<Rightarrow> (None, t)
      | ConnectionEstablished p \<Rightarrow> peer_up env p t
      | ConnectionClosed p \<Rightarrow>
          if \<not> is_relay_peer p \<and> cap_contains (tr_peer_cap t) p
          then (Some (PeerDown p), sw (SwRemoveExplicit p) (on_cap (cap_remove p) t))
          else (None, t)
      | IdentifyReceived p \<Rightarrow> peer_up env p t
      | DirectRequest p m \<Rightarrow>
          (Some (DirectReceived p m),
           sw (SwResponse (message_id_for_wire (sw_crypto env) m)) (on_cap (cap_touch (sw_instant env) p) t))
      | DirectResponse p i ok \<Rightarrow> (Some (DirectAck p i ok), t)
      | OutboundFailure p e \<Rightarrow> (Some (SendFailure p e), t)
      | GossipMessage src topic pl \<Rightarrow> (Some (ScopedReceived src topic pl), t)
      | KadRoutingUpdated p addrs \<Rightarrow> (None, kad_maybe_dial env p addrs t)
      | KadClosestPeers ps \<Rightarrow> (None, fold (\<lambda>(p, addrs). kad_maybe_dial env p addrs) ps t)
      | OtherSwarmEvent \<Rightarrow> (None, t))"

text \<open>What wakes \<open>next_event\<close>: the connectivity channel (\<open>None\<close> when it is closed) or the swarm.\<close>

datatype transport_input = ConnectivityInput "ConnectivityMode option" | SwarmInput swarm_event

definition poll_event ::
  "swarm_env \<Rightarrow> transport_input \<Rightarrow> Libp2pTransport \<Rightarrow> TransportEvent option \<times> Libp2pTransport" where
  "poll_event env i t =
     (case i of
        ConnectivityInput None \<Rightarrow> (None, t\<lparr>tr_has_connectivity_rx := False\<rparr>)
      | ConnectivityInput (Some mode) \<Rightarrow> (Some (ConnectivityChanged mode), handle_connectivity_change mode t)
      | SwarmInput ev \<Rightarrow> handle_swarm_event env ev t)"

text \<open>A run of the transport: the events it returns and the state it reaches.\<close>

fun transport_run ::
  "(swarm_env \<times> transport_input) list \<Rightarrow> Libp2pTransport \<Rightarrow> TransportEvent list \<times> Libp2pTransport" where
  "transport_run [] t = ([], t)"
| "transport_run ((env, i) # is) t =
     (let (ev, t1) = poll_event env i t; (evs, t2) = transport_run is t1 in
      (case ev of None \<Rightarrow> evs | Some e \<Rightarrow> e # evs, t2))"

end
