(* ===== verification/Transport_Props.thy ===== *)
theory Transport_Props
  imports Transport
begin

text \<open>
  The direct peers of the transport as a bounded list in order of use, the refinement of the cap to it, and what the
  node is told about peers.
\<close>

section \<open>Association lists with distinct keys\<close>

lemma assoc_insert_keys: "set (map fst (assoc_insert k v xs)) = insert k (set (map fst xs))"
  by (induction k v xs rule: assoc_insert.induct) auto

lemma assoc_insert_distinct: "distinct (map fst xs) \<Longrightarrow> distinct (map fst (assoc_insert k v xs))"
proof (induction k v xs rule: assoc_insert.induct)
  case (2 k v k' v' t)
  then show ?case
    using assoc_insert_keys [of k v t] by auto
qed simp

lemma assoc_insert_mset:
  "distinct (map fst xs) \<Longrightarrow> mset (assoc_insert k v xs) = add_mset (k, v) (mset (filter (\<lambda>x. fst x \<noteq> k) xs))"
proof (induction k v xs rule: assoc_insert.induct)
  case (2 k v k' v' t)
  show ?case
  proof (cases "k' = k")
    case True
    then have "filter (\<lambda>x. fst x \<noteq> k) t = t"
      using 2(2) by (auto simp: filter_id_conv)
    with True show ?thesis
      by simp
  next
    case False
    with 2 show ?thesis
      by simp
  qed
qed simp

section \<open>The abstract least-recently-used list\<close>

text \<open>Peers in order of use, the least recently used first.\<close>

definition lru_touch :: "'a \<Rightarrow> 'a list \<Rightarrow> 'a list" where
  "lru_touch p xs = (if p \<in> set xs then filter (\<lambda>q. q \<noteq> p) xs @ [p] else xs)"

definition lru_admit :: "nat \<Rightarrow> 'a \<Rightarrow> 'a list \<Rightarrow> 'a list" where
  "lru_admit k p xs = (if p \<in> set xs then lru_touch p xs else (if length xs < k then xs else tl xs) @ [p])"

definition cap_order :: "DirectPeerCap \<Rightarrow> string list" where
  "cap_order c = map fst (sort_key snd (cap_last_seen c))"

definition cap_ok :: "DirectPeerCap \<Rightarrow> bool" where
  "cap_ok c \<longleftrightarrow> 0 < cap_max c \<and> distinct (cap_peers c) \<and> distinct (map fst (cap_last_seen c)) \<and>
     set (map fst (cap_last_seen c)) = set (cap_peers c) \<and> length (cap_peers c) \<le> cap_max c \<and> cap_rejections c = 0"

definition clock_ahead :: "nat \<Rightarrow> DirectPeerCap \<Rightarrow> bool" where
  "clock_ahead now c \<longleftrightarrow> distinct (map snd (cap_last_seen c)) \<and> (\<forall>(p, t)\<in>set (cap_last_seen c). t < now)"

lemma cap_ok_lengths:
  assumes "cap_ok c"
  shows "length (cap_last_seen c) = length (cap_peers c)"
  using assms distinct_card [of "map fst (cap_last_seen c)"] distinct_card [of "cap_peers c"]
  by (simp add: cap_ok_def)

lemma cap_order_props:
  assumes "cap_ok c"
  shows "set (cap_order c) = set (cap_peers c)" "distinct (cap_order c)" "length (cap_order c) = length (cap_peers c)"
proof -
  show "set (cap_order c) = set (cap_peers c)" "length (cap_order c) = length (cap_peers c)"
    using assms cap_ok_lengths [OF assms] by (simp_all add: cap_order_def cap_ok_def)
  have "mset (map fst (sort_key snd (cap_last_seen c))) = mset (map fst (cap_last_seen c))"
    by (simp add: mset_map)
  then show "distinct (cap_order c)"
    using assms unfolding cap_order_def cap_ok_def by (metis mset_eq_imp_distinct_iff)
qed

lemma assoc_insert_times:
  assumes "distinct (map fst xs)" "distinct (map snd xs)" "\<forall>(q, t)\<in>set xs. t < now"
  shows "distinct (map snd (assoc_insert p now xs))" "\<forall>(q, t)\<in>set (assoc_insert p now xs). t < Suc now"
proof -
  have m: "mset (assoc_insert p now xs) = mset ((p, now) # filter (\<lambda>x. fst x \<noteq> p) xs)"
    by (simp add: assoc_insert_mset [OF assms(1)])
  have "distinct (map snd ((p, now) # filter (\<lambda>x. fst x \<noteq> p) xs))"
    using assms(2,3) by (fastforce simp: distinct_map_filter)
  then show "distinct (map snd (assoc_insert p now xs))"
    using m by (metis mset_eq_imp_distinct_iff mset_map)
  show "\<forall>(q, t)\<in>set (assoc_insert p now xs). t < Suc now"
    using mset_eq_setD [OF m] assms(3) by auto
qed

lemma order_after_use:
  fixes now :: nat
  assumes "distinct (map fst xs)" "distinct (map snd xs)" "\<forall>(q, t)\<in>set xs. t < now"
  shows "map fst (sort_key snd (assoc_insert p now xs)) = filter (\<lambda>q. q \<noteq> p) (map fst (sort_key snd xs)) @ [p]"
proof -
  let ?ys = "filter (\<lambda>x. fst x \<noteq> p) (sort_key snd xs) @ [(p, now)]"
  have m: "mset ?ys = mset (assoc_insert p now xs)"
    by (simp add: assoc_insert_mset [OF assms(1)])
  have "sorted (map snd (filter (\<lambda>x. fst x \<noteq> p) (sort_key snd xs)))"
    by (rule sorted_filter) simp
  then have "sorted (map snd ?ys)"
    using assms(3) by (fastforce simp: sorted_append)
  from sort_key_unique [OF m assoc_insert_times(1) [OF assms] this] show ?thesis
    by (simp add: filter_map comp_def)
qed

lemma least_seen_spec:
  "least_seen xs = None \<longleftrightarrow> xs = []"
  "least_seen xs = Some (p, t) \<Longrightarrow> (p, t) \<in> set xs \<and> (\<forall>(q, u)\<in>set xs. t \<le> u)"
  by (induction xs arbitrary: p t rule: least_seen.induct) (force split: option.splits if_splits)+

lemma oldest_is_first:
  assumes "cap_ok c" "distinct (map snd (cap_last_seen c))" "cap_peers c \<noteq> []"
  shows "find_least_recently_used_peer c = Some (hd (cap_order c))"
proof -
  have ne: "cap_last_seen c \<noteq> []"
    using assms(1,3) by (auto simp: cap_ok_def)
  then obtain p t where l: "least_seen (cap_last_seen c) = Some (p, t)"
    using least_seen_spec(1) [of "cap_last_seen c"] by auto
  obtain q u ys where s: "sort_key snd (cap_last_seen c) = (q, u) # ys"
    using ne by (metis length_sort list.exhaust length_0_conv surj_pair)
  then have q: "(q, u) \<in> set (cap_last_seen c)"
    by (metis list.set_intros(1) set_sort)
  have "\<forall>(q', u')\<in>set (cap_last_seen c). u \<le> u'"
  proof -
    have "sorted (map snd ((q, u) # ys))"
      using sorted_sort_key [of snd "cap_last_seen c"] by (simp only: s)
    moreover have "set (cap_last_seen c) = set ((q, u) # ys)"
      by (metis s set_sort)
    ultimately show ?thesis
      by auto
  qed
  moreover have "(p, t) \<in> set (cap_last_seen c)" "\<forall>(q', u')\<in>set (cap_last_seen c). t \<le> u'"
    using least_seen_spec(2) [OF l] by auto
  ultimately have "t = u"
    using q by fastforce
  moreover have "inj_on snd (set (cap_last_seen c))"
    using assms(2) by (simp add: distinct_map)
  ultimately have "p = q"
    using inj_onD [of snd "set (cap_last_seen c)" "(p, t)" "(q, u)"] \<open>(p, t) \<in> _\<close> q by simp
  then show ?thesis
    using l s by (simp add: find_least_recently_used_peer_def cap_order_def)
qed

section \<open>The operations of the cap\<close>

lemma cap_order_nonempty: "cap_ok c \<Longrightarrow> cap_peers c \<noteq> [] \<Longrightarrow> cap_order c \<noteq> []"
  using cap_order_props(3) [of c] by auto

lemma cap_touch_refines:
  assumes "cap_ok c" "clock_ahead now c"
  shows "cap_ok (cap_touch now p c)" "cap_order (cap_touch now p c) = lru_touch p (cap_order c)"
proof -
  show "cap_ok (cap_touch now p c)"
    using assms(1) assoc_insert_keys [of p now "cap_last_seen c"] assoc_insert_distinct [of "cap_last_seen c" p now]
    by (auto simp: cap_touch_def cap_contains_def cap_ok_def)
  show "cap_order (cap_touch now p c) = lru_touch p (cap_order c)"
    using order_after_use [of "cap_last_seen c" now p] assms cap_order_props(1) [OF assms(1)]
    by (simp add: cap_touch_def cap_contains_def lru_touch_def cap_order_def cap_ok_def clock_ahead_def)
qed

lemma filter_sort_key: "filter P (sort_key f xs) = sort_key f (filter P xs)"
  by (simp add: filter_sort)

lemma cap_remove_refines:
  assumes "cap_ok c"
  shows "cap_ok (cap_remove p c)" "cap_order (cap_remove p c) = filter (\<lambda>q. q \<noteq> p) (cap_order c)"
proof -
  have "length (filter (\<lambda>q. q \<noteq> p) (cap_peers c)) \<le> cap_max c"
    using assms le_trans [OF length_filter_le] by (auto simp: cap_ok_def)
  moreover have "set (map fst (filter (\<lambda>(q, _). q \<noteq> p) (cap_last_seen c))) = {q \<in> set (map fst (cap_last_seen c)). q \<noteq> p}"
    by force
  ultimately show "cap_ok (cap_remove p c)"
    using assms by (auto simp: cap_remove_def cap_ok_def distinct_map_filter)
  show "cap_order (cap_remove p c) = filter (\<lambda>q. q \<noteq> p) (cap_order c)"
    by (simp add: cap_remove_def cap_order_def filter_map comp_def case_prod_unfold filter_sort [symmetric])
qed

lemma cap_insert_refines:
  assumes "cap_ok c" "clock_ahead now c" "p \<notin> set (cap_peers c)" "length (cap_peers c) < cap_max c"
  shows "cap_ok (cap_insert now p c)" "cap_order (cap_insert now p c) = cap_order c @ [p]"
proof -
  show "cap_ok (cap_insert now p c)"
    using assms assoc_insert_keys [of p now "cap_last_seen c"] assoc_insert_distinct [of "cap_last_seen c" p now]
    by (auto simp: cap_insert_def set_insert_def cap_ok_def)
  have "filter (\<lambda>q. q \<noteq> p) (cap_order c) = cap_order c"
    using assms(3) cap_order_props(1) [OF assms(1)] by (auto simp: filter_id_conv)
  then show "cap_order (cap_insert now p c) = cap_order c @ [p]"
    using order_after_use [of "cap_last_seen c" now p] assms
    by (simp add: cap_insert_def cap_order_def cap_ok_def clock_ahead_def)
qed

lemma distinct_filter_hd: "distinct xs \<Longrightarrow> xs \<noteq> [] \<Longrightarrow> filter (\<lambda>q. q \<noteq> hd xs) xs = tl xs"
  by (cases xs) (auto simp: filter_id_conv)

text \<open>Admission of a new peer and its insertion.\<close>

lemma cap_admit_refines:
  assumes "cap_ok c" "clock_ahead now c" "p \<notin> set (cap_peers c)" "cap_admit now p c = (a, c')"
  shows "a = (if length (cap_peers c) < cap_max c then Admitted else Evict (hd (cap_order c)))"
    and "cap_ok (cap_insert now p c')"
    and "cap_order (cap_insert now p c') = lru_admit (cap_max c) p (cap_order c)"
    and "cap_max c' = cap_max c"
proof -
  have len: "length (cap_order c) = length (cap_peers c)" "set (cap_order c) = set (cap_peers c)" "distinct (cap_order c)"
    using cap_order_props [OF assms(1)] by simp_all
  have "a = (if length (cap_peers c) < cap_max c then Admitted else Evict (hd (cap_order c))) \<and>
    cap_ok (cap_insert now p c') \<and> cap_order (cap_insert now p c') = lru_admit (cap_max c) p (cap_order c) \<and>
    cap_max c' = cap_max c"
  proof (cases "length (cap_peers c) < cap_max c")
    case True
    then have "a = Admitted" "c' = c"
      using assms(3,4) by (auto simp: cap_admit_def cap_contains_def cap_len_def)
    then show ?thesis
      using cap_insert_refines [OF assms(1-3) True] True assms(3) len by (simp add: lru_admit_def)
  next
    case False
    then have ne: "cap_peers c \<noteq> []" and full: "length (cap_peers c) = cap_max c"
      using assms(1) by (auto simp: cap_ok_def)
    have old: "find_least_recently_used_peer c = Some (hd (cap_order c))"
      using assms(2) by (intro oldest_is_first [OF assms(1) _ ne]) (simp add: clock_ahead_def)
    then have a: "a = Evict (hd (cap_order c))" "c' = cap_remove (hd (cap_order c)) c"
      using assms(3,4) False by (auto simp: cap_admit_def cap_contains_def cap_len_def)
    note r = cap_remove_refines [OF assms(1), of "hd (cap_order c)"]
    have o: "cap_order c' = tl (cap_order c)"
      using r(2) distinct_filter_hd [OF len(3) cap_order_nonempty [OF assms(1) ne]] a(2) by simp
    have l: "length (cap_peers c') < cap_max c'"
      using cap_order_props(3) [OF r(1)] o a(2) len(1) ne full by (cases "cap_order c") (auto simp: cap_remove_def)
    have "clock_ahead now c'" "p \<notin> set (cap_peers c')"
      using assms(2,3) by (auto simp: a(2) cap_remove_def clock_ahead_def distinct_map_filter)
    note i = cap_insert_refines [OF r(1) [folded a(2)] this l]
    show ?thesis
      using i o a False assms(3) len by (simp add: lru_admit_def cap_remove_def)
  qed
  then show "a = (if length (cap_peers c) < cap_max c then Admitted else Evict (hd (cap_order c)))"
    and "cap_ok (cap_insert now p c')"
    and "cap_order (cap_insert now p c') = lru_admit (cap_max c) p (cap_order c)"
    and "cap_max c' = cap_max c"
    by blast+
qed

lemma clock_steps:
  assumes "cap_ok c" "clock_ahead now c"
  shows "clock_ahead (Suc now) (cap_touch now p c)" "clock_ahead (Suc now) (cap_insert now p c)"
    "clock_ahead (Suc now) (cap_remove p c)" "clock_ahead now (cap_remove p c)" "clock_ahead (Suc now) c"
proof -
  have "\<forall>(q, t)\<in>set (cap_last_seen c). t < Suc now"
    using assms(2) by (auto simp: clock_ahead_def)
  then show "clock_ahead (Suc now) (cap_touch now p c)" "clock_ahead (Suc now) (cap_insert now p c)"
    "clock_ahead (Suc now) (cap_remove p c)" "clock_ahead now (cap_remove p c)" "clock_ahead (Suc now) c"
    using assms assoc_insert_times [of "cap_last_seen c" now p]
    by (auto simp: clock_ahead_def cap_ok_def cap_touch_def cap_insert_def cap_remove_def distinct_map_filter)
qed

section \<open>The transport refines the list\<close>

fun lru_step :: "nat \<Rightarrow> string \<Rightarrow> transport_input \<Rightarrow> string list \<Rightarrow> TransportEvent list \<times> string list" where
  "lru_step k me (SwarmInput (ConnectionEstablished p)) xs =
     (if p = me \<or> is_relay_peer p then ([], xs) else (if p \<in> set xs then [] else [PeerUp p], lru_admit k p xs))"
| "lru_step k me (SwarmInput (IdentifyReceived p)) xs =
     (if p = me \<or> is_relay_peer p then ([], xs) else (if p \<in> set xs then [] else [PeerUp p], lru_admit k p xs))"
| "lru_step k me (SwarmInput (ConnectionClosed p)) xs =
     (if is_relay_peer p \<or> p \<notin> set xs then ([], xs) else ([PeerDown p], filter (\<lambda>q. q \<noteq> p) xs))"
| "lru_step k me (SwarmInput (DirectRequest p m)) xs = ([], lru_touch p xs)"
| "lru_step k me _ xs = ([], xs)"

fun lru_run :: "nat \<Rightarrow> string \<Rightarrow> transport_input list \<Rightarrow> string list \<Rightarrow> TransportEvent list \<times> string list" where
  "lru_run k me [] xs = ([], xs)"
| "lru_run k me (i # is) xs =
     (fst (lru_step k me i xs) @ fst (lru_run k me is (snd (lru_step k me i xs))),
      snd (lru_run k me is (snd (lru_step k me i xs))))"

definition peer_event :: "TransportEvent \<Rightarrow> bool" where
  "peer_event e = (case e of PeerUp _ \<Rightarrow> True | PeerDown _ \<Rightarrow> True | _ \<Rightarrow> False)"

lemma sw_frame [simp]: "tr_peer_cap (sw a t) = tr_peer_cap t" "tr_local_peer_id (sw a t) = tr_local_peer_id t"
  by (simp_all add: sw_def)

lemma on_cap_frame [simp]:
  "tr_peer_cap (on_cap f t) = f (tr_peer_cap t)" "tr_local_peer_id (on_cap f t) = tr_local_peer_id t"
  by (simp_all add: on_cap_def)

lemma fold_frame:
  assumes "\<And>x t. tr_peer_cap (f x t) = tr_peer_cap t \<and> tr_local_peer_id (f x t) = tr_local_peer_id t"
  shows "tr_peer_cap (fold f xs t) = tr_peer_cap t \<and> tr_local_peer_id (fold f xs t) = tr_local_peer_id t"
  using assms by (induction xs arbitrary: t) auto

lemma kad_frame [simp]:
  "tr_peer_cap (kad_add_and_dial env p as t) = tr_peer_cap t"
  "tr_local_peer_id (kad_add_and_dial env p as t) = tr_local_peer_id t"
  by (induction env p as t rule: kad_add_and_dial.induct) (simp_all add: Let_def)

lemma dial_frame [simp]:
  "tr_peer_cap (dial_all_bootstraps t) = tr_peer_cap t"
  "tr_local_peer_id (dial_all_bootstraps t) = tr_local_peer_id t"
  using fold_frame [of "\<lambda>addr. sw (SwDial addr)" "tr_bootstrap_peers t" t] by (simp_all add: dial_all_bootstraps_def)

lemma mdns_frame [simp]:
  "tr_peer_cap (fold (mdns_discovered env) ps t) = tr_peer_cap t \<and>
   tr_local_peer_id (fold (mdns_discovered env) ps t) = tr_local_peer_id t"
  "tr_peer_cap (fold (mdns_expired env) es t) = tr_peer_cap t \<and>
   tr_local_peer_id (fold (mdns_expired env) es t) = tr_local_peer_id t"
  by (rule fold_frame, simp add: mdns_discovered_def mdns_expired_def Let_def case_prod_unfold)+

lemma closest_frame [simp]:
  "tr_peer_cap (fold (\<lambda>(p, as). kad_maybe_dial env p as) ps t) = tr_peer_cap t \<and>
   tr_local_peer_id (fold (\<lambda>(p, as). kad_maybe_dial env p as) ps t) = tr_local_peer_id t"
  by (rule fold_frame) (auto simp: kad_maybe_dial_def)

text \<open>What one input does to the peers, relative to the list.\<close>

definition refines_step :: "swarm_env \<Rightarrow> transport_input \<Rightarrow> Libp2pTransport \<Rightarrow> TransportEvent option \<Rightarrow> Libp2pTransport \<Rightarrow> bool"
  where
  "refines_step env i t ev t' \<longleftrightarrow>
     (let r = lru_step (cap_max (tr_peer_cap t)) (tr_local_peer_id t) i (cap_order (tr_peer_cap t)) in
      cap_ok (tr_peer_cap t') \<and> clock_ahead (Suc (sw_instant env)) (tr_peer_cap t') \<and>
      cap_order (tr_peer_cap t') = snd r \<and> filter peer_event (case ev of None \<Rightarrow> [] | Some e \<Rightarrow> [e]) = fst r \<and>
      cap_max (tr_peer_cap t') = cap_max (tr_peer_cap t) \<and> tr_local_peer_id t' = tr_local_peer_id t)"

lemma cap_fields [simp]:
  "cap_max (cap_touch now p c) = cap_max c" "cap_max (cap_insert now p c) = cap_max c" "cap_max (cap_remove p c) = cap_max c"
  by (simp_all add: cap_touch_def cap_insert_def cap_remove_def)

lemma cap_contains_order: "cap_ok c \<Longrightarrow> cap_contains c p \<longleftrightarrow> p \<in> set (cap_order c)"
  by (simp add: cap_contains_def cap_order_props)

lemma peer_up_refines:
  assumes "cap_ok (tr_peer_cap t)" "clock_ahead (sw_instant env) (tr_peer_cap t)"
  shows "refines_step env (SwarmInput (ConnectionEstablished p)) t (fst (peer_up env p t)) (snd (peer_up env p t))"
proof -
  let ?c = "tr_peer_cap t" and ?now = "sw_instant env"
  consider "p = tr_local_peer_id t \<or> is_relay_peer p" | "\<not> (p = tr_local_peer_id t \<or> is_relay_peer p)" "cap_contains ?c p"
    | "\<not> (p = tr_local_peer_id t \<or> is_relay_peer p)" "\<not> cap_contains ?c p"
    by blast
  then show ?thesis
  proof cases
    case 1
    then show ?thesis
      using assms by (simp add: refines_step_def peer_up_def handle_connection_established_def clock_steps)
  next
    case 2
    then show ?thesis
      using assms cap_touch_refines [OF assms, of p] cap_contains_order [OF assms(1), of p]
      by (simp add: refines_step_def peer_up_def handle_connection_established_def clock_steps lru_admit_def)
  next
    case 3
    obtain a c' where ad: "cap_admit ?now p ?c = (a, c')"
      by (cases "cap_admit ?now p ?c")
    have p: "p \<notin> set (cap_peers ?c)"
      using 3 by (simp add: cap_contains_def)
    note r = cap_admit_refines [OF assms p ad]
    have "clock_ahead ?now c'" "cap_ok c'"
      using ad p assms clock_steps(4) [OF assms] cap_remove_refines(1) [OF assms(1)] r(1)
      by (auto simp: cap_admit_def cap_contains_def split: if_splits option.splits)
    then have "clock_ahead (Suc ?now) (cap_insert ?now p c')"
      by (rule clock_steps(2) [rotated])
    then show ?thesis
      using 3 r cap_contains_order [OF assms(1), of p]
      by (simp add: refines_step_def peer_up_def handle_connection_established_def ad peer_event_def)
  qed
qed

lemma poll_refines:
  assumes "cap_ok (tr_peer_cap t)" "clock_ahead (sw_instant env) (tr_peer_cap t)"
  shows "refines_step env i t (fst (poll_event env i t)) (snd (poll_event env i t))"
proof (cases i)
  case (ConnectivityInput m)
  then show ?thesis
    using assms
    by (cases m; cases "the m")
      (simp_all add: refines_step_def poll_event_def clock_steps handle_connectivity_change_def
        apply_kad_connectivity_def peer_event_def Let_def)
next
  case (SwarmInput ev)
  show ?thesis
  proof (cases ev)
    case (ConnectionEstablished p)
    then show ?thesis
      using peer_up_refines [OF assms] by (simp add: SwarmInput poll_event_def handle_swarm_event_def)
  next
    case (IdentifyReceived p)
    then show ?thesis
      using peer_up_refines [OF assms] by (simp add: SwarmInput poll_event_def handle_swarm_event_def refines_step_def)
  next
    case (ConnectionClosed p)
    then show ?thesis
      using assms cap_remove_refines [OF assms(1), of p] cap_contains_order [OF assms(1), of p]
      by (simp add: SwarmInput refines_step_def poll_event_def handle_swarm_event_def clock_steps peer_event_def)
  next
    case (DirectRequest p m)
    then show ?thesis
      using assms cap_touch_refines [OF assms, of p]
      by (simp add: SwarmInput refines_step_def poll_event_def handle_swarm_event_def clock_steps peer_event_def)
  qed (use assms in \<open>simp_all add: SwarmInput refines_step_def poll_event_def handle_swarm_event_def clock_steps
      peer_event_def kad_maybe_dial_def\<close>)
qed

lemma clock_ahead_mono: "clock_ahead now c \<Longrightarrow> now \<le> now' \<Longrightarrow> clock_ahead now' c"
  by (fastforce simp: clock_ahead_def)

lemma run_refines:
  assumes "cap_ok (tr_peer_cap t)" "\<forall>(env, i)\<in>set is. clock_ahead (sw_instant env) (tr_peer_cap t)"
    and "sorted_wrt (<) (map (\<lambda>(env, i). sw_instant env) is)"
  shows "cap_ok (tr_peer_cap (snd (transport_run is t))) \<and>
    (filter peer_event (fst (transport_run is t)), cap_order (tr_peer_cap (snd (transport_run is t)))) =
      lru_run (cap_max (tr_peer_cap t)) (tr_local_peer_id t) (map snd is) (cap_order (tr_peer_cap t)) \<and>
    cap_max (tr_peer_cap (snd (transport_run is t))) = cap_max (tr_peer_cap t)"
  using assms
proof (induction "is" arbitrary: t)
  case (Cons x "is")
  obtain env i where x: "x = (env, i)"
    by (cases x)
  let ?t = "snd (poll_event env i t)"
  have r: "refines_step env i t (fst (poll_event env i t)) ?t"
    using Cons by (intro poll_refines) (auto simp: x)
  then have ok: "cap_ok (tr_peer_cap ?t)" and c: "clock_ahead (Suc (sw_instant env)) (tr_peer_cap ?t)"
    by (simp_all add: refines_step_def Let_def)
  have "\<forall>(env', i')\<in>set is. clock_ahead (sw_instant env') (tr_peer_cap ?t)"
    using Cons(4) clock_ahead_mono [OF c] by (fastforce simp: x Suc_le_eq)
  from Cons(1) [OF ok this] Cons(4) r show ?case
    by (auto simp: x refines_step_def Let_def case_prod_unfold prod_eq_iff split: option.splits)
qed simp

section \<open>Properties\<close>

lemma transport_new_peers:
  assumes "transport_new env me listen boots rx k = Ok t"
  shows "tr_peer_cap t = cap_new (if k = 0 then 50 else k) \<and> tr_local_peer_id t = me"
proof -
  have kad: "tr_peer_cap (setup_kad env u) = tr_peer_cap u \<and> tr_local_peer_id (setup_kad env u) = tr_local_peer_id u" for u
    using fold_frame [of "\<lambda>addr t'. case sw_addr_peer env addr of None \<Rightarrow> t' | Some p \<Rightarrow> sw (SwKadAdd p addr) t'"
        "tr_bootstrap_peers u" "sw SwKadClient u"]
    by (simp add: setup_kad_def Let_def split: option.split)
  show ?thesis
    using assms kad
    by (auto simp: transport_new_def Let_def enable_relay_inbound_listen_def MAX_DIRECT_PEERS_DEFAULT_def
        split: sum.splits option.splits)
qed


definition demo_swarm :: "nat \<Rightarrow> swarm_env" where
  "demo_swarm now = \<lparr>sw_instant = now, sw_is_connected = \<lambda>_. False, sw_parse_addr = Some, sw_addr_peer = \<lambda>_. None,
     sw_addr_has_peer = \<lambda>_ _. True, sw_addr_push_peer = \<lambda>a _. a, sw_parse_peer = Some, sw_listen = \<lambda>_. Ok (),
     sw_dial = \<lambda>_. Ok (), sw_publish = \<lambda>_ _. Ok (), sw_subscribe = \<lambda>_. Ok True, sw_crypto = demo_crypto\<rparr>"

lemma short_not_relay: "length p < 52 \<Longrightarrow> \<not> is_relay_peer p"
  using length_trim [of p] by (auto simp: is_relay_peer_def RELAY_PEER_ID_def)

lemma demo_not_relay: "\<not> is_relay_peer ''a''" "\<not> is_relay_peer ''b''" "\<not> is_relay_peer ''c''"
  by (simp_all add: short_not_relay)


lemma in_set_tl: "x \<in> set (tl xs) \<Longrightarrow> x \<in> set xs"
  by (cases xs) auto

lemma lru_absent_silent:
  assumes "q \<notin> set xs"
    and "\<forall>i\<in>set is. i \<noteq> SwarmInput (ConnectionEstablished q) \<and> i \<noteq> SwarmInput (IdentifyReceived q)"
  shows "PeerDown q \<notin> set (fst (lru_run k me is xs))"
  using assms
proof (induction "is" arbitrary: xs)
  case (Cons i "is")
  have "q \<notin> set (snd (lru_step k me i xs)) \<and> PeerDown q \<notin> set (fst (lru_step k me i xs))"
    using Cons(2,3) in_set_tl [of q xs]
    by (cases "(k, me, i, xs)" rule: lru_step.cases) (auto simp: lru_admit_def lru_touch_def)
  then show ?case
    using Cons by simp
qed simp

text \<open>An evicted peer goes silently: when a full transport admits a new peer, it disconnects the least recently used
  one, but whatever happens afterwards (the close of that connection included), as long as that peer does not connect again
  the node is never told that it is gone.\<close>

theorem evicted_peer_never_down:
  assumes "cap_ok (tr_peer_cap t)" "length (cap_peers (tr_peer_cap t)) = cap_max (tr_peer_cap t)"
    and "p \<noteq> tr_local_peer_id t" "\<not> is_relay_peer p" "p \<notin> set (cap_peers (tr_peer_cap t))"
    and "q = hd (cap_order (tr_peer_cap t))"
    and "run = (env, SwarmInput (ConnectionEstablished p)) # later"
    and "\<forall>(env, i)\<in>set run. clock_ahead (sw_instant env) (tr_peer_cap t)"
    and "sorted_wrt (<) (map (\<lambda>(env, i). sw_instant env) run)"
    and "\<forall>(env, i)\<in>set later. i \<noteq> SwarmInput (ConnectionEstablished q) \<and> i \<noteq> SwarmInput (IdentifyReceived q)"
  shows "SwDisconnect q \<in> set (tr_out (snd (poll_event env (SwarmInput (ConnectionEstablished p)) t))) \<and>
         PeerUp p \<in> set (fst (transport_run run t)) \<and> PeerDown q \<notin> set (fst (transport_run run t))"
proof -
  let ?c = "tr_peer_cap t" and ?xs = "cap_order (tr_peer_cap t)"
  have ne: "?xs \<noteq> []" and d: "distinct ?xs" and s: "set ?xs = set (cap_peers ?c)" and l: "length ?xs = cap_max ?c"
    using assms(1,2) cap_order_props [OF assms(1)] by (auto simp: cap_ok_def)
  have ca: "clock_ahead (sw_instant env) ?c"
    using assms(7,8) by simp
  obtain c' where ad: "cap_admit (sw_instant env) p ?c = (Evict q, c')"
    using cap_admit_refines(1) [OF assms(1) ca assms(5)] assms(2,6) by (cases "cap_admit (sw_instant env) p ?c") auto
  have out: "SwDisconnect q \<in> set (tr_out (snd (poll_event env (SwarmInput (ConnectionEstablished p)) t)))"
    using assms(3-5) ad
    by (simp add: poll_event_def handle_swarm_event_def peer_up_def handle_connection_established_def
        cap_contains_def sw_def on_cap_def)
  have "q \<noteq> p"
    using assms(5,6) ne s by (metis hd_in_set)
  then have gone: "q \<notin> set (lru_admit (cap_max ?c) p ?xs)"
    using d l s assms(5,6) ne by (cases ?xs) (auto simp: lru_admit_def)
  have ev: "filter peer_event (fst (transport_run run t)) =
      PeerUp p # fst (lru_run (cap_max ?c) (tr_local_peer_id t) (map snd later) (lru_admit (cap_max ?c) p ?xs))"
    using run_refines [OF assms(1,8,9)] assms(3,4,5,7) s by (auto simp: prod_eq_iff)
  have "\<forall>i\<in>set (map snd later). i \<noteq> SwarmInput (ConnectionEstablished q) \<and> i \<noteq> SwarmInput (IdentifyReceived q)"
    using assms(10) by auto
  from lru_absent_silent [OF gone this]
  have "PeerDown q \<notin> set (filter peer_event (fst (transport_run run t)))"
    unfolding ev by simp
  moreover have "PeerUp p \<in> set (filter peer_event (fst (transport_run run t)))"
    unfolding ev by simp
  ultimately show ?thesis
    using out by (auto simp: peer_event_def)
qed

theorem evicted_peer_never_down_witness:
  "let t = \<lparr>tr_local_peer_id = ''me'', tr_peer_cap = \<lparr>cap_max = 1, cap_peers = [''a''], cap_last_seen = [(''a'', 1)],
              cap_rejections = 0\<rparr>, tr_has_connectivity_rx = False, tr_bootstrap_peers = [], tr_out = []\<rparr> in
   PeerDown ''a'' \<notin> set (fst (transport_run [(demo_swarm 2, SwarmInput (ConnectionEstablished ''b'')),
     (demo_swarm 3, SwarmInput (ConnectionClosed ''a''))] t))"
proof -
  let ?t = "\<lparr>tr_local_peer_id = ''me'', tr_peer_cap = \<lparr>cap_max = 1, cap_peers = [''a''], cap_last_seen = [(''a'', 1)],
              cap_rejections = 0\<rparr>, tr_has_connectivity_rx = False, tr_bootstrap_peers = [], tr_out = []\<rparr>"
  show ?thesis
    using evicted_peer_never_down [OF _ _ _ _ _ refl refl, of ?t "''b''" "demo_swarm 2"
        "[(demo_swarm 3, SwarmInput (ConnectionClosed ''a''))]"]
    by (simp add: cap_ok_def cap_order_def clock_ahead_def demo_not_relay demo_swarm_def)
qed

end
