(* ===== verification/Relay.thy ===== *)
theory Relay
  imports Node_State
begin

text \<open>
  \<open>mycelium-relay/src/main.rs\<close>: the state of the public relay, its HTTP handlers and its swarm events.  The swarm and
  the HTTP server are parameters; the relay is the sequence of inputs they give it.  A hash set is a list without
  repetitions in some order.
\<close>

section \<open>State and handlers\<close>

record StatusState =
  rs_peer_id :: string
  rs_connections :: u64
  rs_reservations :: u64
  rs_connected :: "string list"
  rs_reserved :: "string list"
  rs_opt_in :: "string list"
  rs_started :: u64
  rs_version :: string

definition relay_start :: "string \<Rightarrow> u64 \<Rightarrow> string \<Rightarrow> StatusState" where
  "relay_start me now ver = \<lparr>rs_peer_id = me, rs_connections = 0, rs_reservations = 0, rs_connected = [],
     rs_reserved = [], rs_opt_in = [], rs_started = now, rs_version = ver\<rparr>"

definition set_remove :: "'a \<Rightarrow> 'a list \<Rightarrow> 'a list" where
  "set_remove x xs = filter (\<lambda>y. y \<noteq> x) xs"

definition rendezvous :: "StatusState \<Rightarrow> string list" where
  "rendezvous s = filter (\<lambda>p. p \<in> set (rs_opt_in s)) (rs_reserved s)"

datatype StatusCode = BAD_REQUEST | NO_CONTENT

definition rendezvous_register :: "string \<Rightarrow> StatusState \<Rightarrow> StatusCode \<times> StatusState" where
  "rendezvous_register p s =
     (if p = [] then (BAD_REQUEST, s) else (NO_CONTENT, s\<lparr>rs_opt_in := set_insert p (rs_opt_in s)\<rparr>))"

definition rendezvous_unregister :: "string \<Rightarrow> StatusState \<Rightarrow> StatusCode \<times> StatusState" where
  "rendezvous_unregister p s = (NO_CONTENT, s\<lparr>rs_opt_in := set_remove p (rs_opt_in s)\<rparr>)"

text \<open>The fields of the status document.\<close>

record status_json =
  js_status :: string
  js_peer_id :: string
  js_connections :: u64
  js_unique_peers :: u64
  js_reachable_peers :: u64
  js_reservations :: u64
  js_uptime_secs :: u64
  js_version :: string

definition status :: "u64 \<Rightarrow> StatusState \<Rightarrow> status_json" where
  "status now s = \<lparr>js_status = ''ok'', js_peer_id = rs_peer_id s, js_connections = rs_connections s,
     js_unique_peers = of_nat (length (rs_connected s)),
     js_reachable_peers = of_nat (length (filter (\<lambda>p. p \<in> set (rs_opt_in s)) (rs_reserved s))),
     js_reservations = rs_reservations s, js_uptime_secs = sat_sub now (rs_started s), js_version = rs_version s\<rparr>"

definition atomic_saturating_sub :: "u64 \<Rightarrow> u64" where
  "atomic_saturating_sub n = sat_sub n 1"

section \<open>Inputs\<close>

datatype relay_input =
    RegisterReq string
  | UnregisterReq string
  | RelayConnected string
  | RelayClosed string
  | ReservationReqAccepted string bool
  | ReservationTimedOut string
  | RelayOther

definition relay_handle :: "relay_input \<Rightarrow> StatusState \<Rightarrow> StatusState" where
  "relay_handle i s =
     (case i of
        RegisterReq p \<Rightarrow> snd (rendezvous_register p s)
      | UnregisterReq p \<Rightarrow> snd (rendezvous_unregister p s)
      | RelayConnected p \<Rightarrow>
          s\<lparr>rs_connections := rs_connections s + 1, rs_connected := set_insert p (rs_connected s)\<rparr>
      | RelayClosed p \<Rightarrow>
          s\<lparr>rs_connections := atomic_saturating_sub (rs_connections s),
            rs_connected := set_remove p (rs_connected s),
            rs_reserved := set_remove p (rs_reserved s),
            rs_opt_in := set_remove p (rs_opt_in s)\<rparr>
      | ReservationReqAccepted p renewed \<Rightarrow>
          s\<lparr>rs_reservations := (if renewed then rs_reservations s else rs_reservations s + 1),
            rs_reserved := set_insert p (rs_reserved s)\<rparr>
      | ReservationTimedOut p \<Rightarrow>
          s\<lparr>rs_reservations := atomic_saturating_sub (rs_reservations s),
            rs_reserved := set_remove p (rs_reserved s),
            rs_opt_in := set_remove p (rs_opt_in s)\<rparr>
      | RelayOther \<Rightarrow> s)"

definition relay_run :: "relay_input list \<Rightarrow> StatusState \<Rightarrow> StatusState" where
  "relay_run is s = fold relay_handle is s"

section \<open>History\<close>

text \<open>Since the last input that satisfies \<open>on\<close>, no input has satisfied \<open>off\<close>; the list has the newest input last.\<close>

definition holds_since :: "('i \<Rightarrow> bool) \<Rightarrow> ('i \<Rightarrow> bool) \<Rightarrow> 'i list \<Rightarrow> bool" where
  "holds_since on off is \<longleftrightarrow> (\<exists>a i b. is = a @ i # b \<and> on i \<and> (\<forall>j\<in>set b. \<not> off j))"

lemma holds_since_Nil [simp]: "\<not> holds_since on off []"
  by (simp add: holds_since_def)

lemma holds_since_snoc:
  assumes "\<not> (on i \<and> off i)"
  shows "holds_since on off (is @ [i]) \<longleftrightarrow> (if on i then True else \<not> off i \<and> holds_since on off is)"
proof (cases "on i")
  case True
  have "holds_since on off (is @ [i])"
    unfolding holds_since_def by (rule exI [of _ "is"], rule exI [of _ i], rule exI [of _ "[]"]) (simp add: True)
  with True show ?thesis
    by simp
next
  case False
  show ?thesis
  proof
    assume "holds_since on off (is @ [i])"
    then obtain a j b where s: "is @ [i] = a @ j # b" "on j" "\<forall>x\<in>set b. \<not> off x"
      by (auto simp: holds_since_def)
    then have "b \<noteq> []"
      using False by auto
    then obtain b' where "b = b' @ [i]" "is = a @ j # b'"
      using s(1) by (cases b rule: rev_cases) auto
    then show "if on i then True else \<not> off i \<and> holds_since on off is"
      using s False by (auto simp: holds_since_def)
  next
    assume "if on i then True else \<not> off i \<and> holds_since on off is"
    then obtain a j b where "is = a @ j # b" "on j" "\<forall>x\<in>set b. \<not> off x" "\<not> off i"
      using False by (auto simp: holds_since_def)
    then show "holds_since on off (is @ [i])"
      unfolding holds_since_def by (intro exI [of _ a] exI [of _ j] exI [of _ "b @ [i]"]) auto
  qed
qed

text \<open>What puts a peer on a list of the relay and what takes it off.\<close>

fun reserves :: "string \<Rightarrow> relay_input \<Rightarrow> bool" where
  "reserves p (ReservationReqAccepted q renewed) = (q = p)"
| "reserves p _ = False"

fun opts_in :: "string \<Rightarrow> relay_input \<Rightarrow> bool" where
  "opts_in p (RegisterReq q) = (q = p \<and> p \<noteq> [])"
| "opts_in p _ = False"

fun ends :: "string \<Rightarrow> relay_input \<Rightarrow> bool" where
  "ends p (RelayClosed q) = (q = p)"
| "ends p (ReservationTimedOut q) = (q = p)"
| "ends p _ = False"

fun opts_out :: "string \<Rightarrow> relay_input \<Rightarrow> bool" where
  "opts_out p (UnregisterReq q) = (q = p)"
| "opts_out p i = ends p i"

lemma set_insert_set [simp]: "set (set_insert x xs) = insert x (set xs)"
  by (auto simp: set_insert_def)

lemma set_remove_set [simp]: "set (set_remove x xs) = set xs - {x}"
  by (auto simp: set_remove_def)

lemma relay_run_snoc [simp]: "relay_run (is @ [i]) s = relay_handle i (relay_run is s)" "relay_run [] s = s"
  by (simp_all add: relay_run_def)

lemma relay_lists:
  "p \<in> set (rs_reserved (relay_run is (relay_start me now ver))) \<longleftrightarrow> holds_since (reserves p) (ends p) is"
  "p \<in> set (rs_opt_in (relay_run is (relay_start me now ver))) \<longleftrightarrow> holds_since (opts_in p) (opts_out p) is"
  "p \<in> set (rs_connected (relay_run is (relay_start me now ver))) \<longleftrightarrow>
     holds_since (\<lambda>i. i = RelayConnected p) (\<lambda>i. i = RelayClosed p) is"
proof (induction "is" rule: rev_induct)
  case (snoc i "is")
  note defs = relay_handle_def rendezvous_register_def rendezvous_unregister_def
  have hs: "\<not> (reserves p i \<and> ends p i)" "\<not> (opts_in p i \<and> opts_out p i)" "\<not> (i = RelayConnected p \<and> i = RelayClosed p)"
    by (cases i; simp)+
  show "p \<in> set (rs_reserved (relay_run (is @ [i]) (relay_start me now ver))) \<longleftrightarrow> holds_since (reserves p) (ends p) (is @ [i])"
    unfolding holds_since_snoc [where on = "reserves p" and off = "ends p", OF hs(1)]
    by (cases i) (auto simp: defs snoc)
  show "p \<in> set (rs_opt_in (relay_run (is @ [i]) (relay_start me now ver))) \<longleftrightarrow> holds_since (opts_in p) (opts_out p) (is @ [i])"
    unfolding holds_since_snoc [where on = "opts_in p" and off = "opts_out p", OF hs(2)]
    by (cases i) (auto simp: defs snoc)
  show "p \<in> set (rs_connected (relay_run (is @ [i]) (relay_start me now ver))) \<longleftrightarrow>
      holds_since (\<lambda>i. i = RelayConnected p) (\<lambda>i. i = RelayClosed p) (is @ [i])"
    unfolding holds_since_snoc [where on = "\<lambda>i. i = RelayConnected p" and off = "\<lambda>i. i = RelayClosed p", OF hs(3)]
    by (cases i) (auto simp: defs snoc)
qed (simp_all add: relay_start_def)

lemma set_ops_distinct: "distinct xs \<Longrightarrow> distinct (set_insert x xs) \<and> distinct (set_remove x xs)"
  by (simp add: set_insert_def set_remove_def)

lemma relay_distinct:
  "distinct (rs_connected s) \<and> distinct (rs_reserved s) \<and> distinct (rs_opt_in s) \<Longrightarrow>
   distinct (rs_connected (relay_run is s)) \<and> distinct (rs_reserved (relay_run is s)) \<and> distinct (rs_opt_in (relay_run is s))"
  by (induction "is" rule: rev_induct)
    (auto simp: relay_handle_def rendezvous_register_def rendezvous_unregister_def set_ops_distinct
      split: relay_input.splits)

section \<open>Properties\<close>

text \<open>The rendezvous list is exact: whatever the relay has gone through, it lists a peer exactly when the peer's last
  accepted reservation and its last registration both came after every close of a connection of that peer and every
  time-out of its reservation, and after every time it unregistered; it lists no peer twice, and the status document counts
  these peers.\<close>

theorem rendezvous_exact:
  "let s = relay_run is (relay_start me now ver) in
   (p \<in> set (rendezvous s) \<longleftrightarrow> holds_since (reserves p) (ends p) is \<and> holds_since (opts_in p) (opts_out p) is) \<and>
   distinct (rendezvous s) \<and> js_reachable_peers (status t s) = of_nat (card (set (rendezvous s)))"
proof -
  let ?s = "relay_run is (relay_start me now ver)"
  have "distinct (rs_reserved ?s)"
    using relay_distinct [of "relay_start me now ver" "is"] by (simp add: relay_start_def)
  then have d: "distinct (rendezvous ?s)"
    by (simp add: rendezvous_def)
  then have "card (set (rendezvous ?s)) = length (rendezvous ?s)"
    by (rule distinct_card)
  moreover have "p \<in> set (rendezvous ?s) \<longleftrightarrow> holds_since (reserves p) (ends p) is \<and> holds_since (opts_in p) (opts_out p) is"
    using relay_lists [of p "is" me now ver] by (auto simp: rendezvous_def)
  ultimately show ?thesis
    using d by (simp add: Let_def status_def rendezvous_def)
qed

text \<open>A second connection of a listed peer that opens and closes takes the peer off the list, although the first one, with
  its reservation, is still there; and a close does not lower the count of reservations.\<close>

lemma second_connection_unlists:
  "let s = relay_run [RelayConnected p, ReservationReqAccepted p False, RegisterReq p] (relay_start me now ver);
       s' = relay_run [RelayConnected p, RelayClosed p] s in
   p \<noteq> [] \<longrightarrow> p \<in> set (rendezvous s) \<and> p \<notin> set (rendezvous s') \<and> rs_connections s' = 1 \<and> rs_reservations s' = 1 \<and>
     rs_connected s' = [] \<and> rs_reserved s' = []"
  by (simp add: relay_run_def relay_handle_def relay_start_def rendezvous_def rendezvous_register_def set_insert_def
      set_remove_def atomic_saturating_sub_def sat_sub_def)

end
