(* ===== verification/Simulator.thy ===== *)
theory Simulator
  imports Node_State
begin

text \<open>
  \<open>mycelium-sim\<close>: the deterministic clock, the event scheduler and the simulation runner (\<open>clock.rs\<close>, \<open>scheduler.rs\<close>,
  \<open>runner.rs\<close>) with the actions of the simulated transport (\<open>transport.rs\<close>).  The binary heap of the scheduler is the bag of its
  events; the channel of actions is the list of actions waiting in it, and the channel of a node is what was sent
  to it.  Nodes do not run while \<open>run_for\<close> does, so no action arrives in between.
\<close>

section \<open>Clock and scheduler\<close>

record DeterministicClock =
  clk_now_ms :: u64

definition advance_to :: "u64 \<Rightarrow> DeterministicClock \<Rightarrow> DeterministicClock" where
  "advance_to ts c = \<lparr>clk_now_ms = max (clk_now_ms c) ts\<rparr>"

record LinkProfile =
  latency_ms :: u64
  loss_per_mille :: u16
  bandwidth_bytes_per_sec :: u64

definition link_default :: LinkProfile where
  "link_default = \<lparr>latency_ms = 10, loss_per_mille = 0, bandwidth_bytes_per_sec = 64 * 1024\<rparr>"

record 'a ScheduledEvent =
  at_ms :: u64
  seq :: u64
  ev_payload :: 'a

text \<open>\<open>Ord::cmp\<close> of two events, turned round: the earlier event is the greater one.\<close>

definition ev_less :: "'a ScheduledEvent \<Rightarrow> 'a ScheduledEvent \<Rightarrow> bool" where
  "ev_less x y \<longleftrightarrow> at_ms y < at_ms x \<or> (at_ms y = at_ms x \<and> seq y < seq x)"

record 'a EventScheduler =
  next_seq :: u64
  queue :: "'a ScheduledEvent list"

definition sched_new :: "'a EventScheduler" where
  "sched_new = \<lparr>next_seq = 0, queue = []\<rparr>"

definition sched_push :: "u64 \<Rightarrow> 'a \<Rightarrow> 'a EventScheduler \<Rightarrow> 'a EventScheduler" where
  "sched_push at x s =
     (let n = next_seq s + 1 in
      s\<lparr>next_seq := n, queue := queue s @ [\<lparr>at_ms = at, seq = n, ev_payload = x\<rparr>]\<rparr>)"

text \<open>\<open>BinaryHeap::peek\<close> and \<open>pop\<close>: the greatest element.\<close>

fun heap_peek :: "'a ScheduledEvent list \<Rightarrow> 'a ScheduledEvent option" where
  "heap_peek [] = None"
| "heap_peek (x # xs) = (case heap_peek xs of None \<Rightarrow> Some x | Some y \<Rightarrow> if ev_less x y then Some y else Some x)"

definition heap_pop :: "'a ScheduledEvent list \<Rightarrow> ('a ScheduledEvent \<times> 'a ScheduledEvent list) option" where
  "heap_pop q = map_option (\<lambda>x. (x, remove1 x q)) (heap_peek q)"

definition pop_ready :: "u64 \<Rightarrow> 'a EventScheduler \<Rightarrow> 'a ScheduledEvent option \<times> 'a EventScheduler" where
  "pop_ready now s =
     (let ready = (case heap_peek (queue s) of Some e \<Rightarrow> at_ms e \<le> now | None \<Rightarrow> False) in
      if ready then
        (case heap_pop (queue s) of Some (e, q) \<Rightarrow> (Some e, s\<lparr>queue := q\<rparr>) | None \<Rightarrow> (None, s))
      else (None, s))"

definition next_timestamp :: "'a EventScheduler \<Rightarrow> u64 option" where
  "next_timestamp s = map_option at_ms (heap_peek (queue s))"

lemma heap_peek_in: "heap_peek q = Some x \<Longrightarrow> x \<in> set q"
  by (induction q arbitrary: x) (auto split: option.splits if_splits)

lemma heap_peek_None [simp]: "heap_peek q = None \<longleftrightarrow> q = []"
  by (cases q) (auto split: option.splits)

lemma pop_ready_Some:
  assumes "pop_ready now s = (Some e, s')"
  shows "heap_peek (queue s) = Some e" "at_ms e \<le> now" "s' = s\<lparr>queue := remove1 e (queue s)\<rparr>"
  using assms by (auto simp: pop_ready_def heap_pop_def Let_def split: option.splits if_splits)

lemma pop_ready_length: "pop_ready now s = (Some e, s') \<Longrightarrow> length (queue s') < length (queue s)"
  using pop_ready_Some [of now s e s'] heap_peek_in [of "queue s" e]
  by (auto simp: length_remove1 dest: length_pos_if_in_set)

section \<open>Simulation\<close>

datatype SimAction =
    SimSendDirect string string WireMessage
  | SimPublishScoped string string bytes

datatype ScheduledAction =
    Deliver string TransportEvent nat
  | Availability string bool

record SimNodeSpec =
  sn_online :: bool
  sn_bandwidth :: u64

record SimulationMetrics =
  sm_delivered :: u64
  sm_duplicates :: u64
  sm_dropped_loss :: u64
  sm_dropped_offline :: u64
  sm_dropped_bandwidth :: u64
  sm_sent_bytes :: u64
  sm_latencies_ms :: "u64 list"

record SimulationRunner =
  sim_clock :: DeterministicClock
  sim_scheduler :: "ScheduledAction EventScheduler"
  sim_links :: "string \<times> string \<rightharpoonup> LinkProfile"
  sim_nodes :: "(string \<times> SimNodeSpec) list"
  sim_sent :: "(string \<times> TransportEvent) list"
  sim_bandwidth_usage :: "string \<times> u64 \<rightharpoonup> u64"
  sim_delivered_ids :: "string \<rightharpoonup> u64"
  sim_metrics :: SimulationMetrics
  sim_rng_state :: u64
  sim_actions :: "SimAction list"

definition sim_new :: "u64 \<Rightarrow> u64 \<Rightarrow> SimulationRunner" where
  "sim_new start_ms seed =
     \<lparr>sim_clock = \<lparr>clk_now_ms = start_ms\<rparr>, sim_scheduler = sched_new, sim_links = Map.empty, sim_nodes = [],
      sim_sent = [], sim_bandwidth_usage = Map.empty, sim_delivered_ids = Map.empty,
      sim_metrics = \<lparr>sm_delivered = 0, sm_duplicates = 0, sm_dropped_loss = 0, sm_dropped_offline = 0,
        sm_dropped_bandwidth = 0, sm_sent_bytes = 0, sm_latencies_ms = []\<rparr>,
      sim_rng_state = max seed 1, sim_actions = []\<rparr>"

definition register_node :: "string \<Rightarrow> u64 \<Rightarrow> SimulationRunner \<Rightarrow> SimulationRunner" where
  "register_node p bw s = s\<lparr>sim_nodes := assoc_insert p \<lparr>sn_online = True, sn_bandwidth = bw\<rparr> (sim_nodes s)\<rparr>"

definition set_link :: "string \<Rightarrow> string \<Rightarrow> LinkProfile \<Rightarrow> SimulationRunner \<Rightarrow> SimulationRunner" where
  "set_link a b prof s = s\<lparr>sim_links := (sim_links s)((a, b) \<mapsto> prof, (b, a) \<mapsto> prof)\<rparr>"

definition schedule_availability :: "string \<Rightarrow> u64 \<Rightarrow> bool \<Rightarrow> SimulationRunner \<Rightarrow> SimulationRunner" where
  "schedule_availability p at online s =
     s\<lparr>sim_scheduler := sched_push at (Availability p online) (sim_scheduler s)\<rparr>"

text \<open>The peers a simulated transport knows: the far ends of its links.\<close>

definition sim_known_peers :: "string \<Rightarrow> (string \<times> string) list \<Rightarrow> string list" where
  "sim_known_peers me link_keys = map snd (filter (\<lambda>(a, b). a = me) link_keys)"

definition is_online :: "SimulationRunner \<Rightarrow> string \<Rightarrow> bool" where
  "is_online s p = (case map_of (sim_nodes s) p of Some n \<Rightarrow> sn_online n | None \<Rightarrow> False)"

definition budget_of :: "SimulationRunner \<Rightarrow> string \<Rightarrow> u64" where
  "budget_of s p = (case map_of (sim_nodes s) p of Some n \<Rightarrow> sn_bandwidth n | None \<Rightarrow> 0)"

definition consume_bandwidth :: "string \<Rightarrow> u64 \<Rightarrow> SimulationRunner \<Rightarrow> bool \<times> SimulationRunner" where
  "consume_bandwidth p bytes s =
     (let key = (p, clk_now_ms (sim_clock s) div 1000);
          used = (case sim_bandwidth_usage s key of Some u \<Rightarrow> u | None \<Rightarrow> 0);
          s1 = s\<lparr>sim_bandwidth_usage := (sim_bandwidth_usage s)(key \<mapsto> used)\<rparr> in
      if sat_add used bytes > budget_of s p then (False, s1)
      else (True, s1\<lparr>sim_bandwidth_usage := (sim_bandwidth_usage s1)(key \<mapsto> sat_add used bytes)\<rparr>))"

definition roll_loss :: "u16 \<Rightarrow> SimulationRunner \<Rightarrow> bool \<times> SimulationRunner" where
  "roll_loss loss s =
     (if loss = 0 then (False, s)
      else
        let r = sim_rng_state s * 6364136223846793005 + 1 in
        (r mod 1000 < ucast loss, s\<lparr>sim_rng_state := r\<rparr>))"

definition delivered_key_fields :: "WireMessage \<Rightarrow> string \<Rightarrow> (string \<times> u64) option" where
  "delivered_key_fields m to =
     (case m of
        Data d \<Rightarrow> if to_peer (envelope d) = Some to then Some (env_id (envelope d), created_at_ms (envelope d)) else None
      | _ \<Rightarrow> None)"

definition record_delivery :: "string \<Rightarrow> WireMessage \<Rightarrow> SimulationRunner \<Rightarrow> SimulationRunner" where
  "record_delivery to m s =
     (case delivered_key_fields m to of
        None \<Rightarrow> s
      | Some (i, created) \<Rightarrow>
          let key = to @ '':'' @ i; now = clk_now_ms (sim_clock s);
              s1 = s\<lparr>sim_delivered_ids := (sim_delivered_ids s)(key \<mapsto> now)\<rparr>; me = sim_metrics s1 in
          if sim_delivered_ids s key \<noteq> None then s1\<lparr>sim_metrics := me\<lparr>sm_duplicates := sm_duplicates me + 1\<rparr>\<rparr>
          else s1\<lparr>sim_metrics := me\<lparr>sm_delivered := sm_delivered me + 1,
                                   sm_latencies_ms := sm_latencies_ms me @ [sat_sub now created]\<rparr>\<rparr>)"

definition sum_lengths :: "string list \<Rightarrow> nat" where
  "sum_lengths xs = sum_list (map length xs)"

fun wire_message_size :: "WireMessage \<Rightarrow> nat" where
  "wire_message_size (Data d) = length (body d) + length (payload (envelope d)) + 64"
| "wire_message_size (SyncIds ids) = sum_lengths ids + 32"
| "wire_message_size (SyncRequest ids) = sum_lengths ids + 32"
| "wire_message_size (SyncBloom bloom _) = length bloom + 32"
| "wire_message_size (SyncData ms) = sum_list (map (\<lambda>d. length (body d)) ms) + 64"
| "wire_message_size (ScopeAnnounce scopes) = sum_lengths scopes + 32"
| "wire_message_size (EncryptedDirect _ _ pl _ _ _) = length pl + 64 + 96"
| "wire_message_size (EncryptedGroup _ pl) = length pl + 32"
| "wire_message_size (PeerInfo hex _ _) = length hex + 32"

definition on_metrics :: "(SimulationMetrics \<Rightarrow> SimulationMetrics) \<Rightarrow> SimulationRunner \<Rightarrow> SimulationRunner" where
  "on_metrics f s = s\<lparr>sim_metrics := f (sim_metrics s)\<rparr>"

definition push_deliver :: "u64 \<Rightarrow> string \<Rightarrow> TransportEvent \<Rightarrow> nat \<Rightarrow> SimulationRunner \<Rightarrow> SimulationRunner" where
  "push_deliver lat to ev bytes s =
     s\<lparr>sim_scheduler := sched_push (sat_add (clk_now_ms (sim_clock s)) lat) (Deliver to ev bytes) (sim_scheduler s)\<rparr>"

text \<open>One target of a publication.\<close>

definition publish_to :: "string \<Rightarrow> string \<Rightarrow> bytes \<Rightarrow> string \<Rightarrow> SimulationRunner \<Rightarrow> SimulationRunner" where
  "publish_to from scope pl to s =
     (if to = from then s
      else if \<not> is_online s from \<or> \<not> is_online s to then
        on_metrics (\<lambda>m. m\<lparr>sm_dropped_offline := sm_dropped_offline m + 1\<rparr>) s
      else
        case sim_links s (from, to) of
          None \<Rightarrow> s
        | Some prof \<Rightarrow>
            let (lost, s1) = roll_loss (loss_per_mille prof) s in
            if lost then on_metrics (\<lambda>m. m\<lparr>sm_dropped_loss := sm_dropped_loss m + 1\<rparr>) s1
            else push_deliver (latency_ms prof) to (ScopedReceived from scope pl) (length pl + 32) s1)"

definition schedule_action :: "SimAction \<Rightarrow> SimulationRunner \<Rightarrow> SimulationRunner" where
  "schedule_action a s =
     (case a of
        SimSendDirect from to m \<Rightarrow>
          if \<not> is_online s from \<or> \<not> is_online s to then
            on_metrics (\<lambda>m. m\<lparr>sm_dropped_offline := sm_dropped_offline m + 1\<rparr>) s
          else
            (case sim_links s (from, to) of
               None \<Rightarrow> on_metrics (\<lambda>m. m\<lparr>sm_dropped_offline := sm_dropped_offline m + 1\<rparr>) s
             | Some prof \<Rightarrow>
                 let (lost, s1) = roll_loss (loss_per_mille prof) s in
                 if lost then on_metrics (\<lambda>m. m\<lparr>sm_dropped_loss := sm_dropped_loss m + 1\<rparr>) s1
                 else push_deliver (latency_ms prof) to (DirectReceived from m) (wire_message_size m) s1)
      | SimPublishScoped from scope pl \<Rightarrow> fold (publish_to from scope pl) (map fst (sim_nodes s)) s)"

text \<open>What is done with an event that is due.\<close>

definition perform :: "ScheduledAction \<Rightarrow> SimulationRunner \<Rightarrow> SimulationRunner" where
  "perform a s =
     (case a of
        Availability p online \<Rightarrow>
          (case map_of (sim_nodes s) p of
             Some n \<Rightarrow> s\<lparr>sim_nodes := assoc_insert p (n\<lparr>sn_online := online\<rparr>) (sim_nodes s)\<rparr>
           | None \<Rightarrow> s)
      | Deliver to ev bytes \<Rightarrow>
          let (ok, s1) = consume_bandwidth to (of_nat bytes) s in
          if \<not> ok then on_metrics (\<lambda>m. m\<lparr>sm_dropped_bandwidth := sm_dropped_bandwidth m + 1\<rparr>) s1
          else
            let s2 = on_metrics (\<lambda>m. m\<lparr>sm_sent_bytes := sm_sent_bytes m + of_nat bytes\<rparr>) s1;
                s3 = (if map_of (sim_nodes s2) to \<noteq> None then s2\<lparr>sim_sent := sim_sent s2 @ [(to, ev)]\<rparr> else s2) in
            (case ev of DirectReceived _ m \<Rightarrow> record_delivery to m s3 | _ \<Rightarrow> s3))"

text \<open>The loop over the events that are due.\<close>

lemma consume_scheduler: "sim_scheduler (snd (consume_bandwidth p b s)) = sim_scheduler s"
  by (simp add: consume_bandwidth_def Let_def)

lemma record_scheduler: "sim_scheduler (record_delivery p m s) = sim_scheduler s"
  by (simp add: record_delivery_def Let_def case_prod_unfold split: option.split)

lemma perform_scheduler [simp]: "sim_scheduler (perform a s) = sim_scheduler s"
  by (simp add: perform_def Let_def case_prod_unfold on_metrics_def consume_scheduler record_scheduler
      split: ScheduledAction.split option.split TransportEvent.split)

function perform_ready :: "SimulationRunner \<Rightarrow> SimulationRunner" where
  "perform_ready s =
     (case pop_ready (clk_now_ms (sim_clock s)) (sim_scheduler s) of
        (None, _) \<Rightarrow> s
      | (Some e, sch) \<Rightarrow> perform_ready (perform (ev_payload e) (s\<lparr>sim_scheduler := sch\<rparr>)))"
  by pat_completeness auto
termination
proof (relation "measure (\<lambda>s. length (queue (sim_scheduler s)))", goal_cases)
  case (2 s r sch e)
  then show ?case
    using pop_ready_length [of "clk_now_ms (sim_clock s)" "sim_scheduler s" e sch] by simp
qed simp

declare perform_ready.simps [simp del]

definition step_until_next_event :: "SimulationRunner \<Rightarrow> SimulationRunner" where
  "step_until_next_event s =
     (let s1 = fold schedule_action (sim_actions s) (s\<lparr>sim_actions := []\<rparr>);
          s2 = (case next_timestamp (sim_scheduler s1) of
                  Some at \<Rightarrow> s1\<lparr>sim_clock := advance_to at (sim_clock s1)\<rparr> | None \<Rightarrow> s1) in
      perform_ready s2)"

text \<open>The body of the loop of \<open>run_for\<close>.\<close>

definition run_turn :: "u64 \<Rightarrow> SimulationRunner \<Rightarrow> SimulationRunner" where
  "run_turn target s =
     (let s1 = step_until_next_event s in
      if next_timestamp (sim_scheduler s1) = None \<and> sim_actions s1 = [] then
        s1\<lparr>sim_clock := advance_to (min (sat_add (clk_now_ms (sim_clock s1)) 1) target) (sim_clock s1)\<rparr>
      else s1)"

end
