(* ===== verification/Sim_Props.thy ===== *)
theory Sim_Props
  imports Simulator "HOL-Library.Product_Lexorder"
begin

text \<open>
  The simulator: its scheduler sorts stably by time, \<open>run_for\<close> returns, and what it leaves behind.
\<close>

section \<open>The heap\<close>

definition ev_key :: "'a ScheduledEvent \<Rightarrow> u64 \<times> u64" where
  "ev_key e = (at_ms e, seq e)"

lemma ev_less_key: "ev_less x y \<longleftrightarrow> ev_key y < ev_key x"
  by (auto simp: ev_less_def ev_key_def)

lemma heap_peek_least: "heap_peek q = Some x \<Longrightarrow> \<forall>y\<in>set q. ev_key x \<le> ev_key y"
proof (induction q arbitrary: x)
  case (Cons z q)
  show ?case
  proof (cases "heap_peek q")
    case None
    then show ?thesis
      using Cons(2) by simp
  next
    case (Some y)
    with Cons(1) [OF Some] Cons(2) show ?thesis
      by (auto simp: ev_less_key split: if_splits intro: order_trans)
  qed
qed simp

lemma at_ms_mono: "ev_key x \<le> ev_key y \<Longrightarrow> at_ms x \<le> at_ms y"
  by (auto simp: ev_key_def)

text \<open>The events a loop over \<open>pop_ready\<close> yields at a fixed time.\<close>

function drain :: "u64 \<Rightarrow> 'a EventScheduler \<Rightarrow> 'a ScheduledEvent list \<times> 'a EventScheduler" where
  "drain now s =
     (case pop_ready now s of
        (None, _) \<Rightarrow> ([], s)
      | (Some e, s1) \<Rightarrow> (let (es, s2) = drain now s1 in (e # es, s2)))"
  by pat_completeness auto
termination
  by (relation "measure (\<lambda>(now, s). length (queue s))") (auto dest: pop_ready_length [OF sym])

declare drain.simps [simp del]

lemma pop_ready_None_iff:
  "fst (pop_ready now s) = None \<longleftrightarrow> (\<forall>e\<in>set (queue s). now < at_ms e)"
proof (cases "heap_peek (queue s)")
  case (Some e)
  have "now < at_ms e \<longleftrightarrow> (\<forall>x\<in>set (queue s). now < at_ms x)"
    using heap_peek_least [OF Some] heap_peek_in [OF Some] at_ms_mono by (fastforce intro: less_le_trans)
  moreover have "fst (pop_ready now s) = None \<longleftrightarrow> now < at_ms e"
    using Some by (auto simp: pop_ready_def heap_pop_def Let_def)
  ultimately show ?thesis
    by simp
qed (simp add: pop_ready_def Let_def)

lemma pop_ready_None_same: "pop_ready now s = (None, s') \<Longrightarrow> s' = s"
  by (auto simp: pop_ready_def heap_pop_def Let_def split: option.splits if_splits)

lemma drain_sorted:
  assumes "distinct (map ev_key (queue s))"
  shows "fst (drain now s) = sort_key ev_key (filter (\<lambda>e. at_ms e \<le> now) (queue s)) \<and>
         queue (snd (drain now s)) = filter (\<lambda>e. now < at_ms e) (queue s)"
  using assms
proof (induction now s rule: drain.induct)
  case (1 now s)
  show ?case
  proof (cases "pop_ready now s")
    case (Pair r s1)
    show ?thesis
    proof (cases r)
      case None
      then have "\<forall>e\<in>set (queue s). now < at_ms e"
        using Pair pop_ready_None_iff [of now s] by simp
      then have "filter (\<lambda>e. at_ms e \<le> now) (queue s) = []" "filter (\<lambda>e. now < at_ms e) (queue s) = queue s"
        by (auto simp: filter_empty_conv filter_id_conv not_le)
      then show ?thesis
        using Pair None by (subst (1 2) drain.simps) simp
    next
      case (Some e)
      note p = pop_ready_Some [OF Pair [unfolded Some]]
      have e: "e \<in> set (queue s)" "\<forall>y\<in>set (queue s). ev_key e \<le> ev_key y"
        using heap_peek_in [OF p(1)] heap_peek_least [OF p(1)] by simp_all
      have d: "distinct (queue s)" "distinct (map ev_key (queue s1))"
        using 1(2) by (auto simp: p(3) distinct_map intro: inj_on_diff)
      have q: "queue s1 = remove1 e (queue s)"
        using p(3) by simp
      have IH: "fst (drain now s1) = sort_key ev_key (filter (\<lambda>e. at_ms e \<le> now) (queue s1))"
        "queue (snd (drain now s1)) = filter (\<lambda>e. now < at_ms e) (queue s1)"
        using 1(1) [OF Pair [symmetric] Some d(2)] by simp_all
      have late: "filter (\<lambda>e. now < at_ms e) (queue s1) = filter (\<lambda>e. now < at_ms e) (queue s)"
        using p(2) by (simp add: q filter_remove1 remove1_idem)
      have "sort_key ev_key (filter (\<lambda>e. at_ms e \<le> now) (queue s)) =
          e # sort_key ev_key (filter (\<lambda>e. at_ms e \<le> now) (queue s1))"
      proof (rule sort_key_unique)
        show "mset (e # sort_key ev_key (filter (\<lambda>e. at_ms e \<le> now) (queue s1))) =
            mset (filter (\<lambda>e. at_ms e \<le> now) (queue s))"
          using e(1) p(2) by (simp add: q filter_remove1)
        show "distinct (map ev_key (filter (\<lambda>e. at_ms e \<le> now) (queue s)))"
          using 1(2) by (rule distinct_map_filter)
        show "sorted (map ev_key (e # sort_key ev_key (filter (\<lambda>e. at_ms e \<le> now) (queue s1))))"
          using e(2) using set_remove1_subset [of e "queue s"] by (auto simp: q)
      qed
      then show ?thesis
        using IH late by (subst (1 2) drain.simps) (simp add: Pair Some case_prod_unfold Let_def)
    qed
  qed
qed

section \<open>Stable order\<close>

lemma insort_seq:
  "\<forall>y\<in>set ys. seq x < seq y \<Longrightarrow> insort_key ev_key x ys = insort_key at_ms x ys"
  by (induction ys) (auto simp: ev_key_def)

lemma sort_seq: "sorted_wrt (<) (map seq es) \<Longrightarrow> sort_key ev_key es = sort_key at_ms es"
  by (induction es) (simp_all add: insort_seq)

lemma insort_map: "map g (insort_key (\<lambda>x. f (g x)) x ys) = insort_key f (g x) (map g ys)"
  by (induction ys) simp_all

lemma sort_map: "map g (sort_key (\<lambda>x. f (g x)) xs) = sort_key f (map g xs)"
  by (induction xs) (simp_all add: insort_map)

definition push_all :: "(u64 \<times> 'a) list \<Rightarrow> 'a EventScheduler" where
  "push_all xs = fold (\<lambda>(at, x). sched_push at x) xs sched_new"

definition ev_pair :: "'a ScheduledEvent \<Rightarrow> u64 \<times> 'a" where
  "ev_pair e = (at_ms e, ev_payload e)"

lemma ev_pair_make: "ev_pair \<lparr>at_ms = a, seq = n, ev_payload = x\<rparr> = (a, x)"
  by (simp add: ev_pair_def)

lemma push_all_queue:
  "length xs < 2 ^ 64 \<Longrightarrow> map ev_pair (queue (push_all xs)) = xs \<and> sorted_wrt (<) (map seq (queue (push_all xs))) \<and>
     next_seq (push_all xs) = of_nat (length xs) \<and> (\<forall>e\<in>set (queue (push_all xs)). seq e \<le> of_nat (length xs))"
proof (induction xs rule: rev_induct)
  case (snoc x xs)
  obtain at p where x: "x = (at, p)"
    by (cases x)
  have push: "push_all (xs @ [x]) = sched_push at p (push_all xs)"
    by (simp add: push_all_def x)
  have IH: "map ev_pair (queue (push_all xs)) = xs" "sorted_wrt (<) (map seq (queue (push_all xs)))"
    "next_seq (push_all xs) = of_nat (length xs)" "\<forall>e\<in>set (queue (push_all xs)). seq e \<le> of_nat (length xs)"
    using snoc by simp_all
  have up: "(of_nat (length xs) :: u64) < of_nat (length xs) + 1"
  proof -
    have "unat (of_nat (length xs) :: u64) = length xs" "unat (of_nat (Suc (length xs)) :: u64) = Suc (length xs)"
      using snoc(2) by (simp_all add: unat_of_nat del: of_nat_Suc)
    moreover have "of_nat (length xs) + 1 = (of_nat (Suc (length xs)) :: u64)"
      by simp
    ultimately show ?thesis
      by (simp add: word_less_unat del: of_nat_Suc)
  qed
  then have lt: "seq e < of_nat (length xs) + 1" if "e \<in> set (queue (push_all xs))" for e
    using IH(4) that by (meson le_less_trans)
  then show ?case
    using IH up unfolding push
    by (auto simp: sched_push_def Let_def sorted_wrt_append x ev_pair_make add.commute intro: less_imp_le)
qed (simp add: push_all_def sched_new_def)

text \<open>C21. The scheduler is a stable sort: of the events pushed in any order, those due at a time are popped in order of
  their time, events of the same time in the order they were pushed, and the others stay.\<close>

theorem scheduler_stable_sort:
  assumes "length xs < 2 ^ 64"
  shows "map ev_pair (fst (drain now (push_all xs))) = sort_key fst (filter (\<lambda>(at, x). at \<le> now) xs) \<and>
         map ev_pair (queue (snd (drain now (push_all xs)))) = filter (\<lambda>(at, x). now < at) xs"
proof -
  let ?q = "queue (push_all xs)"
  have q: "map ev_pair ?q = xs" "sorted_wrt (<) (map seq ?q)"
    using push_all_queue [OF assms] by simp_all
  have "distinct (map seq ?q)"
    using q(2) strict_sorted_iff by blast
  then have "distinct (map ev_key ?q)"
    by (auto simp: distinct_map inj_on_def ev_key_def)
  note d = drain_sorted [OF this, of now]
  have "sorted_wrt (<) (map seq (filter (\<lambda>e. at_ms e \<le> now) ?q))"
    using q(2) by (simp add: sorted_wrt_map sorted_wrt_filter)
  then have "fst (drain now (push_all xs)) = sort_key (\<lambda>e. fst (ev_pair e)) (filter (\<lambda>e. at_ms e \<le> now) ?q)"
    using d sort_seq by (simp add: ev_pair_def)
  then have "map ev_pair (fst (drain now (push_all xs))) = sort_key fst (map ev_pair (filter (\<lambda>e. at_ms e \<le> now) ?q))"
    by (simp add: sort_map)
  moreover have "map ev_pair (filter (\<lambda>e. at_ms e \<le> now) ?q) = filter (\<lambda>(at, x). at \<le> now) (map ev_pair ?q)"
    "map ev_pair (filter (\<lambda>e. now < at_ms e) ?q) = filter (\<lambda>(at, x). now < at) (map ev_pair ?q)"
    by (simp_all add: filter_map comp_def ev_pair_def)
  ultimately show ?thesis
    using d q(1) by simp
qed

theorem scheduler_stable_sort_witness:
  "map ev_pair (fst (drain 15 (push_all [(20, ''b''), (10, ''a1''), (10, ''a2'')]))) = [(10, ''a1''), (10, ''a2'')]"
  using scheduler_stable_sort [of "[(20, ''b''), (10, ''a1''), (10, ''a2'')]" 15] by simp

section \<open>Frames\<close>

lemma consume_frame [simp]:
  "sim_clock (snd (consume_bandwidth p b s)) = sim_clock s" "sim_actions (snd (consume_bandwidth p b s)) = sim_actions s"
  "sim_nodes (snd (consume_bandwidth p b s)) = sim_nodes s" "sim_metrics (snd (consume_bandwidth p b s)) = sim_metrics s"
  by (simp_all add: consume_bandwidth_def Let_def)

lemma record_frame [simp]:
  "sim_clock (record_delivery p m s) = sim_clock s" "sim_actions (record_delivery p m s) = sim_actions s"
  "sim_nodes (record_delivery p m s) = sim_nodes s" "sim_bandwidth_usage (record_delivery p m s) = sim_bandwidth_usage s"
  by (simp_all add: record_delivery_def Let_def case_prod_unfold split: option.split)

lemma metrics_frame [simp]:
  "sim_clock (on_metrics f s) = sim_clock s" "sim_actions (on_metrics f s) = sim_actions s"
  "sim_nodes (on_metrics f s) = sim_nodes s" "sim_bandwidth_usage (on_metrics f s) = sim_bandwidth_usage s"
  "sim_scheduler (on_metrics f s) = sim_scheduler s" "sim_metrics (on_metrics f s) = f (sim_metrics s)"
  by (simp_all add: on_metrics_def)

lemma perform_frame [simp]: "sim_clock (perform a s) = sim_clock s" "sim_actions (perform a s) = sim_actions s"
  by (simp_all add: perform_def Let_def case_prod_unfold split: ScheduledAction.split option.split TransportEvent.split)

lemma roll_frame [simp]:
  "sim_clock (snd (roll_loss l s)) = sim_clock s" "sim_actions (snd (roll_loss l s)) = sim_actions s"
  "sim_nodes (snd (roll_loss l s)) = sim_nodes s" "sim_bandwidth_usage (snd (roll_loss l s)) = sim_bandwidth_usage s"
  "sim_metrics (snd (roll_loss l s)) = sim_metrics s"
  by (simp_all add: roll_loss_def Let_def)

lemma push_frame [simp]:
  "sim_clock (push_deliver l to ev b s) = sim_clock s" "sim_actions (push_deliver l to ev b s) = sim_actions s"
  "sim_nodes (push_deliver l to ev b s) = sim_nodes s" "sim_bandwidth_usage (push_deliver l to ev b s) = sim_bandwidth_usage s"
  "sim_metrics (push_deliver l to ev b s) = sim_metrics s"
  by (simp_all add: push_deliver_def)

text \<open>What scheduling an action leaves alone.\<close>

definition same_sim :: "SimulationRunner \<Rightarrow> SimulationRunner \<Rightarrow> bool" where
  "same_sim s s' \<longleftrightarrow> sim_clock s' = sim_clock s \<and> sim_actions s' = sim_actions s \<and> sim_nodes s' = sim_nodes s \<and>
     sim_bandwidth_usage s' = sim_bandwidth_usage s \<and> sm_delivered (sim_metrics s') = sm_delivered (sim_metrics s) \<and>
     sm_latencies_ms (sim_metrics s') = sm_latencies_ms (sim_metrics s)"

lemma same_sim_refl: "same_sim s s"
  by (simp add: same_sim_def)

lemma fold_same: "(\<And>x s. same_sim s (f x s)) \<Longrightarrow> same_sim s (fold f xs s)"
proof (induction xs arbitrary: s)
  case (Cons x xs)
  then have "same_sim s (f x s)" "same_sim (f x s) (fold f xs (f x s))"
    by simp_all
  then show ?case
    by (simp add: same_sim_def)
qed (simp add: same_sim_refl)

lemma publish_same: "same_sim s (publish_to from scope pl to s)"
  by (simp add: publish_to_def same_sim_def Let_def case_prod_unfold split: option.split)

lemma schedule_same: "same_sim s (schedule_action a s)"
proof (cases a)
  case (SimPublishScoped f sc pl)
  then show ?thesis
    using fold_same [of "publish_to f sc pl", OF publish_same] by (simp add: schedule_action_def)
qed (simp add: schedule_action_def same_sim_def Let_def case_prod_unfold split: option.split)

section \<open>Termination of \<open>run_for\<close>\<close>

lemma perform_ready_frame [simp]:
  "sim_clock (perform_ready s) = sim_clock s" "sim_actions (perform_ready s) = sim_actions s"
  by (induction s rule: perform_ready.induct)
    (subst perform_ready.simps, simp split: prod.split option.split)+

lemma perform_ready_queue:
  "(\<forall>e\<in>set (queue (sim_scheduler (perform_ready s))). clk_now_ms (sim_clock s) < at_ms e) \<and>
   length (queue (sim_scheduler (perform_ready s))) \<le> length (queue (sim_scheduler s))"
proof (induction s rule: perform_ready.induct)
  case (1 s)
  show ?case
  proof (cases "pop_ready (clk_now_ms (sim_clock s)) (sim_scheduler s)")
    case (Pair r sch)
    show ?thesis
    proof (cases r)
      case None
      then show ?thesis
        using Pair pop_ready_None_iff [of "clk_now_ms (sim_clock s)" "sim_scheduler s"]
        by (subst (1 2) perform_ready.simps) simp
    next
      case (Some e)
      then show ?thesis
        using 1 [OF Pair [symmetric] Some] Pair pop_ready_length [of "clk_now_ms (sim_clock s)" "sim_scheduler s" e sch]
        by (subst (1 2) perform_ready.simps) auto
    qed
  qed
qed

lemma step_effect:
  fixes s :: SimulationRunner
  defines "s' \<equiv> step_until_next_event s"
  shows "sim_actions s' = []" "clk_now_ms (sim_clock s) \<le> clk_now_ms (sim_clock s')"
    "\<forall>e\<in>set (queue (sim_scheduler s')). clk_now_ms (sim_clock s') < at_ms e"
    "sim_actions s = [] \<Longrightarrow> clk_now_ms (sim_clock s') = clk_now_ms (sim_clock s) \<Longrightarrow> queue (sim_scheduler s) \<noteq> [] \<Longrightarrow>
       length (queue (sim_scheduler s')) < length (queue (sim_scheduler s))"
    "sim_actions s = [] \<Longrightarrow> length (queue (sim_scheduler s')) \<le> length (queue (sim_scheduler s))"
proof -
  define s1 where "s1 = fold schedule_action (sim_actions s) (s\<lparr>sim_actions := []\<rparr>)"
  define s2 where "s2 = (case next_timestamp (sim_scheduler s1) of
      Some at \<Rightarrow> s1\<lparr>sim_clock := advance_to at (sim_clock s1)\<rparr> | None \<Rightarrow> s1)"
  have s': "s' = perform_ready s2"
    unfolding s'_def step_until_next_event_def Let_def s2_def s1_def by (rule refl)
  have "same_sim (s\<lparr>sim_actions := []\<rparr>) s1"
    unfolding s1_def by (rule fold_same [OF schedule_same])
  then have s1: "sim_actions s1 = []" "sim_clock s1 = sim_clock s"
    by (simp_all add: same_sim_def)
  have s2: "sim_actions s2 = []" "clk_now_ms (sim_clock s) \<le> clk_now_ms (sim_clock s2)" "sim_scheduler s2 = sim_scheduler s1"
    using s1 by (auto simp: s2_def advance_to_def split: option.split)
  note p = perform_ready_queue [of s2]
  show "sim_actions s' = []" "clk_now_ms (sim_clock s) \<le> clk_now_ms (sim_clock s')"
    "\<forall>e\<in>set (queue (sim_scheduler s')). clk_now_ms (sim_clock s') < at_ms e"
    using s2 p by (simp_all add: s')
  assume none: "sim_actions s = []"
  then have sch: "sim_scheduler s1 = sim_scheduler s"
    by (simp add: s1_def)
  show "length (queue (sim_scheduler s')) \<le> length (queue (sim_scheduler s))"
    using p s2 sch by (simp add: s')
  assume same: "clk_now_ms (sim_clock s') = clk_now_ms (sim_clock s)" and ne: "queue (sim_scheduler s) \<noteq> []"
  then obtain e where e: "heap_peek (queue (sim_scheduler s)) = Some e"
    by (cases "heap_peek (queue (sim_scheduler s))") auto
  then have "at_ms e \<le> clk_now_ms (sim_clock s2)"
    using s1 sch by (simp add: s2_def next_timestamp_def advance_to_def)
  then have "fst (pop_ready (clk_now_ms (sim_clock s2)) (sim_scheduler s2)) \<noteq> None"
    using heap_peek_in [OF e] s2(3) sch by (auto simp: pop_ready_None_iff not_less)
  then obtain e' sch' where pop: "pop_ready (clk_now_ms (sim_clock s2)) (sim_scheduler s2) = (Some e', sch')"
    by (cases "pop_ready (clk_now_ms (sim_clock s2)) (sim_scheduler s2)") auto
  have "perform_ready s2 = perform_ready (perform (ev_payload e') (s2\<lparr>sim_scheduler := sch'\<rparr>))"
    by (subst perform_ready.simps) (simp add: pop)
  then show "length (queue (sim_scheduler s')) < length (queue (sim_scheduler s))"
    using perform_ready_queue [of "perform (ev_payload e') (s2\<lparr>sim_scheduler := sch'\<rparr>)"] pop_ready_length [OF pop] s2(3) sch
    by (simp add: s')
qed

lemma turn_clock: "clk_now_ms (sim_clock s) \<le> clk_now_ms (sim_clock (run_turn target s))"
  using step_effect(2) [of s] by (auto simp: run_turn_def Let_def advance_to_def le_max_iff_disj)

lemma turn_actions: "sim_actions (run_turn target s) = []"
  using step_effect(1) [of s] by (simp add: run_turn_def Let_def)

lemma next_timestamp_None [simp]: "next_timestamp s = None \<longleftrightarrow> queue s = []"
  by (simp add: next_timestamp_def)

text \<open>A turn moves the clock on, or takes an event off the queue.\<close>

lemma turn_progress:
  assumes "clk_now_ms (sim_clock s) < target" "sim_actions s = []"
    and "clk_now_ms (sim_clock (run_turn target s)) = clk_now_ms (sim_clock s)"
  shows "length (queue (sim_scheduler (run_turn target s))) < length (queue (sim_scheduler s))"
proof -
  let ?s = "step_until_next_event s"
  have le: "clk_now_ms (sim_clock s) \<le> clk_now_ms (sim_clock ?s)"
    by (rule step_effect(2))
  show ?thesis
  proof (cases "queue (sim_scheduler ?s) = []")
    case True
    then have "clk_now_ms (sim_clock (run_turn target s)) =
        max (clk_now_ms (sim_clock ?s)) (min (sat_add (clk_now_ms (sim_clock ?s)) 1) target)"
      using step_effect(1) [of s] by (simp add: run_turn_def Let_def advance_to_def)
    then have False
      using assms(1,3) le unat_bound [of target] by (auto simp: word_nat min_def max_def split: if_splits)
    then show ?thesis ..
  next
    case False
    then have t: "run_turn target s = ?s"
      by (simp add: run_turn_def Let_def)
    have "queue (sim_scheduler s) \<noteq> []"
      using False step_effect(5) [OF assms(2)] by auto
    then show ?thesis
      using step_effect(4) [OF assms(2)] assms(3) by (simp add: t)
  qed
qed

function run_until :: "u64 \<Rightarrow> SimulationRunner \<Rightarrow> SimulationRunner" where
  "run_until target s =
     (if clk_now_ms (sim_clock s) < target then run_until target (run_turn target s) else s)"
  by pat_completeness auto
termination
proof (relation "measures [\<lambda>(target, s). if sim_actions s = [] then 0 else 1,
    \<lambda>(target, s). unat target - unat (clk_now_ms (sim_clock s)), \<lambda>(target, s). length (queue (sim_scheduler s))]", goal_cases)
  case (2 target s)
  show ?case
    using 2 turn_clock [of s target] turn_actions [of target s] turn_progress [of s target]
    by (auto simp: word_nat word_unat_eq_iff)
qed simp

declare run_until.simps [simp del]

definition run_for :: "u64 \<Rightarrow> SimulationRunner \<Rightarrow> SimulationRunner" where
  "run_for duration s = run_until (sat_add (clk_now_ms (sim_clock s)) duration) s"

section \<open>What a run leaves behind\<close>

definition sim_ok :: "SimulationRunner \<Rightarrow> bool" where
  "sim_ok s \<longleftrightarrow> (\<forall>p sec u. sim_bandwidth_usage s (p, sec) = Some u \<longrightarrow> u \<le> budget_of s p) \<and>
     sm_delivered (sim_metrics s) = of_nat (length (sm_latencies_ms (sim_metrics s)))"

lemma map_of_assoc_insert: "map_of (assoc_insert k v xs) = (map_of xs)(k \<mapsto> v)"
  by (induction k v xs rule: assoc_insert.induct) (auto simp: fun_eq_iff)

lemma budget_online: "map_of (sim_nodes s) p = Some n \<Longrightarrow>
    budget_of (s\<lparr>sim_nodes := assoc_insert p (n\<lparr>sn_online := b\<rparr>) (sim_nodes s)\<rparr>) q = budget_of s q"
  by (simp add: budget_of_def map_of_assoc_insert)

lemma budget_frame: "sim_nodes s' = sim_nodes s \<Longrightarrow> budget_of s' p = budget_of s p"
  by (simp add: budget_of_def)

lemma consume_ok:
  assumes "sim_ok s"
  shows "sim_ok (snd (consume_bandwidth p b s))"
proof -
  have "budget_of (snd (consume_bandwidth p b s)) q = budget_of s q" for q
    by (rule budget_frame) simp
  moreover have "u \<le> budget_of s q" if "sim_bandwidth_usage (snd (consume_bandwidth p b s)) (q, sec) = Some u" for q sec u
    using assms that by (auto simp: sim_ok_def consume_bandwidth_def Let_def split: if_splits option.splits)
  ultimately show ?thesis
    using assms by (simp add: sim_ok_def)
qed

lemma record_ok: "sim_ok s \<Longrightarrow> sim_ok (record_delivery p m s)"
  using budget_frame [of "record_delivery p m s" s]
  by (auto simp: sim_ok_def) (auto simp: record_delivery_def Let_def split: option.splits)

lemma perform_ok: "sim_ok s \<Longrightarrow> sim_ok (perform a s)"
proof (cases a)
  case (Availability p b)
  assume "sim_ok s"
  then show ?thesis
    by (auto simp: Availability perform_def sim_ok_def budget_online split: option.split)
next
  case (Deliver p ev b)
  assume ok: "sim_ok s"
  have frame: "sim_ok (on_metrics (\<lambda>m. m\<lparr>sm_dropped_bandwidth := x\<rparr>) s')" "sim_ok (on_metrics (\<lambda>m. m\<lparr>sm_sent_bytes := f m\<rparr>) s')"
    "sim_ok (s'\<lparr>sim_sent := l\<rparr>)" if "sim_ok s'" for s' x f l
    using that by (simp_all add: sim_ok_def budget_of_def)
  have metrics: "sim_ok (on_metrics (\<lambda>m. m\<lparr>sm_dropped_bandwidth := sm_dropped_bandwidth m + 1\<rparr>) s')" if "sim_ok s'" for s'
    using that by (simp add: sim_ok_def budget_of_def)
  show ?thesis
    using consume_ok [OF ok, of p "of_nat b"]
    by (auto simp: Deliver perform_def Let_def case_prod_unfold intro!: metrics frame record_ok split: TransportEvent.split)
qed

lemma perform_ready_ok: "sim_ok s \<Longrightarrow> sim_ok (perform_ready s)"
proof (induction s rule: perform_ready.induct)
  case (1 s)
  have sch: "sim_ok (s\<lparr>sim_scheduler := x\<rparr>)" for x
    using 1(2) by (simp add: sim_ok_def budget_of_def)
  show ?case
    using 1 perform_ok [OF sch] by (subst perform_ready.simps) (auto split: prod.split option.split)
qed

lemma same_sim_ok: "same_sim s s' \<Longrightarrow> sim_ok s \<Longrightarrow> sim_ok s'"
  by (simp add: same_sim_def sim_ok_def budget_of_def)

lemma turn_ok: "sim_ok s \<Longrightarrow> sim_ok (run_turn target s)"
proof -
  assume "sim_ok s"
  then have "sim_ok (s\<lparr>sim_actions := []\<rparr>)"
    by (simp add: sim_ok_def budget_of_def)
  then have ok: "sim_ok (fold schedule_action (sim_actions s) (s\<lparr>sim_actions := []\<rparr>))" (is "sim_ok ?s1")
    by (rule same_sim_ok [OF fold_same [of schedule_action, OF schedule_same]])
  have clk: "sim_ok (x\<lparr>sim_clock := c\<rparr>) \<longleftrightarrow> sim_ok x" for x c
    by (simp add: sim_ok_def budget_of_def)
  have "sim_ok (case next_timestamp (sim_scheduler ?s1) of
      Some at \<Rightarrow> ?s1\<lparr>sim_clock := advance_to at (sim_clock ?s1)\<rparr> | None \<Rightarrow> ?s1)"
    by (cases "next_timestamp (sim_scheduler ?s1)") (simp_all only: option.case clk ok)
  then have "sim_ok (step_until_next_event s)"
    unfolding step_until_next_event_def Let_def by (rule perform_ready_ok)
  then show ?thesis
    by (simp only: run_turn_def Let_def clk split: if_split) simp
qed

lemma turn_queue:
  "\<forall>e\<in>set (queue (sim_scheduler (run_turn target s))). clk_now_ms (sim_clock (run_turn target s)) < at_ms e"
  using step_effect(3) [of s] by (auto simp: run_turn_def Let_def)

lemma run_until_effect:
  "sim_ok s \<Longrightarrow> target \<le> clk_now_ms (sim_clock (run_until target s)) \<and> sim_ok (run_until target s) \<and>
     (clk_now_ms (sim_clock s) < target \<longrightarrow> sim_actions (run_until target s) = [] \<and>
        (\<forall>e\<in>set (queue (sim_scheduler (run_until target s))). clk_now_ms (sim_clock (run_until target s)) < at_ms e))"
proof (induction target s rule: run_until.induct)
  case (1 target s)
  show ?case
  proof (cases "clk_now_ms (sim_clock s) < target")
    case True
    have e: "run_until target s = run_until target (run_turn target s)"
      using True by (subst run_until.simps) simp
    note IH = 1(1) [OF True turn_ok [OF 1(2)]]
    have "run_until target (run_turn target s) = run_turn target s" if "\<not> clk_now_ms (sim_clock (run_turn target s)) < target"
      using that by (subst run_until.simps) simp
    then show ?thesis
      using IH e turn_actions [of target s] turn_queue [of target s]
      by (cases "clk_now_ms (sim_clock (run_turn target s)) < target") auto
  next
    case False
    then have "run_until target s = s"
      by (subst run_until.simps) simp
    moreover have "target \<le> clk_now_ms (sim_clock s)"
      using False by simp
    ultimately show ?thesis
      using 1(2) False by simp
  qed
qed

lemma run_until_overshoot:
  assumes "sim_actions s = []" "heap_peek (queue (sim_scheduler s)) = Some e" "target \<le> at_ms e"
    and "clk_now_ms (sim_clock s) < target"
  shows "clk_now_ms (sim_clock (run_until target s)) = at_ms e"
proof -
  have "clk_now_ms (sim_clock (step_until_next_event s)) = at_ms e"
    using assms by (simp add: step_until_next_event_def Let_def next_timestamp_def advance_to_def max.absorb2 less_imp_le [OF less_le_trans])
  then have t: "clk_now_ms (sim_clock (run_turn target s)) = at_ms e"
    using assms(3) by (auto simp: run_turn_def Let_def advance_to_def max_def min_def)
  have "run_until target s = run_turn target s"
    using assms(3,4) t by (subst run_until.simps, subst run_until.simps) simp
  then show ?thesis
    using t by simp
qed



end
