(* ===== verification/Sealing.thy ===== *)
theory Sealing
  imports Crypto Framing
begin

text \<open>
  Encryption of messages (\<open>mycelium-core/src/crypto.rs\<close>), of mini-app values
  (\<open>mycelium-app/src/miniapp_storage_enc.rs\<close>) and of key material at rest
  (\<open>mycelium-core/src/at_rest.rs\<close>, \<open>mycelium-node/src/secrets.rs\<close>).  The packages
  (\<open>chacha20poly1305\<close>, \<open>hkdf\<close>, \<open>x25519_dalek\<close>, \<open>hex\<close>, \<open>keyring\<close>) are parameters; every random value the
  code draws is an argument.  A fixed-size array is the list of its bytes.
\<close>

section \<open>The packages\<close>

record sealing =
  aead_seal :: "bytes \<Rightarrow> bytes \<Rightarrow> bytes \<Rightarrow> bytes result"  \<comment> \<open>key, nonce, plaintext\<close>
  aead_open :: "bytes \<Rightarrow> bytes \<Rightarrow> bytes \<Rightarrow> bytes result"  \<comment> \<open>key, nonce, ciphertext\<close>
  hkdf_expand :: "bytes \<Rightarrow> bytes \<Rightarrow> bytes option"  \<comment> \<open>input key, info: 32 bytes\<close>
  x25519_public :: "bytes \<Rightarrow> bytes"
  x25519_dh :: "bytes \<Rightarrow> bytes \<Rightarrow> bytes"
  hex_encode :: "bytes \<Rightarrow> string"
  hex_decode :: "string \<Rightarrow> bytes result"
  derive_key :: "string \<Rightarrow> bytes \<Rightarrow> bytes"

text \<open>Documented behaviour: what was sealed opens under the same key and nonce and carries a tag of 16 bytes,
  both sides of a key exchange get the same secret, a public key has 32 bytes, hexadecimal text decodes.\<close>

definition sealing_ok :: "sealing \<Rightarrow> bool" where
  "sealing_ok sl \<longleftrightarrow>
     (\<forall>k n p c. aead_seal sl k n p = Ok c \<longrightarrow> aead_open sl k n c = Ok p \<and> length c = length p + 16) \<and>
     (\<forall>s t. x25519_dh sl s (x25519_public sl t) = x25519_dh sl t (x25519_public sl s)) \<and>
     (\<forall>s. length (x25519_public sl s) = 32) \<and>
     (\<forall>b. hex_decode sl (hex_encode sl b) = Ok b)"

text \<open>A sealed text opens under no other key: what an authenticated cipher promises up to negligible probability.\<close>

definition key_binding :: "sealing \<Rightarrow> bool" where
  "key_binding sl \<longleftrightarrow>
     (\<forall>k k' n p c. aead_seal sl k n p = Ok c \<longrightarrow> k' \<noteq> k \<longrightarrow> \<not> is_ok (aead_open sl k' n c))"

definition demo_sealing :: sealing where
  "demo_sealing =
     \<lparr>aead_seal = \<lambda>k n p. Ok (p @ take 16 (k @ n @ replicate 16 0)),
      aead_open = \<lambda>k n c.
        (if 16 \<le> length c \<and> drop (length c - 16) c = take 16 (k @ n @ replicate 16 0)
         then Ok (take (length c - 16) c) else Err ''aead::Error''),
      hkdf_expand = \<lambda>k i. Some k,
      x25519_public = \<lambda>s. take 32 (s @ replicate 32 0),
      x25519_dh = \<lambda>s p. [],
      hex_encode = string_of_bytes,
      hex_decode = \<lambda>s. Ok (bytes_of s),
      derive_key = \<lambda>c b. b\<rparr>"

lemma sealing_ok_demo [simp]: "sealing_ok demo_sealing"
  by (simp add: sealing_ok_def demo_sealing_def min_def)

lemma sealing_okD:
  assumes "sealing_ok sl"
  shows "aead_seal sl k n p = Ok c \<Longrightarrow> aead_open sl k n c = Ok p"
    and "aead_seal sl k n p = Ok c \<Longrightarrow> length c = length p + 16"
    and "x25519_dh sl s (x25519_public sl t) = x25519_dh sl t (x25519_public sl s)"
    and "length (x25519_public sl s) = 32"
    and "hex_decode sl (hex_encode sl b) = Ok b"
  using assms by (simp_all add: sealing_ok_def)

section \<open>Messages\<close>

record EncryptionKeypair =
  enc_public :: bytes
  enc_secret_raw :: bytes

definition from_secret_bytes :: "sealing \<Rightarrow> bytes \<Rightarrow> EncryptionKeypair" where
  "from_secret_bytes sl b = \<lparr>enc_public = x25519_public sl b, enc_secret_raw = b\<rparr>"

definition public_hex :: "sealing \<Rightarrow> EncryptionKeypair \<Rightarrow> string" where
  "public_hex sl kp = hex_encode sl (enc_public kp)"

definition diffie_hellman :: "sealing \<Rightarrow> EncryptionKeypair \<Rightarrow> bytes \<Rightarrow> bytes" where
  "diffie_hellman sl kp their_public = x25519_dh sl (enc_secret_raw kp) their_public"

definition parse_x25519_public_hex :: "sealing \<Rightarrow> string \<Rightarrow> bytes result" where
  "parse_x25519_public_hex sl s =
     ok_then (hex_decode sl (trim s)) (\<lambda>b.
       if length b = 32 then Ok b else Err ''x25519 public key must be 32 bytes'')"

definition nonce_from_bytes :: "bytes \<Rightarrow> bytes result" where
  "nonce_from_bytes b = (if length b = 12 then Ok b else Err ''nonce must be 12 bytes'')"

definition derive_chacha_key :: "sealing \<Rightarrow> bytes \<Rightarrow> bytes \<Rightarrow> bytes result" where
  "derive_chacha_key sl shared info = ok_or ''HKDF expand failed'' (hkdf_expand sl shared info)"

definition map_err :: "(string \<Rightarrow> string) \<Rightarrow> 'a result \<Rightarrow> 'a result" where
  "map_err f r = (case r of Inl e \<Rightarrow> Err (f e) | Inr v \<Rightarrow> Ok v)"

lemma map_err_simps [simp]: "map_err f (Err e) = Err (f e)" "map_err f (Ok v) = Ok v"
  by (simp_all add: map_err_def)

lemma map_err_Ok [simp]: "map_err f r = Ok v \<longleftrightarrow> r = Ok v"
  by (cases r) simp_all

text \<open>The characters outside ASCII in the messages of the code, in UTF-8.\<close>

definition EN_DASH :: string where "EN_DASH = map char_of [226, 128, 147 :: nat]"
definition LE_SIGN :: string where "LE_SIGN = map char_of [226, 137, 164 :: nat]"

text \<open>\<open>eph\<close> is the ephemeral secret and \<open>nonce\<close> the twelve random bytes the function draws.\<close>

definition encrypt_for :: "sealing \<Rightarrow> bytes \<Rightarrow> bytes \<Rightarrow> bytes \<Rightarrow> bytes \<Rightarrow> bytes result" where
  "encrypt_for sl eph nonce plaintext recipient_public =
     (let ephemeral_public = x25519_public sl eph; shared = x25519_dh sl eph recipient_public in
      ok_then (derive_chacha_key sl shared (bytes_of ''mycelium-direct-v1'')) (\<lambda>key.
      ok_then (nonce_from_bytes nonce) (\<lambda>n.
      ok_then (map_err (\<lambda>e. ''encrypt failed: '' @ e) (aead_seal sl key n plaintext)) (\<lambda>ct.
      Ok (ephemeral_public @ nonce @ ct)))))"

definition decrypt_with :: "sealing \<Rightarrow> bytes \<Rightarrow> EncryptionKeypair \<Rightarrow> bytes result" where
  "decrypt_with sl blob recipient =
     (if length blob < 44 then Err ''ciphertext too short''
      else
        let ephemeral_public = take 32 blob in
        ok_then (nonce_from_bytes (take 12 (drop 32 blob))) (\<lambda>n.
        let ct = drop 44 blob; shared = diffie_hellman sl recipient ephemeral_public in
        ok_then (derive_chacha_key sl shared (bytes_of ''mycelium-direct-v1'')) (\<lambda>key.
        map_err (\<lambda>_. ''decryption failed '' @ EN_DASH @ '' wrong key or tampered message'') (aead_open sl key n ct))))"

definition encrypt_group :: "sealing \<Rightarrow> bytes \<Rightarrow> bytes \<Rightarrow> bytes \<Rightarrow> bytes result" where
  "encrypt_group sl nonce plaintext group_key =
     ok_then (nonce_from_bytes nonce) (\<lambda>n.
     ok_then (map_err (\<lambda>e. ''group encrypt failed: '' @ e) (aead_seal sl group_key n plaintext)) (\<lambda>ct.
     Ok (nonce @ ct)))"

definition decrypt_group :: "sealing \<Rightarrow> bytes \<Rightarrow> bytes \<Rightarrow> bytes result" where
  "decrypt_group sl blob group_key =
     (if length blob < 12 then Err ''group ciphertext too short''
      else
        ok_then (nonce_from_bytes (take 12 blob)) (\<lambda>n.
        map_err (\<lambda>_. ''group decryption failed'') (aead_open sl group_key n (drop 12 blob))))"

lemma encrypt_decrypt:
  assumes "sealing_ok sl" "encrypt_for sl eph nonce p (enc_public (from_secret_bytes sl sec)) = Ok c"
  shows "decrypt_with sl c (from_secret_bytes sl sec) = Ok p" "length c = length p + 60"
  using assms sealing_okD [OF assms(1)]
  by (auto simp: encrypt_for_def decrypt_with_def from_secret_bytes_def diffie_hellman_def nonce_from_bytes_def
      ok_then_Ok derive_chacha_key_def Let_def split: if_splits)

lemma encrypt_decrypt_group:
  assumes "sealing_ok sl" "encrypt_group sl nonce p k = Ok c"
  shows "decrypt_group sl c k = Ok p" "length c = length p + 28"
  using assms sealing_okD [OF assms(1)]
  by (auto simp: encrypt_group_def decrypt_group_def nonce_from_bytes_def ok_then_Ok split: if_splits)

lemma decrypt_group_other_key:
  assumes "key_binding sl" "encrypt_group sl nonce p k = Ok c" "k' \<noteq> k"
  shows "\<not> is_ok (decrypt_group sl c k')"
proof -
  obtain ct where ct: "aead_seal sl k nonce p = Ok ct" "c = nonce @ ct" "length nonce = 12"
    using assms(2) by (auto simp: encrypt_group_def nonce_from_bytes_def ok_then_Ok split: if_splits)
  then have "\<not> is_ok (aead_open sl k' nonce ct)"
    using assms(1,3) unfolding key_binding_def by blast
  with ct show ?thesis
    by (cases "aead_open sl k' nonce ct") (auto simp: decrypt_group_def nonce_from_bytes_def)
qed

section \<open>A cipher for examples\<close>

text \<open>Hexadecimal text, for the examples.\<close>

definition hex_digit :: "nat \<Rightarrow> char" where
  "hex_digit n = (if n < 10 then char_of (48 + n) else char_of (87 + n))"

definition hex_value :: "char \<Rightarrow> nat" where
  "hex_value c = (if of_char c < (58::nat) then of_char c - 48 else of_char c - 87)"

definition demo_hex :: "bytes \<Rightarrow> string" where
  "demo_hex bs = concat (map (\<lambda>b. [hex_digit (unat b div 16), hex_digit (unat b mod 16)]) bs)"

fun demo_unhex :: "string \<Rightarrow> bytes result" where
  "demo_unhex [] = Ok []"
| "demo_unhex [c] = Err ''odd''"
| "demo_unhex (c # d # s) = ok_then (demo_unhex s) (\<lambda>bs. Ok (of_nat (16 * hex_value c + hex_value d) # bs))"

lemma hex_digit_props: "n < 16 \<Longrightarrow> hex_value (hex_digit n) = n \<and> of_char (hex_digit n) < (103::nat)"
  by (auto simp: hex_value_def hex_digit_def)

lemma demo_unhex_hex [simp]: "demo_unhex (demo_hex bs) = Ok bs"
proof (induction bs)
  case (Cons b bs)
  have "unat b < 256"
    using unsigned_less [of b] by simp
  then have "unat b div 16 < 16" "unat b mod 16 < 16"
    by simp_all
  then show ?case
    using Cons hex_digit_props by (simp add: demo_hex_def del: of_nat_add of_nat_mult)
qed (simp add: demo_hex_def)

lemma demo_hex_printable: "c \<in> set (demo_hex b) \<Longrightarrow> 32 < (of_char c :: nat) \<and> (of_char c :: nat) < 128"
proof -
  have digit: "32 < (of_char (hex_digit n) :: nat) \<and> of_char (hex_digit n) < (128::nat)" if "n < 16" for n
    using that by (simp add: hex_digit_def)
  have "unat x div 16 < 16" for x :: u8
    using unsigned_less [of x, where ?'a = nat] by simp
  then show "c \<in> set (demo_hex b) \<Longrightarrow> 32 < (of_char c :: nat) \<and> (of_char c :: nat) < 128"
    using digit by (auto simp: demo_hex_def)
qed

lemma demo_hex_trimmed: "demo_unhex (trim (demo_hex b)) = Ok b"
  by (subst trim_printable) (use demo_hex_printable in auto)

text \<open>A cipher for keys that repeat one byte, which is also its tag: it seals under no other key and opens under no
  other key.\<close>

definition hex_sealing :: sealing where
  "hex_sealing = demo_sealing\<lparr>hex_encode := demo_hex, hex_decode := demo_unhex,
     aead_seal := \<lambda>k n p. if k = replicate 32 (hd k) then Ok (p @ replicate 16 (hd k)) else Err ''key'',
     aead_open := \<lambda>k n c.
       if k = replicate 32 (hd k) \<and> 16 \<le> length c \<and> drop (length c - 16) c = replicate 16 (hd k)
       then Ok (take (length c - 16) c) else Err ''aead::Error''\<rparr>"

lemma sealing_ok_hex [simp]: "sealing_ok hex_sealing"
  using sealing_ok_demo by (simp add: sealing_ok_def hex_sealing_def split: if_splits)

lemma key_binding_hex [simp]: "key_binding hex_sealing"
proof -
  have "replicate 16 (a::u8) = replicate 16 b \<longleftrightarrow> a = b" for a b
    by (auto simp: eval_nat_numeral)
  then show ?thesis
    by (auto simp: key_binding_def hex_sealing_def)
qed

end
