(* ===== verification/Vault.thy ===== *)
theory Vault
  imports Sealing
begin

text \<open>
  Key material at rest: the vault of \<open>mycelium-core/src/at_rest.rs\<close>, the loading and creation of the
  node's keys in \<open>mycelium-node/src/secrets.rs\<close>, and the encryption of mini-app values in
  \<open>mycelium-app/src/miniapp_storage_enc.rs\<close>.  The state is what the functions read and write outside the
  process: files by path, the entries of the operating system's keyring, and the secret in
  the old key database.  Reading and writing a file is taken to succeed.  A keyring need not keep what it is given: the
  store that the keyring package falls back to without a platform store holds a password no longer than the entry object lives.
\<close>

section \<open>State\<close>

datatype keyring_entry = KeyringPassword string | KeyringNoEntry | KeyringError string

record vault_state =
  vs_files :: "string \<Rightarrow> bytes option"
  vs_keyring :: "string \<Rightarrow> keyring_entry"
  vs_legacy_identity :: "string \<Rightarrow> bytes option"
  vs_draws :: nat  \<comment> \<open>how many keys were drawn at random\<close>

record vault_env =
  ve_sealing :: sealing
  ve_crypto :: crypto
  ve_keyring_open :: "string \<Rightarrow> unit result"
  ve_keyring_set :: "string \<Rightarrow> unit result"
  ve_keyring_keeps :: bool  \<comment> \<open>whether what is set outlives the entry it was set through\<close>
  ve_fresh_key :: "nat \<Rightarrow> bytes"
  ve_nonce :: "string \<Rightarrow> bytes"  \<comment> \<open>the nonce drawn when the secret of this name is written\<close>
  ve_ed25519_from_secret :: "bytes \<Rightarrow> keypair result"
  ve_ed25519_secret :: "keypair \<Rightarrow> bytes result"
  ve_new_identity :: keypair
  ve_new_enc_secret :: bytes

definition SERVICE :: string where "SERVICE = ''network.mycelium''"
definition NONCE_LEN :: nat where "NONCE_LEN = 12"
definition KEY_LEN :: nat where "KEY_LEN = 32"
definition LEGACY_FALLBACK_CONTEXT :: string where "LEGACY_FALLBACK_CONTEXT = ''mycelium-at-rest-fallback-v1''"

record SecretVault =
  vault_master :: bytes
  vault_secrets_dir :: string
  vault_db_path :: string

text \<open>\<open>Path::join\<close> with a relative path.\<close>

definition path_join :: "string \<Rightarrow> string \<Rightarrow> string" where
  "path_join a b = (if a = [] then b else if last a = CHR ''/'' then a @ b else a @ ''/'' @ b)"

section \<open>Sealing a secret\<close>

definition vault_encrypt :: "sealing \<Rightarrow> bytes \<Rightarrow> bytes \<Rightarrow> bytes \<Rightarrow> bytes result" where
  "vault_encrypt sl nonce master plaintext =
     ok_then (map_err (\<lambda>e. ''encrypt failed: '' @ e) (aead_seal sl master nonce plaintext)) (\<lambda>ct.
     Ok (nonce @ ct))"

definition vault_decrypt :: "sealing \<Rightarrow> bytes \<Rightarrow> bytes \<Rightarrow> bytes result" where
  "vault_decrypt sl master blob =
     (if length blob < NONCE_LEN + 16 then Err ''ciphertext too short''
      else map_err (\<lambda>e. ''decrypt failed: '' @ e)
             (aead_open sl master (take NONCE_LEN blob) (drop NONCE_LEN blob)))"

section \<open>Master keys\<close>

definition keyring_account :: "crypto \<Rightarrow> string \<Rightarrow> string" where
  "keyring_account cr db_path = ''master:'' @ to_hex cr (blake3 cr (bytes_of db_path))"

definition load_master_from_keyring :: "vault_env \<Rightarrow> string \<Rightarrow> vault_state \<Rightarrow> bytes result \<times> vault_state" where
  "load_master_from_keyring ve db_path vs =
     (let account = keyring_account (ve_crypto ve) db_path in
      case ve_keyring_open ve account of
        Inl e \<Rightarrow> (Err e, vs)
      | Inr _ \<Rightarrow>
          (case vs_keyring vs account of
             KeyringPassword h \<Rightarrow>
               (ok_then (hex_decode (ve_sealing ve) (trim h)) (\<lambda>b.
                  if length b = KEY_LEN then Ok b else Err ''invalid keyring master key length''), vs)
           | KeyringNoEntry \<Rightarrow>
               (let key = ve_fresh_key ve (vs_draws vs); h = hex_encode (ve_sealing ve) key;
                    vs = vs\<lparr>vs_draws := Suc (vs_draws vs)\<rparr> in
                case ve_keyring_set ve h of
                  Inl e \<Rightarrow> (Err e, vs)
                | Inr _ \<Rightarrow>
                    (Ok key, if ve_keyring_keeps ve then vs\<lparr>vs_keyring := (vs_keyring vs)(account := KeyringPassword h)\<rparr> else vs))
           | KeyringError e \<Rightarrow> (Err e, vs)))"

definition fallback_key_path :: "string \<Rightarrow> string" where
  "fallback_key_path db_path = path_join (path_join db_path ''.secrets'') ''fallback_master.key''"

definition read_file_fallback_key_if_exists :: "string \<Rightarrow> vault_state \<Rightarrow> bytes option" where
  "read_file_fallback_key_if_exists db_path vs =
     (case vs_files vs (fallback_key_path db_path) of
        None \<Rightarrow> None
      | Some b \<Rightarrow> if length b \<noteq> KEY_LEN then None else Some b)"

definition load_or_create_file_fallback_key :: "vault_env \<Rightarrow> string \<Rightarrow> vault_state \<Rightarrow> bytes \<times> vault_state" where
  "load_or_create_file_fallback_key ve db_path vs =
     (case read_file_fallback_key_if_exists db_path vs of
        Some key \<Rightarrow> (key, vs)
      | None \<Rightarrow> (let key = ve_fresh_key ve (vs_draws vs) in
          (key, vs\<lparr>vs_files := (vs_files vs)(fallback_key_path db_path \<mapsto> key), vs_draws := Suc (vs_draws vs)\<rparr>)))"

definition legacy_derive_fallback_master :: "sealing \<Rightarrow> string \<Rightarrow> bytes" where
  "legacy_derive_fallback_master sl db_path = derive_key sl LEGACY_FALLBACK_CONTEXT (bytes_of db_path)"

definition resolve_master_key ::
  "vault_env \<Rightarrow> string \<Rightarrow> bytes option \<Rightarrow> vault_state \<Rightarrow> bytes result \<times> vault_state" where
  "resolve_master_key ve db_path storage_key vs =
     (case storage_key of
        Some k \<Rightarrow> (Ok k, vs)
      | None \<Rightarrow>
          (let (r, vs') = load_master_from_keyring ve db_path vs in
           case r of
             Inr k \<Rightarrow> (Ok k, vs')
           | Inl _ \<Rightarrow>
               (case read_file_fallback_key_if_exists db_path vs' of
                  Some k \<Rightarrow> (Ok k, vs')
                | None \<Rightarrow> (Err (''at-rest: OS keyring unavailable and no existing vault key for '' @ db_path @
                    ''. Refusing to create a weak file-based master key (SD-131). '' @
                    ''On desktop, enable the OS credential store or provide storage_key.''), vs'))))"

definition parse_storage_key_hex :: "sealing \<Rightarrow> string \<Rightarrow> bytes result" where
  "parse_storage_key_hex sl s =
     ok_then (map_err (\<lambda>e. ''invalid storage_key hex: '' @ e) (hex_decode sl (trim s))) (\<lambda>b.
     if length b = KEY_LEN then Ok b else Err ''storage_key must be 32 bytes (64 hex chars)'')"

section \<open>The vault\<close>

definition vault_open :: "vault_env \<Rightarrow> string \<Rightarrow> bytes option \<Rightarrow> vault_state \<Rightarrow> SecretVault result \<times> vault_state" where
  "vault_open ve db_path storage_key vs =
     and_then (resolve_master_key ve db_path storage_key vs) (\<lambda>master vs.
     (Ok \<lparr>vault_master = master, vault_secrets_dir = path_join db_path ''.secrets'', vault_db_path = db_path\<rparr>, vs))"

definition secret_path :: "SecretVault \<Rightarrow> string \<Rightarrow> string" where
  "secret_path v name = path_join (vault_secrets_dir v) (name @ ''.enc'')"

definition write_secret :: "vault_env \<Rightarrow> SecretVault \<Rightarrow> string \<Rightarrow> bytes \<Rightarrow> vault_state \<Rightarrow> unit result \<times> vault_state" where
  "write_secret ve v name plaintext vs =
     (case vault_encrypt (ve_sealing ve) (ve_nonce ve name) (vault_master v) plaintext of
        Inl e \<Rightarrow> (Err e, vs)
      | Inr blob \<Rightarrow> (Ok (), vs\<lparr>vs_files := (vs_files vs)(secret_path v name \<mapsto> blob)\<rparr>))"

definition delete_secret :: "SecretVault \<Rightarrow> string \<Rightarrow> vault_state \<Rightarrow> vault_state" where
  "delete_secret v name vs = vs\<lparr>vs_files := (vs_files vs)(secret_path v name := None)\<rparr>"

definition push_new :: "'a \<Rightarrow> 'a list \<Rightarrow> 'a list" where
  "push_new k ks = (if k \<in> set ks then ks else ks @ [k])"

definition alternate_master_keys :: "vault_env \<Rightarrow> SecretVault \<Rightarrow> vault_state \<Rightarrow> bytes list \<times> vault_state" where
  "alternate_master_keys ve v vs =
     (let keys = push_new (legacy_derive_fallback_master (ve_sealing ve) (vault_db_path v)) [];
          keys = (case read_file_fallback_key_if_exists (vault_db_path v) vs of
                    Some k \<Rightarrow> push_new k keys | None \<Rightarrow> keys);
          (r, vs) = load_master_from_keyring ve (vault_db_path v) vs in
      (case r of Inr k \<Rightarrow> push_new k keys | Inl _ \<Rightarrow> keys, vs))"

text \<open>The loop over the alternate keys: the first that opens the blob.\<close>

fun try_keys :: "sealing \<Rightarrow> bytes \<Rightarrow> bytes list \<Rightarrow> bytes \<Rightarrow> bytes option" where
  "try_keys sl master [] blob = None"
| "try_keys sl master (alt # alts) blob =
     (if alt = master then try_keys sl master alts blob
      else case vault_decrypt sl alt blob of
             Inr plaintext \<Rightarrow> Some plaintext
           | Inl _ \<Rightarrow> try_keys sl master alts blob)"

definition read_secret :: "vault_env \<Rightarrow> SecretVault \<Rightarrow> string \<Rightarrow> vault_state \<Rightarrow> bytes option result \<times> vault_state" where
  "read_secret ve v name vs =
     (case vs_files vs (secret_path v name) of
        None \<Rightarrow> (Ok None, vs)
      | Some blob \<Rightarrow>
          (case vault_decrypt (ve_sealing ve) (vault_master v) blob of
             Inr plaintext \<Rightarrow> (Ok (Some plaintext), vs)
           | Inl primary_err \<Rightarrow>
               (let (alts, vs) = alternate_master_keys ve v vs in
                case try_keys (ve_sealing ve) (vault_master v) alts blob of
                  Some plaintext \<Rightarrow>
                    and_then (write_secret ve v name plaintext vs) (\<lambda>_ vs. (Ok (Some plaintext), vs))
                | None \<Rightarrow> (Err (''decrypt '' @ name @ '': '' @ primary_err), vs))))"

definition migrate_secret :: "vault_env \<Rightarrow> SecretVault \<Rightarrow> vault_state \<Rightarrow> string \<Rightarrow> vault_state" where
  "migrate_secret ve v vs name =
     (if vs_files vs (secret_path v name) = None then vs
      else case read_secret ve v name vs of
             (Inr _, vs) \<Rightarrow> vs
           | (Inl _, vs) \<Rightarrow> delete_secret v name vs)"

definition open_with_migration ::
  "vault_env \<Rightarrow> string \<Rightarrow> bytes option \<Rightarrow> vault_state \<Rightarrow> SecretVault result \<times> vault_state" where
  "open_with_migration ve db_path storage_key vs =
     and_then (vault_open ve db_path storage_key vs) (\<lambda>v vs.
     (Ok v, foldl (migrate_secret ve v) vs [''enc_x25519'', ''enc_keypair'', ''ed25519_identity'']))"

definition clear_keyring_master :: "vault_env \<Rightarrow> string \<Rightarrow> vault_state \<Rightarrow> vault_state" where
  "clear_keyring_master ve db_path vs =
     (let account = keyring_account (ve_crypto ve) db_path in
      case ve_keyring_open ve account of
        Inl _ \<Rightarrow> vs
      | Inr _ \<Rightarrow>
          (case vs_keyring vs account of
             KeyringPassword _ \<Rightarrow> vs\<lparr>vs_keyring := (vs_keyring vs)(account := KeyringNoEntry)\<rparr>
           | _ \<Rightarrow> vs))"

section \<open>The keys of a node\<close>

definition IDENTITY_SECRET :: string where "IDENTITY_SECRET = ''ed25519_identity''"
definition ENC_SECRET :: string where "ENC_SECRET = ''enc_x25519''"

definition keypair_from_ed25519_secret :: "vault_env \<Rightarrow> bytes \<Rightarrow> keypair result" where
  "keypair_from_ed25519_secret ve secret =
     map_err (\<lambda>e. ''invalid ed25519 secret: '' @ e) (ve_ed25519_from_secret ve secret)"

definition enc_from_secret_bytes :: "sealing \<Rightarrow> bytes \<Rightarrow> EncryptionKeypair result" where
  "enc_from_secret_bytes sl b =
     (if length b = 32 then Ok (from_secret_bytes sl b) else Err ''invalid enc key length'')"

text \<open>What both loaders do first: an unreadable secret is deleted.\<close>

definition read_or_discard :: "vault_env \<Rightarrow> SecretVault \<Rightarrow> string \<Rightarrow> vault_state \<Rightarrow> bytes option \<times> vault_state" where
  "read_or_discard ve v name vs =
     (case read_secret ve v name vs of
        (Inr r, vs) \<Rightarrow> (r, vs)
      | (Inl _, vs) \<Rightarrow> (None, delete_secret v name vs))"

text \<open>\<open>dir\<close> is the parent directory of \<open>path\<close>.\<close>

definition load_or_create_keypair ::
  "vault_env \<Rightarrow> string \<Rightarrow> string \<Rightarrow> bytes option \<Rightarrow> vault_state \<Rightarrow> keypair result \<times> vault_state" where
  "load_or_create_keypair ve dir path storage_key vs =
     and_then (open_with_migration ve dir storage_key vs) (\<lambda>v vs.
     let (found, vs) = read_or_discard ve v IDENTITY_SECRET vs in
     case found of
       Some b \<Rightarrow> (keypair_from_ed25519_secret ve b, vs)
     | None \<Rightarrow>
         (case vs_legacy_identity vs path of
            Some legacy \<Rightarrow>
              and_then (write_secret ve v IDENTITY_SECRET legacy vs) (\<lambda>_ vs.
              (keypair_from_ed25519_secret ve legacy,
               vs\<lparr>vs_legacy_identity := (vs_legacy_identity vs)(path := None)\<rparr>))
          | None \<Rightarrow>
              (case ve_ed25519_secret ve (ve_new_identity ve) of
                 Inl e \<Rightarrow> (Err e, vs)
               | Inr secret \<Rightarrow>
                   and_then (write_secret ve v IDENTITY_SECRET secret vs) (\<lambda>_ vs. (Ok (ve_new_identity ve), vs)))))"

definition legacy_enc_path :: "string \<Rightarrow> string" where
  "legacy_enc_path db_path = path_join db_path ''enc_x25519.secret''"

definition load_or_create_enc_keypair ::
  "vault_env \<Rightarrow> string \<Rightarrow> bytes option \<Rightarrow> vault_state \<Rightarrow> EncryptionKeypair result \<times> vault_state" where
  "load_or_create_enc_keypair ve db_path storage_key vs =
     and_then (open_with_migration ve db_path storage_key vs) (\<lambda>v vs.
     let (found, vs) = read_or_discard ve v ENC_SECRET vs in
     case found of
       Some b \<Rightarrow> (enc_from_secret_bytes (ve_sealing ve) b, vs)
     | None \<Rightarrow>
         (case vs_files vs (legacy_enc_path db_path) of
            Some b \<Rightarrow>
              and_then (write_secret ve v ENC_SECRET b vs) (\<lambda>_ vs.
              (enc_from_secret_bytes (ve_sealing ve) b,
               vs\<lparr>vs_files := (vs_files vs)(legacy_enc_path db_path := None)\<rparr>))
          | None \<Rightarrow>
              (let kp = from_secret_bytes (ve_sealing ve) (ve_new_enc_secret ve) in
               and_then (write_secret ve v ENC_SECRET (enc_secret_raw kp) vs) (\<lambda>_ vs. (Ok kp, vs)))))"

section \<open>Lemmas\<close>

text \<open>What the packages promise, and that the random values have the sizes the code asks for.\<close>

definition vault_env_ok :: "vault_env \<Rightarrow> bool" where
  "vault_env_ok ve \<longleftrightarrow>
     sealing_ok (ve_sealing ve) \<and> (\<forall>name. length (ve_nonce ve name) = NONCE_LEN) \<and>
     (\<forall>kp s. ve_ed25519_secret ve kp = Ok s \<longrightarrow> ve_ed25519_from_secret ve s = Ok kp)"

lemma vault_encrypt_decrypt:
  assumes "sealing_ok sl" "length nonce = NONCE_LEN" "vault_encrypt sl nonce k p = Ok c"
  shows "vault_decrypt sl k c = Ok p"
proof -
  obtain ct where "aead_seal sl k nonce p = Ok ct" "c = nonce @ ct"
    using assms(3) by (auto simp: vault_encrypt_def ok_then_Ok)
  with assms(2) show ?thesis
    using sealing_okD(1,2) [OF assms(1), of k nonce p ct] by (simp add: vault_decrypt_def)
qed

lemma path_join_inject [simp]: "path_join a b = path_join a c \<longleftrightarrow> b = c"
  by (simp add: path_join_def)

lemma secret_path_inject [simp]: "secret_path v a = secret_path v b \<longleftrightarrow> a = b"
  by (simp add: secret_path_def)

text \<open>The keyring lookups of a vault touch no file.\<close>

lemma load_master_files:
  "vs_files (snd (load_master_from_keyring ve db vs)) = vs_files vs"
  "vs_legacy_identity (snd (load_master_from_keyring ve db vs)) = vs_legacy_identity vs"
  by (simp_all add: load_master_from_keyring_def Let_def split: sum.split keyring_entry.split)

lemma alternate_files:
  "vs_files (snd (alternate_master_keys ve v vs)) = vs_files vs"
  "vs_legacy_identity (snd (alternate_master_keys ve v vs)) = vs_legacy_identity vs"
  by (simp_all add: alternate_master_keys_def Let_def case_prod_unfold load_master_files)

lemma write_secret_cases:
  assumes "vault_env_ok ve"
  obtains (written) blob where
      "vault_decrypt (ve_sealing ve) (vault_master v) blob = Ok p"
      "write_secret ve v name p vs = (Ok (), vs\<lparr>vs_files := (vs_files vs)(secret_path v name \<mapsto> blob)\<rparr>)"
  | (failed) e where "write_secret ve v name p vs = (Err e, vs)"
proof (cases "vault_encrypt (ve_sealing ve) (ve_nonce ve name) (vault_master v) p")
  case (Inr blob)
  have "sealing_ok (ve_sealing ve)" "length (ve_nonce ve name) = NONCE_LEN"
    using assms by (simp_all add: vault_env_ok_def)
  from vault_encrypt_decrypt [OF this Inr] Inr written show ?thesis
    by (simp add: write_secret_def)
qed (use failed in \<open>simp add: write_secret_def\<close>)

text \<open>The outcomes of reading a secret: absent, readable, recovered with another key and sealed again,
  or unreadable.\<close>

lemma read_secret_cases:
  assumes "vault_env_ok ve"
  obtains (absent) "vs_files vs (secret_path v name) = None" "read_secret ve v name vs = (Ok None, vs)"
  | (readable) p blob where
      "vs_files vs (secret_path v name) = Some blob"
      "vault_decrypt (ve_sealing ve) (vault_master v) blob = Ok p"
      "read_secret ve v name vs = (Ok (Some p), vs)"
  | (recovered) p blob vs' where
      "vault_decrypt (ve_sealing ve) (vault_master v) blob = Ok p"
      "read_secret ve v name vs = (Ok (Some p), vs')"
      "vs_files vs' = (vs_files vs)(secret_path v name \<mapsto> blob)"
      "vs_legacy_identity vs' = vs_legacy_identity vs"
  | (unreadable) e vs' where
      "read_secret ve v name vs = (Err e, vs')"
      "vs_files vs' = vs_files vs" "vs_legacy_identity vs' = vs_legacy_identity vs"
proof (cases "vs_files vs (secret_path v name)")
  case None
  with absent show ?thesis
    by (simp add: read_secret_def)
next
  case (Some blob)
  note stored = this
  show ?thesis
  proof (cases "vault_decrypt (ve_sealing ve) (vault_master v) blob")
    case (Inr p)
    with Some readable show ?thesis
      by (simp add: read_secret_def)
  next
    case (Inl e)
    obtain alts vs1 where alts: "alternate_master_keys ve v vs = (alts, vs1)"
      by fastforce
    then have fs: "vs_files vs1 = vs_files vs" "vs_legacy_identity vs1 = vs_legacy_identity vs"
      using alternate_files [of ve v vs] by simp_all
    show ?thesis
    proof (cases "try_keys (ve_sealing ve) (vault_master v) alts blob")
      case None
      with stored Inl alts fs unreadable [of _ vs1] show ?thesis
        by (simp add: read_secret_def)
    next
      case (Some p)
      show ?thesis
      proof (rule write_secret_cases [OF assms, of v p name vs1])
        fix blob'
        assume "vault_decrypt (ve_sealing ve) (vault_master v) blob' = Ok p"
          "write_secret ve v name p vs1 = (Ok (), vs1\<lparr>vs_files := (vs_files vs1)(secret_path v name \<mapsto> blob')\<rparr>)"
        with Some stored Inl alts fs show ?thesis
          by (intro recovered [of blob' p "vs1\<lparr>vs_files := (vs_files vs1)(secret_path v name \<mapsto> blob')\<rparr>"])
              (simp_all add: read_secret_def)
      next
        fix e
        assume "write_secret ve v name p vs1 = (Err e, vs1)"
        with Some stored Inl alts fs show ?thesis
          by (intro unreadable [of e vs1]) (simp_all add: read_secret_def)
      qed
    qed
  qed
qed

text \<open>A secret that is absent or opens under the master key of the vault.\<close>

definition settled :: "sealing \<Rightarrow> SecretVault \<Rightarrow> vault_state \<Rightarrow> string \<Rightarrow> bool" where
  "settled sl v vs name \<longleftrightarrow>
     (case vs_files vs (secret_path v name) of
        None \<Rightarrow> True
      | Some blob \<Rightarrow> is_ok (vault_decrypt sl (vault_master v) blob))"

lemma migrate_secret_settles:
  assumes "vault_env_ok ve"
  shows "settled (ve_sealing ve) v (migrate_secret ve v vs name) name"
    and "n \<noteq> name \<Longrightarrow> vs_files (migrate_secret ve v vs name) (secret_path v n) = vs_files vs (secret_path v n)"
  by (rule read_secret_cases [OF assms, of vs v name];
      simp add: migrate_secret_def settled_def delete_secret_def split: option.split)+

lemma migrate_secret_id: "settled (ve_sealing ve) v vs name \<Longrightarrow> migrate_secret ve v vs name = vs"
  by (auto simp: migrate_secret_def settled_def read_secret_def is_ok_def split: option.splits sum.splits)

text \<open>Opening a vault with a given key settles the three secrets it migrates, so opening it again changes nothing.\<close>

lemma settled_cong: "vs_files vs' (secret_path v n) = vs_files vs (secret_path v n) \<Longrightarrow> settled sl v vs' n = settled sl v vs n"
  by (simp add: settled_def)

lemma open_with_key:
  assumes "vault_env_ok ve" "open_with_migration ve dir (Some k) vs = (Ok v, vs1)"
  shows "v = \<lparr>vault_master = k, vault_secrets_dir = path_join dir ''.secrets'', vault_db_path = dir\<rparr>"
    and "n \<in> set [''enc_x25519'', ''enc_keypair'', ''ed25519_identity''] \<Longrightarrow> settled (ve_sealing ve) v vs1 n"
proof -
  have v: "v = \<lparr>vault_master = k, vault_secrets_dir = path_join dir ''.secrets'', vault_db_path = dir\<rparr>"
    and vs1: "vs1 = foldl (migrate_secret ve v) vs [''enc_x25519'', ''enc_keypair'', ''ed25519_identity'']"
    using assms(2) by (auto simp: open_with_migration_def vault_open_def resolve_master_key_def)
  show "v = \<lparr>vault_master = k, vault_secrets_dir = path_join dir ''.secrets'', vault_db_path = dir\<rparr>"
    by (rule v)
  have step: "settled (ve_sealing ve) v (migrate_secret ve v s a) b" if "b = a \<or> settled (ve_sealing ve) v s b" for s a b
    using that migrate_secret_settles [OF assms(1)] settled_cong by (cases "b = a") metis+
  show "settled (ve_sealing ve) v vs1 n" if "n \<in> set [''enc_x25519'', ''enc_keypair'', ''ed25519_identity'']"
    using that by (auto simp: vs1 intro!: step)
qed

lemma reopen_with_key:
  assumes "\<And>n. n \<in> set [''enc_x25519'', ''enc_keypair'', ''ed25519_identity''] \<Longrightarrow>
             settled (ve_sealing ve) \<lparr>vault_master = k, vault_secrets_dir = path_join dir ''.secrets'', vault_db_path = dir\<rparr> vs n"
  shows "open_with_migration ve dir (Some k) vs =
    (Ok \<lparr>vault_master = k, vault_secrets_dir = path_join dir ''.secrets'', vault_db_path = dir\<rparr>, vs)"
  using assms by (simp add: open_with_migration_def vault_open_def resolve_master_key_def migrate_secret_id)

text \<open>What is left on disk after the identity was loaded: it opens under the key of the vault and is the key returned.\<close>

definition holds_identity :: "vault_env \<Rightarrow> SecretVault \<Rightarrow> keypair \<Rightarrow> vault_state \<Rightarrow> bool" where
  "holds_identity ve v kp vs \<longleftrightarrow>
     (\<exists>blob s. vs_files vs (secret_path v IDENTITY_SECRET) = Some blob \<and>
        vault_decrypt (ve_sealing ve) (vault_master v) blob = Ok s \<and> keypair_from_ed25519_secret ve s = Ok kp)"

lemma write_identity:
  assumes "vault_env_ok ve" "keypair_from_ed25519_secret ve s = Ok kp"
    "and_then (write_secret ve v IDENTITY_SECRET s vs) f = (Ok kp', vs')"
    "\<And>x vs'. vs_files (snd (f x vs')) = vs_files vs'"
  shows "holds_identity ve v kp vs'"
    and "n \<noteq> IDENTITY_SECRET \<Longrightarrow> vs_files vs' (secret_path v n) = vs_files vs (secret_path v n)"
proof -
  have "holds_identity ve v kp vs' \<and>
      (n \<noteq> IDENTITY_SECRET \<longrightarrow> vs_files vs' (secret_path v n) = vs_files vs (secret_path v n))"
  proof (rule write_secret_cases [OF assms(1), of v s IDENTITY_SECRET vs])
    fix blob
    assume blob: "vault_decrypt (ve_sealing ve) (vault_master v) blob = Ok s"
      "write_secret ve v IDENTITY_SECRET s vs = (Ok (), vs\<lparr>vs_files := (vs_files vs)(secret_path v IDENTITY_SECRET \<mapsto> blob)\<rparr>)"
    then have "vs_files vs' = (vs_files vs)(secret_path v IDENTITY_SECRET \<mapsto> blob)"
      using assms(3) assms(4) [of "()" "vs\<lparr>vs_files := (vs_files vs)(secret_path v IDENTITY_SECRET \<mapsto> blob)\<rparr>"]
      by simp
    with blob assms(2) show ?thesis
      by (auto simp: holds_identity_def)
  qed (use assms(3) in simp)
  then show "holds_identity ve v kp vs'"
    and "n \<noteq> IDENTITY_SECRET \<Longrightarrow> vs_files vs' (secret_path v n) = vs_files vs (secret_path v n)"
    by simp_all
qed

lemma read_or_discard_effect:
  assumes "vault_env_ok ve" "read_or_discard ve v name vs = (found, vs')"
  shows "n \<noteq> name \<Longrightarrow> vs_files vs' (secret_path v n) = vs_files vs (secret_path v n)"
    and "found = Some s \<Longrightarrow> \<exists>blob. vs_files vs' (secret_path v name) = Some blob \<and>
           vault_decrypt (ve_sealing ve) (vault_master v) blob = Ok s"
proof -
  have "(n \<noteq> name \<longrightarrow> vs_files vs' (secret_path v n) = vs_files vs (secret_path v n)) \<and>
      (found = Some s \<longrightarrow> (\<exists>blob. vs_files vs' (secret_path v name) = Some blob \<and>
           vault_decrypt (ve_sealing ve) (vault_master v) blob = Ok s))"
    by (rule read_secret_cases [OF assms(1), of vs v name])
      (use assms(2) in \<open>auto simp: read_or_discard_def delete_secret_def\<close>)
  then show "n \<noteq> name \<Longrightarrow> vs_files vs' (secret_path v n) = vs_files vs (secret_path v n)"
    and "found = Some s \<Longrightarrow> \<exists>blob. vs_files vs' (secret_path v name) = Some blob \<and>
           vault_decrypt (ve_sealing ve) (vault_master v) blob = Ok s"
    by simp_all
qed

lemma load_keypair_holds:
  assumes "vault_env_ok ve" "load_or_create_keypair ve dir path (Some k) vs = (Ok kp, vs1)"
    "v = \<lparr>vault_master = k, vault_secrets_dir = path_join dir ''.secrets'', vault_db_path = dir\<rparr>"
  shows "holds_identity ve v kp vs1"
    and "n \<in> set [''enc_x25519'', ''enc_keypair''] \<Longrightarrow> settled (ve_sealing ve) v vs1 n"
proof -
  obtain vs0 where op: "open_with_migration ve dir (Some k) vs = (Ok v, vs0)"
    by (simp add: assms(3) open_with_migration_def vault_open_def resolve_master_key_def)
  obtain found vs' where fd: "read_or_discard ve v IDENTITY_SECRET vs0 = (found, vs')"
    by fastforce
  note rd = read_or_discard_effect [OF assms(1) fd]
  have "holds_identity ve v kp vs1 \<and>
      (\<forall>n. n \<noteq> IDENTITY_SECRET \<longrightarrow> vs_files vs1 (secret_path v n) = vs_files vs' (secret_path v n))"
  proof (cases found)
    case (Some s)
    with op fd assms(2) rd(2) [of s] show ?thesis
      by (auto simp: load_or_create_keypair_def holds_identity_def)
  next
    case None
    show ?thesis
    proof (cases "vs_legacy_identity vs' path")
      case (Some legacy)
      with None op fd assms(2)
      have "and_then (write_secret ve v IDENTITY_SECRET legacy vs') (\<lambda>_ vs.
          (keypair_from_ed25519_secret ve legacy,
           vs\<lparr>vs_legacy_identity := (vs_legacy_identity vs)(path := None)\<rparr>)) = (Ok kp, vs1)"
        by (simp add: load_or_create_keypair_def)
      moreover from this have "keypair_from_ed25519_secret ve legacy = Ok kp"
        by (rule_tac write_secret_cases [OF assms(1), of v legacy IDENTITY_SECRET vs']) auto
      ultimately show ?thesis
        using write_identity [OF assms(1)] by fastforce
    next
      case (None)
      with \<open>found = None\<close> op fd assms(2) obtain s where s: "ve_ed25519_secret ve (ve_new_identity ve) = Ok s"
        and w: "and_then (write_secret ve v IDENTITY_SECRET s vs') (\<lambda>_ vs. (Ok (ve_new_identity ve), vs)) = (Ok kp, vs1)"
        by (auto simp: load_or_create_keypair_def split: sum.splits)
      moreover from w have "kp = ve_new_identity ve"
        by (rule_tac write_secret_cases [OF assms(1), of v s IDENTITY_SECRET vs']) auto
      moreover from s assms(1) have "keypair_from_ed25519_secret ve s = Ok (ve_new_identity ve)"
        by (simp add: keypair_from_ed25519_secret_def vault_env_ok_def)
      ultimately show ?thesis
        using write_identity [OF assms(1)] by fastforce
    qed
  qed
  then have held: "holds_identity ve v kp vs1"
    and same: "n \<noteq> IDENTITY_SECRET \<Longrightarrow> vs_files vs1 (secret_path v n) = vs_files vs0 (secret_path v n)" for n
    using rd(1) by simp_all
  show "holds_identity ve v kp vs1"
    by (rule held)
  assume n: "n \<in> set [''enc_x25519'', ''enc_keypair'']"
  then have "n \<noteq> IDENTITY_SECRET"
    by (auto simp: IDENTITY_SECRET_def)
  then have "settled (ve_sealing ve) v vs1 n = settled (ve_sealing ve) v vs0 n"
    by (intro settled_cong same)
  then show "settled (ve_sealing ve) v vs1 n"
    using open_with_key(2) [OF assms(1) op, of n] n by auto
qed

text \<open>C23. The identity of a node survives restarts.  With the same storage key, loading the identity again gives the
  same keypair, whatever the first call found (a sealed secret, one sealed under an older master key, an identity in
  the old database, or nothing), and the second call leaves files, keyring and old database as they are.\<close>

theorem identity_persists:
  assumes "vault_env_ok ve" "vault_env_ok ve'" "ve_sealing ve' = ve_sealing ve"
    "ve_ed25519_from_secret ve' = ve_ed25519_from_secret ve"
    "load_or_create_keypair ve dir path (Some k) vs = (Ok kp, vs1)"
  shows "load_or_create_keypair ve' dir path (Some k) vs1 = (Ok kp, vs1)"
proof -
  define v where "v = \<lparr>vault_master = k, vault_secrets_dir = path_join dir ''.secrets'', vault_db_path = dir\<rparr>"
  obtain blob s where held: "vs_files vs1 (secret_path v IDENTITY_SECRET) = Some blob"
      "vault_decrypt (ve_sealing ve) k blob = Ok s" "keypair_from_ed25519_secret ve s = Ok kp"
    using load_keypair_holds(1) [OF assms(1,5) v_def] by (auto simp: holds_identity_def v_def)
  then have "settled (ve_sealing ve') v vs1 IDENTITY_SECRET"
    by (simp add: settled_def v_def assms(3))
  then have "settled (ve_sealing ve') v vs1 n" if "n \<in> set [''enc_x25519'', ''enc_keypair'', ''ed25519_identity'']" for n
    using that load_keypair_holds(2) [OF assms(1,5) v_def] by (auto simp: IDENTITY_SECRET_def assms(3))
  then have "open_with_migration ve' dir (Some k) vs1 = (Ok v, vs1)"
    using reopen_with_key [of ve' k dir vs1] by (simp add: v_def)
  moreover have "read_or_discard ve' v IDENTITY_SECRET vs1 = (Some s, vs1)"
    using held by (simp add: read_or_discard_def read_secret_def v_def assms(3))
  moreover have "keypair_from_ed25519_secret ve' s = Ok kp"
    using held(3) by (simp add: keypair_from_ed25519_secret_def assms(4))
  ultimately show ?thesis
    by (simp add: load_or_create_keypair_def)
qed

text \<open>A vault on an empty disk, with a key given.\<close>

definition demo_vault_env :: vault_env where
  "demo_vault_env =
     \<lparr>ve_sealing = demo_sealing, ve_crypto = demo_crypto, ve_keyring_open = \<lambda>_. Err ''no keyring'',
      ve_keyring_set = \<lambda>_. Err ''no keyring'', ve_keyring_keeps = False, ve_fresh_key = \<lambda>i. replicate 32 (of_nat (9 + i)), ve_nonce = \<lambda>_. replicate 12 5,
      ve_ed25519_from_secret = Ok, ve_ed25519_secret = Ok, ve_new_identity = [1, 2, 3], ve_new_enc_secret = replicate 32 7\<rparr>"

definition demo_disk :: vault_state where
  "demo_disk = \<lparr>vs_files = \<lambda>_. None, vs_keyring = \<lambda>_. KeyringNoEntry, vs_legacy_identity = \<lambda>_. None, vs_draws = 0\<rparr>"

lemma vault_env_ok_demo [simp]: "vault_env_ok demo_vault_env"
  by (simp add: vault_env_ok_def demo_vault_env_def NONCE_LEN_def)

lemma demo_first_start:
  "fst (load_or_create_keypair demo_vault_env ''d'' ''d/identity'' (Some (replicate 32 4)) demo_disk) = Ok [1, 2, 3]"
  by (simp add: load_or_create_keypair_def open_with_migration_def vault_open_def resolve_master_key_def
      migrate_secret_def read_or_discard_def read_secret_def write_secret_def vault_encrypt_def
      demo_vault_env_def demo_disk_def demo_sealing_def)

theorem identity_persists_witness:
  "load_or_create_keypair (demo_vault_env\<lparr>ve_new_identity := [8]\<rparr>) ''d'' ''d/identity'' (Some (replicate 32 4))
     (snd (load_or_create_keypair demo_vault_env ''d'' ''d/identity'' (Some (replicate 32 4)) demo_disk)) =
   (Ok [1, 2, 3], snd (load_or_create_keypair demo_vault_env ''d'' ''d/identity'' (Some (replicate 32 4)) demo_disk))"
proof (rule identity_persists)
  show "load_or_create_keypair demo_vault_env ''d'' ''d/identity'' (Some (replicate 32 4)) demo_disk =
      (Ok [1, 2, 3], snd (load_or_create_keypair demo_vault_env ''d'' ''d/identity'' (Some (replicate 32 4)) demo_disk))"
    using demo_first_start by (simp add: prod_eq_iff)
qed (simp_all add: vault_env_ok_def, simp_all add: demo_vault_env_def NONCE_LEN_def)

text \<open>With another storage key the sealed identity is not kept aside: opening the vault deletes it and a new identity
  takes its place, which the old key does not open.\<close>

lemma vault_decrypt_other_key:
  assumes "key_binding sl" "length nonce = NONCE_LEN" "vault_encrypt sl nonce k p = Ok c" "k' \<noteq> k"
  shows "\<not> is_ok (vault_decrypt sl k' c)"
proof -
  obtain ct where ct: "aead_seal sl k nonce p = Ok ct" "c = nonce @ ct"
    using assms(3) by (auto simp: vault_encrypt_def ok_then_Ok)
  then have "\<not> is_ok (aead_open sl k' nonce ct)"
    using assms(1,4) unfolding key_binding_def by blast
  with ct assms(2) show ?thesis
    by (cases "aead_open sl k' nonce ct") (simp_all add: vault_decrypt_def)
qed

lemma try_keys_None:
  assumes "\<And>a. a \<in> set alts \<Longrightarrow> \<not> is_ok (vault_decrypt sl a blob)"
  shows "try_keys sl m alts blob = None"
  using assms
proof (induction alts)
  case (Cons a alts)
  then obtain e where "vault_decrypt sl a blob = Err e"
    by (cases "vault_decrypt sl a blob") force+
  with Cons show ?case
    by simp
qed simp

lemma resolve_files:
  "vs_files (snd (resolve_master_key ve db sk vs)) = vs_files vs"
  "vs_legacy_identity (snd (resolve_master_key ve db sk vs)) = vs_legacy_identity vs"
  by (simp_all add: resolve_master_key_def Let_def case_prod_unfold load_master_files split: option.split sum.split)

text \<open>Without a master key nothing is loaded and nothing is touched but the keyring.\<close>

lemma load_without_master:
  assumes "resolve_master_key ve dir sk vs = (Err e, vs0)"
  shows "load_or_create_keypair ve dir path sk vs = (Err e, vs0)"
  using assms by (simp add: load_or_create_keypair_def open_with_migration_def vault_open_def)

text \<open>A key that nothing at hand can give: not the path, not the fallback file, not the keyring, not the next keys drawn.\<close>

definition foreign_to :: "vault_env \<Rightarrow> string \<Rightarrow> bytes \<Rightarrow> vault_state \<Rightarrow> bool" where
  "foreign_to ve dir k vs \<longleftrightarrow>
     legacy_derive_fallback_master (ve_sealing ve) dir \<noteq> k \<and> read_file_fallback_key_if_exists dir vs \<noteq> Some k \<and>
     (\<forall>i. ve_fresh_key ve i \<noteq> k \<and> hex_decode (ve_sealing ve) (trim (hex_encode (ve_sealing ve) (ve_fresh_key ve i))) \<noteq> Ok k) \<and>
     (case vs_keyring vs (keyring_account (ve_crypto ve) dir) of
        KeyringPassword h \<Rightarrow> hex_decode (ve_sealing ve) (trim h) \<noteq> Ok k | _ \<Rightarrow> True)"

lemma foreign_master:
  assumes "foreign_to ve dir k vs" "load_master_from_keyring ve dir vs = (r, vs')"
  shows "r \<noteq> Ok k" "foreign_to ve dir k vs'"
proof -
  let ?account = "keyring_account (ve_crypto ve) dir"
  have fallback: "read_file_fallback_key_if_exists dir (w\<lparr>vs_draws := d\<rparr>) = read_file_fallback_key_if_exists dir w"
    "read_file_fallback_key_if_exists dir (w\<lparr>vs_keyring := q\<rparr>) = read_file_fallback_key_if_exists dir w" for w d q
    by (simp_all add: read_file_fallback_key_if_exists_def)
  have "r \<noteq> Ok k \<and> foreign_to ve dir k vs'"
  proof (cases "ve_keyring_open ve ?account")
    case (Inl e)
    then show ?thesis
      using assms by (auto simp: load_master_from_keyring_def)
  next
    case (Inr u)
    note opened = this
    show ?thesis
    proof (cases "vs_keyring vs ?account")
      case (KeyringPassword h)
      then have "r \<noteq> Ok k" "vs' = vs"
        using assms opened by (auto simp: load_master_from_keyring_def foreign_to_def ok_then_def split: sum.splits if_splits)
      with assms(1) show ?thesis
        by simp
    next
      case KeyringNoEntry
      then show ?thesis
        using assms opened by (auto simp: load_master_from_keyring_def Let_def foreign_to_def fallback split: sum.splits if_splits)
    next
      case (KeyringError e)
      then show ?thesis
        using assms opened by (auto simp: load_master_from_keyring_def)
    qed
  qed
  then show "r \<noteq> Ok k" "foreign_to ve dir k vs'"
    by simp_all
qed

lemma foreign_alternates:
  assumes "foreign_to ve (vault_db_path v) k vs" "alternate_master_keys ve v vs = (ks, vs')"
  shows "k \<notin> set ks" "foreign_to ve (vault_db_path v) k vs'"
proof -
  obtain r vs2 where l: "load_master_from_keyring ve (vault_db_path v) vs = (r, vs2)"
    by fastforce
  have "k \<notin> set ks \<and> vs' = vs2"
    using assms foreign_master(1) [OF assms(1) l] l
    by (auto simp: alternate_master_keys_def Let_def push_new_def foreign_to_def split: option.splits sum.splits if_splits)
  then show "k \<notin> set ks" "foreign_to ve (vault_db_path v) k vs'"
    using foreign_master(2) [OF assms(1) l] by simp_all
qed

lemma foreign_resolve:
  assumes "foreign_to ve dir k vs" "resolve_master_key ve dir sk vs = (Ok m, vs')" "sk \<noteq> Some k"
  shows "m \<noteq> k" "foreign_to ve dir k vs'"
proof -
  obtain r vs2 where l: "load_master_from_keyring ve dir vs = (r, vs2)"
    by fastforce
  have "m \<noteq> k \<and> foreign_to ve dir k vs'"
    using assms l foreign_master [OF assms(1) l]
    by (auto simp: resolve_master_key_def foreign_to_def split: option.splits sum.splits)
  then show "m \<noteq> k" "foreign_to ve dir k vs'"
    by simp_all
qed

definition sealed_under :: "sealing \<Rightarrow> bytes \<Rightarrow> bytes \<Rightarrow> bool" where
  "sealed_under sl k blob \<longleftrightarrow> (\<exists>nonce s. length nonce = NONCE_LEN \<and> vault_encrypt sl nonce k s = Ok blob)"

abbreviation vault_at :: "string \<Rightarrow> bytes \<Rightarrow> SecretVault" where
  "vault_at dir m \<equiv> \<lparr>vault_master = m, vault_secrets_dir = path_join dir ''.secrets'', vault_db_path = dir\<rparr>"

lemma fallback_path_differs [simp]: "fallback_key_path dir \<noteq> secret_path (vault_at dir m) n"
proof -
  have "''fallback_master.key'' \<noteq> n @ ''.enc''"
  proof
    assume "''fallback_master.key'' = n @ ''.enc''"
    then have "last ''fallback_master.key'' = last (n @ ''.enc'')"
      by (rule arg_cong)
    then show False
      by simp
  qed
  then show ?thesis
    by (simp add: fallback_key_path_def secret_path_def)
qed

lemma foreign_cong:
  "vs_files vs' (fallback_key_path dir) = vs_files vs (fallback_key_path dir) \<Longrightarrow> vs_keyring vs' = vs_keyring vs \<Longrightarrow>
   foreign_to ve dir k vs' = foreign_to ve dir k vs"
  by (simp add: foreign_to_def read_file_fallback_key_if_exists_def)

text \<open>A secret that is absent or was sealed under the key.\<close>

definition only_under :: "sealing \<Rightarrow> bytes \<Rightarrow> string \<Rightarrow> vault_state \<Rightarrow> string \<Rightarrow> bool" where
  "only_under sl k dir vs n \<longleftrightarrow>
     (\<forall>blob. vs_files vs (path_join (path_join dir ''.secrets'') (n @ ''.enc'')) = Some blob \<longrightarrow> sealed_under sl k blob)"

lemma secret_path_at: "secret_path (vault_at dir m) n = path_join (path_join dir ''.secrets'') (n @ ''.enc'')"
  by (simp add: secret_path_def)

lemma foreign_migrate:
  assumes "key_binding (ve_sealing ve)" "m \<noteq> k" "foreign_to ve dir k vs"
    and "only_under (ve_sealing ve) k dir vs name"
  shows "foreign_to ve dir k (migrate_secret ve (vault_at dir m) vs name) \<and>
    vs_files (migrate_secret ve (vault_at dir m) vs name) = (vs_files vs)(secret_path (vault_at dir m) name := None) \<and>
    vs_legacy_identity (migrate_secret ve (vault_at dir m) vs name) = vs_legacy_identity vs"
proof (cases "vs_files vs (secret_path (vault_at dir m) name)")
  case None
  then show ?thesis
    using assms(3) by (simp add: migrate_secret_def fun_upd_idem)
next
  case (Some blob)
  let ?v = "vault_at dir m"
  obtain ks vs2 where alts: "alternate_master_keys ve ?v vs = (ks, vs2)"
    by fastforce
  obtain nonce s where "length nonce = NONCE_LEN" "vault_encrypt (ve_sealing ve) nonce k s = Ok blob"
    using assms(4) Some by (auto simp: only_under_def sealed_under_def secret_path_at)
  then have closed: "\<not> is_ok (vault_decrypt (ve_sealing ve) a blob)" if "a \<noteq> k" for a
    using vault_decrypt_other_key [OF assms(1) _ _ that] by blast
  then have "try_keys (ve_sealing ve) m ks blob = None"
    using foreign_alternates(1) [of ve ?v, OF _ alts] assms(3) by (force intro!: try_keys_None)
  then obtain e where "read_secret ve ?v name vs = (Err e, vs2)"
    using Some closed [OF assms(2)] alts by (cases "vault_decrypt (ve_sealing ve) m blob") (simp_all add: read_secret_def)
  then have "migrate_secret ve ?v vs name = delete_secret ?v name vs2"
    using Some by (simp add: migrate_secret_def)
  then show ?thesis
    using alternate_files [of ve ?v vs] alts foreign_alternates(2) [of ve ?v, OF _ alts] assms(3)
      foreign_cong [of "delete_secret ?v name vs2" dir vs2 ve k]
    by (simp add: delete_secret_def)
qed

text \<open>Loading the identity with another master key than the one it was sealed under: the identity and the encryption key on the disk are
  deleted, and a new identity takes the place of the old one.\<close>

lemma foreign_key_replaces_identity:
  assumes ok: "vault_env_ok ve" and bind: "key_binding (ve_sealing ve)" and seals: "\<And>n p. is_ok (aead_seal (ve_sealing ve) m n p)"
    and master: "resolve_master_key ve dir sk vs = (Ok m, vs0)" "foreign_to ve dir k vs" "sk \<noteq> Some k"
    and sealed: "\<And>n. n \<in> {''enc_x25519'', ''enc_keypair'', ''ed25519_identity''} \<Longrightarrow> only_under (ve_sealing ve) k dir vs n"
    and legacy: "vs_legacy_identity vs path = None"
    and fresh: "ve_ed25519_secret ve (ve_new_identity ve) = Ok s'"
  obtains vs1 blob where "load_or_create_keypair ve dir path sk vs = (Ok (ve_new_identity ve), vs1)"
    "vs_files vs1 (secret_path (vault_at dir m) ''ed25519_identity'') = Some blob"
    "vault_decrypt (ve_sealing ve) m blob = Ok s'" "\<not> is_ok (vault_decrypt (ve_sealing ve) k blob)"
    "vs_files vs1 (secret_path (vault_at dir m) ''enc_x25519'') = None"
proof -
  let ?v = "vault_at dir m"
  have disk0: "vs_files vs0 = vs_files vs" "vs_legacy_identity vs0 = vs_legacy_identity vs"
    using resolve_files [of ve dir sk vs] master by simp_all
  note mk = foreign_resolve [OF master(2,1,3)]
  define v1 where "v1 = migrate_secret ve ?v vs0 ''enc_x25519''"
  define v2 where "v2 = migrate_secret ve ?v v1 ''enc_keypair''"
  define v3 where "v3 = migrate_secret ve ?v v2 ''ed25519_identity''"
  have step: "only_under (ve_sealing ve) k dir w' n" if "only_under (ve_sealing ve) k dir w n" "vs_files w' = (vs_files w)(x := None)" for w w' n x
    using that by (simp add: only_under_def)
  have o0: "only_under (ve_sealing ve) k dir vs0 n" if "n \<in> {''enc_x25519'', ''enc_keypair'', ''ed25519_identity''}" for n
    using sealed [OF that] disk0 by (simp add: only_under_def)
  have m1: "foreign_to ve dir k v1" "vs_files v1 = (vs_files vs0)(secret_path ?v ''enc_x25519'' := None)" "vs_legacy_identity v1 = vs_legacy_identity vs"
    using foreign_migrate [OF bind mk o0, of "''enc_x25519''"] disk0 by (simp_all add: v1_def)
  have m2: "foreign_to ve dir k v2" "vs_files v2 = (vs_files v1)(secret_path ?v ''enc_keypair'' := None)" "vs_legacy_identity v2 = vs_legacy_identity vs"
    using foreign_migrate [OF bind mk(1) m1(1) step [OF o0 m1(2)], of "''enc_keypair''"] m1 by (simp_all add: v2_def)
  have m3: "vs_files v3 = (vs_files v2)(secret_path ?v ''ed25519_identity'' := None)" "vs_legacy_identity v3 = vs_legacy_identity vs"
    using foreign_migrate [OF bind mk(1) m2(1) step [OF step [OF o0 m1(2)] m2(2)], of "''ed25519_identity''"] m2 by (simp_all add: v3_def)
  have op: "open_with_migration ve dir sk vs = (Ok ?v, v3)"
    using master(1) by (simp add: open_with_migration_def vault_open_def v1_def v2_def v3_def)
  obtain c where c: "vault_encrypt (ve_sealing ve) (ve_nonce ve ''ed25519_identity'') m s' = Ok c"
    using seals [of "ve_nonce ve ''ed25519_identity''" s']
    by (cases "aead_seal (ve_sealing ve) m (ve_nonce ve ''ed25519_identity'') s'") (simp_all add: vault_encrypt_def)
  have "load_or_create_keypair ve dir path sk vs =
      (Ok (ve_new_identity ve), v3\<lparr>vs_files := (vs_files v3)(secret_path ?v ''ed25519_identity'' \<mapsto> c)\<rparr>)"
    using op m3 legacy fresh c
    by (simp add: load_or_create_keypair_def read_or_discard_def read_secret_def write_secret_def IDENTITY_SECRET_def)
  moreover have "\<not> is_ok (vault_decrypt (ve_sealing ve) k c)" "vault_decrypt (ve_sealing ve) m c = Ok s'"
    using vault_decrypt_other_key [OF bind _ c] vault_encrypt_decrypt [OF _ _ c] ok mk(1) by (auto simp: vault_env_ok_def)
  ultimately show thesis
    using that m1(2) m2(2) m3(1) by simp
qed

text \<open>A keyring that answers but keeps nothing: every vault opened without a storage key gets a key of its own.\<close>

definition volatile_keyring :: "vault_env \<Rightarrow> string \<Rightarrow> vault_state \<Rightarrow> bool" where
  "volatile_keyring ve dir vs \<longleftrightarrow>
     \<not> ve_keyring_keeps ve \<and> is_ok (ve_keyring_open ve (keyring_account (ve_crypto ve) dir)) \<and> (\<forall>h. is_ok (ve_keyring_set ve h)) \<and>
     vs_keyring vs (keyring_account (ve_crypto ve) dir) = KeyringNoEntry"

lemma volatile_master:
  assumes "volatile_keyring ve dir vs"
  shows "load_master_from_keyring ve dir vs = (Ok (ve_fresh_key ve (vs_draws vs)), vs\<lparr>vs_draws := Suc (vs_draws vs)\<rparr>)"
    and "resolve_master_key ve dir None vs = (Ok (ve_fresh_key ve (vs_draws vs)), vs\<lparr>vs_draws := Suc (vs_draws vs)\<rparr>)"
proof -
  show "load_master_from_keyring ve dir vs = (Ok (ve_fresh_key ve (vs_draws vs)), vs\<lparr>vs_draws := Suc (vs_draws vs)\<rparr>)"
    using assms by (auto simp: volatile_keyring_def load_master_from_keyring_def Let_def is_ok_def split: sum.splits)
  then show "resolve_master_key ve dir None vs = (Ok (ve_fresh_key ve (vs_draws vs)), vs\<lparr>vs_draws := Suc (vs_draws vs)\<rparr>)"
    by (simp add: resolve_master_key_def)
qed

lemma first_start:
  assumes "resolve_master_key ve dir sk vs = (Ok m, vs0)" "v = \<lparr>vault_master = m, vault_secrets_dir = path_join dir ''.secrets'', vault_db_path = dir\<rparr>"
    and "\<And>n. n \<in> {''enc_x25519'', ''enc_keypair'', ''ed25519_identity''} \<Longrightarrow> vs_files vs (secret_path v n) = None"
    and "vs_legacy_identity vs path = None"
    and "load_or_create_keypair ve dir path sk vs = (Ok kp, vs1)"
  obtains s blob where "kp = ve_new_identity ve" "vault_encrypt (ve_sealing ve) (ve_nonce ve ''ed25519_identity'') m s = Ok blob"
    "vs1 = vs0\<lparr>vs_files := (vs_files vs)(secret_path v ''ed25519_identity'' \<mapsto> blob)\<rparr>"
proof -
  have disk: "vs_files vs0 = vs_files vs" "vs_legacy_identity vs0 = vs_legacy_identity vs"
    using resolve_files [of ve dir sk vs] assms(1) by simp_all
  have op: "open_with_migration ve dir sk vs = (Ok v, vs0)"
    using assms(1-3) disk by (simp add: open_with_migration_def vault_open_def migrate_secret_def)
  show thesis
    using assms(3-5) op disk
    by (auto simp: load_or_create_keypair_def read_or_discard_def read_secret_def write_secret_def IDENTITY_SECRET_def assms(2)
        split: sum.splits intro: that)
qed

text \<open>Without a storage key and with a keyring that keeps nothing beyond the entry object at hand, no node keeps its
  identity: the identity made at the first start is sealed under a key nobody has at the second, where it is deleted and a new
  identity takes its place.\<close>

theorem volatile_keyring_loses_identity:
  assumes ok: "vault_env_ok ve" "vault_env_ok ve'" "ve_sealing ve' = ve_sealing ve" "key_binding (ve_sealing ve)"
    and kr: "volatile_keyring ve dir vs" "volatile_keyring ve' dir vs"
    and disk: "\<And>n. n \<in> {''enc_x25519'', ''enc_keypair'', ''ed25519_identity''} \<Longrightarrow>
        vs_files vs (path_join (path_join dir ''.secrets'') (n @ ''.enc'')) = None" "vs_legacy_identity vs path = None"
    and k: "foreign_to ve' dir (ve_fresh_key ve (vs_draws vs)) vs"
    and first: "load_or_create_keypair ve dir path None vs = (Ok kp, vs1)"
    and second: "\<And>n p. is_ok (aead_seal (ve_sealing ve') (ve_fresh_key ve' (vs_draws vs1)) n p)"
      "ve_ed25519_secret ve' (ve_new_identity ve') = Ok s'"
  shows "kp = ve_new_identity ve \<and> fst (load_or_create_keypair ve' dir path None vs1) = Ok (ve_new_identity ve')"
proof -
  let ?k = "ve_fresh_key ve (vs_draws vs)"
  have path: "secret_path (vault_at dir m) n = path_join (path_join dir ''.secrets'') (n @ ''.enc'')" for m n
    by (simp add: secret_path_def)
  obtain s blob where s: "kp = ve_new_identity ve" "vault_encrypt (ve_sealing ve) (ve_nonce ve ''ed25519_identity'') ?k s = Ok blob"
      "vs1 = vs\<lparr>vs_draws := Suc (vs_draws vs), vs_files := (vs_files vs)(secret_path (vault_at dir ?k) ''ed25519_identity'' \<mapsto> blob)\<rparr>"
    by (rule first_start [OF volatile_master(2) [OF kr(1)] refl _ disk(2) first]) (use disk(1) path in simp_all)
  let ?m = "ve_fresh_key ve' (vs_draws vs1)"
  have kr1: "volatile_keyring ve' dir vs1"
    using kr(2) s(3) by (simp add: volatile_keyring_def)
  have foreign: "foreign_to ve' dir ?k vs1"
    using k foreign_cong [of vs1 dir vs ve' ?k] by (simp add: s(3))
  have "sealed_under (ve_sealing ve') ?k blob"
    using s(2) ok(1,3) by (auto simp: sealed_under_def vault_env_ok_def)
  then have "only_under (ve_sealing ve') ?k dir vs1 n" if "n \<in> {''enc_x25519'', ''enc_keypair'', ''ed25519_identity''}" for n
    using disk(1) [OF that] by (simp add: only_under_def s(3) path)
  moreover have "key_binding (ve_sealing ve')" "vs_legacy_identity vs1 path = None"
    using ok(3,4) disk(2) s(3) by simp_all
  ultimately obtain vs2 where "load_or_create_keypair ve' dir path None vs1 = (Ok (ve_new_identity ve'), vs2)"
    using foreign_key_replaces_identity [OF ok(2) _ second(1) volatile_master(2) [OF kr1] foreign _ _ _ second(2), of path]
    by (metis option.distinct(1))
  with s(1) show ?thesis
    by simp
qed

definition demo_volatile_env :: "nat \<Rightarrow> keypair \<Rightarrow> vault_env" where
  "demo_volatile_env seed kp = demo_vault_env\<lparr>ve_sealing := hex_sealing, ve_keyring_open := \<lambda>_. Ok (), ve_keyring_set := \<lambda>_. Ok (),
     ve_fresh_key := \<lambda>i. replicate 32 (if seed = 0 then 9 else 10), ve_new_identity := kp\<rparr>"

lemma singleton_short: "[x] \<noteq> replicate 32 y" "replicate 32 y \<noteq> [x]"
  by (simp_all add: numeral_eq_Suc)

theorem volatile_keyring_loses_identity_witness:
  "\<exists>vs1. load_or_create_keypair (demo_volatile_env 0 [1]) ''d'' ''d/identity'' None demo_disk = (Ok [1], vs1) \<and>
     fst (load_or_create_keypair (demo_volatile_env 1 [2]) ''d'' ''d/identity'' None vs1) = Ok [2]"
proof -
  let ?e = "demo_volatile_env 0 [1]" and ?e' = "demo_volatile_env 1 [2]"
  note defs = demo_volatile_env_def demo_vault_env_def
  obtain vs1 where first: "load_or_create_keypair ?e ''d'' ''d/identity'' None demo_disk = (Ok [1], vs1)"
    by (simp add: load_or_create_keypair_def open_with_migration_def vault_open_def resolve_master_key_def load_master_from_keyring_def
        migrate_secret_def read_or_discard_def read_secret_def write_secret_def vault_encrypt_def defs demo_disk_def
        hex_sealing_def Let_def)
  have ok: "vault_env_ok ?e" "vault_env_ok ?e'"
    by (simp_all add: vault_env_ok_def) (simp_all add: defs NONCE_LEN_def)
  have "[1] = ve_new_identity ?e \<and> fst (load_or_create_keypair ?e' ''d'' ''d/identity'' None vs1) = Ok (ve_new_identity ?e')"
    by (rule volatile_keyring_loses_identity [OF ok _ _ _ _ _ _ _ first])
      (simp_all add: defs, simp_all add: demo_disk_def volatile_keyring_def hex_sealing_def demo_sealing_def
        foreign_to_def legacy_derive_fallback_master_def read_file_fallback_key_if_exists_def bytes_of_def demo_hex_trimmed,
        simp_all add: replicate_eq_replicate singleton_short)
  with first show ?thesis
    by (auto simp: defs)
qed

end
