(* ===== verification/Miniapp_Policy.thy ===== *)
theory Miniapp_Policy
  imports Trees Crypto Sealing
begin

text \<open>
  What the host knows about a mini-app: its manifest (\<open>miniapp/manifest.rs\<close>, \<open>reproducible_build.rs\<close>), its local reputation
  (\<open>reputation.rs\<close>), the user's preferences (\<open>prefs.rs\<close>), the list of revoked apps and the signed gossip
  that extends it (\<open>revocation.rs\<close>), and the policy a host reads from them (\<open>policy.rs\<close>, \<open>safe_mode.rs\<close>).
  A tree of the database holds decoded rows; the clock reading is an argument.  Where the code prints a value
  in its debug form inside an error message, the model leaves the value out.
\<close>

section \<open>Manifest\<close>

datatype Permission =
    Messaging | MessagingBroadcast | Identity | Payments | Storage | BulletinRead | BulletinWrite
  | PeerDiscovery | Camera

record ReproducibleBuild =
  rb_recipe_url :: "string option"
  rb_recipe_digest_hex :: "string option"
  rb_attested_bundle_hash :: "string option"
  rb_sdk_version :: "string option"

record MiniAppManifest =
  mf_id :: string
  mf_name :: string
  mf_description :: string
  mf_version :: string
  mf_developer :: string
  mf_developer_peer_id :: "string option"
  mf_entry :: string
  mf_icon_base64 :: "string option"
  mf_permissions :: "Permission list"
  mf_min_mycelium_version :: string
  mf_accepts_payments :: bool
  mf_payment_address :: "string option"
  mf_categories :: "string list"
  mf_runtime :: string
  mf_bulletin_scopes :: "string list"
  mf_reproducible_build :: "ReproducibleBuild option"

text \<open>\<open>char::is_ascii_hexdigit\<close>, \<open>to_ascii_lowercase\<close>, \<open>chars().count()\<close> (the bytes that start a character).\<close>

definition ascii_hexdigit :: "char \<Rightarrow> bool" where
  "ascii_hexdigit c = (let n = of_char c :: nat in
     48 \<le> n \<and> n \<le> 57 \<or> 65 \<le> n \<and> n \<le> 70 \<or> 97 \<le> n \<and> n \<le> 102)"

definition ascii_lower :: "char \<Rightarrow> char" where
  "ascii_lower c = (let n = of_char c :: nat in if 65 \<le> n \<and> n \<le> 90 then char_of (n + 32) else c)"

definition char_count :: "string \<Rightarrow> nat" where
  "char_count s = length (filter (\<lambda>c. \<not> cont_byte (of_nat (of_char c))) s)"

definition blake3_hex :: "string \<Rightarrow> bool" where
  "blake3_hex h \<longleftrightarrow> length h = 64 \<and> (\<forall>c\<in>set h. ascii_hexdigit c)"

definition reproducible_validate :: "ReproducibleBuild \<Rightarrow> unit result" where
  "reproducible_validate rb =
     (if case rb_attested_bundle_hash rb of Some h \<Rightarrow> \<not> blake3_hex h | None \<Rightarrow> False
      then Err ''attested_bundle_hash must be 64 hex chars (BLAKE3)''
      else if case rb_recipe_digest_hex rb of Some d \<Rightarrow> \<not> blake3_hex d | None \<Rightarrow> False
      then Err ''recipe_digest_hex must be 64 hex chars (BLAKE3)''
      else Ok ())"

definition attests_bundle_hash :: "ReproducibleBuild \<Rightarrow> string \<Rightarrow> bool" where
  "attests_bundle_hash rb h =
     (case rb_attested_bundle_hash rb of None \<Rightarrow> False | Some a \<Rightarrow> map ascii_lower a = map ascii_lower h)"

definition manifest_validate :: "MiniAppManifest \<Rightarrow> unit result" where
  "manifest_validate m =
     (if mf_id m = [] \<or> CHR ''.'' \<notin> set (mf_id m)
      then Err ''app id must be reverse-domain format (e.g. com.example.app)''
      else if mf_name m = [] then Err ''name is required''
      else if char_count (mf_description m) > 120
      then Err (''description must be '' @ LE_SIGN @ '' 120 characters'')
      else if mf_entry m = [] then Err ''entry point is required''
      else if mf_runtime m \<noteq> ''webview'' then Err ''runtime is not supported (only \"webview\" in this release)''
      else case mf_reproducible_build m of Some rb \<Rightarrow> reproducible_validate rb | None \<Rightarrow> Ok ())"

definition reproducible_attests_hash :: "MiniAppManifest \<Rightarrow> string \<Rightarrow> bool" where
  "reproducible_attests_hash m h =
     (case mf_reproducible_build m of None \<Rightarrow> False | Some rb \<Rightarrow> attests_bundle_hash rb h)"

definition allows_bulletin_scope :: "MiniAppManifest \<Rightarrow> string \<Rightarrow> bool" where
  "allows_bulletin_scope m scope = (mf_bulletin_scopes m = [] \<or> scope \<in> set (mf_bulletin_scopes m))"

section \<open>The database\<close>

datatype AppSource = SourcePeer string | SourceUrl string

record AppStoreListing =
  ls_manifest :: MiniAppManifest
  ls_bundle_hash :: string
  ls_sources :: "AppSource list"
  ls_published_at_ms :: u64
  ls_updated_at_ms :: u64
  ls_signature :: bytes

record AppReputation =
  rep_score :: u8
  rep_updated_at_ms :: u64

record RevocationSnapshot =
  revoked_app_ids :: "string list"
  snap_updated_at_ms :: u64

record AppStore =
  st_installed :: "(string, MiniAppManifest) tree"
  st_listings :: "(string, AppStoreListing) tree"
  st_files :: "string \<Rightarrow> (string, bytes) tree"  \<comment> \<open>the tree \<open>app_files:<id>\<close>\<close>
  st_reputation :: "(string, AppReputation) tree"
  st_prefs :: "(string, bool) tree"  \<comment> \<open>\<open>AppPrefs.safe_mode\<close>\<close>
  st_revocations :: "RevocationSnapshot option"

section \<open>Reputation\<close>

datatype InstallTrustLevel = VerifiedListing | MatchingListingHash | SideloadOnly | HashMismatch

definition SCORE_DEFAULT :: u8 where "SCORE_DEFAULT = 50"
definition SCORE_FORCE_SAFE :: u8 where "SCORE_FORCE_SAFE = 40"
definition SCORE_SUGGEST_SAFE :: u8 where "SCORE_SUGGEST_SAFE = 70"

definition rep_default :: AppReputation where
  "rep_default = \<lparr>rep_score = SCORE_DEFAULT, rep_updated_at_ms = 0\<rparr>"

definition forced_safe_mode :: "u8 \<Rightarrow> bool" where
  "forced_safe_mode score \<longleftrightarrow> score < SCORE_FORCE_SAFE"

definition suggest_safe_mode :: "u8 \<Rightarrow> bool" where
  "suggest_safe_mode score \<longleftrightarrow> SCORE_FORCE_SAFE \<le> score \<and> score < SCORE_SUGGEST_SAFE"

definition rep_load :: "AppStore \<Rightarrow> string \<Rightarrow> AppReputation" where
  "rep_load st app_id = (case tree_get (st_reputation st) app_id of Some r \<Rightarrow> r | None \<Rightarrow> rep_default)"

definition rep_save :: "string \<Rightarrow> AppReputation \<Rightarrow> AppStore \<Rightarrow> AppStore" where
  "rep_save app_id rep st = st\<lparr>st_reputation := tree_put app_id rep (st_reputation st)\<rparr>"

text \<open>The sum is an \<open>i16\<close>, which a byte and a delta never leave.\<close>

definition apply_delta :: "u64 \<Rightarrow> string \<Rightarrow> int \<Rightarrow> AppStore \<Rightarrow> AppReputation \<times> AppStore" where
  "apply_delta now app_id delta st =
     (let rep = rep_load st app_id;
          next = word_of_int (max 0 (min 100 (uint (rep_score rep) + delta)));
          rep = \<lparr>rep_score = next, rep_updated_at_ms = now\<rparr> in
      (rep, rep_save app_id rep st))"

fun trust_delta :: "InstallTrustLevel \<Rightarrow> int" where
  "trust_delta VerifiedListing = 20"
| "trust_delta MatchingListingHash = 5"
| "trust_delta SideloadOnly = - 15"
| "trust_delta HashMismatch = - 25"

definition record_install_trust :: "u64 \<Rightarrow> string \<Rightarrow> InstallTrustLevel \<Rightarrow> AppStore \<Rightarrow> AppStore" where
  "record_install_trust now app_id trust st = snd (apply_delta now app_id (trust_delta trust) st)"

definition record_user_report :: "u64 \<Rightarrow> string \<Rightarrow> AppStore \<Rightarrow> AppStore" where
  "record_user_report now app_id st = snd (apply_delta now app_id (- 30) st)"

definition record_revocation_hit :: "u64 \<Rightarrow> string \<Rightarrow> AppStore \<Rightarrow> AppStore" where
  "record_revocation_hit now app_id st = snd (apply_delta now app_id (- 100) st)"

definition record_bridge_anomaly :: "u64 \<Rightarrow> string \<Rightarrow> AppStore \<Rightarrow> AppStore" where
  "record_bridge_anomaly now app_id st = snd (apply_delta now app_id (- 25) st)"

section \<open>Preferences\<close>

definition prefs_load :: "AppStore \<Rightarrow> string \<Rightarrow> bool" where
  "prefs_load st app_id = (case tree_get (st_prefs st) app_id of Some b \<Rightarrow> b | None \<Rightarrow> False)"

definition set_safe_mode :: "string \<Rightarrow> bool \<Rightarrow> AppStore \<Rightarrow> AppStore" where
  "set_safe_mode app_id enabled st = st\<lparr>st_prefs := tree_put app_id enabled (st_prefs st)\<rparr>"

definition effective_safe_mode :: "AppStore \<Rightarrow> string \<Rightarrow> bool" where
  "effective_safe_mode st app_id =
     (if prefs_load st app_id then True else forced_safe_mode (rep_score (rep_load st app_id)))"

definition method_allowed_in_safe_mode :: "string \<Rightarrow> bool" where
  "method_allowed_in_safe_mode method \<longleftrightarrow>
     method \<in> {''storage.get'', ''storage.list'', ''bulletin.get'', ''util.now'', ''app.get_id'', ''app.get_version''}"

definition safe_mode_denial_message :: "string \<Rightarrow> string" where
  "safe_mode_denial_message method = ''blocked in safe mode: '' @ method"

section \<open>Revocation\<close>

record RevocationGossip =
  rg_app_id :: string
  rg_reason :: string
  rg_revoked_at_ms :: u64
  rg_curator_peer_id :: string
  rg_signature :: bytes

definition rg_signable_bytes :: "RevocationGossip \<Rightarrow> bytes" where
  "rg_signable_bytes e =
     bytes_of (rg_app_id e) @ bytes_of (rg_reason e) @ le64 (rg_revoked_at_ms e) @ bytes_of (rg_curator_peer_id e)"

definition rg_new_signed :: "crypto \<Rightarrow> u64 \<Rightarrow> string \<Rightarrow> string \<Rightarrow> string \<Rightarrow> keypair \<Rightarrow> RevocationGossip result" where
  "rg_new_signed cr now app_id reason curator kp =
     (let e = \<lparr>rg_app_id = app_id, rg_reason = reason, rg_revoked_at_ms = now,
               rg_curator_peer_id = curator, rg_signature = []\<rparr> in
      ok_then (kp_sign cr kp (rg_signable_bytes e)) (\<lambda>s. Ok (e\<lparr>rg_signature := s\<rparr>)))"

text \<open>\<open>store.rs\<close>: only an identity multihash holds the key.\<close>

definition public_key_from_peer_id :: "crypto \<Rightarrow> nat \<times> bytes \<Rightarrow> pubkey option" where
  "public_key_from_peer_id cr pid = (if fst pid \<noteq> 0 then None else pk_decode cr (snd pid))"

definition rg_verify_signature :: "crypto \<Rightarrow> RevocationGossip \<Rightarrow> bool result" where
  "rg_verify_signature cr e =
     (case peer_parse cr (rg_curator_peer_id e) of
        None \<Rightarrow> Err ''invalid curator_peer_id''
      | Some pid \<Rightarrow>
          (case public_key_from_peer_id cr pid of
             None \<Rightarrow> Ok False
           | Some pk \<Rightarrow> Ok (pk_verify cr pk (rg_signable_bytes e) (rg_signature e))))"

definition snap_default :: RevocationSnapshot where
  "snap_default = \<lparr>revoked_app_ids = [], snap_updated_at_ms = 0\<rparr>"

definition load_revocations :: "AppStore \<Rightarrow> RevocationSnapshot" where
  "load_revocations st = (case st_revocations st of Some s \<Rightarrow> s | None \<Rightarrow> snap_default)"

definition save_revocations :: "RevocationSnapshot \<Rightarrow> AppStore \<Rightarrow> AppStore" where
  "save_revocations snap st = st\<lparr>st_revocations := Some snap\<rparr>"

definition snap_is_revoked :: "RevocationSnapshot \<Rightarrow> string \<Rightarrow> bool" where
  "snap_is_revoked snap app_id \<longleftrightarrow> app_id \<in> set (revoked_app_ids snap)"

definition is_revoked :: "AppStore \<Rightarrow> string \<Rightarrow> bool" where
  "is_revoked st app_id = snap_is_revoked (load_revocations st) app_id"

definition revoke_app :: "u64 \<Rightarrow> string \<Rightarrow> AppStore \<Rightarrow> AppStore" where
  "revoke_app now app_id st =
     (let snap = load_revocations st;
          ids = (if app_id \<in> set (revoked_app_ids snap) then revoked_app_ids snap
                 else revoked_app_ids snap @ [app_id]) in
      save_revocations \<lparr>revoked_app_ids = ids, snap_updated_at_ms = now\<rparr> st)"

definition ingest_gossip_revocation :: "crypto \<Rightarrow> u64 \<Rightarrow> RevocationGossip \<Rightarrow> AppStore \<Rightarrow> bool result \<times> AppStore" where
  "ingest_gossip_revocation cr now e st =
     (case rg_verify_signature cr e of
        Inl msg \<Rightarrow> (Err msg, st)
      | Inr False \<Rightarrow> (Ok False, st)
      | Inr True \<Rightarrow> (Ok True, record_revocation_hit now (rg_app_id e) (revoke_app now (rg_app_id e) st)))"

text \<open>\<open>bundled\<close> is the list of the shipped snapshot.\<close>

definition merge_new :: "string list \<Rightarrow> string list \<Rightarrow> string list" where
  "merge_new bundled ids = foldl (\<lambda>ids x. if x \<in> set ids then ids else ids @ [x]) ids bundled"

definition merge_bundled_defaults :: "string list \<Rightarrow> u64 \<Rightarrow> AppStore \<Rightarrow> nat \<times> AppStore" where
  "merge_bundled_defaults bundled now st =
     (if bundled = [] then (0, st)
      else
        let snap = load_revocations st;
            ids = merge_new bundled (revoked_app_ids snap);
            added = length ids - length (revoked_app_ids snap) in
        (added, if added > 0 then save_revocations \<lparr>revoked_app_ids = ids, snap_updated_at_ms = now\<rparr> st else st))"

end
