(* ===== verification/App_Storage.thy ===== *)
theory App_Storage
  imports Trees Sealing Miniapp_Policy
begin

text \<open>
  The local database of the application layer (\<open>mycelium-app/src/storage.rs\<close>) with the records it keeps:
  chats, contacts (\<open>contacts.rs\<close>), bulletins, mail (\<open>envelope.rs\<close>), groups (\<open>groups.rs\<close>), scope keys
  (\<open>scope_key.rs\<close>) and the values of mini-apps, which are sealed when a key is configured
  (\<open>miniapp_storage_enc.rs\<close>).  A tree holds decoded rows in key order.  JSON is a parameter; identifiers
  (\<open>Uuid\<close>) are their text, and random values and the clock are arguments.
\<close>

section \<open>Lossy text\<close>

text \<open>The length a character announces in its first byte, or 0, and which second bytes may follow.\<close>

definition lead_width :: "u8 \<Rightarrow> nat" where
  "lead_width b =
     (if b \<le> 127 then 1 else if 194 \<le> b \<and> b \<le> 223 then 2 else if 224 \<le> b \<and> b \<le> 239 then 3
      else if 240 \<le> b \<and> b \<le> 244 then 4 else 0)"

definition second_ok :: "u8 \<Rightarrow> u8 \<Rightarrow> bool" where
  "second_ok b c1 =
     (if b = 224 then 160 \<le> c1 \<and> c1 \<le> 191 else if b = 237 then 128 \<le> c1 \<and> c1 \<le> 159
      else if b = 240 then 144 \<le> c1 \<and> c1 \<le> 191 else if b = 244 then 128 \<le> c1 \<and> c1 \<le> 143 else cont_byte c1)"

text \<open>The first character of a byte string, or the longest ill-formed piece: its length and whether it is a character.
  A byte past the end counts as 0, which continues nothing.\<close>

definition utf8_step :: "bytes \<Rightarrow> nat \<times> bool" where
  "utf8_step bs =
     (let at = (\<lambda>i. if i < length bs then bs ! i else 0); w = lead_width (at 0) in
      if w = 1 then (1, True)
      else if w = 0 \<or> \<not> second_ok (at 0) (at 1) then (1, False)
      else if w = 2 then (2, True)
      else if \<not> cont_byte (at 2) then (2, False)
      else if w = 3 then (3, True)
      else if \<not> cont_byte (at 3) then (3, False)
      else (4, True))"

lemma utf8_step_pos: "0 < fst (utf8_step bs)"
  by (simp add: utf8_step_def Let_def)

text \<open>\<open>String::from_utf8_lossy\<close>: every ill-formed piece becomes U+FFFD.\<close>

function from_utf8_lossy :: "bytes \<Rightarrow> bytes" where
  "from_utf8_lossy [] = []"
| "from_utf8_lossy (b # bs) =
     (let (n, ok) = utf8_step (b # bs) in
      (if ok then take n (b # bs) else [239, 191, 189]) @ from_utf8_lossy (drop n (b # bs)))"
  by pat_completeness auto
termination
proof (relation "measure length", goal_cases)
  case (2 b bs x n ok)
  then have "n = fst (utf8_step (b # bs))"
    by (metis fst_conv)
  then show ?case
    using utf8_step_pos [of "b # bs"] by simp
qed simp

declare from_utf8_lossy.simps(2) [simp del]

section \<open>JSON\<close>

text \<open>\<open>serde_json::Value\<close>; an object is kept in key order.\<close>

datatype json =
    JNull | JBool bool | JUInt u64 | JNegInt int | JFloat string | JStr string | JArray "json list"
  | JObject "(string \<times> json) list"

definition json_object :: "(string \<times> json) list \<Rightarrow> json" where
  "json_object kvs = JObject (foldl (\<lambda>t (k, v). tree_put k v t) [] kvs)"

fun json_get :: "json \<Rightarrow> string \<Rightarrow> json option" where
  "json_get (JObject kvs) key = tree_get kvs key"
| "json_get _ key = None"

fun as_str :: "json \<Rightarrow> string option" where
  "as_str (JStr s) = Some s"
| "as_str _ = None"

definition get_str :: "json \<Rightarrow> string \<Rightarrow> string option" where
  "get_str v key = Option.bind (json_get v key) as_str"

record json_io =
  js_parse :: "string \<Rightarrow> json result"
  js_print :: "json \<Rightarrow> string"

section \<open>Records\<close>

datatype ContactStatus = ContactPending | ContactAccepted

record Contact =
  ct_peer_id :: string
  ct_display_name :: string
  ct_added_at_ms :: u64
  ct_status :: ContactStatus

definition contact_new :: "u64 \<Rightarrow> string \<Rightarrow> string \<Rightarrow> ContactStatus \<Rightarrow> Contact" where
  "contact_new now peer_id display_name st =
     \<lparr>ct_peer_id = peer_id, ct_display_name = display_name, ct_added_at_ms = now, ct_status = st\<rparr>"

record ChatMessage =
  cm_id :: string
  cm_from_display_name :: string
  cm_body :: string
  cm_timestamp_ms :: u64
  cm_reply_to :: "string option"

record BulletinPost =
  bp_id :: string
  bp_from_display_name :: string
  bp_title :: string
  bp_body :: string
  bp_scope :: string
  bp_timestamp_ms :: u64
  bp_expires_at_ms :: u64

record Attachment =
  at_filename :: string
  at_mime_type :: string
  at_data :: bytes
  at_size_bytes :: nat

record MailMessage =
  mm_id :: string
  mm_from_peer :: string
  mm_from_display_name :: string
  mm_to_peer :: string
  mm_subject :: string
  mm_body :: string
  mm_timestamp_ms :: u64
  mm_attachments :: "Attachment list"

record Group =
  gr_id :: string
  gr_name :: string
  gr_key :: bytes
  gr_members :: "string list"
  gr_created_at_ms :: u64

text \<open>\<open>key\<close> is the random key drawn.\<close>

definition group_new :: "crypto \<Rightarrow> sealing \<Rightarrow> u64 \<Rightarrow> bytes \<Rightarrow> string \<Rightarrow> Group" where
  "group_new cr sl now key name =
     \<lparr>gr_id = hex_encode sl (blake3 cr key), gr_name = name, gr_key = key, gr_members = [], gr_created_at_ms = now\<rparr>"

definition group_export_invite :: "json_io \<Rightarrow> sealing \<Rightarrow> Group \<Rightarrow> string" where
  "group_export_invite js sl g =
     js_print js (json_object [(''type'', JStr ''mycelium-group-invite''), (''version'', JUInt 1), (''id'', JStr (gr_id g)),
       (''name'', JStr (gr_name g)), (''key'', JStr (hex_encode sl (gr_key g)))])"

definition group_from_invite :: "json_io \<Rightarrow> sealing \<Rightarrow> u64 \<Rightarrow> string \<Rightarrow> Group result" where
  "group_from_invite js sl now text =
     ok_then (js_parse js text) (\<lambda>v.
     ok_then (ok_or ''missing key'' (get_str v ''key'')) (\<lambda>key_hex.
     ok_then (hex_decode sl key_hex) (\<lambda>key.
     if length key \<noteq> 32 then Err ''invalid key length''
     else Ok \<lparr>gr_id = (case get_str v ''id'' of Some i \<Rightarrow> i | None \<Rightarrow> []),
              gr_name = (case get_str v ''name'' of Some n \<Rightarrow> n | None \<Rightarrow> ''Group''),
              gr_key = key, gr_members = [], gr_created_at_ms = now\<rparr>)))"

definition record_peer_seen :: "string \<Rightarrow> Group \<Rightarrow> Group" where
  "record_peer_seen peer_id g =
     (if peer_id = [] \<or> peer_id \<in> set (gr_members g) then g else g\<lparr>gr_members := gr_members g @ [peer_id]\<rparr>)"

record ScopeKey =
  sk_scope :: string
  sk_display_name :: string
  sk_key :: bytes
  sk_added_at_ms :: u64

definition scope_key_new :: "u64 \<Rightarrow> bytes \<Rightarrow> string \<Rightarrow> string \<Rightarrow> ScopeKey" where
  "scope_key_new now key scope display_name =
     \<lparr>sk_scope = scope, sk_display_name = display_name, sk_key = key, sk_added_at_ms = now\<rparr>"

definition scope_key_export_invite :: "json_io \<Rightarrow> sealing \<Rightarrow> ScopeKey \<Rightarrow> string" where
  "scope_key_export_invite js sl k =
     js_print js (json_object [(''type'', JStr ''mycelium-scope-key''), (''version'', JUInt 1), (''scope'', JStr (sk_scope k)),
       (''display_name'', JStr (sk_display_name k)), (''key'', JStr (hex_encode sl (sk_key k)))])"

definition scope_key_from_invite :: "json_io \<Rightarrow> sealing \<Rightarrow> u64 \<Rightarrow> string \<Rightarrow> ScopeKey result" where
  "scope_key_from_invite js sl now text =
     ok_then (js_parse js text) (\<lambda>v.
     if get_str v ''type'' \<noteq> Some ''mycelium-scope-key'' then Err ''invalid invite type''
     else
       ok_then (ok_or ''missing key'' (get_str v ''key'')) (\<lambda>key_hex.
       ok_then (hex_decode sl key_hex) (\<lambda>key.
       if length key \<noteq> 32 then Err ''invalid key length''
       else Ok \<lparr>sk_scope = (case get_str v ''scope'' of Some s \<Rightarrow> s | None \<Rightarrow> ''unknown''),
                sk_display_name = (case get_str v ''display_name'' of Some n \<Rightarrow> n | None \<Rightarrow> ''Encrypted Channel''),
                sk_key = key, sk_added_at_ms = now\<rparr>)))"

section \<open>Sealed values of mini-apps\<close>

definition ENC_PREFIX :: bytes where "ENC_PREFIX = bytes_of ''enc1:''"

definition derive_record_key :: "sealing \<Rightarrow> bytes \<Rightarrow> string \<Rightarrow> bytes option" where
  "derive_record_key sl master scoped_key = hkdf_expand sl master (bytes_of (''mycelium-miniapp-kv:'' @ scoped_key))"

text \<open>\<open>None\<close> is the panic of \<open>expect\<close>.\<close>

definition encrypt_value :: "sealing \<Rightarrow> bytes \<Rightarrow> bytes \<Rightarrow> string \<Rightarrow> string \<Rightarrow> bytes option" where
  "encrypt_value sl nonce master scoped_key plaintext =
     Option.bind (derive_record_key sl master scoped_key) (\<lambda>key.
     case aead_seal sl key nonce (bytes_of plaintext) of
       Inl _ \<Rightarrow> None
     | Inr ct \<Rightarrow> Some (ENC_PREFIX @ nonce @ ct))"

definition decrypt_value :: "sealing \<Rightarrow> bytes \<Rightarrow> string \<Rightarrow> bytes \<Rightarrow> string result" where
  "decrypt_value sl master scoped_key blob =
     (if take (length ENC_PREFIX) blob \<noteq> ENC_PREFIX
      then (if utf8_valid blob then Ok (string_of_bytes blob) else Err ''invalid miniapp storage utf8'')
      else
        let rest = drop (length ENC_PREFIX) blob in
        if length rest < 12 + 16 then Err ''truncated encrypted miniapp value''
        else case derive_record_key sl master scoped_key of
          None \<Rightarrow> Err ''hkdf expand''
        | Some key \<Rightarrow>
            ok_then (map_err (\<lambda>_. ''miniapp storage decrypt failed'') (aead_open sl key (take 12 rest) (drop 12 rest))) (\<lambda>pt.
            if utf8_valid pt then Ok (string_of_bytes pt) else Err ''invalid decrypted utf8''))"

section \<open>The database\<close>

record AppStorage =
  as_chats :: "string \<Rightarrow> (u64, ChatMessage) tree"  \<comment> \<open>\<open>chat:<peer>\<close>; eight big-endian bytes are ordered as numbers\<close>
  as_contacts :: "(string, Contact) tree"
  as_bulletins :: "(string, (string, BulletinPost) tree) tree"  \<comment> \<open>\<open>bulletin:<scope>\<close>\<close>
  as_inbox :: "(string, MailMessage) tree"
  as_sent :: "(string, MailMessage) tree"
  as_mail_read :: "(string, unit) tree"
  as_groups :: "(string, Group) tree"
  as_group_chats :: "string \<Rightarrow> (string, ChatMessage) tree"  \<comment> \<open>\<open>groupchat:<group>\<close>\<close>
  as_miniapp :: "(string, bytes) tree"
  as_scope_keys :: "(string, ScopeKey) tree"
  as_at_rest_key :: "bytes option"

text \<open>\<open>{:020}\<close>: decimal, padded with zeros to twenty digits.\<close>

definition pad20 :: "u64 \<Rightarrow> string" where
  "pad20 n = (let d = dec (unat n) in replicate (20 - length d) (CHR ''0'') @ d)"

definition ts_uuid_key :: "u64 \<Rightarrow> string \<Rightarrow> string" where
  "ts_uuid_key ts uuid = pad20 ts @ '':'' @ uuid"

subsection \<open>Chats\<close>

definition save_chat :: "string \<Rightarrow> ChatMessage \<Rightarrow> AppStorage \<Rightarrow> AppStorage" where
  "save_chat peer_id m s =
     s\<lparr>as_chats := (as_chats s)(peer_id := tree_put (cm_timestamp_ms m) m (as_chats s peer_id))\<rparr>"

definition newest :: "nat \<Rightarrow> ('k, 'v) tree \<Rightarrow> 'v list" where
  "newest n t = map snd (take n (rev (tree_iter t)))"

definition chat_history :: "AppStorage \<Rightarrow> string \<Rightarrow> nat \<Rightarrow> ChatMessage list" where
  "chat_history s peer_id n = newest n (as_chats s peer_id)"

subsection \<open>Contacts\<close>

definition save_contact :: "Contact \<Rightarrow> AppStorage \<Rightarrow> AppStorage" where
  "save_contact c s = s\<lparr>as_contacts := tree_put (ct_peer_id c) c (as_contacts s)\<rparr>"

definition contact_by_id :: "AppStorage \<Rightarrow> string \<Rightarrow> Contact option" where
  "contact_by_id s peer_id = tree_get (as_contacts s) peer_id"

definition all_contacts :: "AppStorage \<Rightarrow> Contact list" where
  "all_contacts s = sort_key (\<lambda>c. - int (unat (ct_added_at_ms c))) (map snd (tree_iter (as_contacts s)))"

definition contacts_with_status :: "AppStorage \<Rightarrow> ContactStatus \<Rightarrow> Contact list" where
  "contacts_with_status s st = filter (\<lambda>c. ct_status c = st) (all_contacts s)"

definition delete_contact :: "string \<Rightarrow> AppStorage \<Rightarrow> AppStorage" where
  "delete_contact peer_id s = s\<lparr>as_contacts := tree_del peer_id (as_contacts s)\<rparr>"

definition upsert_contact :: "u64 \<Rightarrow> string \<Rightarrow> string \<Rightarrow> ContactStatus \<Rightarrow> AppStorage \<Rightarrow> Contact \<times> AppStorage" where
  "upsert_contact now peer_id display_name st s =
     (let c = (case contact_by_id s peer_id of
                 Some e \<Rightarrow> e\<lparr>ct_display_name := if display_name \<noteq> [] then display_name else ct_display_name e, ct_status := st\<rparr>
               | None \<Rightarrow> contact_new now peer_id display_name st) in
      (c, save_contact c s))"

subsection \<open>Bulletins\<close>

definition scope_tree :: "AppStorage \<Rightarrow> string \<Rightarrow> (string, BulletinPost) tree" where
  "scope_tree s scope = (case tree_get (as_bulletins s) scope of Some t \<Rightarrow> t | None \<Rightarrow> [])"

definition save_bulletin :: "BulletinPost \<Rightarrow> AppStorage \<Rightarrow> AppStorage" where
  "save_bulletin p s =
     s\<lparr>as_bulletins := tree_put (bp_scope p)
        (tree_put (ts_uuid_key (bp_expires_at_ms p) (bp_id p)) p (scope_tree s (bp_scope p))) (as_bulletins s)\<rparr>"

definition bulletins_for_scope :: "u64 \<Rightarrow> AppStorage \<Rightarrow> string \<Rightarrow> BulletinPost list" where
  "bulletins_for_scope now s scope =
     sort_key (\<lambda>p. - int (unat (bp_timestamp_ms p)))
       (filter (\<lambda>p. now \<le> bp_expires_at_ms p) (map snd (tree_iter (scope_tree s scope))))"

definition prune_scope :: "u64 \<Rightarrow> (string, BulletinPost) tree \<Rightarrow> nat \<times> (string, BulletinPost) tree" where
  "prune_scope now t =
     (let ks = map fst (filter (\<lambda>(k, p). bp_expires_at_ms p < now) (tree_iter t)) in
      (length ks, foldl (\<lambda>t k. tree_del k t) t ks))"

definition prune_expired_bulletins :: "u64 \<Rightarrow> AppStorage \<Rightarrow> nat \<times> AppStorage" where
  "prune_expired_bulletins now s =
     (let pruned = map (\<lambda>(scope, t). (scope, prune_scope now t)) (as_bulletins s) in
      (sum_list (map (fst \<circ> snd) pruned), s\<lparr>as_bulletins := map (\<lambda>(scope, r). (scope, snd r)) pruned\<rparr>))"

subsection \<open>Mail\<close>

definition save_mail_inbox :: "MailMessage \<Rightarrow> AppStorage \<Rightarrow> AppStorage" where
  "save_mail_inbox m s = s\<lparr>as_inbox := tree_put (ts_uuid_key (mm_timestamp_ms m) (mm_id m)) m (as_inbox s)\<rparr>"

definition save_mail_sent :: "MailMessage \<Rightarrow> AppStorage \<Rightarrow> AppStorage" where
  "save_mail_sent m s = s\<lparr>as_sent := tree_put (ts_uuid_key (mm_timestamp_ms m) (mm_id m)) m (as_sent s)\<rparr>"

definition mail_inbox :: "AppStorage \<Rightarrow> nat \<Rightarrow> MailMessage list" where
  "mail_inbox s n = newest n (as_inbox s)"

definition mail_sent :: "AppStorage \<Rightarrow> nat \<Rightarrow> MailMessage list" where
  "mail_sent s n = newest n (as_sent s)"

definition mark_read :: "string \<Rightarrow> AppStorage \<Rightarrow> AppStorage" where
  "mark_read mail_id s = s\<lparr>as_mail_read := tree_put mail_id () (as_mail_read s)\<rparr>"

definition is_read :: "AppStorage \<Rightarrow> string \<Rightarrow> bool" where
  "is_read s mail_id = tree_has (as_mail_read s) mail_id"

subsection \<open>Groups\<close>

definition save_group :: "Group \<Rightarrow> AppStorage \<Rightarrow> AppStorage" where
  "save_group g s = s\<lparr>as_groups := tree_put (gr_id g) g (as_groups s)\<rparr>"

definition delete_group :: "string \<Rightarrow> AppStorage \<Rightarrow> AppStorage" where
  "delete_group gid s = s\<lparr>as_groups := tree_del gid (as_groups s)\<rparr>"

definition group_by_id :: "AppStorage \<Rightarrow> string \<Rightarrow> Group option" where
  "group_by_id s gid = tree_get (as_groups s) gid"

definition all_groups :: "AppStorage \<Rightarrow> Group list" where
  "all_groups s = map snd (tree_iter (as_groups s))"

definition group_record_peer_seen :: "string \<Rightarrow> string \<Rightarrow> AppStorage \<Rightarrow> AppStorage" where
  "group_record_peer_seen gid peer_id s =
     (case group_by_id s gid of None \<Rightarrow> s | Some g \<Rightarrow> save_group (record_peer_seen peer_id g) s)"

definition save_group_chat :: "string \<Rightarrow> ChatMessage \<Rightarrow> AppStorage \<Rightarrow> AppStorage" where
  "save_group_chat gid m s =
     s\<lparr>as_group_chats := (as_group_chats s)(gid := tree_put (ts_uuid_key (cm_timestamp_ms m) (cm_id m)) m (as_group_chats s gid))\<rparr>"

definition group_chat_history :: "AppStorage \<Rightarrow> string \<Rightarrow> nat \<Rightarrow> ChatMessage list" where
  "group_chat_history s gid n = newest n (as_group_chats s gid)"

subsection \<open>Values of mini-apps\<close>

definition decode_miniapp_value :: "sealing \<Rightarrow> AppStorage \<Rightarrow> string \<Rightarrow> bytes \<Rightarrow> string result" where
  "decode_miniapp_value sl s scoped_key blob =
     (case as_at_rest_key s of
        Some master \<Rightarrow> decrypt_value sl master scoped_key blob
      | None \<Rightarrow> Ok (string_of_bytes (from_utf8_lossy blob)))"

definition encode_miniapp_value :: "sealing \<Rightarrow> bytes \<Rightarrow> AppStorage \<Rightarrow> string \<Rightarrow> string \<Rightarrow> bytes option" where
  "encode_miniapp_value sl nonce s scoped_key value =
     (case as_at_rest_key s of
        Some master \<Rightarrow> encrypt_value sl nonce master scoped_key value
      | None \<Rightarrow> Some (bytes_of value))"

definition miniapp_get :: "sealing \<Rightarrow> AppStorage \<Rightarrow> string \<Rightarrow> string option result" where
  "miniapp_get sl s scoped_key =
     (case tree_get (as_miniapp s) scoped_key of
        Some v \<Rightarrow> ok_then (decode_miniapp_value sl s scoped_key v) (\<lambda>x. Ok (Some x))
      | None \<Rightarrow> Ok None)"

definition miniapp_set :: "sealing \<Rightarrow> bytes \<Rightarrow> string \<Rightarrow> string \<Rightarrow> AppStorage \<Rightarrow> unit result \<times> AppStorage" where
  "miniapp_set sl nonce scoped_key value s =
     (case encode_miniapp_value sl nonce s scoped_key value of
        None \<Rightarrow> (Err ''encrypt'', s)
      | Some b \<Rightarrow> (Ok (), s\<lparr>as_miniapp := tree_put scoped_key b (as_miniapp s)\<rparr>))"

definition miniapp_delete :: "string \<Rightarrow> AppStorage \<Rightarrow> AppStorage" where
  "miniapp_delete scoped_key s = s\<lparr>as_miniapp := tree_del scoped_key (as_miniapp s)\<rparr>"

text \<open>The keys are text written by \<open>miniapp_set\<close>, so reading them back as text changes nothing.\<close>

definition miniapp_list :: "AppStorage \<Rightarrow> string \<Rightarrow> string list" where
  "miniapp_list s scoped_prefix = sort (filter (\<lambda>k. starts_with k scoped_prefix) (map fst (tree_iter (as_miniapp s))))"

definition miniapp_clear_all_for_app :: "string \<Rightarrow> AppStorage \<Rightarrow> AppStorage" where
  "miniapp_clear_all_for_app app_id s =
     (let ks = filter (\<lambda>k. starts_with k (''app:'' @ app_id @ '':'')) (map fst (tree_iter (as_miniapp s))) in
      s\<lparr>as_miniapp := foldl (\<lambda>t k. tree_del k t) (as_miniapp s) ks\<rparr>)"

subsection \<open>Scope keys\<close>

definition save_scope_key :: "ScopeKey \<Rightarrow> AppStorage \<Rightarrow> AppStorage" where
  "save_scope_key k s = s\<lparr>as_scope_keys := tree_put (sk_scope k) k (as_scope_keys s)\<rparr>"

definition get_scope_key :: "AppStorage \<Rightarrow> string \<Rightarrow> ScopeKey option" where
  "get_scope_key s scope = tree_get (as_scope_keys s) scope"

definition all_scope_keys :: "AppStorage \<Rightarrow> ScopeKey list" where
  "all_scope_keys s = sort_key (\<lambda>k. unat (sk_added_at_ms k)) (map snd (tree_iter (as_scope_keys s)))"

definition delete_scope_key :: "string \<Rightarrow> AppStorage \<Rightarrow> AppStorage" where
  "delete_scope_key scope s = s\<lparr>as_scope_keys := tree_del scope (as_scope_keys s)\<rparr>"

end
