(* ===== verification/Proximity.thy ===== *)
theory Proximity
  imports App_Storage
begin

text \<open>
  Nearby profiles (\<open>mycelium-app/src/proximity\<close>): presence signals and their store, the match state, the inbox and
  the score.  The hash map of signals is a list of pairs in some order; where the code takes a minimum or sorts, ties
  fall as that order has them.  The clock reading is an argument.
\<close>

section \<open>Presence\<close>

definition PROXIMITY_SCOPE :: string where "PROXIMITY_SCOPE = ''mycelium/proximity/v1''"

record PresenceProfile =
  pp_display_name :: "string option"
  pp_bio :: "string option"
  pp_age :: "u8 option"
  pp_gender :: "string option"
  pp_looking_for :: "string option"
  pp_interests :: "string list"
  pp_photo_base64 :: "string option"

definition profile_default :: PresenceProfile where
  "profile_default = \<lparr>pp_display_name = None, pp_bio = None, pp_age = None, pp_gender = None, pp_looking_for = None,
     pp_interests = [], pp_photo_base64 = None\<rparr>"

record PresenceSignal =
  ps_ephemeral_id :: string
  ps_enc_pubkey_hex :: string
  ps_profile :: PresenceProfile
  ps_created_at_ms :: u64
  ps_ttl_secs :: u32

record ProximityDirectMessage =
  pd_target_enc_pubkey_hex :: string
  pd_sender_enc_pubkey_hex :: string
  pd_encrypted_payload :: bytes
  pd_created_at_ms :: u64

record ProximityMatchIntent =
  pi_from_enc_pubkey_hex :: string
  pi_created_at_ms :: u64
  pi_ttl_secs :: u32

definition profile_validate :: "PresenceProfile \<Rightarrow> unit result" where
  "profile_validate p =
     (if case pp_bio p of Some bio \<Rightarrow> char_count bio > 120 | None \<Rightarrow> False
      then Err ''bio must be at most 120 characters''
      else if case pp_photo_base64 p of Some photo \<Rightarrow> length photo > 68000 | None \<Rightarrow> False
      then Err ''photo_base64 exceeds 50KB limit''
      else Ok ())"

text \<open>\<open>uuid\<close> is the random identifier drawn; the result of validating the profile is discarded.\<close>

definition signal_new :: "u64 \<Rightarrow> string \<Rightarrow> string \<Rightarrow> PresenceProfile \<Rightarrow> u32 \<Rightarrow> PresenceSignal" where
  "signal_new now uuid enc_pubkey_hex profile ttl =
     \<lparr>ps_ephemeral_id = uuid, ps_enc_pubkey_hex = enc_pubkey_hex, ps_profile = profile,
      ps_created_at_ms = now, ps_ttl_secs = ttl\<rparr>"

text \<open>A \<open>u32\<close> of seconds in milliseconds fits a \<open>u64\<close>.\<close>

definition outlived :: "u64 \<Rightarrow> u64 \<Rightarrow> u32 \<Rightarrow> bool" where
  "outlived now created ttl \<longleftrightarrow> ucast ttl * 1000 < sat_sub now created"

definition signal_is_expired :: "u64 \<Rightarrow> PresenceSignal \<Rightarrow> bool" where
  "signal_is_expired now s = outlived now (ps_created_at_ms s) (ps_ttl_secs s)"

definition intent_new :: "u64 \<Rightarrow> string \<Rightarrow> ProximityMatchIntent" where
  "intent_new now from_hex = \<lparr>pi_from_enc_pubkey_hex = from_hex, pi_created_at_ms = now, pi_ttl_secs = 300\<rparr>"

definition intent_is_expired :: "u64 \<Rightarrow> ProximityMatchIntent \<Rightarrow> bool" where
  "intent_is_expired now i = outlived now (pi_created_at_ms i) (pi_ttl_secs i)"

section \<open>Store of signals\<close>

record ProximityStore =
  px_signals :: "(string \<times> PresenceSignal) list"
  px_max_size :: nat

definition px_new :: ProximityStore where
  "px_new = \<lparr>px_signals = [], px_max_size = 500\<rparr>"

text \<open>\<open>Iterator::min_by_key\<close>: the first of the least elements.\<close>

fun min_by_key :: "('a \<Rightarrow> 'k::linorder) \<Rightarrow> 'a list \<Rightarrow> 'a option" where
  "min_by_key f [] = None"
| "min_by_key f (x # xs) =
     (case min_by_key f xs of None \<Rightarrow> Some x | Some y \<Rightarrow> if f x \<le> f y then Some x else Some y)"

definition map_remove :: "'k \<Rightarrow> ('k \<times> 'v) list \<Rightarrow> ('k \<times> 'v) list" where
  "map_remove k xs = filter (\<lambda>x. fst x \<noteq> k) xs"

definition map_insert :: "'k \<Rightarrow> 'v \<Rightarrow> ('k \<times> 'v) list \<Rightarrow> ('k \<times> 'v) list" where
  "map_insert k v xs = (if k \<in> fst ` set xs then map (\<lambda>x. if fst x = k then (k, v) else x) xs else xs @ [(k, v)])"

definition px_insert :: "PresenceSignal \<Rightarrow> ProximityStore \<Rightarrow> ProximityStore" where
  "px_insert sig px =
     (let px = (if length (px_signals px) \<ge> px_max_size px then
                  (case min_by_key ps_created_at_ms (map snd (px_signals px)) of
                     Some oldest \<Rightarrow> px\<lparr>px_signals := map_remove (ps_ephemeral_id oldest) (px_signals px)\<rparr>
                   | None \<Rightarrow> px)
                else px) in
      px\<lparr>px_signals := map_insert (ps_ephemeral_id sig) sig (px_signals px)\<rparr>)"

definition active_signals :: "u64 \<Rightarrow> ProximityStore \<Rightarrow> PresenceSignal list" where
  "active_signals now px =
     sort_key (\<lambda>s. - int (unat (ps_created_at_ms s))) (filter (\<lambda>s. \<not> signal_is_expired now s) (map snd (px_signals px)))"

definition px_prune :: "u64 \<Rightarrow> ProximityStore \<Rightarrow> nat \<times> ProximityStore" where
  "px_prune now px =
     (let kept = filter (\<lambda>x. \<not> signal_is_expired now (snd x)) (px_signals px) in
      (length (px_signals px) - length kept, px\<lparr>px_signals := kept\<rparr>))"

definition px_count :: "u64 \<Rightarrow> ProximityStore \<Rightarrow> nat" where
  "px_count now px = length (filter (\<lambda>x. \<not> signal_is_expired now (snd x)) (px_signals px))"

definition px_clear :: "ProximityStore \<Rightarrow> ProximityStore" where
  "px_clear px = px\<lparr>px_signals := []\<rparr>"

section \<open>Matches and inbox\<close>

record ProximityMatchState =
  pm_outgoing :: "string set"
  pm_incoming :: "string set"

definition match_default :: ProximityMatchState where
  "match_default = \<lparr>pm_outgoing = {}, pm_incoming = {}\<rparr>"

definition record_outgoing :: "string \<Rightarrow> ProximityMatchState \<Rightarrow> ProximityMatchState" where
  "record_outgoing h m = m\<lparr>pm_outgoing := insert h (pm_outgoing m)\<rparr>"

definition record_incoming :: "string \<Rightarrow> ProximityMatchState \<Rightarrow> ProximityMatchState" where
  "record_incoming h m = m\<lparr>pm_incoming := insert h (pm_incoming m)\<rparr>"

definition interest_sent :: "ProximityMatchState \<Rightarrow> string \<Rightarrow> bool" where
  "interest_sent m h \<longleftrightarrow> h \<in> pm_outgoing m"

definition interest_received :: "ProximityMatchState \<Rightarrow> string \<Rightarrow> bool" where
  "interest_received m h \<longleftrightarrow> h \<in> pm_incoming m"

definition is_mutual :: "ProximityMatchState \<Rightarrow> string \<Rightarrow> bool" where
  "is_mutual m h \<longleftrightarrow> interest_sent m h \<and> interest_received m h"

record ProximityReceivedMessage =
  pr_from_enc_pubkey_hex :: string
  pr_body :: string
  pr_received_at_ms :: u64

record ProximityInbox =
  pb_messages :: "ProximityReceivedMessage list"
  pb_max_size :: nat

definition pb_new :: ProximityInbox where
  "pb_new = \<lparr>pb_messages = [], pb_max_size = 200\<rparr>"

definition pb_push :: "ProximityReceivedMessage \<Rightarrow> ProximityInbox \<Rightarrow> ProximityInbox" where
  "pb_push m b =
     (let ms = (if length (pb_messages b) \<ge> pb_max_size b then tl (pb_messages b) else pb_messages b) in
      b\<lparr>pb_messages := ms @ [m]\<rparr>)"

definition pb_since :: "ProximityInbox \<Rightarrow> u64 \<Rightarrow> ProximityReceivedMessage list" where
  "pb_since b since_ms = filter (\<lambda>m. since_ms < pr_received_at_ms m) (pb_messages b)"

definition pb_all :: "ProximityInbox \<Rightarrow> ProximityReceivedMessage list" where
  "pb_all b = pb_messages b"

definition pb_clear :: "ProximityInbox \<Rightarrow> ProximityInbox" where
  "pb_clear b = b\<lparr>pb_messages := []\<rparr>"

record ProximityNearbyEntry =
  ne_signal :: PresenceSignal
  ne_interest_sent :: bool
  ne_interest_received :: bool
  ne_is_mutual :: bool

section \<open>Score\<close>

text \<open>The score is a \<open>u32\<close>; the number of common interests is cut to 32 bits before it is multiplied.\<close>

definition match_score :: "string list \<Rightarrow> PresenceSignal \<Rightarrow> u32 \<times> string list" where
  "match_score my_interests other =
     (let common = filter (\<lambda>i. i \<in> set (pp_interests (ps_profile other))) my_interests;
          score = of_nat (length common) * 10 + (if pp_display_name (ps_profile other) \<noteq> None then 5 else 0) +
            (if pp_bio (ps_profile other) \<noteq> None then 5 else 0) + (if pp_photo_base64 (ps_profile other) \<noteq> None then 10 else 0) in
      (score, common))"

end
