(* ===== verification/Miniapp_Bundle.thy ===== *)
theory Miniapp_Bundle
  imports Miniapp_Policy
begin

text \<open>
  Mini-app bundles: loading an archive (\<open>miniapp/bundle.rs\<close>), the static scan at install time
  (\<open>bundle_scan.rs\<close>, the inline-script test of \<open>install_policy.rs\<close>), the developer's signature
  (\<open>bundle_signature.rs\<close>), the hash a reproducible build attests (\<open>reproducible_build.rs\<close>) and the
  content-security policy of a page (\<open>csp.rs\<close>).  Reading a zip archive and JSON belongs to packages and is a
  parameter.  The files of a bundle are kept in path order; the hash map of the code has
  no order, so which of several offending files an error names is not determined there.

  \<open>str::to_lowercase\<close> is modelled on ASCII letters.  No other character has one of the letters of the
  strings that are searched for as its lower case, except the Kelvin sign for k and the dotted capital I
  for i followed by a combining dot; none of these strings contains k or ends with i.
\<close>

section \<open>Packages\<close>

text \<open>An entry of an archive: its name, whether it is a directory, and its contents.\<close>

type_synonym zip_entry = "string \<times> bool \<times> bytes result"

record BundleSignatureFile =
  bs_bundle_hash :: string
  bs_signature :: string

record miniapp_env =
  me_crypto :: crypto
  me_sealing :: sealing
  me_unzip :: "bytes \<Rightarrow> zip_entry list result"
  me_parse_manifest :: "bytes \<Rightarrow> MiniAppManifest result"
  me_print_manifest :: "MiniAppManifest \<Rightarrow> bytes"
  me_print_sources :: "AppSource list \<Rightarrow> bytes"
  me_parse_signature :: "bytes \<Rightarrow> BundleSignatureFile result"

section \<open>Strings\<close>

definition to_lowercase :: "string \<Rightarrow> string" where
  "to_lowercase s = map ascii_lower s"

definition ends_with :: "string \<Rightarrow> string \<Rightarrow> bool" where
  "ends_with s p \<longleftrightarrow> strip_suffix p s \<noteq> None"

text \<open>\<open>str::split\<close> at a non-empty text.\<close>

function split_str :: "string \<Rightarrow> string \<Rightarrow> string list" where
  "split_str p [] = [[]]"
| "split_str p (x # xs) =
     (if p \<noteq> [] \<and> starts_with (x # xs) p then [] # split_str p (drop (length p) (x # xs))
      else (case split_str p xs of [] \<Rightarrow> [[x]] | y # ys \<Rightarrow> (x # y) # ys))"
  by pat_completeness auto
termination
  by (relation "measure (\<lambda>(p, s). length s)") auto

section \<open>Loading\<close>

record MiniAppBundle =
  b_manifest :: MiniAppManifest
  b_files :: "(string, bytes) tree"

definition is_safe_bundle_path :: "string \<Rightarrow> bool" where
  "is_safe_bundle_path name \<longleftrightarrow>
     name \<noteq> [] \<and> \<not> (starts_with name ''/'' \<or> starts_with name [CHR 0x5C]) \<and> \<not> contains_str name ''..'' \<and>
     ''..'' \<notin> set (concat (map (split_on (CHR 0x5C)) (split_on (CHR ''/'') name)))"

fun load_entries :: "zip_entry list \<Rightarrow> (string, bytes) tree \<Rightarrow> (string, bytes) tree result" where
  "load_entries [] files = Ok files"
| "load_entries ((name, is_dir, contents) # es) files =
     (if is_dir then load_entries es files
      else if \<not> is_safe_bundle_path name then Err (''invalid file path in bundle: '' @ name)
      else ok_then contents (\<lambda>buf. load_entries es (tree_put name buf files)))"

definition load_from_bytes :: "miniapp_env \<Rightarrow> bytes \<Rightarrow> MiniAppBundle result" where
  "load_from_bytes me data =
     ok_then (me_unzip me data) (\<lambda>zip.
     ok_then (load_entries zip []) (\<lambda>files.
     ok_then (ok_or ''missing mycelium-app.json'' (tree_get files ''mycelium-app.json'')) (\<lambda>manifest_bytes.
     ok_then (me_parse_manifest me manifest_bytes) (\<lambda>manifest.
     ok_then (manifest_validate manifest) (\<lambda>_.
     Ok \<lparr>b_manifest = manifest, b_files = files\<rparr>)))))"

definition b_get_file :: "MiniAppBundle \<Rightarrow> string \<Rightarrow> bytes option" where
  "b_get_file b path = tree_get (b_files b) path"

definition entry_html :: "MiniAppBundle \<Rightarrow> string result" where
  "entry_html b =
     ok_then (ok_or (''entry point not found: '' @ mf_entry (b_manifest b)) (b_get_file b (mf_entry (b_manifest b)))) (\<lambda>bs.
     if utf8_valid bs then Ok (string_of_bytes bs) else Err ''entry point is not valid UTF-8'')"

definition total_size :: "MiniAppBundle \<Rightarrow> nat" where
  "total_size b = sum_list (map (length \<circ> snd) (b_files b))"

section \<open>Static scan\<close>

definition html_has_inline_script :: "string \<Rightarrow> bool" where
  "html_has_inline_script html \<longleftrightarrow>
     (\<exists>chunk\<in>set (tl (split_str ''<script'' (to_lowercase html))).
        let trimmed = trim_start chunk in \<not> starts_with trimmed ''src='' \<and> \<not> starts_with trimmed ''src '')"

definition MAX_BUNDLE_FILES :: nat where "MAX_BUNDLE_FILES = 128"
definition MAX_COMPRESSION_RATIO :: nat where "MAX_COMPRESSION_RATIO = 32"
definition MIN_BYTES_FOR_RATIO_CHECK :: nat where "MIN_BYTES_FOR_RATIO_CHECK = 512 * 1024"

definition ALLOWED_EXTENSIONS :: "string list" where
  "ALLOWED_EXTENSIONS =
     [''html'', ''htm'', ''css'', ''js'', ''json'', ''png'', ''jpg'', ''jpeg'', ''gif'', ''svg'', ''webp'', ''ico'', ''txt'',
      ''woff'', ''woff2'', ''ttf'', ''eot'', ''map'', ''md'']"

definition validate_path_extension :: "string \<Rightarrow> unit result" where
  "validate_path_extension path =
     (let lower = to_lowercase path in
      if contains_str lower ''..'' then Err (''invalid path: '' @ path)
      else
        let ext = last (split_on (CHR ''.'') lower) in
        if ext = [] \<or> CHR ''/'' \<in> set ext then Err (''file without allowed extension: '' @ path)
        else if ext \<notin> set ALLOWED_EXTENSIONS
        then Err (''disallowed file type .'' @ ext @ '' in bundle ('' @ path @ '')'')
        else Ok ())"

definition bytes_start_with :: "bytes \<Rightarrow> bytes \<Rightarrow> bool" where
  "bytes_start_with b p \<longleftrightarrow> take (length p) b = p"

definition sniff_polyglot :: "string \<Rightarrow> bytes \<Rightarrow> unit result" where
  "sniff_polyglot path data =
     (if bytes_start_with data (bytes_of ''MZ'') then Err (''executable content detected in '' @ path)
      else if bytes_start_with data (bytes_of ''%PDF-'') then Err (''PDF content not allowed in bundle: '' @ path)
      else if bytes_start_with data (127 # bytes_of ''ELF'') then Err (''ELF binary not allowed in bundle: '' @ path)
      else Ok ())"

definition FORBIDDEN_SCHEMES :: "string list" where
  "FORBIDDEN_SCHEMES = [''javascript:'', ''vbscript:'', ''data:text/html'', ''file://'']"

definition FORBIDDEN_FILE_TOKENS :: "string list" where
  "FORBIDDEN_FILE_TOKENS =
     [CHR 0x22 # ''file:'', CHR 0x27 # ''file:'', ''(file:'', '' href='' @ CHR 0x22 # ''file:'', '' src='' @ CHR 0x22 # ''file:'']"

definition validate_html_content :: "string \<Rightarrow> string \<Rightarrow> unit result" where
  "validate_html_content html label =
     (let lower = to_lowercase html in
      case find (contains_str lower) FORBIDDEN_SCHEMES of
        Some needle \<Rightarrow> Err (label @ '' contains forbidden URL scheme ('' @ needle @ '')'')
      | None \<Rightarrow>
          if \<exists>t\<in>set FORBIDDEN_FILE_TOKENS. contains_str lower t
          then Err (label @ '' contains forbidden URL scheme (file:)'')
          else if contains_str lower ''<base'' then Err (label @ '' must not contain <base> (navigation escape risk)'')
          else if contains_str lower ''<meta'' \<and> contains_str lower ''http-equiv'' \<and> contains_str lower ''refresh''
          then Err (label @ '' must not use meta refresh'')
          else Ok ())"

definition validate_html_asset :: "string \<Rightarrow> bytes \<Rightarrow> unit result" where
  "validate_html_asset path data =
     (if utf8_valid data then validate_html_content (string_of_bytes data) path
      else Err (path @ '' is not valid UTF-8 HTML''))"

definition validate_entry_html :: "MiniAppManifest \<Rightarrow> MiniAppBundle \<Rightarrow> unit result" where
  "validate_entry_html m b =
     ok_then (ok_or (''entry point not found: '' @ mf_entry m) (b_get_file b (mf_entry m))) (\<lambda>bs.
     if \<not> utf8_valid bs then Err (''entry '' @ mf_entry m @ '' is not valid UTF-8'')
     else
       let html = string_of_bytes bs in
       ok_then (validate_html_content html (mf_entry m)) (\<lambda>_.
       if html_has_inline_script html
       then Err (''entry '' @ mf_entry m @ '' contains inline <script>; use external .js with nonce (SD-040)'')
       else Ok ()))"

definition scan_file :: "string \<times> bytes \<Rightarrow> unit result" where
  "scan_file f =
     (let (path, data) = f in
      if path = ''mycelium-app.json'' then Ok ()
      else
        ok_then (validate_path_extension path) (\<lambda>_.
        ok_then (sniff_polyglot path data) (\<lambda>_.
        if ends_with path ''.html'' \<or> ends_with path ''.htm'' then validate_html_asset path data else Ok ())))"

fun all_ok :: "('x \<Rightarrow> unit result) \<Rightarrow> 'x list \<Rightarrow> unit result" where
  "all_ok f [] = Ok ()"
| "all_ok f (x # xs) = ok_then (f x) (\<lambda>_. all_ok f xs)"

definition scan_bundle :: "MiniAppBundle \<Rightarrow> bytes \<Rightarrow> unit result" where
  "scan_bundle b archive =
     (if length (b_files b) > MAX_BUNDLE_FILES
      then Err (''bundle has '' @ dec (length (b_files b)) @ '' files (max 128)'')
      else
        let uncompressed = total_size b; compressed = max (length archive) 1 in
        if uncompressed \<ge> MIN_BYTES_FOR_RATIO_CHECK \<and> uncompressed > compressed * MAX_COMPRESSION_RATIO
        then Err (''bundle compression ratio suspicious ('' @ dec uncompressed @ '' bytes uncompressed vs '' @
                  dec compressed @ '' archive)'')
        else ok_then (all_ok scan_file (b_files b)) (\<lambda>_. validate_entry_html (b_manifest b) b))"

section \<open>Signature and attestation\<close>

definition BUNDLE_SIG_FILE :: string where "BUNDLE_SIG_FILE = ''mycelium-bundle.sig.json''"

fun read_entries :: "zip_entry list \<Rightarrow> (string \<times> bytes) list result" where
  "read_entries [] = Ok []"
| "read_entries ((name, is_dir, contents) # es) =
     (if name = BUNDLE_SIG_FILE then read_entries es
      else ok_then contents (\<lambda>buf. ok_then (read_entries es) (\<lambda>rest. Ok ((name, buf) # rest))))"

definition file_digest_input :: "string \<times> bytes \<Rightarrow> bytes" where
  "file_digest_input f = bytes_of (fst f) @ [0] @ le64 (of_nat (length (snd f))) @ snd f"

definition bundle_hash_for_signature :: "miniapp_env \<Rightarrow> bytes \<Rightarrow> string result" where
  "bundle_hash_for_signature me bundle_bytes =
     ok_then (me_unzip me bundle_bytes) (\<lambda>zip.
     ok_then (read_entries zip) (\<lambda>entries.
     Ok (to_hex (me_crypto me) (blake3 (me_crypto me) (concat (map file_digest_input (sort_key fst entries)))))))"

definition bs_sign :: "miniapp_env \<Rightarrow> bytes \<Rightarrow> keypair \<Rightarrow> BundleSignatureFile result" where
  "bs_sign me bundle_bytes kp =
     ok_then (bundle_hash_for_signature me bundle_bytes) (\<lambda>h.
     ok_then (map_err (\<lambda>e. ''ed25519 sign bundle hash: '' @ e) (kp_sign (me_crypto me) kp (bytes_of h))) (\<lambda>sig.
     Ok \<lparr>bs_bundle_hash = h, bs_signature = hex_encode (me_sealing me) sig\<rparr>))"

definition bs_verify :: "miniapp_env \<Rightarrow> BundleSignatureFile \<Rightarrow> bytes \<Rightarrow> MiniAppManifest \<Rightarrow> bool result" where
  "bs_verify me s bundle_bytes m =
     (if bs_signature s = [] then Ok False
      else case bundle_hash_for_signature me bundle_bytes of
        Inl _ \<Rightarrow> Ok False
      | Inr expected \<Rightarrow>
          if bs_bundle_hash s \<noteq> expected then Ok False
          else case mf_developer_peer_id m of
            None \<Rightarrow> Ok False
          | Some peer_id_str \<Rightarrow>
              (case peer_parse (me_crypto me) peer_id_str of
                 None \<Rightarrow> Err ''invalid developer_peer_id''
               | Some pid \<Rightarrow>
                   (case public_key_from_peer_id (me_crypto me) pid of
                      None \<Rightarrow> Ok False
                    | Some pk \<Rightarrow>
                        ok_then (hex_decode (me_sealing me) (trim (bs_signature s))) (\<lambda>sig.
                        Ok (pk_verify (me_crypto me) pk (bytes_of (bs_bundle_hash s)) sig)))))"

definition verify_bundle_developer_signature :: "miniapp_env \<Rightarrow> MiniAppBundle \<Rightarrow> bytes \<Rightarrow> bool result" where
  "verify_bundle_developer_signature me b bundle_bytes =
     (case b_get_file b BUNDLE_SIG_FILE of
        None \<Rightarrow> Ok False
      | Some sig_bytes \<Rightarrow>
          ok_then (me_parse_signature me sig_bytes) (\<lambda>s. bs_verify me s bundle_bytes (b_manifest b)))"

definition content_attestation_hash :: "miniapp_env \<Rightarrow> MiniAppBundle \<Rightarrow> string" where
  "content_attestation_hash me b =
     (let manifest_bytes = me_print_manifest me ((b_manifest b)\<lparr>mf_reproducible_build := None\<rparr>);
          rest = sort_key fst (filter (\<lambda>f. fst f \<noteq> ''mycelium-app.json'') (b_files b)) in
      to_hex (me_crypto me) (blake3 (me_crypto me)
        (bytes_of ''mycelium-miniapp-content-v1'' @ [0] @ le64 (of_nat (length manifest_bytes)) @ manifest_bytes @
         concat (map file_digest_input rest))))"

section \<open>Content-security policy\<close>

definition script_src_attr :: "string \<Rightarrow> string" where
  "script_src_attr nonce = CHR 0x27 # ''nonce-'' @ nonce @ [CHR 0x27]"

definition quoted :: "char \<Rightarrow> string \<Rightarrow> string" where "quoted q s = q # s @ [q]"

definition csp_meta_tag :: "string \<Rightarrow> string" where
  "csp_meta_tag nonce =
     (let none = quoted (CHR 0x27) ''none'' in
      ''<meta http-equiv='' @ quoted (CHR 0x22) ''Content-Security-Policy'' @ '' content='' @
      quoted (CHR 0x22) (''default-src '' @ none @ ''; script-src '' @ script_src_attr nonce @ ''; style-src '' @
        quoted (CHR 0x27) ''unsafe-inline'' @ ''; img-src data:; connect-src '' @ none @ ''; form-action '' @ none @
        ''; frame-src '' @ none @ ''; object-src '' @ none @ ''; base-uri '' @ none @ ''; wasm-unsafe-eval '' @ none @ '';'') @
      ''>'')"

section \<open>Lemmas\<close>

lemma all_ok_Ok: "all_ok f xs = Ok () \<longleftrightarrow> (\<forall>x\<in>set xs. f x = Ok ())"
  by (induction xs) (auto simp: ok_then_Ok)

lemma scan_bundle_Ok:
  "scan_bundle b archive = Ok () \<longleftrightarrow>
     length (b_files b) \<le> MAX_BUNDLE_FILES \<and>
     (total_size b < MIN_BYTES_FOR_RATIO_CHECK \<or> total_size b \<le> max (length archive) 1 * MAX_COMPRESSION_RATIO) \<and>
     (\<forall>f\<in>set (b_files b). scan_file f = Ok ()) \<and> validate_entry_html (b_manifest b) b = Ok ()"
  by (auto simp: scan_bundle_def Let_def ok_then_Ok all_ok_Ok)

text \<open>The signed bytes determine the files: names hold no zero byte and the length stands before the contents.\<close>

definition digestible :: "(string \<times> bytes) list \<Rightarrow> bool" where
  "digestible fs \<longleftrightarrow> (\<forall>(n, d)\<in>set fs. 0 \<notin> set (bytes_of n) \<and> length d < 2 ^ 64)"

lemma append_sep_inject:
  "z \<notin> set a \<Longrightarrow> z \<notin> set b \<Longrightarrow> a @ z # r = b @ z # r' \<longleftrightarrow> a = b \<and> r = r'"
proof (induction a arbitrary: b)
  case (Cons x a)
  then show ?case
    by (cases b) auto
next
  case Nil
  then show ?case
    by (cases b) auto
qed

lemma of_nat_u64_inject: "m < 2 ^ 64 \<Longrightarrow> n < 2 ^ 64 \<Longrightarrow> (of_nat m :: u64) = of_nat n \<longleftrightarrow> m = n"
  by (simp add: word_unat_eq_iff unat_of_nat)

lemma digest_input_inject:
  assumes "digestible fs" "digestible gs"
    "concat (map file_digest_input fs) = concat (map file_digest_input gs)"
  shows "fs = gs"
  using assms
proof (induction fs arbitrary: gs)
  case Nil
  then show ?case
    by (cases gs) (auto simp: file_digest_input_def)
next
  case (Cons f fs)
  then obtain g gs' where gs: "gs = g # gs'"
    by (cases gs) (auto simp: file_digest_input_def)
  let ?tail = "\<lambda>f fs. le64 (of_nat (length (snd f))) @ snd f @ concat (map file_digest_input fs)"
  have "bytes_of (fst f) @ 0 # ?tail f fs = bytes_of (fst g) @ 0 # ?tail g gs'"
    using Cons.prems(3) by (simp add: gs file_digest_input_def [of f] file_digest_input_def [of g])
  moreover have "0 \<notin> set (bytes_of (fst f))" "0 \<notin> set (bytes_of (fst g))"
    and len: "length (snd f) < 2 ^ 64" "length (snd g) < 2 ^ 64"
    using Cons.prems(1,2) by (auto simp: gs digestible_def)
  ultimately have name: "fst f = fst g" and rest: "?tail f fs = ?tail g gs'"
    by (auto simp: append_sep_inject)
  then have "length (snd f) = length (snd g)"
    using len by (simp add: append_eq_append_conv of_nat_u64_inject)
  with rest have "snd f = snd g" "concat (map file_digest_input fs) = concat (map file_digest_input gs')"
    by simp_all
  moreover have "digestible fs" "digestible gs'"
    using Cons.prems by (auto simp: gs digestible_def)
  ultimately have "fs = gs'"
    using Cons.IH [of gs'] by blast
  with name \<open>snd f = snd g\<close> show ?case
    by (simp add: gs prod_eq_iff)
qed

end
