(* ===== verification/Miniapp_Store.thy ===== *)
theory Miniapp_Store
  imports Miniapp_Bundle
begin

text \<open>
  The mini-app store (\<open>miniapp/store.rs\<close>), the trust decision at install time (\<open>install_policy.rs\<close>), the
  shipped listings (\<open>bundled_listings.rs\<close>) and the policy view of hosts (\<open>policy.rs\<close>).
\<close>

section \<open>Listings\<close>

definition ls_signable_bytes :: "miniapp_env \<Rightarrow> AppStoreListing \<Rightarrow> bytes" where
  "ls_signable_bytes me l =
     me_print_manifest me (ls_manifest l) @ bytes_of (ls_bundle_hash l) @ le64 (ls_published_at_ms l) @
     le64 (ls_updated_at_ms l) @ me_print_sources me (ls_sources l)"

definition bundle_hash_hex :: "miniapp_env \<Rightarrow> bytes \<Rightarrow> string" where
  "bundle_hash_hex me b = to_hex (me_crypto me) (blake3 (me_crypto me) b)"

definition ls_new_signed ::
  "miniapp_env \<Rightarrow> u64 \<Rightarrow> MiniAppManifest \<Rightarrow> bytes \<Rightarrow> AppSource list \<Rightarrow> keypair \<Rightarrow> AppStoreListing result" where
  "ls_new_signed me now m bundle_bytes sources kp =
     (let l = \<lparr>ls_manifest = m, ls_bundle_hash = bundle_hash_hex me bundle_bytes, ls_sources = sources,
               ls_published_at_ms = now, ls_updated_at_ms = now, ls_signature = []\<rparr> in
      ok_then (map_err (\<lambda>e. ''signing failed: '' @ e) (kp_sign (me_crypto me) kp (ls_signable_bytes me l))) (\<lambda>s.
      Ok (l\<lparr>ls_signature := s\<rparr>)))"

definition ls_verify_signature :: "miniapp_env \<Rightarrow> AppStoreListing \<Rightarrow> bool result" where
  "ls_verify_signature me l =
     (if ls_signature l = [] then Ok False
      else case mf_developer_peer_id (ls_manifest l) of
        None \<Rightarrow> Ok False
      | Some peer_id_str \<Rightarrow>
          (case peer_parse (me_crypto me) peer_id_str of
             None \<Rightarrow> Err ''invalid peer_id in manifest''
           | Some pid \<Rightarrow>
               (case public_key_from_peer_id (me_crypto me) pid of
                  None \<Rightarrow> Ok False
                | Some pk \<Rightarrow> Ok (pk_verify (me_crypto me) pk (ls_signable_bytes me l) (ls_signature l)))))"

section \<open>Store\<close>

definition install :: "miniapp_env \<Rightarrow> bytes \<Rightarrow> AppStore \<Rightarrow> MiniAppManifest result \<times> AppStore" where
  "install me bundle_bytes st =
     (case load_from_bytes me bundle_bytes of
        Inl e \<Rightarrow> (Err e, st)
      | Inr b \<Rightarrow>
          if total_size b > 10 * 1024 * 1024 then (Err ''app bundle exceeds 10 MB limit'', st)
          else
            let m = b_manifest b in
            (Ok m, st\<lparr>st_installed := tree_put (mf_id m) m (st_installed st),
                     st_files := (st_files st)(mf_id m :=
                       foldl (\<lambda>t (path, data). tree_put path data t) (st_files st (mf_id m)) (b_files b))\<rparr>))"

definition uninstall :: "string \<Rightarrow> AppStore \<Rightarrow> AppStore" where
  "uninstall app_id st =
     st\<lparr>st_installed := tree_del app_id (st_installed st), st_files := (st_files st)(app_id := [])\<rparr>"

definition installed_apps :: "AppStore \<Rightarrow> MiniAppManifest list" where
  "installed_apps st = map snd (tree_iter (st_installed st))"

definition get_file :: "AppStore \<Rightarrow> string \<Rightarrow> string \<Rightarrow> bytes option" where
  "get_file st app_id path = tree_get (st_files st app_id) path"

definition get_manifest :: "AppStore \<Rightarrow> string \<Rightarrow> MiniAppManifest option" where
  "get_manifest st app_id = tree_get (st_installed st) app_id"

definition cache_listing :: "AppStoreListing \<Rightarrow> AppStore \<Rightarrow> AppStore" where
  "cache_listing l st = st\<lparr>st_listings := tree_put (mf_id (ls_manifest l)) l (st_listings st)\<rparr>"

text \<open>\<open>sort_by_key\<close> with \<open>Reverse\<close> is stable and descending.\<close>

definition browse_listings :: "AppStore \<Rightarrow> AppStoreListing list" where
  "browse_listings st =
     sort_key (\<lambda>l. - int (unat (ls_updated_at_ms l))) (map snd (tree_iter (st_listings st)))"

definition find_listing :: "AppStore \<Rightarrow> string \<Rightarrow> AppStoreListing option" where
  "find_listing st app_id = find (\<lambda>l. mf_id (ls_manifest l) = app_id) (browse_listings st)"

section \<open>Installation\<close>

datatype InstallTrust = TrustVerifiedListing | TrustSideloadAcknowledged

record InstallPreview =
  pv_manifest :: MiniAppManifest
  pv_bundle_hash :: string
  pv_trust_level :: InstallTrustLevel
  pv_listing_signature_ok :: bool
  pv_installed_version :: "string option"
  pv_is_downgrade :: bool
  pv_has_inline_script :: bool
  pv_strict_csp_eligible :: bool
  pv_bundle_signature_ok :: bool
  pv_reproducible_attested :: bool

definition entry_has_inline_script :: "MiniAppManifest \<Rightarrow> MiniAppBundle \<Rightarrow> bool" where
  "entry_has_inline_script m b =
     (case b_get_file b (mf_entry m) of
        None \<Rightarrow> False
      | Some bs \<Rightarrow> utf8_valid bs \<and> html_has_inline_script (string_of_bytes bs))"

definition version_part :: "nat \<Rightarrow> string \<Rightarrow> u64" where
  "version_part i v =
     (let nums = split_on (CHR ''.'') v in
      if i < length nums then (case parse_u64 (nums ! i) of Some n \<Rightarrow> n | None \<Rightarrow> 0) else 0)"

definition is_downgrade :: "string \<Rightarrow> string \<Rightarrow> bool" where
  "is_downgrade installed incoming =
     (let p = (\<lambda>v. (version_part 0 v, version_part 1 v, version_part 2 v));
          (a1, a2, a3) = p incoming; (b1, b2, b3) = p installed in
      a1 < b1 \<or> (a1 = b1 \<and> (a2 < b2 \<or> (a2 = b2 \<and> a3 < b3))))"

definition listing_trust :: "miniapp_env \<Rightarrow> AppStoreListing option \<Rightarrow> string \<Rightarrow> InstallTrustLevel \<times> bool" where
  "listing_trust me listing hash =
     (case listing of
        None \<Rightarrow> (SideloadOnly, False)
      | Some l \<Rightarrow>
          if ls_bundle_hash l = hash
          then (let ok = (case ls_verify_signature me l of Inr b \<Rightarrow> b | Inl _ \<Rightarrow> False) in
                (if ok then VerifiedListing else MatchingListingHash, ok))
          else (HashMismatch, False))"

definition preview_install :: "miniapp_env \<Rightarrow> AppStore \<Rightarrow> bytes \<Rightarrow> InstallPreview result" where
  "preview_install me st bundle_bytes =
     ok_then (load_from_bytes me bundle_bytes) (\<lambda>b.
     ok_then (scan_bundle b bundle_bytes) (\<lambda>_.
     if is_revoked st (mf_id (b_manifest b)) then Err (''app id is revoked: '' @ mf_id (b_manifest b))
     else if total_size b > 10 * 1024 * 1024 then Err ''app bundle exceeds 10 MB limit''
     else
       let m = b_manifest b;
           hash = bundle_hash_hex me bundle_bytes;
           inline_script = entry_has_inline_script m b;
           installed = map_option mf_version (get_manifest st (mf_id m));
           (trust_level, sig_ok) = listing_trust me (find_listing st (mf_id m)) hash;
           downgrade = (case installed of Some v \<Rightarrow> is_downgrade v (mf_version m) | None \<Rightarrow> False);
           attested = reproducible_attests_hash m (content_attestation_hash me b) in
       ok_then (verify_bundle_developer_signature me b bundle_bytes) (\<lambda>bundle_sig.
       Ok \<lparr>pv_manifest = m, pv_bundle_hash = hash, pv_trust_level = trust_level, pv_listing_signature_ok = sig_ok,
           pv_installed_version = installed, pv_is_downgrade = downgrade, pv_has_inline_script = inline_script,
           pv_strict_csp_eligible = (\<not> inline_script), pv_bundle_signature_ok = bundle_sig,
           pv_reproducible_attested = attested\<rparr>)))"

fun check_trust :: "InstallTrust \<Rightarrow> InstallTrustLevel \<Rightarrow> InstallPreview \<Rightarrow> unit result" where
  "check_trust TrustVerifiedListing VerifiedListing pv = Ok ()"
| "check_trust TrustVerifiedListing MatchingListingHash pv =
     Err (''listing signature invalid for '' @ mf_id (pv_manifest pv) @ ''; install blocked in verified mode'')"
| "check_trust TrustVerifiedListing _ pv = Err ''bundle not verified against signed listing''"
| "check_trust TrustSideloadAcknowledged HashMismatch pv = Err ''bundle hash does not match cached store listing''"
| "check_trust TrustSideloadAcknowledged VerifiedListing pv = Ok ()"
| "check_trust TrustSideloadAcknowledged MatchingListingHash pv = Ok ()"
| "check_trust TrustSideloadAcknowledged SideloadOnly pv =
     (if pv_bundle_signature_ok pv then Ok ()
      else Err (''sideload requires valid '' @ BUNDLE_SIG_FILE @ '' signed by developer_peer_id (SD-041)''))"

definition check_downgrade :: "bool \<Rightarrow> InstallPreview \<Rightarrow> unit result" where
  "check_downgrade allow_downgrade pv =
     (if pv_is_downgrade pv \<and> \<not> allow_downgrade then
        (case pv_installed_version pv of
           Some v \<Rightarrow> Err (''downgrade blocked: installed v'' @ v @ '' > incoming v'' @ mf_version (pv_manifest pv))
         | None \<Rightarrow> Ok ())
      else Ok ())"

definition install_verified ::
  "miniapp_env \<Rightarrow> u64 \<Rightarrow> bytes \<Rightarrow> InstallTrust \<Rightarrow> bool \<Rightarrow> AppStore \<Rightarrow> MiniAppManifest result \<times> AppStore" where
  "install_verified me now bundle_bytes trust allow_downgrade st =
     (case ok_then (preview_install me st bundle_bytes) (\<lambda>pv.
             ok_then (check_trust trust (pv_trust_level pv) pv) (\<lambda>_.
             ok_then (check_downgrade allow_downgrade pv) (\<lambda>_. Ok pv))) of
        Inl e \<Rightarrow> (Err e, st)
      | Inr pv \<Rightarrow>
          and_then (install me bundle_bytes st) (\<lambda>m st.
          (Ok m, record_install_trust now (mf_id m) (pv_trust_level pv) st)))"

section \<open>Shipped listings\<close>

fun merge_listings :: "miniapp_env \<Rightarrow> AppStoreListing list \<Rightarrow> nat \<Rightarrow> AppStore \<Rightarrow> nat result \<times> AppStore" where
  "merge_listings me [] merged st = (Ok merged, st)"
| "merge_listings me (l # ls) merged st =
     (case ls_verify_signature me l of
        Inl e \<Rightarrow> (Err e, st)
      | Inr False \<Rightarrow> merge_listings me ls merged st
      | Inr True \<Rightarrow>
          (let existing = find_listing st (mf_id (ls_manifest l));
               should_write = (case existing of None \<Rightarrow> True | Some e \<Rightarrow> ls_updated_at_ms e \<le> ls_updated_at_ms l) in
           if should_write then merge_listings me ls (merged + 1) (cache_listing l st)
           else merge_listings me ls merged st))"

definition app_store_open :: "miniapp_env \<Rightarrow> string list \<Rightarrow> AppStoreListing list \<Rightarrow> u64 \<Rightarrow> AppStore \<Rightarrow> AppStore" where
  "app_store_open me bundled_revocations bundled_listings now disk =
     snd (merge_listings me bundled_listings 0 (snd (merge_bundled_defaults bundled_revocations now disk)))"

definition official_bundle_bytes :: "(string \<times> bytes) list \<Rightarrow> string \<Rightarrow> bytes option" where
  "official_bundle_bytes official app_id = map_option snd (find (\<lambda>b. fst b = app_id) official)"

definition install_official_bundle ::
  "miniapp_env \<Rightarrow> (string \<times> bytes) list \<Rightarrow> u64 \<Rightarrow> string \<Rightarrow> AppStore \<Rightarrow> MiniAppManifest result \<times> AppStore" where
  "install_official_bundle me official now app_id st =
     (case official_bundle_bytes official app_id of
        None \<Rightarrow> (Err (''no bundled bytes for '' @ app_id), st)
      | Some bs \<Rightarrow> install_verified me now bs TrustVerifiedListing False st)"

section \<open>Policy view\<close>

record MiniAppPolicy =
  pol_app_id :: string
  pol_reputation_score :: u8
  pol_safe_mode_active :: bool
  pol_safe_mode_forced :: bool
  pol_safe_mode_suggested :: bool
  pol_user_safe_mode :: bool
  pol_revoked :: bool
  pol_strict_csp_eligible :: bool

definition policy_load_with_store :: "AppStore \<Rightarrow> string \<Rightarrow> bool \<Rightarrow> MiniAppPolicy" where
  "policy_load_with_store st app_id with_store =
     (let score = rep_score (rep_load st app_id);
          user_safe = prefs_load st app_id;
          forced = forced_safe_mode score;
          suggested = suggest_safe_mode score;
          html = (if with_store
                  then Option.bind (get_manifest st app_id) (\<lambda>m.
                         Option.bind (get_file st app_id (mf_entry m)) (\<lambda>bs.
                         if utf8_valid bs then Some (string_of_bytes bs) else None))
                  else None) in
      \<lparr>pol_app_id = app_id, pol_reputation_score = score, pol_safe_mode_active = (user_safe \<or> forced),
       pol_safe_mode_forced = forced, pol_safe_mode_suggested = (suggested \<and> \<not> user_safe \<and> \<not> forced),
       pol_user_safe_mode = user_safe, pol_revoked = is_revoked st app_id,
       pol_strict_csp_eligible = (case html of Some h \<Rightarrow> \<not> html_has_inline_script h | None \<Rightarrow> False)\<rparr>)"

end
