(* ===== verification/App_Node.thy ===== *)
theory App_Node
  imports Proximity Miniapp_Store Coin_Node Node_State
begin

text \<open>
  The application node (\<open>mycelium-app/src/node.rs\<close>): what an incoming mesh message does to chats, contacts,
  bulletins, mail, coin, listings, revocations and proximity, and every operation a user or a mini-app calls.  The
  surroundings of one call are the record \<open>app_env\<close>: packages, clock, random values, the answers of the mesh node.  What the call asks
  of the mesh node, tells the notifier and publishes to subscribers is kept in lists, oldest first.
\<close>

section \<open>Messages\<close>

datatype AppId = AppChat | AppBulletin | AppMail | AppCoin | AppAppStore | AppMiniAppRevocation

datatype AppPayload =
    Chat ChatMessage
  | Bulletin BulletinPost
  | Mail MailMessage
  | Coin bytes
  | AppStoreListingP AppStoreListing
  | MiniAppRevocation RevocationGossip

record AppMessage =
  am_app_id :: AppId
  am_payload :: AppPayload

section \<open>State\<close>

datatype notice =
    OnChatReceived string string
  | OnMailReceived string string
  | OnBulletinPosted string string
  | OnContactRequest string string

record app_env =
  ap_crypto :: crypto
  ap_sealing :: sealing
  ap_json :: json_io
  ap_miniapp :: miniapp_env
  ap_coin :: coin_env
  ap_now :: u64
  ap_uuid :: string
  ap_random_key :: bytes
  ap_nonce :: bytes
  ap_ephemeral :: bytes
  ap_send :: "NodeCommand \<Rightarrow> unit result"
  ap_peer_x25519 :: "string \<Rightarrow> bytes option"
  ap_known_peers :: "string list"
  ap_local_enc_hex :: string
  ap_encode :: "AppMessage \<Rightarrow> bytes result"
  ap_decode :: "bytes \<Rightarrow> AppMessage result"
  ap_encode_wire :: "WireMessage \<Rightarrow> bytes result"
  ap_decode_wire :: "bytes \<Rightarrow> WireMessage result"
  ap_decode_coin :: "bytes \<Rightarrow> CoinPayload result"
  ap_encode_signal :: "PresenceSignal \<Rightarrow> bytes result"
  ap_decode_signal :: "bytes \<Rightarrow> PresenceSignal result"
  ap_encode_direct :: "ProximityDirectMessage \<Rightarrow> bytes result"
  ap_decode_direct :: "bytes \<Rightarrow> ProximityDirectMessage result"
  ap_encode_intent :: "ProximityMatchIntent \<Rightarrow> bytes result"
  ap_decode_intent :: "bytes \<Rightarrow> ProximityMatchIntent result"

record AppNode =
  an_local_peer_id :: string
  an_display_name :: string
  an_storage :: AppStorage
  an_coin :: "CoinNode option"
  an_app_store :: "AppStore option"
  an_enc_keypair :: EncryptionKeypair
  an_px_store :: ProximityStore
  an_px_matches :: ProximityMatchState
  an_px_inbox :: ProximityInbox
  an_px_active :: bool
  an_my_presence :: "PresenceSignal option"
  an_my_profile :: PresenceProfile
  an_commands :: "NodeCommand list"
  an_notices :: "notice list"
  an_chat_tx :: "(string \<times> ChatMessage) list"
  an_bulletin_tx :: "BulletinPost list"
  an_mail_tx :: "MailMessage list"
  an_appstore_tx :: "AppStoreListing list"

type_synonym 'a app_result = "'a result \<times> AppNode"

definition app_node_new ::
  "string \<Rightarrow> string \<Rightarrow> AppStorage \<Rightarrow> CoinNode option \<Rightarrow> AppStore option \<Rightarrow> EncryptionKeypair \<Rightarrow> AppNode" where
  "app_node_new peer name storage coin st kp =
     \<lparr>an_local_peer_id = peer, an_display_name = name, an_storage = storage, an_coin = coin, an_app_store = st,
      an_enc_keypair = kp, an_px_store = px_new, an_px_matches = match_default, an_px_inbox = pb_new,
      an_px_active = False, an_my_presence = None, an_my_profile = profile_default, an_commands = [], an_notices = [],
      an_chat_tx = [], an_bulletin_tx = [], an_mail_tx = [], an_appstore_tx = []\<rparr>"

text \<open>\<open>NodeHandle::send\<close>; a command that could not be sent is not recorded.\<close>

definition app_send :: "app_env \<Rightarrow> NodeCommand \<Rightarrow> AppNode \<Rightarrow> unit app_result" where
  "app_send env c n =
     (case ap_send env c of Inl e \<Rightarrow> (Err e, n) | Inr _ \<Rightarrow> (Ok (), n\<lparr>an_commands := an_commands n @ [c]\<rparr>))"

definition on_storage :: "(AppStorage \<Rightarrow> AppStorage) \<Rightarrow> AppNode \<Rightarrow> AppNode" where
  "on_storage f n = n\<lparr>an_storage := f (an_storage n)\<rparr>"

definition notify :: "notice \<Rightarrow> AppNode \<Rightarrow> AppNode" where
  "notify x n = n\<lparr>an_notices := an_notices n @ [x]\<rparr>"

text \<open>\<open>chars().take(k)\<close>: the bytes of the first \<open>k\<close> characters.\<close>

fun take_chars :: "nat \<Rightarrow> string \<Rightarrow> string" where
  "take_chars k [] = []"
| "take_chars k (c # cs) =
     (if cont_byte (of_nat (of_char c)) then c # take_chars k cs
      else case k of 0 \<Rightarrow> [] | Suc k \<Rightarrow> c # take_chars k cs)"

section \<open>Incoming\<close>

definition dispatch_group :: "app_env \<Rightarrow> DirectMessage \<Rightarrow> AppNode \<Rightarrow> AppNode" where
  "dispatch_group env msg n =
     (case ap_decode_wire env (payload (envelope msg)) of
        Inr (EncryptedGroup group_id enc) \<Rightarrow>
          (let sender = from_peer (envelope msg) in
           case group_by_id (an_storage n) group_id of
             None \<Rightarrow> n
           | Some g \<Rightarrow>
               (case ok_then (decrypt_group (ap_sealing env) enc (gr_key g)) (ap_decode env) of
                  Inr am \<Rightarrow>
                    (case am_payload am of
                       Chat m \<Rightarrow>
                         (let n = on_storage (save_group_chat group_id m) n;
                              n = on_storage (group_record_peer_seen group_id sender) n;
                              n = notify (OnChatReceived sender (take_chars 40 (cm_body m))) n in
                          n\<lparr>an_chat_tx := an_chat_tx n @ [(sender, m)]\<rparr>)
                     | _ \<Rightarrow> n)
                | Inl _ \<Rightarrow> n))
      | _ \<Rightarrow> n)"

definition handle_proximity_payload :: "app_env \<Rightarrow> bytes \<Rightarrow> AppNode \<Rightarrow> AppNode" where
  "handle_proximity_payload env pl n =
     (if \<not> an_px_active n then n
      else case ap_decode_direct env pl of
        Inr msg \<Rightarrow>
          if pd_target_enc_pubkey_hex msg \<noteq> ap_local_enc_hex env then n
          else if \<not> is_mutual (an_px_matches n) (pd_sender_enc_pubkey_hex msg) then n
          else (case decrypt_with (ap_sealing env) (pd_encrypted_payload msg) (an_enc_keypair n) of
                  Inr plain \<Rightarrow>
                    (let text = string_of_bytes (from_utf8_lossy plain);
                         n = n\<lparr>an_px_inbox := pb_push \<lparr>pr_from_enc_pubkey_hex = pd_sender_enc_pubkey_hex msg,
                                pr_body = text, pr_received_at_ms = ap_now env\<rparr> (an_px_inbox n)\<rparr> in
                     notify (OnChatReceived ''proximity'' text) n)
                | Inl _ \<Rightarrow> n)
      | Inl _ \<Rightarrow>
          (case ap_decode_signal env pl of
             Inr sig \<Rightarrow>
               if signal_is_expired (ap_now env) sig then n
               else if ps_enc_pubkey_hex sig = ap_local_enc_hex env then n
               else n\<lparr>an_px_store := px_insert sig (an_px_store n)\<rparr>
           | Inl _ \<Rightarrow>
               (case ap_decode_intent env pl of
                  Inr it \<Rightarrow>
                    if intent_is_expired (ap_now env) it then n
                    else if pi_from_enc_pubkey_hex it = ap_local_enc_hex env then n
                    else n\<lparr>an_px_matches := record_incoming (pi_from_enc_pubkey_hex it) (an_px_matches n)\<rparr>
                | Inl _ \<Rightarrow> n)))"

definition handle_bulletin_payload :: "app_env \<Rightarrow> bytes \<Rightarrow> string \<Rightarrow> AppStorage \<Rightarrow> BulletinPost option result" where
  "handle_bulletin_payload env raw scope s =
     (let plain = ok_then (ap_decode env raw) (\<lambda>am. Ok (case am_payload am of Bulletin p \<Rightarrow> Some p | _ \<Rightarrow> None)) in
      if take 5 raw = bytes_of ''enc1:'' then
        (case get_scope_key s scope of
           None \<Rightarrow> Ok None
         | Some sk \<Rightarrow>
             (case decrypt_group (ap_sealing env) (drop 5 raw) (sk_key sk) of
                Inl _ \<Rightarrow> Ok None
              | Inr plaintext \<Rightarrow>
                  ok_then (ap_decode env plaintext) (\<lambda>am.
                  case am_payload am of Bulletin p \<Rightarrow> Ok (Some p) | _ \<Rightarrow> plain)))
      else plain)"

definition store_bulletin :: "BulletinPost \<Rightarrow> AppNode \<Rightarrow> AppNode" where
  "store_bulletin p n =
     (let n = on_storage (save_bulletin p) n; n = notify (OnBulletinPosted (bp_scope p) (bp_title p)) n in
      n\<lparr>an_bulletin_tx := an_bulletin_tx n @ [p]\<rparr>)"

definition dispatch_chat :: "app_env \<Rightarrow> string \<Rightarrow> ChatMessage \<Rightarrow> AppNode \<Rightarrow> AppNode" where
  "dispatch_chat env peer m n =
     (if peer = an_local_peer_id n then n
      else
        let (accepted, n) =
          (case contact_by_id (an_storage n) peer of
             Some c \<Rightarrow>
               (if ct_status c = ContactAccepted then (True, n)
                else (False, notify (OnContactRequest peer (ct_display_name c)) n))
           | None \<Rightarrow>
               (let name = (if cm_from_display_name m = [] then take_chars 12 peer else cm_from_display_name m);
                    n = on_storage (\<lambda>s. snd (upsert_contact (ap_now env) peer name ContactPending s)) n in
                (False, notify (OnContactRequest peer name) n)));
          n = on_storage (save_chat peer m) n in
        if accepted then
          (let n = notify (OnChatReceived peer (take_chars 40 (cm_body m))) n in
           n\<lparr>an_chat_tx := an_chat_tx n @ [(peer, m)]\<rparr>)
        else n)"

definition dispatch_coin :: "app_env \<Rightarrow> string \<Rightarrow> bytes \<Rightarrow> AppNode \<Rightarrow> AppNode" where
  "dispatch_coin env sender inner n =
     (case an_coin n of
        None \<Rightarrow> n
      | Some c \<Rightarrow>
          (case ap_decode_coin env inner of
             Inr p \<Rightarrow> n\<lparr>an_coin := Some (snd (coin_handle_incoming (ap_coin env) p sender c))\<rparr>
           | Inl _ \<Rightarrow> n))"

definition dispatch_listing :: "app_env \<Rightarrow> AppStoreListing \<Rightarrow> AppNode \<Rightarrow> AppNode" where
  "dispatch_listing env l n =
     (case ls_verify_signature (ap_miniapp env) l of
        Inr True \<Rightarrow>
          (case an_app_store n of
             None \<Rightarrow> n
           | Some st \<Rightarrow> n\<lparr>an_app_store := Some (cache_listing l st), an_appstore_tx := an_appstore_tx n @ [l]\<rparr>)
      | _ \<Rightarrow> n)"

definition dispatch_revocation :: "app_env \<Rightarrow> RevocationGossip \<Rightarrow> AppNode \<Rightarrow> AppNode" where
  "dispatch_revocation env e n =
     (case an_app_store n of
        None \<Rightarrow> n
      | Some st \<Rightarrow> n\<lparr>an_app_store := Some (snd (ingest_gossip_revocation (ap_crypto env) (ap_now env) e st))\<rparr>)"

definition dispatch_incoming :: "app_env \<Rightarrow> DirectMessage \<Rightarrow> AppNode \<Rightarrow> AppNode" where
  "dispatch_incoming env msg n =
     (if body msg = ''[mycelium:group]'' then dispatch_group env msg n
      else if body msg = ''[proximity]'' then handle_proximity_payload env (payload (envelope msg)) n
      else case Option.bind (strip_prefix ''[bulletin:'' (body msg)) (strip_suffix '']'') of
        Some scope \<Rightarrow>
          (case handle_bulletin_payload env (payload (envelope msg)) scope (an_storage n) of
             Inr (Some p) \<Rightarrow> store_bulletin p n
           | _ \<Rightarrow> n)
      | None \<Rightarrow>
          (case ap_decode env (payload (envelope msg)) of
             Inl _ \<Rightarrow> n
           | Inr am \<Rightarrow>
               (case am_payload am of
                  Chat m \<Rightarrow> dispatch_chat env (from_peer (envelope msg)) m n
                | Bulletin p \<Rightarrow> store_bulletin p n
                | Mail m \<Rightarrow>
                    (let n = on_storage (save_mail_inbox m) n;
                         n = notify (OnMailReceived (mm_from_display_name m) (mm_subject m)) n in
                     n\<lparr>an_mail_tx := an_mail_tx n @ [m]\<rparr>)
                | Coin inner \<Rightarrow> dispatch_coin env (from_peer (envelope msg)) inner n
                | MiniAppRevocation e \<Rightarrow> dispatch_revocation env e n
                | AppStoreListingP l \<Rightarrow> dispatch_listing env l n)))"

section \<open>Contacts\<close>

definition ensure_contact_accepted_for_send :: "app_env \<Rightarrow> string \<Rightarrow> string \<Rightarrow> AppNode \<Rightarrow> AppNode" where
  "ensure_contact_accepted_for_send env peer_id shown n =
     (let name = (if shown = []
                  then (case contact_by_id (an_storage n) peer_id of
                          Some c \<Rightarrow> ct_display_name c | None \<Rightarrow> take_chars 12 peer_id)
                  else shown) in
      on_storage (\<lambda>s. snd (upsert_contact (ap_now env) peer_id name ContactAccepted s)) n)"

definition list_contacts :: "AppNode \<Rightarrow> Contact list" where
  "list_contacts n = all_contacts (an_storage n)"

definition list_accepted_contacts :: "AppNode \<Rightarrow> Contact list" where
  "list_accepted_contacts n = contacts_with_status (an_storage n) ContactAccepted"

definition list_pending_contacts :: "AppNode \<Rightarrow> Contact list" where
  "list_pending_contacts n = contacts_with_status (an_storage n) ContactPending"

definition add_contact :: "app_env \<Rightarrow> string \<Rightarrow> string \<Rightarrow> bool \<Rightarrow> AppNode \<Rightarrow> Contact \<times> AppNode" where
  "add_contact env peer_id shown accepted n =
     (let name = (if shown = [] then peer_id else shown);
          (c, s) = upsert_contact (ap_now env) peer_id name (if accepted then ContactAccepted else ContactPending) (an_storage n) in
      (c, n\<lparr>an_storage := s\<rparr>))"

definition accept_contact :: "app_env \<Rightarrow> string \<Rightarrow> AppNode \<Rightarrow> Contact \<times> AppNode" where
  "accept_contact env peer_id n =
     (let name = (case contact_by_id (an_storage n) peer_id of Some c \<Rightarrow> ct_display_name c | None \<Rightarrow> peer_id);
          (c, s) = upsert_contact (ap_now env) peer_id name ContactAccepted (an_storage n) in
      (c, n\<lparr>an_storage := s\<rparr>))"

definition reject_contact :: "string \<Rightarrow> AppNode \<Rightarrow> AppNode" where
  "reject_contact peer_id n = on_storage (delete_contact peer_id) n"

definition remove_contact :: "string \<Rightarrow> AppNode \<Rightarrow> AppNode" where
  "remove_contact peer_id n = on_storage (delete_contact peer_id) n"

section \<open>Sending\<close>

datatype ChatSendResult = SentEncrypted | SentPlaintext

definition enc_key_not_yet_exchanged_err :: string where
  "enc_key_not_yet_exchanged_err =
     ''enc_key_not_yet_exchanged: message not sent. Connect to the peer first and wait for key exchange.''"

definition new_chat :: "app_env \<Rightarrow> string \<Rightarrow> AppNode \<Rightarrow> ChatMessage" where
  "new_chat env text n =
     \<lparr>cm_id = ap_uuid env, cm_from_display_name = an_display_name n, cm_body = text,
      cm_timestamp_ms = ap_now env, cm_reply_to = None\<rparr>"

definition chat_bytes :: "app_env \<Rightarrow> ChatMessage \<Rightarrow> bytes result" where
  "chat_bytes env m = ap_encode env \<lparr>am_app_id = AppChat, am_payload = Chat m\<rparr>"

definition with_result :: "'a result \<Rightarrow> AppNode \<Rightarrow> 'a app_result" where
  "with_result r n = (r, n)"

definition broadcast_chat :: "app_env \<Rightarrow> string \<Rightarrow> string \<Rightarrow> AppNode \<Rightarrow> unit app_result" where
  "broadcast_chat env scope text n =
     and_then (with_result (chat_bytes env (new_chat env text n)) n) (\<lambda>pl.
     app_send env (CmdBroadcastPayload scope text pl))"

text \<open>\<open>None\<close> of \<open>wrap_inner\<close> is a panic, here an error of its own.\<close>

definition send_chat_encrypted :: "app_env \<Rightarrow> string \<Rightarrow> string \<Rightarrow> AppNode \<Rightarrow> unit app_result" where
  "send_chat_encrypted env to text n =
     (let n = ensure_contact_accepted_for_send env to [] n; chat = new_chat env text n in
      and_then (with_result (chat_bytes env chat) n) (\<lambda>plaintext n.
      and_then (with_result (ok_or ''author peer id too long for E2E wrap'' (wrap_inner (an_local_peer_id n) plaintext)) n) (\<lambda>wrapped n.
      case ap_peer_x25519 env to of
        None \<Rightarrow> (Err enc_key_not_yet_exchanged_err, n)
      | Some pk \<Rightarrow>
          and_then (with_result (encrypt_for (ap_sealing env) (ap_ephemeral env) (ap_nonce env) wrapped pk) n) (\<lambda>enc n.
          and_then (app_send env (CmdSendWire to (EncryptedDirect to (ap_local_enc_hex env) enc None 0 8)) n) (\<lambda>_ n.
          (Ok (), on_storage (save_chat to chat) n))))))"

definition send_chat :: "app_env \<Rightarrow> string option \<Rightarrow> string \<Rightarrow> AppNode \<Rightarrow> ChatSendResult app_result" where
  "send_chat env target text n =
     (case target of
        None \<Rightarrow> and_then (broadcast_chat env ''mycelium/chat'' text n) (\<lambda>_ n. (Ok SentPlaintext, n))
      | Some to \<Rightarrow>
          (let n = ensure_contact_accepted_for_send env to [] n in
           if ap_peer_x25519 env to \<noteq> None
           then and_then (send_chat_encrypted env to text n) (\<lambda>_ n. (Ok SentEncrypted, n))
           else (Err enc_key_not_yet_exchanged_err, n)))"

definition send_group_message :: "app_env \<Rightarrow> Group \<Rightarrow> string \<Rightarrow> AppNode \<Rightarrow> unit app_result" where
  "send_group_message env g text n =
     (let n = on_storage (group_record_peer_seen (gr_id g) (an_local_peer_id n)) n;
          chat = new_chat env text n;
          n = on_storage (save_group_chat (gr_id g) chat) n in
      and_then (with_result (chat_bytes env chat) n) (\<lambda>plaintext n.
      and_then (with_result (encrypt_group (ap_sealing env) (ap_nonce env) plaintext (gr_key g)) n) (\<lambda>enc n.
      and_then (with_result (ap_encode_wire env (EncryptedGroup (gr_id g) enc)) n) (\<lambda>pl n.
      let n = snd (app_send env (CmdSubscribeScope ''mycelium/group/*'') n) in
      app_send env (CmdBroadcastPayload (''mycelium/group/'' @ gr_id g) ''[group message]'' pl) n))))"

text \<open>The expiry is computed with wrapping arithmetic, as in a release build; a debug build panics instead.\<close>

definition post_bulletin :: "app_env \<Rightarrow> string \<Rightarrow> string \<Rightarrow> string \<Rightarrow> u64 \<Rightarrow> AppNode \<Rightarrow> unit app_result" where
  "post_bulletin env scope title text ttl n =
     (let n = snd (app_send env (CmdSubscribeBulletinScope scope) n);
          post = \<lparr>bp_id = ap_uuid env, bp_from_display_name = an_display_name n, bp_title = title, bp_body = text,
                  bp_scope = scope, bp_timestamp_ms = ap_now env, bp_expires_at_ms = ap_now env + ttl * 1000\<rparr>;
          n = on_storage (save_bulletin post) n in
      and_then (with_result (ap_encode env \<lparr>am_app_id = AppBulletin, am_payload = Bulletin post\<rparr>) n) (\<lambda>plaintext n.
      and_then (with_result
          (case get_scope_key (an_storage n) scope of
             Some sk \<Rightarrow> ok_then (encrypt_group (ap_sealing env) (ap_nonce env) plaintext (sk_key sk)) (\<lambda>c.
                          Ok (bytes_of ''enc1:'' @ c))
           | None \<Rightarrow> Ok plaintext) n) (\<lambda>pl.
      app_send env (CmdBroadcastPayload scope (''[bulletin:'' @ scope @ '']'') pl))))"

definition send_mail :: "app_env \<Rightarrow> string \<Rightarrow> string \<Rightarrow> string \<Rightarrow> Attachment list \<Rightarrow> AppNode \<Rightarrow> unit app_result" where
  "send_mail env to subject text atts n =
     (let mail = \<lparr>mm_id = ap_uuid env, mm_from_peer = an_local_peer_id n, mm_from_display_name = an_display_name n,
                  mm_to_peer = to, mm_subject = subject, mm_body = text, mm_timestamp_ms = ap_now env, mm_attachments = atts\<rparr>;
          n = on_storage (save_mail_sent mail) n in
      and_then (with_result (ap_encode env \<lparr>am_app_id = AppMail, am_payload = Mail mail\<rparr>) n) (\<lambda>pl.
      app_send env (CmdSendDirectPayload to (''mail:'' @ subject) pl)))"

definition set_display_name :: "string \<Rightarrow> AppNode \<Rightarrow> AppNode" where
  "set_display_name name n = n\<lparr>an_display_name := name\<rparr>"

section \<open>Scope keys\<close>

definition create_scope_key :: "app_env \<Rightarrow> string \<Rightarrow> string \<Rightarrow> AppNode \<Rightarrow> ScopeKey \<times> AppNode" where
  "create_scope_key env scope shown n =
     (let sk = scope_key_new (ap_now env) (ap_random_key env) scope shown;
          n = on_storage (save_scope_key sk) n in
      (sk, snd (app_send env (CmdSubscribeBulletinScope scope) n)))"

definition add_scope_key_from_invite :: "app_env \<Rightarrow> string \<Rightarrow> AppNode \<Rightarrow> ScopeKey app_result" where
  "add_scope_key_from_invite env text n =
     and_then (with_result (scope_key_from_invite (ap_json env) (ap_sealing env) (ap_now env) text) n) (\<lambda>sk n.
     let n = on_storage (save_scope_key sk) n in
     (Ok sk, snd (app_send env (CmdSubscribeBulletinScope (sk_scope sk)) n)))"

definition export_scope_key :: "app_env \<Rightarrow> string \<Rightarrow> AppNode \<Rightarrow> string result" where
  "export_scope_key env scope n =
     ok_then (ok_or ''scope key not found'' (get_scope_key (an_storage n) scope)) (\<lambda>sk.
     Ok (scope_key_export_invite (ap_json env) (ap_sealing env) sk))"

definition app_delete_scope_key :: "app_env \<Rightarrow> string \<Rightarrow> AppNode \<Rightarrow> AppNode" where
  "app_delete_scope_key env scope n =
     snd (app_send env (CmdUnsubscribeBulletinScope scope) (on_storage (delete_scope_key scope) n))"

definition scope_is_encrypted :: "AppNode \<Rightarrow> string \<Rightarrow> bool" where
  "scope_is_encrypted n scope \<longleftrightarrow> get_scope_key (an_storage n) scope \<noteq> None"

section \<open>Proximity\<close>

definition broadcast_presence :: "app_env \<Rightarrow> bytes \<Rightarrow> AppNode \<Rightarrow> unit app_result" where
  "broadcast_presence env pl = app_send env (CmdBroadcastPayload PROXIMITY_SCOPE ''[proximity]'' pl)"

definition start_proximity :: "app_env \<Rightarrow> PresenceProfile \<Rightarrow> u32 \<Rightarrow> AppNode \<Rightarrow> unit app_result" where
  "start_proximity env profile ttl n =
     and_then (with_result (profile_validate profile) n) (\<lambda>_ n.
     let sig = signal_new (ap_now env) (ap_uuid env) (ap_local_enc_hex env) profile ttl in
     and_then (with_result (ap_encode_signal env sig) n) (\<lambda>pl n.
     let n = n\<lparr>an_my_presence := Some sig, an_my_profile := profile, an_px_active := True\<rparr> in
     and_then (app_send env (CmdSubscribeScope PROXIMITY_SCOPE) n) (\<lambda>_.
     broadcast_presence env pl)))"

text \<open>One round of the task started by \<open>start_proximity\<close>, after its sleep of a minute.\<close>

definition refresh_presence :: "app_env \<Rightarrow> AppNode \<Rightarrow> AppNode" where
  "refresh_presence env n =
     (if \<not> an_px_active n then n
      else
        let ttl = (case an_my_presence n of Some p \<Rightarrow> ps_ttl_secs p | None \<Rightarrow> 300);
            refreshed = signal_new (ap_now env) (ap_uuid env) (ap_local_enc_hex env) (an_my_profile n) ttl in
        case ap_encode_signal env refreshed of
          Inl _ \<Rightarrow> n
        | Inr pl \<Rightarrow> snd (broadcast_presence env pl (n\<lparr>an_my_presence := Some refreshed\<rparr>)))"

definition stop_proximity :: "app_env \<Rightarrow> AppNode \<Rightarrow> AppNode" where
  "stop_proximity env n =
     (let n = n\<lparr>an_px_active := False, an_my_presence := None, an_px_store := px_clear (an_px_store n),
                an_px_matches := match_default, an_px_inbox := pb_clear (an_px_inbox n)\<rparr> in
      snd (app_send env (CmdUnsubscribeScope PROXIMITY_SCOPE) n))"

definition nearby_profiles :: "app_env \<Rightarrow> AppNode \<Rightarrow> ProximityNearbyEntry list \<times> AppNode" where
  "nearby_profiles env n =
     (let px = snd (px_prune (ap_now env) (an_px_store n)); m = an_px_matches n;
          scored = map (\<lambda>s. let h = ps_enc_pubkey_hex s in
             (fst (match_score (pp_interests (an_my_profile n)) s),
              \<lparr>ne_signal = s, ne_interest_sent = interest_sent m h, ne_interest_received = interest_received m h,
               ne_is_mutual = is_mutual m h\<rparr>)) (active_signals (ap_now env) px) in
      (map snd (sort_key (\<lambda>x. - int (unat (fst x))) scored), n\<lparr>an_px_store := px\<rparr>))"

definition express_proximity_interest :: "app_env \<Rightarrow> string \<Rightarrow> AppNode \<Rightarrow> bool app_result" where
  "express_proximity_interest env h n =
     (if h \<notin> set (map ps_enc_pubkey_hex (active_signals (ap_now env) (an_px_store n)))
      then (Err ''profile not currently nearby'', n)
      else
        let n = n\<lparr>an_px_matches := record_outgoing h (an_px_matches n)\<rparr> in
        and_then (with_result (ap_encode_intent env (intent_new (ap_now env) (ap_local_enc_hex env))) n) (\<lambda>pl n.
        and_then (app_send env (CmdBroadcastPayload PROXIMITY_SCOPE ''[proximity]'' pl) n) (\<lambda>_ n.
        (Ok (is_mutual (an_px_matches n) h), n))))"

definition proximity_messages :: "u64 \<Rightarrow> AppNode \<Rightarrow> ProximityReceivedMessage list" where
  "proximity_messages since_ms n =
     (if since_ms = 0 then pb_all (an_px_inbox n) else pb_since (an_px_inbox n) since_ms)"

definition send_proximity_message :: "app_env \<Rightarrow> string \<Rightarrow> string \<Rightarrow> AppNode \<Rightarrow> unit app_result" where
  "send_proximity_message env h text n =
     (if \<not> is_mutual (an_px_matches n) h then (Err ''mutual match required before messaging'', n)
      else
        and_then (with_result (parse_x25519_public_hex (ap_sealing env) h) n) (\<lambda>recipient n.
        and_then (with_result (encrypt_for (ap_sealing env) (ap_ephemeral env) (ap_nonce env) (bytes_of text) recipient) n) (\<lambda>enc n.
        and_then (with_result (ap_encode_direct env \<lparr>pd_target_enc_pubkey_hex = h, pd_sender_enc_pubkey_hex = ap_local_enc_hex env,
            pd_encrypted_payload = enc, pd_created_at_ms = ap_now env\<rparr>) n) (\<lambda>pl.
        app_send env (CmdBroadcastPayload PROXIMITY_SCOPE ''[proximity]'' pl)))))"

section \<open>Publishing\<close>

definition publish_app_listing :: "app_env \<Rightarrow> AppStoreListing \<Rightarrow> AppNode \<Rightarrow> unit app_result" where
  "publish_app_listing env l n =
     and_then (with_result (ls_verify_signature (ap_miniapp env) l) n) (\<lambda>valid n.
     if \<not> valid
     then (Err (''listing has invalid signature '' @ EN_DASH @ '' sign with developer key first''), n)
     else
       and_then (with_result (ap_encode env \<lparr>am_app_id = AppAppStore, am_payload = AppStoreListingP l\<rparr>) n) (\<lambda>pl.
       app_send env (CmdBroadcastPayload ''mycelium/appstore/v1'' (''[app:'' @ mf_id (ls_manifest l) @ '']'') pl)))"

definition publish_app_revocation :: "app_env \<Rightarrow> RevocationGossip \<Rightarrow> AppNode \<Rightarrow> unit app_result" where
  "publish_app_revocation env e n =
     and_then (with_result (rg_verify_signature (ap_crypto env) e) n) (\<lambda>valid n.
     if \<not> valid then (Err ''revocation has invalid signature'', n)
     else
       and_then (with_result (ap_encode env \<lparr>am_app_id = AppMiniAppRevocation, am_payload = MiniAppRevocation e\<rparr>) n) (\<lambda>pl n.
       and_then (app_send env (CmdBroadcastPayload ''mycelium/appstore/revocations/v1'' (''[revoke:'' @ rg_app_id e @ '']'') pl) n)
         (\<lambda>_ n. (Ok (), dispatch_revocation env e n))))"

end
