(* ===== verification/Bridge.thy ===== *)
theory Bridge
  imports App_Node Payment
begin

text \<open>
  The bridge between mini-apps and the host: session tokens (\<open>miniapp/bridge_session.rs\<close>), call limits
  (\<open>bridge_limits.rs\<close>), capability tokens (\<open>capability_token.rs\<close>), storage quotas (\<open>storage_quota.rs\<close>), the
  dispatcher (\<open>bridge_host.rs\<close>) and the command of the desktop host that calls it.  The packages (\<open>hmac\<close>, \<open>base64\<close>, percent
  encoding) are parameters.  The tables of sessions and counters, static variables of the code, are part of the state; they
  share the node, its storage and its mini-app store.
\<close>

section \<open>State\<close>

record bridge_env =
  be_app :: app_env
  be_hmac :: "bytes \<Rightarrow> bytes \<Rightarrow> bytes"  \<comment> \<open>key, message\<close>
  be_b64_encode :: "bytes \<Rightarrow> string"
  be_b64_decode :: "string \<Rightarrow> bytes option"
  be_url_encode :: "string \<Rightarrow> string"

abbreviation be_now :: "bridge_env \<Rightarrow> u64" where "be_now env \<equiv> ap_now (be_app env)"
abbreviation be_sealing :: "bridge_env \<Rightarrow> sealing" where "be_sealing env \<equiv> ap_sealing (be_app env)"

record Session =
  se_token :: string
  se_issued_at_ms :: u64

record bridge =
  br_sessions :: "string \<Rightarrow> Session option"
  br_calls :: "string \<Rightarrow> (u64 \<times> u32) option"
  br_broadcasts :: "string \<Rightarrow> (u64 \<times> u32) option"
  br_node :: AppNode

definition host_store :: "bridge \<Rightarrow> AppStore" where
  "host_store b =
     (case an_app_store (br_node b) of Some st \<Rightarrow> st
      | None \<Rightarrow> \<lparr>st_installed = [], st_listings = [], st_files = \<lambda>_. [], st_reputation = [], st_prefs = [], st_revocations = None\<rparr>)"

definition set_host_store :: "AppStore \<Rightarrow> bridge \<Rightarrow> bridge" where
  "set_host_store st b = b\<lparr>br_node := (br_node b)\<lparr>an_app_store := Some st\<rparr>\<rparr>"

abbreviation host_storage :: "bridge \<Rightarrow> AppStorage" where "host_storage b \<equiv> an_storage (br_node b)"

definition set_host_storage :: "AppStorage \<Rightarrow> bridge \<Rightarrow> bridge" where
  "set_host_storage s b = b\<lparr>br_node := (br_node b)\<lparr>an_storage := s\<rparr>\<rparr>"

section \<open>Sessions\<close>

definition SESSION_TTL_MS :: u64 where "SESSION_TTL_MS = 3600000"

definition issue_session :: "u64 \<Rightarrow> string \<Rightarrow> string \<Rightarrow> bridge \<Rightarrow> string \<times> bridge" where
  "issue_session now uuid app_id b =
     (uuid, b\<lparr>br_sessions := (br_sessions b)(app_id \<mapsto> \<lparr>se_token = uuid, se_issued_at_ms = now\<rparr>)\<rparr>)"

definition revoke_session :: "string \<Rightarrow> bridge \<Rightarrow> bridge" where
  "revoke_session app_id b = b\<lparr>br_sessions := (br_sessions b)(app_id := None)\<rparr>"

definition validate_session :: "u64 \<Rightarrow> bridge \<Rightarrow> string \<Rightarrow> string \<Rightarrow> unit result" where
  "validate_session now b app_id token =
     (case br_sessions b app_id of
        None \<Rightarrow> Err ''bridge session expired or not issued''
      | Some se \<Rightarrow>
          if se_token se \<noteq> token then Err ''invalid bridge session token''
          else if sat_sub now (se_issued_at_ms se) > SESSION_TTL_MS then Err ''bridge session expired''
          else Ok ())"

section \<open>Call limits\<close>

text \<open>The counter both limiters keep: the start of the window and the calls in it.\<close>

definition call_window :: "u64 \<Rightarrow> u64 \<Rightarrow> (u64 \<times> u32) option \<Rightarrow> u64 \<times> u32" where
  "call_window window now entry =
     (let e = (case entry of Some e \<Rightarrow> e | None \<Rightarrow> (now, 0)) in
      if sat_sub now (fst e) > window then (now, 0) else e)"

definition WINDOW_MS :: u64 where "WINDOW_MS = 60000"
definition MAX_CALLS_PER_MINUTE :: u32 where "MAX_CALLS_PER_MINUTE = 120"

definition check_bridge_rate :: "u64 \<Rightarrow> string \<Rightarrow> bridge \<Rightarrow> unit result \<times> bridge" where
  "check_bridge_rate now app_id b =
     (let (t, n) = call_window WINDOW_MS now (br_calls b app_id) in
      if n \<ge> MAX_CALLS_PER_MINUTE
      then (Err ''bridge rate limit exceeded (120/min)'', b\<lparr>br_calls := (br_calls b)(app_id \<mapsto> (t, n))\<rparr>)
      else (Ok (), b\<lparr>br_calls := (br_calls b)(app_id \<mapsto> (t, n + 1))\<rparr>))"

definition BROADCAST_MAX_PER_HOUR :: u32 where "BROADCAST_MAX_PER_HOUR = 10"
definition BROADCAST_WINDOW_MS :: u64 where "BROADCAST_WINDOW_MS = 3600000"

definition check_broadcast_rate :: "u64 \<Rightarrow> string \<Rightarrow> bridge \<Rightarrow> unit result \<times> bridge" where
  "check_broadcast_rate now app_id b =
     (let (t, n) = call_window BROADCAST_WINDOW_MS now (br_broadcasts b app_id) in
      if n \<ge> BROADCAST_MAX_PER_HOUR
      then (Err ''broadcast rate limit exceeded (10/hour)'', b\<lparr>br_broadcasts := (br_broadcasts b)(app_id \<mapsto> (t, n))\<rparr>)
      else (Ok (), b\<lparr>br_broadcasts := (br_broadcasts b)(app_id \<mapsto> (t, n + 1))\<rparr>))"

section \<open>Capability tokens\<close>

definition CAP_VERSION :: u8 where "CAP_VERSION = 1"
definition DEFAULT_CAP_TTL_MS :: u64 where "DEFAULT_CAP_TTL_MS = 900000"

definition mac_key_from_db_path :: "sealing \<Rightarrow> string \<Rightarrow> bytes" where
  "mac_key_from_db_path sl path = derive_key sl ''mycelium-miniapp-cap-v1'' (bytes_of path)"

fun permission_name :: "Permission \<Rightarrow> string" where
  "permission_name Messaging = ''Messaging''"
| "permission_name MessagingBroadcast = ''MessagingBroadcast''"
| "permission_name Identity = ''Identity''"
| "permission_name Payments = ''Payments''"
| "permission_name Storage = ''Storage''"
| "permission_name BulletinRead = ''BulletinRead''"
| "permission_name BulletinWrite = ''BulletinWrite''"
| "permission_name PeerDiscovery = ''PeerDiscovery''"
| "permission_name Camera = ''Camera''"

definition parse_permission_name :: "string \<Rightarrow> Permission option" where
  "parse_permission_name name =
     find (\<lambda>p. permission_name p = name)
       [Messaging, MessagingBroadcast, Identity, Payments, Storage, BulletinRead, BulletinWrite, PeerDiscovery, Camera]"

definition permission_for_method :: "string \<Rightarrow> Permission option" where
  "permission_for_method method =
     (if method = ''identity.get'' then Some Identity
      else if method = ''messaging.send'' then Some Messaging
      else if method = ''messaging.broadcast'' then Some MessagingBroadcast
      else if method \<in> {''payment.request'', ''payment.create_qr'', ''payment.get_balance''} then Some Payments
      else if method = ''util.scan_qr'' then Some Camera
      else if method = ''bulletin.post'' then Some BulletinWrite
      else if method \<in> {''peers.nearby'', ''proximity.start'', ''proximity.nearby'', ''proximity.connect''} then Some PeerDiscovery
      else if method \<in> {''proximity.messages'', ''proximity.send_message''} then Some Messaging
      else None)"

definition cap_payload :: "string \<Rightarrow> Permission \<Rightarrow> string \<Rightarrow> u64 \<Rightarrow> string" where
  "cap_payload app_id perm session expires =
     dec (unat CAP_VERSION) @ ''|'' @ app_id @ ''|'' @ permission_name perm @ ''|'' @ session @ ''|'' @ dec (unat expires)"

definition issue_capability :: "bridge_env \<Rightarrow> bytes \<Rightarrow> string \<Rightarrow> Permission \<Rightarrow> string \<Rightarrow> u64 \<Rightarrow> string" where
  "issue_capability env mac_key app_id perm session ttl =
     (let expires = sat_add (be_now env) ttl;
          pl = cap_payload app_id perm session expires;
          sig = be_hmac env mac_key (bytes_of pl) in
      be_b64_encode env (bytes_of (pl @ ''|'' @ hex_encode (be_sealing env) sig)))"

text \<open>\<open>str::rsplit_once\<close>.\<close>

definition rsplit_once :: "char \<Rightarrow> string \<Rightarrow> (string \<times> string) option" where
  "rsplit_once c s = map_option (\<lambda>(a, b). (rev b, rev a)) (split_once c (rev s))"

text \<open>\<open>str::parse::<u8>\<close>.\<close>

definition parse_u8 :: "string \<Rightarrow> u8 option" where
  "parse_u8 s = Option.bind (parse_u64 s) (\<lambda>n. if unat n < 256 then Some (ucast n) else None)"

definition validate_capability :: "bridge_env \<Rightarrow> bytes \<Rightarrow> string \<Rightarrow> Permission \<Rightarrow> string \<Rightarrow> string \<Rightarrow> unit result" where
  "validate_capability env mac_key app_id perm session token =
     ok_then (ok_or ''invalid capability token encoding'' (be_b64_decode env token)) (\<lambda>decoded.
     ok_then (if utf8_valid decoded then Ok (string_of_bytes decoded) else Err ''invalid capability token utf8'') (\<lambda>text.
     ok_then (ok_or ''malformed capability token'' (rsplit_once (CHR ''|'') text)) (\<lambda>(pl, sig_hex).
     ok_then (map_err (\<lambda>_. ''invalid capability signature'') (hex_decode (be_sealing env) sig_hex)) (\<lambda>sig.
     if be_hmac env mac_key (bytes_of pl) \<noteq> sig then Err ''invalid capability token''
     else
       let parts = split_on (CHR ''|'') pl in
       if length parts \<noteq> 5 then Err ''malformed capability payload''
       else if parse_u8 (parts ! 0) \<noteq> Some CAP_VERSION then Err ''unsupported capability version''
       else if parts ! 1 \<noteq> app_id then Err ''capability token app mismatch''
       else if parts ! 2 \<noteq> permission_name perm then Err ''capability token permission mismatch''
       else if parts ! 3 \<noteq> session then Err ''capability token session mismatch''
       else
         ok_then (ok_or ''invalid capability expiry'' (parse_u64 (parts ! 4))) (\<lambda>expires.
         if be_now env > expires then Err ''capability token expired'' else Ok ())))))"

section \<open>Storage quotas\<close>

definition MAX_KEY_LEN :: nat where "MAX_KEY_LEN = 128"
definition MAX_VALUE_LEN :: nat where "MAX_VALUE_LEN = 32 * 1024"
definition MAX_KEYS_PER_APP :: nat where "MAX_KEYS_PER_APP = 256"
definition MAX_TOTAL_BYTES_PER_APP :: nat where "MAX_TOTAL_BYTES_PER_APP = 256 * 1024"

definition validate_key :: "string \<Rightarrow> unit result" where
  "validate_key key =
     (if key = [] then Err ''storage key must not be empty''
      else if length key > MAX_KEY_LEN then Err ''storage key exceeds 128 bytes''
      else if CHR 0x00 \<in> set key then Err ''storage key contains invalid characters''
      else Ok ())"

definition validate_value :: "string \<Rightarrow> unit result" where
  "validate_value v = (if length v > MAX_VALUE_LEN then Err ''storage value exceeds 32768 bytes'' else Ok ())"

section \<open>The host of one call\<close>

record BridgeHost =
  bh_app_id :: string
  bh_permissions :: "Permission list"
  bh_has_coin :: bool
  bh_local_peer_id :: string
  bh_enc_pubkey_hex :: string
  bh_safe_mode :: bool
  bh_cap_mac_key :: bytes

definition require_permission :: "BridgeHost \<Rightarrow> Permission \<Rightarrow> unit result" where
  "require_permission h perm =
     (if perm \<in> set (bh_permissions h) then Ok () else Err (''permission denied: '' @ permission_name perm))"

definition require_capability :: "bridge_env \<Rightarrow> BridgeHost \<Rightarrow> string \<Rightarrow> json \<Rightarrow> unit result" where
  "require_capability env h method args =
     (case permission_for_method method of
        None \<Rightarrow> Ok ()
      | Some perm \<Rightarrow>
          ok_then (require_permission h perm) (\<lambda>_.
          ok_then (ok_or ''missing bridge session token'' (get_str args ''_session'')) (\<lambda>session.
          ok_then (ok_or (''missing capability token for '' @ method) (get_str args ''_cap'')) (\<lambda>cap.
          validate_capability env (bh_cap_mac_key h) (bh_app_id h) perm session cap))))"

definition require_not_blocked_by_safe_mode :: "BridgeHost \<Rightarrow> string \<Rightarrow> unit result" where
  "require_not_blocked_by_safe_mode h method =
     (if bh_safe_mode h \<and> \<not> method_allowed_in_safe_mode method then Err (safe_mode_denial_message method) else Ok ())"

definition app_prefix :: "string \<Rightarrow> string" where
  "app_prefix app_id = ''app:'' @ app_id @ '':''"

definition scoped_key :: "BridgeHost \<Rightarrow> string \<Rightarrow> string" where
  "scoped_key h key = app_prefix (bh_app_id h) @ key"

definition require_bulletin_scope :: "BridgeHost \<Rightarrow> bridge \<Rightarrow> string \<Rightarrow> unit result" where
  "require_bulletin_scope h b scope =
     ok_then (ok_or ''app not installed'' (get_manifest (host_store b) (bh_app_id h))) (\<lambda>m.
     if allows_bulletin_scope m scope then Ok () else Err (''bulletin scope not allowed: '' @ scope))"

definition stored_len :: "sealing \<Rightarrow> AppStorage \<Rightarrow> string \<Rightarrow> nat" where
  "stored_len sl s k = (case miniapp_get sl s k of Inr (Some v) \<Rightarrow> length v | _ \<Rightarrow> 0)"

definition check_storage_quota :: "bridge_env \<Rightarrow> BridgeHost \<Rightarrow> bridge \<Rightarrow> string \<Rightarrow> nat \<Rightarrow> unit result" where
  "check_storage_quota env h b sk new_len =
     (let ks = miniapp_list (host_storage b) (app_prefix (bh_app_id h)) in
      if sk \<notin> set ks \<and> length ks \<ge> MAX_KEYS_PER_APP then Err ''storage key limit exceeded (256)''
      else if new_len + sum_list (map (stored_len (be_sealing env) (host_storage b)) (filter (\<lambda>k. k \<noteq> sk) ks))
                > MAX_TOTAL_BYTES_PER_APP
      then Err ''storage quota exceeded (262144 bytes per app)''
      else Ok ())"

section \<open>The dispatcher\<close>

type_synonym bridge_result = "json result \<times> bridge"

definition json_as_u64 :: "json \<Rightarrow> u64 option" where
  "json_as_u64 v = (case v of JUInt n \<Rightarrow> Some n | _ \<Rightarrow> None)"

definition json_u64 :: "json \<Rightarrow> string \<Rightarrow> u64 result" where
  "json_u64 args key = ok_or (''missing or invalid '' @ key) (Option.bind (json_get args key) json_as_u64)"

definition opt_u64 :: "json \<Rightarrow> string \<Rightarrow> u64 \<Rightarrow> u64" where
  "opt_u64 args key d = (case Option.bind (json_get args key) json_as_u64 of Some n \<Rightarrow> n | None \<Rightarrow> d)"

definition arg_str :: "json \<Rightarrow> string \<Rightarrow> string result" where
  "arg_str args key = ok_or (''missing '' @ key) (get_str args key)"

definition json_opt_str :: "string option \<Rightarrow> json" where
  "json_opt_str x = (case x of Some s \<Rightarrow> JStr s | None \<Rightarrow> JNull)"

definition nonempty_str :: "json \<Rightarrow> string \<Rightarrow> string option" where
  "nonempty_str args key = (case get_str args key of Some s \<Rightarrow> if s = [] then None else Some s | None \<Rightarrow> None)"

definition parse_presence_profile :: "json \<Rightarrow> PresenceProfile" where
  "parse_presence_profile args =
     \<lparr>pp_display_name = nonempty_str args ''display_name'', pp_bio = nonempty_str args ''bio'',
      pp_age = Option.bind (Option.bind (json_get args ''age'') json_as_u64) (\<lambda>n. if unat n < 256 then Some (ucast n) else None),
      pp_gender = nonempty_str args ''gender'', pp_looking_for = nonempty_str args ''looking_for'',
      pp_interests = (case json_get args ''interests'' of Some (JArray xs) \<Rightarrow> List.map_filter as_str xs | _ \<Rightarrow> []),
      pp_photo_base64 = nonempty_str args ''photo_base64''\<rparr>"

text \<open>A check before the work of a method, and a call on the node.\<close>

definition guard :: "'a result \<Rightarrow> bridge \<Rightarrow> ('a \<Rightarrow> bridge \<Rightarrow> bridge_result) \<Rightarrow> bridge_result" where
  "guard r b f = and_then (r, b) f"

lemma guard_simps [simp]: "guard (Err e) b f = (Err e, b)" "guard (Ok v) b f = f v b"
  by (simp_all add: guard_def)

definition on_node :: "(AppNode \<Rightarrow> 'a app_result) \<Rightarrow> ('a \<Rightarrow> json) \<Rightarrow> bridge \<Rightarrow> bridge_result" where
  "on_node f g b =
     (let (r, n) = f (br_node b) in (case r of Inl e \<Rightarrow> Err e | Inr v \<Rightarrow> Ok (g v), b\<lparr>br_node := n\<rparr>))"

definition ok_json :: json where "ok_json = JStr ''ok''"

definition app_text :: "BridgeHost \<Rightarrow> string \<Rightarrow> string" where
  "app_text h text = ''[app/'' @ bh_app_id h @ ''] '' @ text"

definition call_messaging :: "bridge_env \<Rightarrow> BridgeHost \<Rightarrow> string \<Rightarrow> json \<Rightarrow> bridge \<Rightarrow> bridge_result" where
  "call_messaging env h method args b =
     (if method = ''messaging.send'' then
        guard (require_permission h Messaging) b (\<lambda>_ b.
        guard (arg_str args ''to_peer'') b (\<lambda>to b.
        guard (arg_str args ''payload'') b (\<lambda>pl.
        on_node (send_chat (be_app env) (Some to) (app_text h pl)) (\<lambda>_. ok_json))))
      else if method = ''messaging.subscribe'' then
        guard (require_permission h Messaging) b (\<lambda>_ b. (Ok (JStr ''subscribed''), b))
      else
        guard (require_permission h MessagingBroadcast) b (\<lambda>_ b.
        and_then (check_broadcast_rate (be_now env) (bh_app_id h) b) (\<lambda>_ b.
        guard (arg_str args ''payload'') b (\<lambda>pl.
        on_node (send_chat (be_app env) None (app_text h pl)) (\<lambda>_. ok_json)))))"

definition call_payment :: "bridge_env \<Rightarrow> BridgeHost \<Rightarrow> string \<Rightarrow> json \<Rightarrow> bridge \<Rightarrow> bridge_result" where
  "call_payment env h method args b =
     guard (require_permission h Payments) b (\<lambda>_ b.
     if method = ''payment.request'' then
       guard (json_u64 args ''amount_muon'') b (\<lambda>amount b.
       (Ok (json_object [(''_bridge_action'', JStr ''payment_confirmation_required''), (''amount_muon'', JUInt amount),
          (''memo'', json_opt_str (get_str args ''memo''))]), b))
     else
       guard (ok_or ''coin not available'' (if bh_has_coin h then an_coin (br_node b) else None)) b (\<lambda>coin b.
       if method = ''payment.create_qr'' then
         guard (json_u64 args ''amount_muon'') b (\<lambda>amount b.
         let req = payment_new (be_now env) (ap_uuid (be_app env)) (local_address coin) amount (get_str args ''memo'');
             uri = to_uri (be_url_encode env) req in
         if pay_is_expired (be_now env) req then (Err ''payment request expired'', b)
         else (Ok (json_object [(''uri'', JStr uri), (''_bridge_action'', JStr ''render_qr''), (''_qr_content'', JStr uri)]), b))
       else
         (Ok (json_object [(''confirmed_muon'', JUInt (fst (coin_balance coin))), (''pending_muon'', JUInt (snd (coin_balance coin)))]), b)))"

definition call_storage :: "bridge_env \<Rightarrow> BridgeHost \<Rightarrow> string \<Rightarrow> json \<Rightarrow> bridge \<Rightarrow> bridge_result" where
  "call_storage env h method args b =
     guard (require_permission h Storage) b (\<lambda>_ b.
     if method = ''storage.get'' then
       guard (arg_str args ''key'') b (\<lambda>key b.
       guard (miniapp_get (be_sealing env) (host_storage b) (scoped_key h key)) b (\<lambda>v b. (Ok (json_opt_str v), b)))
     else if method = ''storage.set'' then
       guard (arg_str args ''key'') b (\<lambda>key b.
       guard (arg_str args ''value'') b (\<lambda>v b.
       guard (validate_key key) b (\<lambda>_ b.
       guard (validate_value v) b (\<lambda>_ b.
       guard (check_storage_quota env h b (scoped_key h key) (length v)) b (\<lambda>_ b.
       let (r, s) = miniapp_set (be_sealing env) (ap_nonce (be_app env)) (scoped_key h key) v (host_storage b) in
       guard r (set_host_storage s b) (\<lambda>_ b. (Ok ok_json, b)))))))
     else if method = ''storage.delete'' then
       guard (arg_str args ''key'') b (\<lambda>key b.
       (Ok ok_json, set_host_storage (miniapp_delete (scoped_key h key) (host_storage b)) b))
     else
       let prefix = (case get_str args ''prefix'' of Some p \<Rightarrow> p | None \<Rightarrow> []);
           ks = miniapp_list (host_storage b) (scoped_key h prefix) in
       (Ok (JArray (map JStr (List.map_filter (strip_prefix (app_prefix (bh_app_id h))) ks))), b))"

definition bulletin_json :: "BulletinPost \<Rightarrow> json" where
  "bulletin_json p =
     json_object [(''id'', JStr (bp_id p)), (''title'', JStr (bp_title p)), (''body'', JStr (bp_body p)),
       (''from_display_name'', JStr (bp_from_display_name p)), (''scope'', JStr (bp_scope p)),
       (''timestamp_ms'', JUInt (bp_timestamp_ms p)), (''expires_at_ms'', JUInt (bp_expires_at_ms p))]"

definition call_bulletin :: "bridge_env \<Rightarrow> BridgeHost \<Rightarrow> string \<Rightarrow> json \<Rightarrow> bridge \<Rightarrow> bridge_result" where
  "call_bulletin env h method args b =
     guard (require_permission h (if method = ''bulletin.get'' then BulletinRead else BulletinWrite)) b (\<lambda>_ b.
     guard (arg_str args ''scope'') b (\<lambda>scope b.
     guard (require_bulletin_scope h b scope) b (\<lambda>_ b.
     if method = ''bulletin.get'' then
       (let b = b\<lparr>br_node := snd (app_send (be_app env) (CmdSubscribeBulletinScope scope) (br_node b))\<rparr> in
        (Ok (JArray (map bulletin_json (bulletins_for_scope (be_now env) (host_storage b) scope))), b))
     else
       guard (arg_str args ''title'') b (\<lambda>title b.
       guard (arg_str args ''body'') b (\<lambda>text.
       on_node (post_bulletin (be_app env) scope title text (opt_u64 args ''ttl_secs'' 86400)) (\<lambda>_. ok_json))))))"

definition nearby_json :: "u64 \<Rightarrow> ProximityNearbyEntry \<Rightarrow> json" where
  "nearby_json now e =
     (let s = ne_signal e; p = ps_profile s in
      json_object [(''ephemeral_id'', JStr (ps_ephemeral_id s)), (''enc_pubkey_hex'', JStr (ps_enc_pubkey_hex s)),
        (''display_name'', json_opt_str (pp_display_name p)), (''bio'', json_opt_str (pp_bio p)),
        (''age'', case pp_age p of Some a \<Rightarrow> JUInt (ucast a) | None \<Rightarrow> JNull), (''gender'', json_opt_str (pp_gender p)),
        (''looking_for'', json_opt_str (pp_looking_for p)), (''interests'', JArray (map JStr (pp_interests p))),
        (''photo_base64'', json_opt_str (pp_photo_base64 p)), (''seen_at_ms'', JUInt (ps_created_at_ms s)),
        (''has_expired'', JBool (signal_is_expired now s)), (''interest_sent'', JBool (ne_interest_sent e)),
        (''interest_received'', JBool (ne_interest_received e)), (''is_mutual'', JBool (ne_is_mutual e))])"

definition received_json :: "ProximityReceivedMessage \<Rightarrow> json" where
  "received_json m =
     json_object [(''from_enc_pubkey_hex'', JStr (pr_from_enc_pubkey_hex m)), (''body'', JStr (pr_body m)),
       (''received_at_ms'', JUInt (pr_received_at_ms m))]"

definition call_proximity :: "bridge_env \<Rightarrow> BridgeHost \<Rightarrow> string \<Rightarrow> json \<Rightarrow> bridge \<Rightarrow> bridge_result" where
  "call_proximity env h method args b =
     (let now = be_now env in
      if method = ''peers.nearby'' then
        guard (require_permission h PeerDiscovery) b (\<lambda>_ b.
        (Ok (JArray (map JStr (filter (\<lambda>p. \<not> is_relay_peer p) (ap_known_peers (be_app env))))), b))
      else if method = ''proximity.start'' then
        guard (require_permission h PeerDiscovery) b (\<lambda>_ b.
        guard (require_permission h Messaging) b (\<lambda>_.
        on_node (start_proximity (be_app env) (parse_presence_profile args) (ucast (opt_u64 args ''ttl_secs'' 300))) (\<lambda>_. ok_json)))
      else if method = ''proximity.stop'' then
        guard (require_permission h PeerDiscovery) b (\<lambda>_ b.
        (Ok ok_json, b\<lparr>br_node := stop_proximity (be_app env) (br_node b)\<rparr>))
      else if method = ''proximity.nearby'' then
        guard (require_permission h PeerDiscovery) b (\<lambda>_ b.
        let (es, n) = nearby_profiles (be_app env) (br_node b) in
        (Ok (JArray (map (nearby_json now) es)), b\<lparr>br_node := n\<rparr>))
      else if method = ''proximity.connect'' then
        guard (require_permission h PeerDiscovery) b (\<lambda>_ b.
        guard (arg_str args ''enc_pubkey_hex'') b (\<lambda>k.
        on_node (express_proximity_interest (be_app env) k) (\<lambda>m. json_object [(''is_mutual'', JBool m)])))
      else if method = ''proximity.messages'' then
        guard (require_permission h Messaging) b (\<lambda>_ b.
        (Ok (JArray (map received_json (proximity_messages (opt_u64 args ''since_ms'' 0) (br_node b)))), b))
      else
        guard (require_permission h Messaging) b (\<lambda>_ b.
        guard (arg_str args ''enc_pubkey_hex'') b (\<lambda>k b.
        guard (arg_str args ''message'') b (\<lambda>m.
        on_node (send_proximity_message (be_app env) k m) (\<lambda>_. ok_json)))))"

definition call_util :: "bridge_env \<Rightarrow> BridgeHost \<Rightarrow> string \<Rightarrow> json \<Rightarrow> bridge \<Rightarrow> bridge_result" where
  "call_util env h method args b =
     (if method = ''util.now'' then (Ok (JUInt (be_now env)), b)
      else if method = ''util.scan_qr'' then
        guard (require_permission h Camera) b (\<lambda>_ b. (Ok (json_object [(''_bridge_action'', JStr ''open_qr_scanner'')]), b))
      else
        guard (arg_str args ''message'') b (\<lambda>m b.
        (Ok (json_object [(''_bridge_action'', JStr (if method = ''util.alert'' then ''show_alert'' else ''show_confirm'')),
           (''message'', JStr m)]), b)))"

definition dispatch :: "bridge_env \<Rightarrow> BridgeHost \<Rightarrow> string \<Rightarrow> json \<Rightarrow> bridge \<Rightarrow> bridge_result" where
  "dispatch env h method args b =
     (if method = ''identity.get'' then
        guard (require_permission h Identity) b (\<lambda>_ b.
        (Ok (json_object [(''peer_id'', JStr (bh_local_peer_id h)), (''display_name'', JStr (an_display_name (br_node b))),
           (''enc_pubkey'', JStr (bh_enc_pubkey_hex h))]), b))
      else if method \<in> {''messaging.send'', ''messaging.subscribe'', ''messaging.broadcast''} then call_messaging env h method args b
      else if method \<in> {''payment.request'', ''payment.create_qr'', ''payment.get_balance''} then call_payment env h method args b
      else if method \<in> {''storage.get'', ''storage.set'', ''storage.delete'', ''storage.list''} then call_storage env h method args b
      else if method \<in> {''bulletin.get'', ''bulletin.post''} then call_bulletin env h method args b
      else if method \<in> {''peers.nearby'', ''proximity.start'', ''proximity.stop'', ''proximity.nearby'', ''proximity.connect'',
          ''proximity.messages'', ''proximity.send_message''} then call_proximity env h method args b
      else if method \<in> {''util.now'', ''util.scan_qr'', ''util.alert'', ''util.confirm''} then call_util env h method args b
      else if method = ''app.get_id'' then (Ok (JStr (bh_app_id h)), b)
      else if method = ''app.get_version'' then
        (Ok (JStr (case get_manifest (host_store b) (bh_app_id h) of Some m \<Rightarrow> mf_version m | None \<Rightarrow> [])), b)
      else (Err (''unknown bridge method: '' @ method), b))"

definition bridge_handle :: "bridge_env \<Rightarrow> BridgeHost \<Rightarrow> string \<Rightarrow> json \<Rightarrow> bridge \<Rightarrow> bridge_result" where
  "bridge_handle env h method args b =
     (case get_str args ''_session'' of
        None \<Rightarrow> (Err ''missing bridge session token'', b)
      | Some tok \<Rightarrow>
          guard (validate_session (be_now env) b (bh_app_id h) tok) b (\<lambda>_ b.
          case check_bridge_rate (be_now env) (bh_app_id h) b of
            (Inl e, b) \<Rightarrow> (Err e, set_host_store (record_bridge_anomaly (be_now env) (bh_app_id h) (host_store b)) b)
          | (Inr _, b) \<Rightarrow>
              guard (require_not_blocked_by_safe_mode h method) b (\<lambda>_ b.
              guard (require_capability env h method args) b (\<lambda>_.
              dispatch env h method args))))"

text \<open>\<open>mycelium-desktop/src/lib.rs\<close>: the host of an app has the permissions of its installed manifest and the
  safe mode of its reputation.\<close>

definition miniapp_bridge_call :: "bridge_env \<Rightarrow> bytes \<Rightarrow> string \<Rightarrow> string \<Rightarrow> json \<Rightarrow> bridge \<Rightarrow> bridge_result" where
  "miniapp_bridge_call env mac_key app_id method args b =
     (let perms = (case get_manifest (host_store b) app_id of Some m \<Rightarrow> mf_permissions m | None \<Rightarrow> []) in
      bridge_handle env
        \<lparr>bh_app_id = app_id, bh_permissions = perms, bh_has_coin = True, bh_local_peer_id = an_local_peer_id (br_node b),
         bh_enc_pubkey_hex = ap_local_enc_hex (be_app env), bh_safe_mode = effective_safe_mode (host_store b) app_id,
         bh_cap_mac_key = mac_key\<rparr> method args b)"

definition miniapp_issue_capability :: "bridge_env \<Rightarrow> bytes \<Rightarrow> string \<Rightarrow> string \<Rightarrow> string \<Rightarrow> string result" where
  "miniapp_issue_capability env mac_key app_id permission session =
     ok_then (ok_or (''unknown permission: '' @ permission) (parse_permission_name permission)) (\<lambda>perm.
     Ok (issue_capability env mac_key app_id perm session DEFAULT_CAP_TTL_MS))"

end
