(* ===== verification/Ffi_Types.thy ===== *)
theory Ffi_Types
  imports Bridge Payment
begin

text \<open>
  The data that crosses the foreign-function interface (\<open>mycelium-ffi/src/lib.rs\<close>) and the conversions from
  the records of the application.  A record that the interface only copies (a contact, a bulletin, a profile, a received
  proximity message) is the record of the application itself.  A \<open>panic\<close> unwinds to the foreign caller and
  is a value here.
\<close>

datatype 'a outcome = Returned 'a | Panicked string

datatype MyceliumException = InstallError string | ChatError string

definition exception_text :: "MyceliumException \<Rightarrow> string" where
  "exception_text e = (case e of InstallError detail \<Rightarrow> detail | ChatError detail \<Rightarrow> detail)"

record FfiConfig =
  fc_db_path :: string
  fc_listen_addr :: string
  fc_display_name :: string
  fc_bootstrap_peers :: "string list"
  fc_storage_key_hex :: "string option"
  fc_rendezvous_enabled :: bool
  fc_bulletin_subscriptions :: "string list"

record FfiMetrics =
  fm_messages_forwarded :: u64
  fm_messages_dropped_ttl :: u64
  fm_messages_dropped_queue :: u64
  fm_messages_delivered_local :: u64
  fm_pending_queue_size :: u64
  fm_seen_cache_size :: u64
  fm_connected_peers :: u64
  fm_max_peers :: u64
  fm_peer_cap_rejections :: u64

definition metrics_to_ffi :: "NodeMetrics \<Rightarrow> FfiMetrics" where
  "metrics_to_ffi m =
     \<lparr>fm_messages_forwarded = messages_forwarded m, fm_messages_dropped_ttl = messages_dropped_ttl m,
      fm_messages_dropped_queue = messages_dropped_queue m, fm_messages_delivered_local = messages_delivered_local m,
      fm_pending_queue_size = of_nat (pending_queue_size m), fm_seen_cache_size = of_nat (seen_cache_size m),
      fm_connected_peers = of_nat (connected_peers m), fm_max_peers = of_nat (m_max_peers m),
      fm_peer_cap_rejections = peer_cap_rejections m\<rparr>"

section \<open>Messages, groups, keys\<close>

record FfiChat =
  fch_id :: string
  fch_from_peer :: string
  fch_from_display_name :: string
  fch_body :: string
  fch_timestamp_ms :: u64

definition to_chat_message :: "ChatMessage \<Rightarrow> string \<Rightarrow> FfiChat" where
  "to_chat_message m peer =
     \<lparr>fch_id = cm_id m, fch_from_peer = peer, fch_from_display_name = cm_from_display_name m,
      fch_body = cm_body m, fch_timestamp_ms = cm_timestamp_ms m\<rparr>"

record FfiMail =
  fml_id :: string
  fml_from_peer :: string
  fml_from_display_name :: string
  fml_to_peer :: string
  fml_subject :: string
  fml_body :: string
  fml_timestamp_ms :: u64
  fml_is_read :: bool

definition to_mail_message :: "MailMessage \<Rightarrow> bool \<Rightarrow> FfiMail" where
  "to_mail_message m seen =
     \<lparr>fml_id = mm_id m, fml_from_peer = mm_from_peer m, fml_from_display_name = mm_from_display_name m,
      fml_to_peer = mm_to_peer m, fml_subject = mm_subject m, fml_body = mm_body m,
      fml_timestamp_ms = mm_timestamp_ms m, fml_is_read = seen\<rparr>"

record GroupInfo =
  gi_id :: string
  gi_name :: string
  gi_member_count :: u32
  gi_created_at_ms :: u64

definition group_to_info :: "Group \<Rightarrow> GroupInfo" where
  "group_to_info g =
     \<lparr>gi_id = gr_id g, gi_name = gr_name g, gi_member_count = of_nat (length (gr_members g)), gi_created_at_ms = gr_created_at_ms g\<rparr>"

record ScopeKeyInfo =
  ski_scope :: string
  ski_display_name :: string
  ski_added_at_ms :: u64

definition scope_key_to_info :: "ScopeKey \<Rightarrow> ScopeKeyInfo" where
  "scope_key_to_info k = \<lparr>ski_scope = sk_scope k, ski_display_name = sk_display_name k, ski_added_at_ms = sk_added_at_ms k\<rparr>"

record NearbyProfile =
  np_ephemeral_id :: string
  np_enc_pubkey_hex :: string
  np_profile :: PresenceProfile
  np_seen_at_ms :: u64
  np_has_expired :: bool
  np_interest_sent :: bool
  np_interest_received :: bool
  np_is_mutual :: bool

definition entry_to_nearby :: "u64 \<Rightarrow> ProximityNearbyEntry \<Rightarrow> NearbyProfile" where
  "entry_to_nearby now e =
     (let s = ne_signal e in
      \<lparr>np_ephemeral_id = ps_ephemeral_id s, np_enc_pubkey_hex = ps_enc_pubkey_hex s, np_profile = ps_profile s,
       np_seen_at_ms = ps_created_at_ms s, np_has_expired = signal_is_expired now s,
       np_interest_sent = ne_interest_sent e, np_interest_received = ne_interest_received e, np_is_mutual = ne_is_mutual e\<rparr>)"

section \<open>Wallet\<close>

record TxInfo =
  ti_id :: string
  ti_from_address :: string
  ti_to_address :: string
  ti_amount_muon :: u64
  ti_fee_muon :: u64
  ti_timestamp_ms :: u64
  ti_memo :: "string option"
  ti_witness_count :: u32
  ti_confirmed :: bool

definition tx_to_info :: "Transaction \<Rightarrow> TxInfo" where
  "tx_to_info t =
     (let witness_count = of_nat (fcard (witnesses t)) :: u32; confirmed = witness_count \<ge> 3 in
      \<lparr>ti_id = tx_id t, ti_from_address = tx_from t, ti_to_address = tx_to t, ti_amount_muon = amount_muon t,
       ti_fee_muon = fee_muon t, ti_timestamp_ms = timestamp_ms t, ti_memo = tx_memo t,
       ti_witness_count = witness_count, ti_confirmed = confirmed\<rparr>)"

record HotWalletStatus =
  hs_confirmed_muon :: u64
  hs_pending_muon :: u64
  hs_max_cache_muon :: u64
  hs_auto_refill_enabled :: bool
  hs_needs_refill :: bool
  hs_connectivity :: ConnectivityMode

record PaymentRequestData =
  prd_to_address :: string
  prd_amount_muon :: u64
  prd_memo :: "string option"
  prd_expires_at_ms :: "u64 option"

section \<open>Mini-apps\<close>

record MiniAppInfo =
  mi_id :: string
  mi_name :: string
  mi_description :: string
  mi_version :: string
  mi_developer :: string
  mi_entry :: string
  mi_accepts_payments :: bool
  mi_payment_address :: "string option"
  mi_permissions :: "string list"

definition mini_app_manifest_to_info :: "MiniAppManifest \<Rightarrow> MiniAppInfo" where
  "mini_app_manifest_to_info m =
     \<lparr>mi_id = mf_id m, mi_name = mf_name m, mi_description = mf_description m, mi_version = mf_version m,
      mi_developer = mf_developer m, mi_entry = mf_entry m, mi_accepts_payments = mf_accepts_payments m,
      mi_payment_address = mf_payment_address m, mi_permissions = map permission_name (mf_permissions m)\<rparr>"

fun trust_level_name :: "InstallTrustLevel \<Rightarrow> string" where
  "trust_level_name VerifiedListing = ''verified_listing''"
| "trust_level_name MatchingListingHash = ''matching_listing_hash''"
| "trust_level_name SideloadOnly = ''sideload_only''"
| "trust_level_name HashMismatch = ''hash_mismatch''"

record MiniAppInstallPreview =
  mp_manifest :: MiniAppInfo
  mp_bundle_hash :: string
  mp_trust_level :: string
  mp_listing_signature_ok :: bool
  mp_installed_version :: "string option"
  mp_is_downgrade :: bool
  mp_has_inline_script :: bool
  mp_strict_csp_eligible :: bool
  mp_bundle_signature_ok :: bool
  mp_reproducible_attested :: bool

definition preview_to_ffi :: "InstallPreview \<Rightarrow> MiniAppInstallPreview" where
  "preview_to_ffi p =
     \<lparr>mp_manifest = mini_app_manifest_to_info (pv_manifest p), mp_bundle_hash = pv_bundle_hash p,
      mp_trust_level = trust_level_name (pv_trust_level p), mp_listing_signature_ok = pv_listing_signature_ok p,
      mp_installed_version = pv_installed_version p, mp_is_downgrade = pv_is_downgrade p,
      mp_has_inline_script = pv_has_inline_script p, mp_strict_csp_eligible = pv_strict_csp_eligible p,
      mp_bundle_signature_ok = pv_bundle_signature_ok p, mp_reproducible_attested = pv_reproducible_attested p\<rparr>"

record FfiListing =
  fl_manifest :: MiniAppInfo
  fl_bundle_hash :: string
  fl_updated_at_ms :: u64
  fl_signature_valid :: bool

definition to_app_store_listing :: "miniapp_env \<Rightarrow> AppStoreListing \<Rightarrow> FfiListing" where
  "to_app_store_listing me l =
     \<lparr>fl_manifest = mini_app_manifest_to_info (ls_manifest l), fl_bundle_hash = ls_bundle_hash l,
      fl_updated_at_ms = ls_updated_at_ms l,
      fl_signature_valid = (case ls_verify_signature me l of Inr ok \<Rightarrow> ok | Inl _ \<Rightarrow> False)\<rparr>"

text \<open>What the interface shows as confirmed is what the ledger counts as confirmed, up to the width of the count.\<close>

lemma tx_to_info_confirmed: "fcard (witnesses t) < 2 ^ 32 \<Longrightarrow> ti_confirmed (tx_to_info t) = is_confirmed t"
  by (simp add: tx_to_info_def Let_def is_confirmed_def word_le_nat_alt unat_of_nat)

end
