(* ===== verification/Node_Handle.thy ===== *)
theory Node_Handle
  imports Node
begin

text \<open>
  The handle through which the rest of the process talks to a running node (\<open>NodeHandle\<close> in
  \<open>mycelium-node/src/node.rs\<close>): it reads the state it shares with the runner and puts commands into the runner's channel.
  A call sees the shared state as it is at that moment, so the runner is an argument.
\<close>

definition handle_metrics :: "NodeRunner \<Rightarrow> NodeMetrics" where
  "handle_metrics n = metrics n"

definition handle_known_peers :: "NodeRunner \<Rightarrow> string list" where
  "handle_known_peers n = filter (\<lambda>p. \<not> is_relay_peer p) (peers n)"

definition handle_listen_addrs :: "NodeRunner \<Rightarrow> string list" where
  "handle_listen_addrs n = listen_addrs n"

definition peer_reputation :: "NodeRunner \<Rightarrow> string \<Rightarrow> PeerReputationSnapshot option" where
  "peer_reputation n peer_id = peer_reputations n peer_id"

definition handle_subscribed_scopes :: "NodeRunner \<Rightarrow> string list" where
  "handle_subscribed_scopes n = subscribed_scopes n"

definition handle_relay_peer_id :: "crypto \<Rightarrow> NodeRunner \<Rightarrow> string" where
  "handle_relay_peer_id cr n = relay_peer_id cr (relay_identity n)"

definition relay_keypair_age_secs :: "u64 \<Rightarrow> NodeRunner \<Rightarrow> u64" where
  "relay_keypair_age_secs instant n = age_secs instant (relay_identity n)"

definition handle_bulletin_subscriptions :: "NodeRunner \<Rightarrow> string list" where
  "handle_bulletin_subscriptions n = bulletin_subscriptions n"

definition is_bulletin_enabled :: "NodeRunner \<Rightarrow> bool" where
  "is_bulletin_enabled n \<longleftrightarrow> bulletin_subscriptions n \<noteq> []"

definition has_enc_key_for :: "NodeRunner \<Rightarrow> string \<Rightarrow> bool" where
  "has_enc_key_for n peer \<longleftrightarrow> peer_x25519 n peer \<noteq> None"

definition peer_x25519_public :: "NodeRunner \<Rightarrow> string \<Rightarrow> bytes option" where
  "peer_x25519_public n peer = peer_x25519 n peer"

text \<open>The relay never shows up as a peer, whatever the runner has recorded.\<close>

lemma known_peers_no_relay: "p \<in> set (handle_known_peers n) \<Longrightarrow> \<not> is_relay_peer p"
  by (simp add: handle_known_peers_def)

end
