(* ===== verification/Ffi.thy ===== *)
theory Ffi
  imports Ffi_Types Node_Handle Vault
begin

text \<open>
  The interface to the mobile application (\<open>mycelium-ffi/src/lib.rs\<close>): one function per exported call, over the state of
  the process.  \<open>RUNTIME\<close>, \<open>NODE\<close> and \<open>CALLBACK\<close> are statics of the library; the sessions and rate counters
  of mini-apps are statics of the application crate and outlive a node.  \<open>NODE\<close> is a \<open>std::sync::Mutex\<close>: a panic while its
  guard is held poisons it.  The calls of one process are taken one after the other.  The running mesh node is seen
  through its handle; a foreign callback is taken to return.  When the coin node loads the identity, the vault it
  leaves behind is tracked for payments and revocations; the two background tasks read the identity and leave the vault as it is.
\<close>

section \<open>State\<close>

record FfiNode =
  fn_app :: AppNode  \<comment> \<open>\<open>app_node\<close>; \<open>app_store\<close> and \<open>coin_node\<close> are shared with it\<close>
  fn_db_path :: string  \<comment> \<open>the directory of \<open>coin_identity_path\<close>\<close>
  fn_coin_identity_path :: string
  fn_cap_mac_key :: bytes
  fn_local_peer_id :: string
  fn_display_name :: string
  fn_hot_wallet :: HotWalletConfig
  fn_connectivity_mode :: ConnectivityMode

datatype ffi_event =
    PeerDiscovered string
  | PeerLost string
  | ChatReceived FfiChat
  | MailReceived FfiMail
  | BulletinReceived BulletinPost
  | ListingReceived FfiListing
  | ConnectivityChanged ConnectivityMode
  | ContactRequested string string

record ffi_process =
  fp_runtime :: bool
  fp_node :: "FfiNode option"
  fp_node_poisoned :: bool
  fp_callback :: bool
  fp_events :: "ffi_event list"
  fp_sessions :: "string \<Rightarrow> Session option"
  fp_calls :: "string \<Rightarrow> (u64 \<times> u32) option"
  fp_broadcasts :: "string \<Rightarrow> (u64 \<times> u32) option"
  fp_vault :: vault_state

definition process_start :: "vault_state \<Rightarrow> ffi_process" where
  "process_start vs =
     \<lparr>fp_runtime = False, fp_node = None, fp_node_poisoned = False, fp_callback = False, fp_events = [],
      fp_sessions = \<lambda>_. None, fp_calls = \<lambda>_. None, fp_broadcasts = \<lambda>_. None, fp_vault = vs\<rparr>"

text \<open>What a call finds around it: the packages, the clock, the disk, and the state the runner shares.\<close>

record ffi_env =
  fe_bridge :: bridge_env
  fe_vault :: vault_env
  fe_runner :: NodeRunner
  fe_instant :: u64
  fe_mode :: ConnectivityMode
  fe_runtime_new :: "unit result"
  fe_parse_addr :: "string \<Rightarrow> bool"
  fe_bootstrap_var :: "string option"  \<comment> \<open>the environment variable of the bootstrap peers\<close>
  fe_transport_new :: "NodeConfig \<Rightarrow> string list \<Rightarrow> unit result"
  fe_message_db :: "string \<Rightarrow> (string, DirectMessage) tree result"
  fe_relay_identity :: RelayIdentity
  fe_files :: file_system
  fe_open_storage :: "string \<Rightarrow> AppStorage result"
  fe_open_store :: "string \<Rightarrow> AppStore result"
  fe_open_ledger :: "string \<Rightarrow> LocalLedger result"
  fe_official :: "(string \<times> bytes) list"
  fe_parse_uuid :: "string \<Rightarrow> string option"
  fe_url_decode :: "string \<Rightarrow> string result"

definition fe_app :: "ffi_env \<Rightarrow> app_env" where
  "fe_app env =
     (be_app (fe_bridge env))\<lparr>ap_known_peers := handle_known_peers (fe_runner env), ap_peer_x25519 := peer_x25519_public (fe_runner env)\<rparr>"

type_synonym 'a ffi = "ffi_process \<Rightarrow> 'a outcome \<times> ffi_process"

section \<open>Access to the node\<close>

definition ffi_runtime :: "unit ffi" where
  "ffi_runtime p = (if fp_runtime p then Returned () else Panicked ''runtime not initialized'', p)"

text \<open>The guard of \<open>NODE.lock()\<close> is a temporary of the whole expression, so it is held when the last
  \<open>expect\<close> fails.\<close>

definition state_arc :: "FfiNode ffi" where
  "state_arc p =
     (if fp_node_poisoned p then (Panicked ''node lock'', p)
      else case fp_node p of
        None \<Rightarrow> (Panicked ''node not initialized'', p\<lparr>fp_node_poisoned := True\<rparr>)
      | Some n \<Rightarrow> (Returned n, p))"

definition ffi_bind :: "'a ffi \<Rightarrow> ('a \<Rightarrow> 'b ffi) \<Rightarrow> 'b ffi" where
  "ffi_bind m f p = (case m p of (Panicked e, p) \<Rightarrow> (Panicked e, p) | (Returned x, p) \<Rightarrow> f x p)"

definition ffi_put :: "FfiNode \<Rightarrow> ffi_process \<Rightarrow> ffi_process" where
  "ffi_put n p = p\<lparr>fp_node := Some n\<rparr>"

text \<open>\<open>with_state\<close> asks for the runtime first, the functions with an \<open>async\<close> body for the node first.\<close>

definition with_state :: "(FfiNode \<Rightarrow> 'a ffi) \<Rightarrow> 'a ffi" where
  "with_state f = ffi_bind ffi_runtime (\<lambda>_. ffi_bind state_arc f)"

definition block_on :: "(FfiNode \<Rightarrow> 'a ffi) \<Rightarrow> 'a ffi" where
  "block_on f = ffi_bind state_arc (\<lambda>n. ffi_bind ffi_runtime (\<lambda>_. f n))"

definition ffi_return :: "'a \<Rightarrow> 'a ffi" where
  "ffi_return x p = (Returned x, p)"

definition ffi_panic :: "string \<Rightarrow> 'a ffi" where
  "ffi_panic e p = (Panicked e, p)"

text \<open>Bodies that run an operation of the application node: the result, the result as an exception, \<open>expect\<close> on the
  result, or the result dropped.\<close>

definition app_total :: "(AppNode \<Rightarrow> 'a \<times> AppNode) \<Rightarrow> FfiNode \<Rightarrow> 'a ffi" where
  "app_total f n p = (let (x, a) = f (fn_app n) in (Returned x, ffi_put (n\<lparr>fn_app := a\<rparr>) p))"

definition app_try :: "(string \<Rightarrow> MyceliumException) \<Rightarrow> (AppNode \<Rightarrow> 'a app_result) \<Rightarrow> FfiNode \<Rightarrow> (MyceliumException + 'a) ffi" where
  "app_try ex f = app_total (\<lambda>a. let (r, a) = f a in (case r of Inl e \<Rightarrow> Inl (ex e) | Inr x \<Rightarrow> Inr x, a))"

definition app_ignore :: "(AppNode \<Rightarrow> 'a app_result) \<Rightarrow> FfiNode \<Rightarrow> unit ffi" where
  "app_ignore f = app_total (\<lambda>a. ((), snd (f a)))"

definition app_do :: "(AppNode \<Rightarrow> AppNode) \<Rightarrow> FfiNode \<Rightarrow> unit ffi" where
  "app_do f = app_total (\<lambda>a. ((), f a))"

text \<open>The shared mini-app store and coin node.\<close>

definition node_store :: "FfiNode \<Rightarrow> AppStore" where
  "node_store n = host_store \<lparr>br_sessions = \<lambda>_. None, br_calls = \<lambda>_. None, br_broadcasts = \<lambda>_. None, br_node = fn_app n\<rparr>"

definition put_store :: "AppStore \<Rightarrow> FfiNode \<Rightarrow> FfiNode" where
  "put_store st n = n\<lparr>fn_app := (fn_app n)\<lparr>an_app_store := Some st\<rparr>\<rparr>"

definition with_coin :: "(CoinNode \<Rightarrow> 'a \<times> CoinNode) \<Rightarrow> 'a \<Rightarrow> FfiNode \<Rightarrow> 'a ffi" where
  "with_coin f absent n =
     app_total (\<lambda>a. case an_coin a of
        None \<Rightarrow> (absent, a)
      | Some c \<Rightarrow> let (x, c) = f c in (x, a\<lparr>an_coin := Some c\<rparr>)) n"

section \<open>The coin transport\<close>

definition encode_coin_payload :: "app_env \<Rightarrow> bytes \<Rightarrow> bytes result" where
  "encode_coin_payload env inner = ap_encode env \<lparr>am_app_id = AppCoin, am_payload = Coin inner\<rparr>"

definition broadcast_coin_inner :: "app_env \<Rightarrow> bytes \<Rightarrow> unit result" where
  "broadcast_coin_inner env inner =
     ok_then (encode_coin_payload env inner) (\<lambda>pl. ap_send env (CmdBroadcastPayload ''mycelium/coin/v1'' ''[coin]'' pl))"

definition send_direct_coin_inner :: "app_env \<Rightarrow> string \<Rightarrow> bytes \<Rightarrow> unit result" where
  "send_direct_coin_inner env to inner =
     ok_then (encode_coin_payload env inner) (\<lambda>pl. ap_send env (CmdSendDirectPayload to ''[coin]'' pl))"

text \<open>The coin node loads the identity without a storage key.\<close>

definition ffi_coin_env :: "ffi_env \<Rightarrow> string \<Rightarrow> vault_state \<Rightarrow> coin_env" where
  "ffi_coin_env env dir vs =
     (ap_coin (fe_app env))\<lparr>ce_broadcast := broadcast_coin_inner (fe_app env), ce_send_direct := send_direct_coin_inner (fe_app env),
       ce_load_keypair := \<lambda>path. fst (load_or_create_keypair (fe_vault env) dir path None vs)\<rparr>"

section \<open>Start and stop\<close>

definition node_config :: "FfiConfig \<Rightarrow> bytes option \<Rightarrow> NodeConfig" where
  "node_config c key =
     \<lparr>cfg_listen_addr = fc_listen_addr c, cfg_db_path = fc_db_path c, cfg_keypair_path = Some (fc_db_path c @ ''/identity''),
      cfg_forwarding_interval_ms = 500, cfg_sync_interval_secs = 30, cfg_bootstrap_peers = fc_bootstrap_peers c,
      cfg_has_connectivity_rx = True, cfg_display_name = Some (fc_display_name c), cfg_storage_key = key,
      cfg_max_relay_fanout = 3, cfg_rendezvous_enabled = fc_rendezvous_enabled c,
      cfg_bulletin_subscriptions = fc_bulletin_subscriptions c, cfg_max_peers = 50\<rparr>"

text \<open>\<open>NodeRunner::new\<close>: the transport loads the identity, the node its encryption key.\<close>

definition runner_new :: "ffi_env \<Rightarrow> NodeConfig \<Rightarrow> vault_state \<Rightarrow> NodeRunner result \<times> vault_state" where
  "runner_new env cfg vs =
     (let cr = ap_crypto (fe_app env); db = cfg_db_path cfg; key = cfg_storage_key cfg in
      and_then (load_or_create_keypair (fe_vault env) db (identity_path cfg) key vs) (\<lambda>kp vs.
      and_then (fe_transport_new env cfg (initial_dial_peers (fe_bootstrap_var env) (fe_files env) cfg), vs) (\<lambda>_ vs.
      and_then (load_or_create_enc_keypair (fe_vault env) db key vs) (\<lambda>enc vs.
      and_then (fe_message_db env db, vs) (\<lambda>msgs vs.
      (Ok (node_new cfg (peer_string cr (kp_public cr kp)) (Some kp) (enc_secret_raw enc) (fe_relay_identity env) msgs (fe_files env)),
       vs))))))"

text \<open>\<open>Result::expect\<close> on a step that may change the vault.\<close>

definition expect_vault :: "string \<Rightarrow> (vault_state \<Rightarrow> 'a result \<times> vault_state) \<Rightarrow> 'a ffi" where
  "expect_vault msg f p =
     (let (r, vs) = f (fp_vault p); p = p\<lparr>fp_vault := vs\<rparr> in
      case r of Inl e \<Rightarrow> (Panicked (msg @ '': '' @ e), p) | Inr x \<Rightarrow> (Returned x, p))"

definition expect_ok :: "string \<Rightarrow> 'a result \<Rightarrow> 'a ffi" where
  "expect_ok msg r = expect_vault msg (Pair r)"

definition publish_state :: "FfiNode \<Rightarrow> unit ffi" where
  "publish_state n p =
     (if fp_node_poisoned p then (Panicked ''node lock'', p) else (Returned (), p\<lparr>fp_node := Some n\<rparr>))"

definition init_runtime :: "ffi_env \<Rightarrow> unit ffi" where
  "init_runtime env p =
     (if fp_runtime p then (Returned (), p)
      else case fe_runtime_new env of
        Inl e \<Rightarrow> (Panicked (''tokio runtime init failed: '' @ e), p)
      | Inr _ \<Rightarrow> (Returned (), p\<lparr>fp_runtime := True\<rparr>))"

definition parse_storage_key :: "sealing \<Rightarrow> string option \<Rightarrow> bytes option result" where
  "parse_storage_key sl h = (case h of None \<Rightarrow> Ok None | Some s \<Rightarrow> ok_then (parse_storage_key_hex sl s) (\<lambda>k. Ok (Some k)))"

definition coin_node_new :: "LocalLedger \<Rightarrow> string \<Rightarrow> string \<Rightarrow> string \<Rightarrow> CoinNode" where
  "coin_node_new L addr peer path =
     \<lparr>ledger = L, local_address = addr, local_peer_id = peer, coin_identity_path = path, outbox = []\<rparr>"

definition init_node :: "ffi_env \<Rightarrow> FfiConfig \<Rightarrow> unit ffi" where
  "init_node env c =
     (let ve = fe_vault env; db = fc_db_path c; path = db @ ''/identity''; cr = ap_crypto (fe_app env) in
      ffi_bind (init_runtime env) (\<lambda>_.
      ffi_bind (expect_ok ''invalid storage_key_hex'' (parse_storage_key (ve_sealing ve) (fc_storage_key_hex c))) (\<lambda>key.
      ffi_bind (expect_ok ''invalid listen address for node'' (if fe_parse_addr env (fc_listen_addr c) then Ok () else Err [])) (\<lambda>_.
      ffi_bind (expect_vault ''failed to initialize node runner'' (runner_new env (node_config c key))) (\<lambda>runner.
      ffi_bind (expect_ok ''failed to open app storage'' (fe_open_storage env (db @ ''/app''))) (\<lambda>storage.
      ffi_bind (expect_ok ''failed to open miniapp store'' (fe_open_store env (db @ ''/miniapp''))) (\<lambda>st.
      ffi_bind (expect_vault ''failed to load node identity for coin'' (load_or_create_keypair ve db path key)) (\<lambda>kp.
      ffi_bind (expect_ok ''failed to open coin ledger'' (fe_open_ledger env (db @ ''/coin''))) (\<lambda>L.
      ffi_bind (expect_vault ''failed to load enc keypair'' (load_or_create_enc_keypair ve db key)) (\<lambda>enc.
      let peer = local_id runner;
          coin = coin_node_new L (address_from_keypair cr kp) peer path;
          app = app_node_new peer (fc_display_name c) (storage\<lparr>as_at_rest_key := key\<rparr>) (Some coin) (Some st) enc in
      publish_state
        \<lparr>fn_app = app, fn_db_path = db, fn_coin_identity_path = path,
         fn_cap_mac_key = mac_key_from_db_path (ap_sealing (fe_app env)) db, fn_local_peer_id = peer,
         fn_display_name = fc_display_name c, fn_hot_wallet = hot_wallet_default,
         fn_connectivity_mode = fe_mode env\<rparr>))))))))))"

definition stop_node :: "unit ffi" where
  "stop_node p =
     (if \<not> fp_runtime p then (Returned (), p)
      else if fp_node_poisoned p then (Panicked ''node lock'', p)
      else (Returned (), p\<lparr>fp_node := None\<rparr>))"

section \<open>Tasks\<close>

definition emit :: "ffi_event \<Rightarrow> ffi_process \<Rightarrow> ffi_process" where
  "emit ev p = (if fp_callback p then p\<lparr>fp_events := fp_events p @ [ev]\<rparr> else p)"

text \<open>The connectivity task: what it does once at its start, and its round after a change, which tells the callback too.
  Errors of the hot wallet are logged.\<close>

definition refresh_wallet :: "coin_env \<Rightarrow> string \<Rightarrow> string \<Rightarrow> HotWalletConfig \<Rightarrow> CoinNode \<Rightarrow> CoinNode" where
  "refresh_wallet env uuid path cfg c = snd (enforce_cap env path cfg (snd (maybe_refill env uuid path cfg c)))"

definition connectivity_started :: "ffi_env \<Rightarrow> ffi_process \<Rightarrow> ffi_process" where
  "connectivity_started env p =
     (case fp_node p of
        None \<Rightarrow> p
      | Some n \<Rightarrow>
          (let mode = fe_mode env; n = n\<lparr>fn_connectivity_mode := mode\<rparr> in
           if mode = Internet
           then snd (with_coin (\<lambda>c. ((), refresh_wallet (ffi_coin_env env (fn_db_path n) (fp_vault p)) (ap_uuid (fe_app env))
                  (fn_coin_identity_path n) (fn_hot_wallet n) c)) () n p)
           else ffi_put n p))"

definition connectivity_changed :: "ffi_env \<Rightarrow> ffi_process \<Rightarrow> ffi_process" where
  "connectivity_changed env p =
     (if fp_node p = None then p else connectivity_started env (emit (ConnectivityChanged (fe_mode env)) p))"

text \<open>One tick of the peer watcher: \<open>known\<close> is what the previous tick saw.\<close>

definition peer_watch_tick :: "ffi_env \<Rightarrow> string list \<Rightarrow> ffi_process \<Rightarrow> string list \<times> ffi_process" where
  "peer_watch_tick env known p =
     (let current = handle_known_peers (fe_runner env) in
      (current, fold emit (map PeerLost (filter (\<lambda>x. x \<notin> set current) known))
                  (fold emit (map PeerDiscovered (filter (\<lambda>x. x \<notin> set known) current)) p)))"

text \<open>\<open>FfiNotifier\<close> passes on contact requests only; the inbox task passes on what the node broadcasts to its receivers.\<close>

definition notice_events :: "notice \<Rightarrow> ffi_event list" where
  "notice_events x = (case x of OnContactRequest peer shown \<Rightarrow> [ContactRequested peer shown] | _ \<Rightarrow> [])"

definition inbox_events :: "miniapp_env \<Rightarrow> AppNode \<Rightarrow> AppNode \<Rightarrow> ffi_event list" where
  "inbox_events me a a' =
     concat (map notice_events (drop (length (an_notices a)) (an_notices a'))) @
     map (\<lambda>(peer, m). ChatReceived (to_chat_message m peer)) (drop (length (an_chat_tx a)) (an_chat_tx a')) @
     map (\<lambda>m. MailReceived (to_mail_message m False)) (drop (length (an_mail_tx a)) (an_mail_tx a')) @
     map BulletinReceived (drop (length (an_bulletin_tx a)) (an_bulletin_tx a')) @
     map (\<lambda>l. ListingReceived (to_app_store_listing me l)) (drop (length (an_appstore_tx a)) (an_appstore_tx a'))"

definition ffi_incoming :: "ffi_env \<Rightarrow> DirectMessage \<Rightarrow> ffi_process \<Rightarrow> ffi_process" where
  "ffi_incoming env msg p =
     (case fp_node p of
        None \<Rightarrow> p
      | Some n \<Rightarrow>
          (let app = (fe_app env)\<lparr>ap_coin := ffi_coin_env env (fn_db_path n) (fp_vault p)\<rparr>; a' = dispatch_incoming app msg (fn_app n) in
           fold emit (inbox_events (ap_miniapp (fe_app env)) (fn_app n) a') (ffi_put (n\<lparr>fn_app := a'\<rparr>) p)))"

definition set_event_callback :: "unit ffi" where
  "set_event_callback p = (Returned (), p\<lparr>fp_callback := True\<rparr>)"

end
