(* ===== verification/Ffi_Calls.thy ===== *)
theory Ffi_Calls
  imports Ffi
begin

text \<open>
  The exported calls of \<open>mycelium-ffi/src/lib.rs\<close>, in the order of the file: node, chat and contacts, groups,
  bulletins, proximity, mail, settings, wallet and mini-apps.
\<close>

section \<open>Node\<close>

definition ffi_local_peer_id :: "string ffi" where
  "ffi_local_peer_id = with_state (\<lambda>n. ffi_return (fn_local_peer_id n))"

definition ffi_relay_peer_id :: "ffi_env \<Rightarrow> string ffi" where
  "ffi_relay_peer_id env = block_on (\<lambda>_. ffi_return (handle_relay_peer_id (ap_crypto (fe_app env)) (fe_runner env)))"

definition ffi_relay_keypair_age_secs :: "ffi_env \<Rightarrow> u64 ffi" where
  "ffi_relay_keypair_age_secs env = block_on (\<lambda>_. ffi_return (relay_keypair_age_secs (fe_instant env) (fe_runner env)))"

definition ffi_known_peers :: "ffi_env \<Rightarrow> string list ffi" where
  "ffi_known_peers env = block_on (\<lambda>_. ffi_return (handle_known_peers (fe_runner env)))"

definition ffi_metrics :: "ffi_env \<Rightarrow> FfiMetrics ffi" where
  "ffi_metrics env = block_on (\<lambda>_. ffi_return (metrics_to_ffi (handle_metrics (fe_runner env))))"

section \<open>Chat and contacts\<close>

definition ffi_send_chat_direct :: "ffi_env \<Rightarrow> string \<Rightarrow> string \<Rightarrow> (MyceliumException + unit) ffi" where
  "ffi_send_chat_direct env to text =
     block_on (app_try ChatError (\<lambda>a. and_then (send_chat (fe_app env) (Some to) text a) (\<lambda>_ a. (Ok (), a))))"

definition ffi_send_chat_broadcast :: "ffi_env \<Rightarrow> string \<Rightarrow> (MyceliumException + unit) ffi" where
  "ffi_send_chat_broadcast env text =
     block_on (app_try ChatError (\<lambda>a. and_then (send_chat (fe_app env) None text a) (\<lambda>_ a. (Ok (), a))))"

definition ffi_local_enc_pubkey :: "ffi_env \<Rightarrow> string ffi" where
  "ffi_local_enc_pubkey env = with_state (\<lambda>_. ffi_return (ap_local_enc_hex (fe_app env)))"

definition ffi_send_chat_encrypted :: "ffi_env \<Rightarrow> string \<Rightarrow> string \<Rightarrow> (MyceliumException + unit) ffi" where
  "ffi_send_chat_encrypted env to text = block_on (app_try ChatError (send_chat_encrypted (fe_app env) to text))"

definition ffi_has_enc_key_for :: "ffi_env \<Rightarrow> string \<Rightarrow> bool ffi" where
  "ffi_has_enc_key_for env peer = block_on (\<lambda>_. ffi_return (has_enc_key_for (fe_runner env) peer))"

definition ffi_list_contacts :: "Contact list ffi" where
  "ffi_list_contacts = with_state (\<lambda>n. ffi_return (list_contacts (fn_app n)))"

definition ffi_list_accepted_contacts :: "Contact list ffi" where
  "ffi_list_accepted_contacts = with_state (\<lambda>n. ffi_return (list_accepted_contacts (fn_app n)))"

definition ffi_list_pending_contacts :: "Contact list ffi" where
  "ffi_list_pending_contacts = with_state (\<lambda>n. ffi_return (list_pending_contacts (fn_app n)))"

definition ffi_add_contact :: "ffi_env \<Rightarrow> string \<Rightarrow> string \<Rightarrow> bool \<Rightarrow> Contact ffi" where
  "ffi_add_contact env peer shown accepted = with_state (app_total (add_contact (fe_app env) peer shown accepted))"

definition ffi_accept_contact :: "ffi_env \<Rightarrow> string \<Rightarrow> Contact ffi" where
  "ffi_accept_contact env peer = with_state (app_total (accept_contact (fe_app env) peer))"

definition ffi_reject_contact :: "string \<Rightarrow> unit ffi" where
  "ffi_reject_contact peer = with_state (app_do (reject_contact peer))"

definition ffi_remove_contact :: "string \<Rightarrow> unit ffi" where
  "ffi_remove_contact peer = with_state (app_do (remove_contact peer))"

section \<open>Groups\<close>

definition ffi_list_groups :: "GroupInfo list ffi" where
  "ffi_list_groups = with_state (\<lambda>n. ffi_return (map group_to_info (all_groups (an_storage (fn_app n)))))"

definition ffi_create_group :: "ffi_env \<Rightarrow> string \<Rightarrow> GroupInfo ffi" where
  "ffi_create_group env name =
     block_on (app_total (\<lambda>a.
       let g = group_new (ap_crypto (fe_app env)) (ap_sealing (fe_app env)) (ap_now (fe_app env)) (ap_random_key (fe_app env)) name in
       (group_to_info g, on_storage (save_group g) a)))"

definition ffi_import_group_invite :: "ffi_env \<Rightarrow> string \<Rightarrow> GroupInfo option ffi" where
  "ffi_import_group_invite env text =
     block_on (app_total (\<lambda>a.
       case group_from_invite (ap_json (fe_app env)) (ap_sealing (fe_app env)) (ap_now (fe_app env)) text of
         Inl _ \<Rightarrow> (None, a)
       | Inr g \<Rightarrow> (Some (group_to_info g), on_storage (save_group g) a)))"

definition ffi_export_group_invite :: "ffi_env \<Rightarrow> string \<Rightarrow> string ffi" where
  "ffi_export_group_invite env gid =
     with_state (\<lambda>n. ffi_return (case group_by_id (an_storage (fn_app n)) gid of
         Some g \<Rightarrow> group_export_invite (ap_json (fe_app env)) (ap_sealing (fe_app env)) g
       | None \<Rightarrow> []))"

definition ffi_send_group_message :: "ffi_env \<Rightarrow> string \<Rightarrow> string \<Rightarrow> unit ffi" where
  "ffi_send_group_message env gid text =
     block_on (\<lambda>n. case group_by_id (an_storage (fn_app n)) gid of
         None \<Rightarrow> ffi_return ()
       | Some g \<Rightarrow> app_ignore (send_group_message (fe_app env) g text) n)"

definition ffi_delete_group :: "string \<Rightarrow> unit ffi" where
  "ffi_delete_group gid = with_state (app_do (on_storage (delete_group gid)))"

definition ffi_group_chat_history :: "string \<Rightarrow> u32 \<Rightarrow> FfiChat list ffi" where
  "ffi_group_chat_history gid k =
     block_on (\<lambda>n. ffi_return (map (\<lambda>m. to_chat_message m (''group:'' @ gid))
       (group_chat_history (an_storage (fn_app n)) gid (unat k))))"

definition ffi_chat_history :: "string \<Rightarrow> u32 \<Rightarrow> FfiChat list ffi" where
  "ffi_chat_history peer k =
     block_on (\<lambda>n. ffi_return (map (\<lambda>m. to_chat_message m peer) (chat_history (an_storage (fn_app n)) peer (unat k))))"

section \<open>Bulletins\<close>

definition ffi_post_bulletin :: "ffi_env \<Rightarrow> string \<Rightarrow> string \<Rightarrow> string \<Rightarrow> u64 \<Rightarrow> unit ffi" where
  "ffi_post_bulletin env scope title text ttl = block_on (app_ignore (post_bulletin (fe_app env) scope title text ttl))"

definition ffi_bulletins_for_scope :: "ffi_env \<Rightarrow> string \<Rightarrow> BulletinPost list ffi" where
  "ffi_bulletins_for_scope env scope =
     with_state (\<lambda>n. ffi_return (bulletins_for_scope (ap_now (fe_app env)) (an_storage (fn_app n)) scope))"

definition ffi_get_bulletin_subscriptions :: "ffi_env \<Rightarrow> string list ffi" where
  "ffi_get_bulletin_subscriptions env = block_on (\<lambda>_. ffi_return (handle_bulletin_subscriptions (fe_runner env)))"

definition ffi_subscribe_bulletin_scope :: "ffi_env \<Rightarrow> string \<Rightarrow> unit ffi" where
  "ffi_subscribe_bulletin_scope env scope = block_on (app_ignore (app_send (fe_app env) (CmdSubscribeBulletinScope scope)))"

definition ffi_unsubscribe_bulletin_scope :: "ffi_env \<Rightarrow> string \<Rightarrow> unit ffi" where
  "ffi_unsubscribe_bulletin_scope env scope = block_on (app_ignore (app_send (fe_app env) (CmdUnsubscribeBulletinScope scope)))"

definition ffi_is_bulletin_enabled :: "ffi_env \<Rightarrow> bool ffi" where
  "ffi_is_bulletin_enabled env = block_on (\<lambda>_. ffi_return (is_bulletin_enabled (fe_runner env)))"

definition ffi_list_scope_keys :: "ScopeKeyInfo list ffi" where
  "ffi_list_scope_keys = with_state (\<lambda>n. ffi_return (map scope_key_to_info (all_scope_keys (an_storage (fn_app n)))))"

definition ffi_add_scope_key :: "ffi_env \<Rightarrow> string \<Rightarrow> (MyceliumException + unit) ffi" where
  "ffi_add_scope_key env text =
     block_on (app_try ChatError (\<lambda>a. and_then (add_scope_key_from_invite (fe_app env) text a) (\<lambda>_ a. (Ok (), a))))"

definition ffi_create_scope_key :: "ffi_env \<Rightarrow> string \<Rightarrow> string \<Rightarrow> unit ffi" where
  "ffi_create_scope_key env scope shown = block_on (app_do (\<lambda>a. snd (create_scope_key (fe_app env) scope shown a)))"

definition ffi_export_scope_key :: "ffi_env \<Rightarrow> string \<Rightarrow> (MyceliumException + string) ffi" where
  "ffi_export_scope_key env scope = with_state (app_try ChatError (\<lambda>a. (export_scope_key (fe_app env) scope a, a)))"

definition ffi_delete_scope_key :: "ffi_env \<Rightarrow> string \<Rightarrow> unit ffi" where
  "ffi_delete_scope_key env scope = block_on (app_do (app_delete_scope_key (fe_app env) scope))"

definition ffi_scope_is_encrypted :: "string \<Rightarrow> bool ffi" where
  "ffi_scope_is_encrypted scope = with_state (\<lambda>n. ffi_return (scope_is_encrypted (fn_app n) scope))"

section \<open>Proximity\<close>

definition ffi_start_proximity :: "ffi_env \<Rightarrow> PresenceProfile \<Rightarrow> u32 \<Rightarrow> (MyceliumException + unit) ffi" where
  "ffi_start_proximity env profile ttl = block_on (app_try ChatError (start_proximity (fe_app env) profile ttl))"

definition ffi_stop_proximity :: "ffi_env \<Rightarrow> unit ffi" where
  "ffi_stop_proximity env = block_on (app_do (stop_proximity (fe_app env)))"

definition ffi_nearby_profiles :: "ffi_env \<Rightarrow> NearbyProfile list ffi" where
  "ffi_nearby_profiles env =
     block_on (app_total (\<lambda>a. let (es, a) = nearby_profiles (fe_app env) a in (map (entry_to_nearby (ap_now (fe_app env))) es, a)))"

definition ffi_express_proximity_interest :: "ffi_env \<Rightarrow> string \<Rightarrow> (MyceliumException + bool) ffi" where
  "ffi_express_proximity_interest env h = block_on (app_try ChatError (express_proximity_interest (fe_app env) h))"

definition ffi_proximity_messages :: "u64 \<Rightarrow> ProximityReceivedMessage list ffi" where
  "ffi_proximity_messages since_ms = block_on (\<lambda>n. ffi_return (proximity_messages since_ms (fn_app n)))"

definition ffi_is_proximity_active :: "bool ffi" where
  "ffi_is_proximity_active = with_state (\<lambda>n. ffi_return (an_px_active (fn_app n)))"

definition ffi_send_proximity_message :: "ffi_env \<Rightarrow> string \<Rightarrow> string \<Rightarrow> (MyceliumException + unit) ffi" where
  "ffi_send_proximity_message env h text = block_on (app_try ChatError (send_proximity_message (fe_app env) h text))"

section \<open>Mail and settings\<close>

definition ffi_send_mail :: "ffi_env \<Rightarrow> string \<Rightarrow> string \<Rightarrow> string \<Rightarrow> unit ffi" where
  "ffi_send_mail env to subject text = block_on (app_ignore (send_mail (fe_app env) to subject text []))"

definition ffi_mail_inbox :: "u32 \<Rightarrow> FfiMail list ffi" where
  "ffi_mail_inbox k =
     with_state (\<lambda>n. let s = an_storage (fn_app n) in
       ffi_return (map (\<lambda>m. to_mail_message m (is_read s (mm_id m))) (mail_inbox s (unat k))))"

definition ffi_mail_sent :: "u32 \<Rightarrow> FfiMail list ffi" where
  "ffi_mail_sent k =
     with_state (\<lambda>n. ffi_return (map (\<lambda>m. to_mail_message m False) (mail_sent (an_storage (fn_app n)) (unat k))))"

definition ffi_mark_mail_read :: "ffi_env \<Rightarrow> string \<Rightarrow> unit ffi" where
  "ffi_mark_mail_read env mail_id =
     (case fe_parse_uuid env mail_id of
        None \<Rightarrow> ffi_return ()
      | Some i \<Rightarrow> with_state (app_do (on_storage (mark_read i))))"

definition ffi_set_display_name :: "string \<Rightarrow> unit ffi" where
  "ffi_set_display_name name =
     block_on (\<lambda>n p. (Returned (), ffi_put (n\<lparr>fn_app := set_display_name name (fn_app n), fn_display_name := name\<rparr>) p))"

definition ffi_display_name :: "string ffi" where
  "ffi_display_name = block_on (\<lambda>n. ffi_return (fn_display_name n))"

definition ffi_set_energy_state :: "ffi_env \<Rightarrow> NodeState \<Rightarrow> unit ffi" where
  "ffi_set_energy_state env st = block_on (app_ignore (app_send (fe_app env) (CmdSetEnergyState st)))"

definition ffi_set_rendezvous_enabled :: "ffi_env \<Rightarrow> bool \<Rightarrow> unit ffi" where
  "ffi_set_rendezvous_enabled env on = block_on (app_ignore (app_send (fe_app env) (CmdSetRendezvousEnabled on)))"

definition ffi_add_bootstrap_peer :: "ffi_env \<Rightarrow> string \<Rightarrow> unit ffi" where
  "ffi_add_bootstrap_peer env addr = block_on (app_ignore (app_send (fe_app env) (CmdAddBootstrapPeer addr)))"

section \<open>Wallet\<close>

definition ffi_wallet_address :: "string ffi" where
  "ffi_wallet_address = with_state (with_coin (\<lambda>c. (local_address c, c)) [])"

definition ffi_wallet_balance :: "(u64 \<times> u64) ffi" where
  "ffi_wallet_balance = with_state (with_coin (\<lambda>c. (coin_balance c, c)) (0, 0))"

text \<open>The error of a transfer is logged.  A transfer to an address that is none ends before the identity is loaded.\<close>

definition ffi_send_transaction :: "ffi_env \<Rightarrow> string \<Rightarrow> u64 \<Rightarrow> string option \<Rightarrow> unit ffi" where
  "ffi_send_transaction env to amount memo =
     block_on (\<lambda>n p.
       if \<not> validate_address (ap_crypto (fe_app env)) to then (Returned (), p)
       else
         let dir = fn_db_path n; path = fn_coin_identity_path n; cenv = ffi_coin_env env dir (fp_vault p);
             vs = snd (load_or_create_keypair (fe_vault env) dir path None (fp_vault p)) in
         with_coin (\<lambda>c. ((), snd (submit_transfer_from_identity_path cenv path to amount 1000 memo c))) () n
           (p\<lparr>fp_vault := vs\<rparr>))"

definition ffi_wallet_recent_transactions :: "u32 \<Rightarrow> TxInfo list ffi" where
  "ffi_wallet_recent_transactions k =
     with_state (with_coin (\<lambda>c. (map tx_to_info (recent_transactions (ledger c) (unat k)), c)) [])"

definition ffi_request_faucet :: "unit ffi" where
  "ffi_request_faucet = with_state (with_coin (\<lambda>c. ((), snd (request_faucet_coins c))) ())"

definition ffi_get_hot_wallet_config :: "HotWalletConfig ffi" where
  "ffi_get_hot_wallet_config = block_on (\<lambda>n. ffi_return (fn_hot_wallet n))"

definition ffi_set_hot_wallet_config :: "HotWalletConfig \<Rightarrow> unit ffi" where
  "ffi_set_hot_wallet_config c = block_on (\<lambda>n p. (Returned (), ffi_put (n\<lparr>fn_hot_wallet := c\<rparr>) p))"

definition ffi_set_cold_wallet_address :: "string option \<Rightarrow> unit ffi" where
  "ffi_set_cold_wallet_address address =
     block_on (\<lambda>n p. (Returned (), ffi_put (n\<lparr>fn_hot_wallet := (fn_hot_wallet n)\<lparr>cold_wallet_address := address\<rparr>\<rparr>) p))"

definition ffi_hot_wallet_status :: "HotWalletStatus ffi" where
  "ffi_hot_wallet_status =
     block_on (\<lambda>n.
       let (conf, pend) = (case an_coin (fn_app n) of Some c \<Rightarrow> coin_balance c | None \<Rightarrow> (0, 0));
           cfg = fn_hot_wallet n; auto = (cold_wallet_address cfg \<noteq> None) in
       ffi_return \<lparr>hs_confirmed_muon = conf, hs_pending_muon = pend, hs_max_cache_muon = max_cache_muon cfg,
         hs_auto_refill_enabled = auto, hs_needs_refill = (auto \<and> conf < refill_threshold_muon cfg),
         hs_connectivity = fn_connectivity_mode n\<rparr>)"

definition ffi_current_connectivity_mode :: "ConnectivityMode ffi" where
  "ffi_current_connectivity_mode = with_state (\<lambda>n. ffi_return (fn_connectivity_mode n))"

definition ffi_build_payment_request_uri :: "ffi_env \<Rightarrow> string \<Rightarrow> u64 \<Rightarrow> string option \<Rightarrow> string ffi" where
  "ffi_build_payment_request_uri env to amount memo =
     ffi_return (to_uri (be_url_encode (fe_bridge env)) (payment_new (ap_now (fe_app env)) (ap_uuid (fe_app env)) to amount memo))"

definition ffi_parse_payment_request_uri :: "ffi_env \<Rightarrow> string \<Rightarrow> PaymentRequestData option ffi" where
  "ffi_parse_payment_request_uri env uri =
     ffi_return (case from_uri (fe_url_decode env) (ap_uuid (fe_app env)) uri of
         Inl _ \<Rightarrow> None
       | Inr r \<Rightarrow>
           if pay_is_expired (ap_now (fe_app env)) r then None
           else Some \<lparr>prd_to_address = to_address r, prd_amount_muon = pay_amount_muon r, prd_memo = pay_memo r,
                      prd_expires_at_ms = pay_expires_at_ms r\<rparr>)"

end
