(* ===== verification/Ffi_Miniapps.thy ===== *)
theory Ffi_Miniapps
  imports Ffi_Calls
begin

text \<open>
  The exported calls about mini-apps (\<open>mycelium-ffi/src/lib.rs\<close>) and the set of all exported calls that can
  change the process, as data: a run of the interface is a list of them.
\<close>

section \<open>Sessions and capabilities\<close>

definition as_bridge :: "ffi_process \<Rightarrow> FfiNode \<Rightarrow> bridge" where
  "as_bridge p n = \<lparr>br_sessions = fp_sessions p, br_calls = fp_calls p, br_broadcasts = fp_broadcasts p, br_node = fn_app n\<rparr>"

definition put_bridge :: "bridge \<Rightarrow> FfiNode \<Rightarrow> ffi_process \<Rightarrow> ffi_process" where
  "put_bridge b n p =
     ffi_put (n\<lparr>fn_app := br_node b\<rparr>)
       (p\<lparr>fp_sessions := br_sessions b, fp_calls := br_calls b, fp_broadcasts := br_broadcasts b\<rparr>)"

definition ffi_issue_bridge_session :: "ffi_env \<Rightarrow> string \<Rightarrow> string ffi" where
  "ffi_issue_bridge_session env app_id p =
     (let app = fe_app env in
      (Returned (ap_uuid app),
       p\<lparr>fp_sessions := (fp_sessions p)(app_id \<mapsto> \<lparr>se_token = ap_uuid app, se_issued_at_ms = ap_now app\<rparr>)\<rparr>))"

definition ffi_revoke_bridge_session :: "string \<Rightarrow> unit ffi" where
  "ffi_revoke_bridge_session app_id p = (Returned (), p\<lparr>fp_sessions := (fp_sessions p)(app_id := None)\<rparr>)"

definition ffi_issue_capability :: "ffi_env \<Rightarrow> string \<Rightarrow> string \<Rightarrow> string \<Rightarrow> string ffi" where
  "ffi_issue_capability env app_id permission session =
     with_state (\<lambda>n. case parse_permission_name permission of
         None \<Rightarrow> ffi_panic (''unknown permission: '' @ permission)
       | Some perm \<Rightarrow> ffi_return (issue_capability (fe_bridge env) (fn_cap_mac_key n) app_id perm session DEFAULT_CAP_TTL_MS))"

section \<open>Policy\<close>

text \<open>The identity that signs is loaded without a storage key, here too.\<close>

definition ffi_publish_revocation :: "ffi_env \<Rightarrow> string \<Rightarrow> string \<Rightarrow> unit ffi" where
  "ffi_publish_revocation env app_id reason =
     ffi_bind ffi_runtime (\<lambda>_. ffi_bind state_arc (\<lambda>n.
     ffi_bind (expect_vault ''load identity keypair for revocation''
        (load_or_create_keypair (fe_vault env) (fn_db_path n) (fn_coin_identity_path n) None)) (\<lambda>kp.
     ffi_bind (expect_ok ''build revocation gossip''
        (rg_new_signed (ap_crypto (fe_app env)) (ap_now (fe_app env)) app_id reason (fn_local_peer_id n) kp)) (\<lambda>entry p.
     let (r, a) = publish_app_revocation (fe_app env) entry (fn_app n); p = ffi_put (n\<lparr>fn_app := a\<rparr>) p in
     case r of Inl e \<Rightarrow> (Panicked (''publish revocation gossip: '' @ e), p) | Inr _ \<Rightarrow> (Returned (), p)))))"

definition ffi_get_policy :: "string \<Rightarrow> MiniAppPolicy ffi" where
  "ffi_get_policy app_id = with_state (\<lambda>n. ffi_return (policy_load_with_store (node_store n) app_id True))"

definition store_do :: "(AppStore \<Rightarrow> AppStore) \<Rightarrow> FfiNode \<Rightarrow> unit ffi" where
  "store_do f n p = (Returned (), ffi_put (put_store (f (node_store n)) n) p)"

definition ffi_set_safe_mode :: "string \<Rightarrow> bool \<Rightarrow> unit ffi" where
  "ffi_set_safe_mode app_id enabled = with_state (store_do (set_safe_mode app_id enabled))"

definition ffi_report_app :: "ffi_env \<Rightarrow> string \<Rightarrow> unit ffi" where
  "ffi_report_app env app_id = with_state (store_do (record_user_report (ap_now (fe_app env)) app_id))"

section \<open>Installation\<close>

definition ffi_list_installed_apps :: "MiniAppInfo list ffi" where
  "ffi_list_installed_apps = with_state (\<lambda>n. ffi_return (map mini_app_manifest_to_info (installed_apps (node_store n))))"

definition ffi_preview_install :: "ffi_env \<Rightarrow> bytes \<Rightarrow> (MyceliumException + MiniAppInstallPreview) ffi" where
  "ffi_preview_install env bundle =
     with_state (\<lambda>n. ffi_return (case preview_install (ap_miniapp (fe_app env)) (node_store n) bundle of
         Inl e \<Rightarrow> Inl (InstallError e)
       | Inr p \<Rightarrow> Inr (preview_to_ffi p)))"

text \<open>An installation, its result as an exception.\<close>

definition store_install ::
  "(AppStore \<Rightarrow> MiniAppManifest result \<times> AppStore) \<Rightarrow> FfiNode \<Rightarrow> (MyceliumException + MiniAppInfo) ffi" where
  "store_install f n p =
     (let (r, st) = f (node_store n) in
      (Returned (case r of Inl e \<Rightarrow> Inl (InstallError e) | Inr m \<Rightarrow> Inr (mini_app_manifest_to_info m)),
       ffi_put (put_store st n) p))"

definition ffi_install_app ::
  "ffi_env \<Rightarrow> bytes \<Rightarrow> string option \<Rightarrow> bool \<Rightarrow> bool \<Rightarrow> (MyceliumException + MiniAppInfo) ffi" where
  "ffi_install_app env bundle listing_app_id allow_sideload allow_downgrade =
     with_state (\<lambda>n.
       let me = ap_miniapp (fe_app env); now = ap_now (fe_app env) in
       case listing_app_id of
         Some i \<Rightarrow>
           (case preview_install me (node_store n) bundle of
              Inl e \<Rightarrow> ffi_return (Inl (InstallError e))
            | Inr pv \<Rightarrow>
                if mf_id (pv_manifest pv) \<noteq> i
                then ffi_return (Inl (InstallError ''bundle app id does not match listing_app_id''))
                else store_install (install_verified me now bundle TrustVerifiedListing allow_downgrade) n)
       | None \<Rightarrow>
           if allow_sideload then store_install (install_verified me now bundle TrustSideloadAcknowledged allow_downgrade) n
           else ffi_return (Inl (InstallError ''listing_app_id or allow_sideload required'')))"

definition ffi_install_official_bundle :: "ffi_env \<Rightarrow> string \<Rightarrow> (MyceliumException + MiniAppInfo) ffi" where
  "ffi_install_official_bundle env app_id =
     with_state (store_install (install_official_bundle (ap_miniapp (fe_app env)) (fe_official env) (ap_now (fe_app env)) app_id))"

definition ffi_uninstall_app :: "string \<Rightarrow> unit ffi" where
  "ffi_uninstall_app app_id =
     ffi_bind (ffi_revoke_bridge_session app_id) (\<lambda>_.
     with_state (\<lambda>n p.
       let n = put_store (uninstall app_id (node_store n)) n in
       app_do (on_storage (miniapp_clear_all_for_app app_id)) n p))"

definition ffi_get_app_file :: "string \<Rightarrow> string \<Rightarrow> bytes option ffi" where
  "ffi_get_app_file app_id path = with_state (\<lambda>n. ffi_return (get_file (node_store n) app_id path))"

definition ffi_browse_app_store :: "ffi_env \<Rightarrow> FfiListing list ffi" where
  "ffi_browse_app_store env =
     with_state (\<lambda>n. ffi_return (map (to_app_store_listing (ap_miniapp (fe_app env))) (browse_listings (node_store n))))"

section \<open>Stored values and the bridge\<close>

definition storage_key_of :: "string \<Rightarrow> string \<Rightarrow> string" where
  "storage_key_of app_id key = ''app:'' @ app_id @ '':'' @ key"

definition ffi_storage_get :: "ffi_env \<Rightarrow> string \<Rightarrow> string \<Rightarrow> string option ffi" where
  "ffi_storage_get env app_id key =
     with_state (\<lambda>n. ffi_return (case miniapp_get (ap_sealing (fe_app env)) (an_storage (fn_app n)) (storage_key_of app_id key) of
         Inr v \<Rightarrow> v | Inl _ \<Rightarrow> None))"

definition ffi_storage_set :: "ffi_env \<Rightarrow> string \<Rightarrow> string \<Rightarrow> string \<Rightarrow> unit ffi" where
  "ffi_storage_set env app_id key v =
     with_state (\<lambda>n p.
       case ok_then (validate_key key) (\<lambda>_. validate_value v) of
         Inl e \<Rightarrow> (Panicked (''miniapp storage set: '' @ e), p)
       | Inr _ \<Rightarrow>
           (let (r, s) = miniapp_set (ap_sealing (fe_app env)) (ap_nonce (fe_app env)) (storage_key_of app_id key) v (an_storage (fn_app n));
                p = ffi_put (n\<lparr>fn_app := (fn_app n)\<lparr>an_storage := s\<rparr>\<rparr>) p in
            case r of Inl e \<Rightarrow> (Panicked (''miniapp storage set: '' @ e), p) | Inr _ \<Rightarrow> (Returned (), p)))"

definition ffi_storage_delete :: "string \<Rightarrow> string \<Rightarrow> unit ffi" where
  "ffi_storage_delete app_id key = with_state (app_do (on_storage (miniapp_delete (storage_key_of app_id key))))"

definition ffi_bridge_call :: "ffi_env \<Rightarrow> string \<Rightarrow> string \<Rightarrow> string \<Rightarrow> string ffi" where
  "ffi_bridge_call env app_id meth args_json =
     ffi_bind ffi_runtime (\<lambda>_. ffi_bind state_arc (\<lambda>n p.
       let js = ap_json (fe_app env);
           benv = (fe_bridge env)\<lparr>be_app := fe_app env\<rparr>;
           args = (case js_parse js args_json of Inr v \<Rightarrow> v | Inl _ \<Rightarrow> JNull);
           (r, b) = miniapp_bridge_call benv (fn_cap_mac_key n) app_id meth args (as_bridge p n) in
       (Returned (js_print js (case r of Inr v \<Rightarrow> v | Inl e \<Rightarrow> json_object [(''error'', JStr e)])), put_bridge b n p)))"

section \<open>Runs\<close>

datatype FfiCall =
    InitNode FfiConfig | StopNode | SetEventCallback
  | QueryNode  \<comment> \<open>any call that only reads, with \<open>with_state\<close>\<close>
  | QueryNodeAsync  \<comment> \<open>any call that only reads, with \<open>state_arc\<close> first\<close>
  | SendChatDirect string string | SendChatBroadcast string | SendChatEncrypted string string
  | AddContact string string bool | AcceptContact string | RejectContact string | RemoveContact string
  | CreateGroup string | ImportGroupInvite string | SendGroupMessage string string | DeleteGroup string
  | PostBulletin string string string u64 | SubscribeBulletinScope string | UnsubscribeBulletinScope string
  | AddScopeKey string | CreateScopeKey string string | DeleteScopeKey string
  | StartProximity PresenceProfile u32 | StopProximity | NearbyProfiles | ExpressProximityInterest string
  | SendProximityMessage string string
  | SendMail string string string | MarkMailRead string
  | SetDisplayName string | SetEnergyState NodeState | SetRendezvousEnabled bool | AddBootstrapPeer string
  | SendTransaction string u64 "string option" | RequestFaucet
  | SetHotWalletConfig HotWalletConfig | SetColdWalletAddress "string option"
  | IssueBridgeSession string | RevokeBridgeSession string | IssueCapability string string string
  | PublishRevocation string string | SetSafeMode string bool | ReportApp string
  | InstallApp bytes "string option" bool bool | InstallOfficialBundle string | UninstallApp string
  | StorageSet string string string | StorageDelete string string | BridgeCall string string string

text \<open>Did the call return, and the process after it.\<close>

definition ended :: "'a outcome \<times> ffi_process \<Rightarrow> bool \<times> ffi_process" where
  "ended r = (case r of (Returned _, p) \<Rightarrow> (True, p) | (Panicked _, p) \<Rightarrow> (False, p))"

fun ffi_call :: "ffi_env \<Rightarrow> FfiCall \<Rightarrow> ffi_process \<Rightarrow> bool \<times> ffi_process" where
  "ffi_call env (InitNode c) p = ended (init_node env c p)"
| "ffi_call env StopNode p = ended (stop_node p)"
| "ffi_call env SetEventCallback p = ended (set_event_callback p)"
| "ffi_call env QueryNode p = ended (with_state (\<lambda>_. ffi_return ()) p)"
| "ffi_call env QueryNodeAsync p = ended (block_on (\<lambda>_. ffi_return ()) p)"
| "ffi_call env (SendChatDirect to text) p = ended (ffi_send_chat_direct env to text p)"
| "ffi_call env (SendChatBroadcast text) p = ended (ffi_send_chat_broadcast env text p)"
| "ffi_call env (SendChatEncrypted to text) p = ended (ffi_send_chat_encrypted env to text p)"
| "ffi_call env (AddContact peer shown acc) p = ended (ffi_add_contact env peer shown acc p)"
| "ffi_call env (AcceptContact peer) p = ended (ffi_accept_contact env peer p)"
| "ffi_call env (RejectContact peer) p = ended (ffi_reject_contact peer p)"
| "ffi_call env (RemoveContact peer) p = ended (ffi_remove_contact peer p)"
| "ffi_call env (CreateGroup name) p = ended (ffi_create_group env name p)"
| "ffi_call env (ImportGroupInvite text) p = ended (ffi_import_group_invite env text p)"
| "ffi_call env (SendGroupMessage gid text) p = ended (ffi_send_group_message env gid text p)"
| "ffi_call env (DeleteGroup gid) p = ended (ffi_delete_group gid p)"
| "ffi_call env (PostBulletin scope title text ttl) p = ended (ffi_post_bulletin env scope title text ttl p)"
| "ffi_call env (SubscribeBulletinScope scope) p = ended (ffi_subscribe_bulletin_scope env scope p)"
| "ffi_call env (UnsubscribeBulletinScope scope) p = ended (ffi_unsubscribe_bulletin_scope env scope p)"
| "ffi_call env (AddScopeKey text) p = ended (ffi_add_scope_key env text p)"
| "ffi_call env (CreateScopeKey scope shown) p = ended (ffi_create_scope_key env scope shown p)"
| "ffi_call env (DeleteScopeKey scope) p = ended (ffi_delete_scope_key env scope p)"
| "ffi_call env (StartProximity profile ttl) p = ended (ffi_start_proximity env profile ttl p)"
| "ffi_call env StopProximity p = ended (ffi_stop_proximity env p)"
| "ffi_call env NearbyProfiles p = ended (ffi_nearby_profiles env p)"
| "ffi_call env (ExpressProximityInterest h) p = ended (ffi_express_proximity_interest env h p)"
| "ffi_call env (SendProximityMessage h text) p = ended (ffi_send_proximity_message env h text p)"
| "ffi_call env (SendMail to subject text) p = ended (ffi_send_mail env to subject text p)"
| "ffi_call env (MarkMailRead i) p = ended (ffi_mark_mail_read env i p)"
| "ffi_call env (SetDisplayName name) p = ended (ffi_set_display_name name p)"
| "ffi_call env (SetEnergyState st) p = ended (ffi_set_energy_state env st p)"
| "ffi_call env (SetRendezvousEnabled on) p = ended (ffi_set_rendezvous_enabled env on p)"
| "ffi_call env (AddBootstrapPeer addr) p = ended (ffi_add_bootstrap_peer env addr p)"
| "ffi_call env (SendTransaction to amount memo) p = ended (ffi_send_transaction env to amount memo p)"
| "ffi_call env RequestFaucet p = ended (ffi_request_faucet p)"
| "ffi_call env (SetHotWalletConfig c) p = ended (ffi_set_hot_wallet_config c p)"
| "ffi_call env (SetColdWalletAddress address) p = ended (ffi_set_cold_wallet_address address p)"
| "ffi_call env (IssueBridgeSession i) p = ended (ffi_issue_bridge_session env i p)"
| "ffi_call env (RevokeBridgeSession i) p = ended (ffi_revoke_bridge_session i p)"
| "ffi_call env (IssueCapability i permission session) p = ended (ffi_issue_capability env i permission session p)"
| "ffi_call env (PublishRevocation i reason) p = ended (ffi_publish_revocation env i reason p)"
| "ffi_call env (SetSafeMode i enabled) p = ended (ffi_set_safe_mode i enabled p)"
| "ffi_call env (ReportApp i) p = ended (ffi_report_app env i p)"
| "ffi_call env (InstallApp bundle listing sideload downgrade) p = ended (ffi_install_app env bundle listing sideload downgrade p)"
| "ffi_call env (InstallOfficialBundle i) p = ended (ffi_install_official_bundle env i p)"
| "ffi_call env (UninstallApp i) p = ended (ffi_uninstall_app i p)"
| "ffi_call env (StorageSet i key v) p = ended (ffi_storage_set env i key v p)"
| "ffi_call env (StorageDelete i key) p = ended (ffi_storage_delete i key p)"
| "ffi_call env (BridgeCall i meth args) p = ended (ffi_bridge_call env i meth args p)"

text \<open>What happens in a process: calls of the interface, messages from the mesh, changes of connectivity.\<close>

datatype ffi_step = FfiStep FfiCall | FfiMessage DirectMessage | FfiConnectivityStart | FfiConnectivity

fun ffi_exec :: "ffi_env \<Rightarrow> ffi_step \<Rightarrow> ffi_process \<Rightarrow> ffi_process" where
  "ffi_exec env (FfiStep c) p = snd (ffi_call env c p)"
| "ffi_exec env (FfiMessage msg) p = ffi_incoming env msg p"
| "ffi_exec env FfiConnectivityStart p = connectivity_started env p"
| "ffi_exec env FfiConnectivity p = connectivity_changed env p"

definition ffi_run :: "(ffi_env \<times> ffi_step) list \<Rightarrow> ffi_process \<Rightarrow> ffi_process" where
  "ffi_run steps p = foldl (\<lambda>p (env, st). ffi_exec env st p) p steps"

end
