(* ===== verification/Desktop.thy ===== *)
theory Desktop
  imports Ffi_Miniapps
begin

text \<open>
  The desktop host (\<open>mycelium-desktop/src/lib.rs\<close>): its state, the start of a node, the commands its
  window can invoke and the two loops that send events to the window.  The window itself belongs to Tauri; an event is a name with
  its JSON value.  The files below the database directory are those of the vault and the settings; the databases are opened
  by the surroundings of a command, which also give the clock and the state of the runner.
\<close>

section \<open>State\<close>

record AppState =
  ds_app :: AppNode  \<comment> \<open>\<open>app_node\<close>; the storage, the store and the coin node are shared with it\<close>
  ds_local_peer_id :: string
  ds_coin_identity_path :: string
  ds_db_path :: string
  ds_cap_mac_key :: bytes
  ds_energy_state :: NodeState
  ds_rendezvous_enabled :: bool

record desktop =
  dt_state :: "AppState option"
  dt_spawned :: nat  \<comment> \<open>runners spawned since the process started\<close>
  dt_events :: "(string \<times> json) list"
  dt_sessions :: "string \<Rightarrow> Session option"
  dt_calls :: "string \<Rightarrow> (u64 \<times> u32) option"
  dt_broadcasts :: "string \<Rightarrow> (u64 \<times> u32) option"
  dt_vault :: vault_state
  dt_files :: file_system

definition desktop_start :: "vault_state \<Rightarrow> file_system \<Rightarrow> desktop" where
  "desktop_start vs fs =
     \<lparr>dt_state = None, dt_spawned = 0, dt_events = [], dt_sessions = \<lambda>_. None, dt_calls = \<lambda>_. None,
      dt_broadcasts = \<lambda>_. None, dt_vault = vs, dt_files = fs\<rparr>"

record UiSettings =
  ui_rendezvous_enabled :: bool

record desktop_env =
  de_host :: ffi_env  \<comment> \<open>packages, clock, disk and runner\<close>
  de_data_dir :: "string option"
  de_settings_parse :: "string \<Rightarrow> UiSettings option"
  de_settings_print :: "UiSettings \<Rightarrow> string"
  de_settings_write :: "unit result"
  de_dir_exists :: "string \<Rightarrow> bool"
  de_remove_dir :: "string \<Rightarrow> unit result"
  de_reached :: "string \<Rightarrow> bool"  \<comment> \<open>the files that a failing removal got to\<close>
  de_b64_decode :: "string \<Rightarrow> bytes result"
  de_manifest_json :: "MiniAppManifest \<Rightarrow> json"
  de_listing_json :: "AppStoreListing \<Rightarrow> json"
  de_bridge_js :: string
  de_relay_status :: json
  de_reply :: "unit result"  \<comment> \<open>whether the runner answers\<close>

abbreviation de_app :: "desktop_env \<Rightarrow> app_env" where "de_app env \<equiv> fe_app (de_host env)"
abbreviation de_now :: "desktop_env \<Rightarrow> u64" where "de_now env \<equiv> ap_now (de_app env)"

type_synonym 'a command = "desktop \<Rightarrow> 'a result \<times> desktop"

section \<open>Settings\<close>

definition ui_settings_default :: UiSettings where "ui_settings_default = \<lparr>ui_rendezvous_enabled = True\<rparr>"

definition load_ui_settings :: "desktop_env \<Rightarrow> file_system \<Rightarrow> string \<Rightarrow> UiSettings" where
  "load_ui_settings env fs db =
     (case fs (db, ''ui_settings.json'') of
        None \<Rightarrow> ui_settings_default
      | Some text \<Rightarrow> (case de_settings_parse env text of Some ui \<Rightarrow> ui | None \<Rightarrow> ui_settings_default))"

definition save_ui_settings :: "desktop_env \<Rightarrow> string \<Rightarrow> UiSettings \<Rightarrow> unit command" where
  "save_ui_settings env db ui p =
     (case de_settings_write env of
        Inl e \<Rightarrow> (Err e, p)
      | Inr _ \<Rightarrow> (Ok (), p\<lparr>dt_files := (dt_files p)((db, ''ui_settings.json'') \<mapsto> de_settings_print env ui)\<rparr>))"

section \<open>Access to the state\<close>

text \<open>A command needs the node, or has an answer for the time before it is started.\<close>

definition started :: "(AppState \<Rightarrow> 'a command) \<Rightarrow> 'a command" where
  "started f p = (case dt_state p of None \<Rightarrow> (Err ''node not started'', p) | Some s \<Rightarrow> f s p)"

definition started_or :: "'a \<Rightarrow> (AppState \<Rightarrow> 'a) \<Rightarrow> 'a command" where
  "started_or d f p = (case dt_state p of None \<Rightarrow> (Ok d, p) | Some s \<Rightarrow> (Ok (f s), p))"

definition emit_to :: "string \<Rightarrow> json \<Rightarrow> desktop \<Rightarrow> desktop" where
  "emit_to name v p = p\<lparr>dt_events := dt_events p @ [(name, v)]\<rparr>"

definition put_app :: "AppState \<Rightarrow> AppNode \<Rightarrow> desktop \<Rightarrow> desktop" where
  "put_app s a p = p\<lparr>dt_state := Some (s\<lparr>ds_app := a\<rparr>)\<rparr>"

definition app_run :: "(AppNode \<Rightarrow> 'a app_result) \<Rightarrow> AppState \<Rightarrow> 'a command" where
  "app_run f s p = (let (r, a) = f (ds_app s) in (r, put_app s a p))"

definition app_set :: "(AppNode \<Rightarrow> AppNode) \<Rightarrow> AppState \<Rightarrow> unit command" where
  "app_set f = app_run (\<lambda>a. (Ok (), f a))"

definition answer :: "(AppState \<Rightarrow> 'a) \<Rightarrow> AppState \<Rightarrow> 'a command" where
  "answer f s p = (Ok (f s), p)"

definition store_of :: "AppState \<Rightarrow> AppStore" where
  "store_of s = host_store \<lparr>br_sessions = \<lambda>_. None, br_calls = \<lambda>_. None, br_broadcasts = \<lambda>_. None, br_node = ds_app s\<rparr>"

definition store_run :: "(AppStore \<Rightarrow> 'a result \<times> AppStore) \<Rightarrow> AppState \<Rightarrow> 'a command" where
  "store_run f s p = (let (r, st) = f (store_of s) in (r, put_app s ((ds_app s)\<lparr>an_app_store := Some st\<rparr>) p))"

definition vault_run :: "(vault_state \<Rightarrow> 'a result \<times> vault_state) \<Rightarrow> 'a command" where
  "vault_run f p = (let (r, vs) = f (dt_vault p) in (r, p\<lparr>dt_vault := vs\<rparr>))"

section \<open>The coin transport\<close>

definition desktop_broadcast_coin :: "app_env \<Rightarrow> bytes \<Rightarrow> unit result" where
  "desktop_broadcast_coin env inner =
     ok_then (encode_coin_payload env inner) (\<lambda>pl. ap_send env (CmdBroadcastPayload ''mycelium/coin'' ''coin:broadcast'' pl))"

definition desktop_direct_coin :: "app_env \<Rightarrow> string \<Rightarrow> bytes \<Rightarrow> unit result" where
  "desktop_direct_coin env to inner =
     ok_then (encode_coin_payload env inner) (\<lambda>pl. ap_send env (CmdSendDirectPayload to ''coin:direct'' pl))"

definition desktop_coin_env :: "desktop_env \<Rightarrow> string \<Rightarrow> vault_state \<Rightarrow> coin_env" where
  "desktop_coin_env env dir vs =
     (ap_coin (de_app env))\<lparr>ce_broadcast := desktop_broadcast_coin (de_app env), ce_send_direct := desktop_direct_coin (de_app env),
       ce_load_keypair := \<lambda>path. fst (load_or_create_keypair (fe_vault (de_host env)) dir path None vs)\<rparr>"

section \<open>Start, reset, wipe\<close>

definition default_db_path :: "desktop_env \<Rightarrow> string" where
  "default_db_path env = path_join (case de_data_dir env of Some d \<Rightarrow> d | None \<Rightarrow> ''.'') ''mycelium''"

text \<open>\<open>remove_dir_all\<close>: everything below the directory is gone, or what it got to before it failed.  Paths are compared as
  text.\<close>

definition below :: "string \<Rightarrow> string \<Rightarrow> bool" where
  "below dir path \<longleftrightarrow> starts_with path (path_join dir [])"

definition without_files :: "(string \<Rightarrow> bool) \<Rightarrow> desktop \<Rightarrow> desktop" where
  "without_files gone p =
     p\<lparr>dt_vault := (dt_vault p)\<lparr>vs_files := \<lambda>f. if gone f then None else vs_files (dt_vault p) f,
          vs_legacy_identity := \<lambda>f. if gone f then None else vs_legacy_identity (dt_vault p) f\<rparr>,
       dt_files := \<lambda>(db, name). if gone (path_join db name) then None else dt_files p (db, name)\<rparr>"

definition remove_dir :: "desktop_env \<Rightarrow> string \<Rightarrow> unit command" where
  "remove_dir env dir p =
     (case de_remove_dir env dir of
        Inl e \<Rightarrow> (Err e, without_files (\<lambda>f. below dir f \<and> de_reached env f) p)
      | Inr _ \<Rightarrow> (Ok (), without_files (below dir) p))"

definition map_err_st :: "(string \<Rightarrow> string) \<Rightarrow> 'a result \<times> 's \<Rightarrow> 'a result \<times> 's" where
  "map_err_st f r = (case r of (Inl e, s) \<Rightarrow> (Err (f e), s) | (Inr x, s) \<Rightarrow> (Ok x, s))"

definition reset_local_data :: "desktop_env \<Rightarrow> string option \<Rightarrow> unit command" where
  "reset_local_data env chosen p =
     (let path = (case chosen of Some d \<Rightarrow> d | None \<Rightarrow> default_db_path env);
          p = p\<lparr>dt_vault := clear_keyring_master (fe_vault (de_host env)) path (dt_vault p)\<rparr> in
      if de_dir_exists env path then map_err_st (\<lambda>e. ''failed to reset local data: '' @ e) (remove_dir env path p)
      else (Ok (), p))"

definition desktop_config :: "UiSettings \<Rightarrow> string \<Rightarrow> string \<Rightarrow> string list \<Rightarrow> NodeConfig" where
  "desktop_config ui db name boot =
     \<lparr>cfg_listen_addr = ''/ip4/0.0.0.0/tcp/0'', cfg_db_path = db, cfg_keypair_path = Some (db @ ''/identity''),
      cfg_forwarding_interval_ms = 500, cfg_sync_interval_secs = 30, cfg_bootstrap_peers = boot,
      cfg_has_connectivity_rx = True, cfg_display_name = Some name, cfg_storage_key = None,
      cfg_max_relay_fanout = 3, cfg_rendezvous_enabled = ui_rendezvous_enabled ui,
      cfg_bulletin_subscriptions = [], cfg_max_peers = 50\<rparr>"

definition start_node :: "desktop_env \<Rightarrow> string \<Rightarrow> string \<Rightarrow> string list \<Rightarrow> string command" where
  "start_node env db name boot p =
     (case dt_state p of
        Some s \<Rightarrow> (Ok (ds_local_peer_id s), p)
      | None \<Rightarrow>
          (let host = (de_host env)\<lparr>fe_files := dt_files p\<rparr>; ve = fe_vault host; path = db @ ''/identity'';
               ui = load_ui_settings env (dt_files p) db in
           and_then (vault_run (runner_new host (desktop_config ui db name boot)) p) (\<lambda>runner p.
           let p = p\<lparr>dt_spawned := dt_spawned p + 1\<rparr>; peer = local_id runner in
           and_then (fe_open_storage host (db @ ''/app''), p) (\<lambda>storage p.
           and_then (fe_open_store host (db @ ''/miniapp''), p) (\<lambda>st p.
           and_then (fe_open_ledger host (db @ ''/coin''), p) (\<lambda>L p.
           and_then (vault_run (load_or_create_keypair ve db path None) p) (\<lambda>kp p.
           and_then (vault_run (load_or_create_enc_keypair ve db None) p) (\<lambda>enc p.
           let coin = coin_node_new L (address_from_keypair (ap_crypto (de_app env)) kp) peer path;
               app = app_node_new peer name (storage\<lparr>as_at_rest_key := None\<rparr>) (Some coin) (Some st) enc in
           (Ok peer,
            p\<lparr>dt_state := Some
               \<lparr>ds_app = app, ds_local_peer_id = peer, ds_coin_identity_path = path, ds_db_path = db,
                ds_cap_mac_key = mac_key_from_db_path (ap_sealing (de_app env)) db, ds_energy_state = Active,
                ds_rendezvous_enabled = ui_rendezvous_enabled ui\<rparr>\<rparr>)))))))))"

text \<open>\<open>panic_wipe\<close> ends in a restart of the application.\<close>

definition restart :: "desktop \<Rightarrow> desktop" where
  "restart p = desktop_start (dt_vault p) (dt_files p)"

definition panic_wipe :: "desktop_env \<Rightarrow> unit command" where
  "panic_wipe env p =
     (let db = map_option ds_db_path (dt_state p); p = p\<lparr>dt_state := None\<rparr> in
      and_then
        (case db of
           None \<Rightarrow> (Ok (), p)
         | Some path \<Rightarrow>
             if de_dir_exists env path then map_err_st (\<lambda>e. ''failed to wipe data: '' @ e) (remove_dir env path p) else (Ok (), p))
        (\<lambda>_ p. (Ok (), restart p)))"

end
