(* ===== verification/Desktop_Commands.thy ===== *)
theory Desktop_Commands
  imports Desktop
begin

text \<open>
  The commands of the desktop host (\<open>mycelium-desktop/src/lib.rs\<close>) in the order of the file, the loops that
  send events to the window, and runs of commands and messages.  The calls of the packages on the disk that \<open>AppStorage\<close> and
  \<open>AppStore\<close> make are taken to succeed.
\<close>

section \<open>Peers and contacts\<close>

definition get_peers :: "desktop_env \<Rightarrow> string list command" where
  "get_peers env = started_or [] (\<lambda>_. filter (\<lambda>x. x \<noteq> RELAY_PEER_ID) (handle_known_peers (fe_runner (de_host env))))"

definition get_relay_status :: "desktop_env \<Rightarrow> json command" where
  "get_relay_status env p = (Ok (de_relay_status env), p)"

definition get_shareable_multiaddrs :: "desktop_env \<Rightarrow> string list command" where
  "get_shareable_multiaddrs env =
     started (answer (\<lambda>s. shareable_dial_multiaddrs (ds_local_peer_id s) (handle_listen_addrs (fe_runner (de_host env)))))"

definition add_peer :: "desktop_env \<Rightarrow> string \<Rightarrow> unit command" where
  "add_peer env addr = started (app_run (app_send (de_app env) (CmdAddBootstrapPeer addr)))"

definition invalid_invite :: string where
  "invalid_invite =
     ''invalid invite '' @ [CHR 0xE2, CHR 0x80, CHR 0x94] @ '' use mycelium://invite/v1#'' @ [CHR 0xE2, CHR 0x80, CHR 0xA6] @
     '' or a peer ID''"

definition connect_peer_id :: "desktop_env \<Rightarrow> string \<Rightarrow> unit command" where
  "connect_peer_id env text p =
     (case parse_invite (trim text) of
        None \<Rightarrow> (Err invalid_invite, p)
      | Some (MultiaddrTarget addr) \<Rightarrow> add_peer env addr p
      | Some (PeerIdTarget peer) \<Rightarrow>
          and_then (started (app_run (\<lambda>a. let (c, a) = add_contact (de_app env) peer (take_chars 16 peer) True a in (Ok c, a))) p) (\<lambda>_ p.
          and_then (ok_or ''invalid peer id'' (relay_circuit_multiaddr peer), p) (\<lambda>addr p. add_peer env addr p)))"

definition contact_json :: "Contact \<Rightarrow> json" where
  "contact_json c =
     json_object [(''peer_id'', JStr (ct_peer_id c)), (''display_name'', JStr (ct_display_name c)),
       (''added_at_ms'', JUInt (ct_added_at_ms c)),
       (''status'', JStr (case ct_status c of ContactPending \<Rightarrow> ''pending'' | ContactAccepted \<Rightarrow> ''accepted''))]"

definition desk_list_contacts :: "json list command" where
  "desk_list_contacts = started (answer (\<lambda>s. map contact_json (list_contacts (ds_app s))))"

definition desk_list_accepted_contacts :: "json list command" where
  "desk_list_accepted_contacts = started (answer (\<lambda>s. map contact_json (list_accepted_contacts (ds_app s))))"

definition desk_list_pending_contacts :: "json list command" where
  "desk_list_pending_contacts = started (answer (\<lambda>s. map contact_json (list_pending_contacts (ds_app s))))"

text \<open>A change of the contacts is told to the window.\<close>

definition contacts_updated :: "'a result \<times> desktop \<Rightarrow> 'a result \<times> desktop" where
  "contacts_updated r = and_then r (\<lambda>x p. (Ok x, emit_to ''contacts-updated'' JNull p))"

definition desk_add_contact :: "desktop_env \<Rightarrow> string \<Rightarrow> string \<Rightarrow> bool \<Rightarrow> json command" where
  "desk_add_contact env peer shown accepted p =
     contacts_updated (started (app_run (\<lambda>a.
       let (c, a) = add_contact (de_app env) peer shown accepted a in (Ok (contact_json c), a))) p)"

definition desk_accept_contact :: "desktop_env \<Rightarrow> string \<Rightarrow> json command" where
  "desk_accept_contact env peer p =
     contacts_updated (started (app_run (\<lambda>a. let (c, a) = accept_contact (de_app env) peer a in (Ok (contact_json c), a))) p)"

definition desk_reject_contact :: "string \<Rightarrow> unit command" where
  "desk_reject_contact peer p = contacts_updated (started (app_set (reject_contact peer)) p)"

section \<open>Metrics, chat, mail, bulletins\<close>

definition get_metrics :: "desktop_env \<Rightarrow> json command" where
  "get_metrics env =
     started_or (json_object []) (\<lambda>_. let m = handle_metrics (fe_runner (de_host env)) in
       json_object [(''messages_forwarded'', JUInt (messages_forwarded m)), (''messages_dropped_ttl'', JUInt (messages_dropped_ttl m)),
         (''messages_dropped_hops'', JUInt (messages_dropped_hops m)), (''messages_dropped_queue'', JUInt (messages_dropped_queue m)),
         (''messages_dropped_invalid_sig'', JUInt (messages_dropped_invalid_sig m)),
         (''messages_dropped_no_sig'', JUInt (messages_dropped_no_sig m)),
         (''messages_delivered_local'', JUInt (messages_delivered_local m)),
         (''pending_queue_size'', JUInt (of_nat (pending_queue_size m))), (''seen_cache_size'', JUInt (of_nat (seen_cache_size m)))])"

definition desk_send_chat :: "desktop_env \<Rightarrow> string \<Rightarrow> string \<Rightarrow> unit command" where
  "desk_send_chat env to text =
     started (app_run (\<lambda>a. and_then (send_chat (de_app env) (Some to) text a) (\<lambda>_ a. (Ok (), a))))"

definition peer_has_enc_key :: "desktop_env \<Rightarrow> string \<Rightarrow> bool command" where
  "peer_has_enc_key env peer = started (answer (\<lambda>_. has_enc_key_for (fe_runner (de_host env)) peer))"

definition desk_send_chat_encrypted :: "desktop_env \<Rightarrow> string \<Rightarrow> string \<Rightarrow> string command" where
  "desk_send_chat_encrypted env to text =
     started (app_run (\<lambda>a. and_then (send_chat_encrypted (de_app env) to text a) (\<lambda>_ a. (Ok ''encrypted'', a))))"

definition chat_json :: "ChatMessage \<Rightarrow> (string \<times> json) list" where
  "chat_json m =
     [(''id'', JStr (cm_id m)), (''from_display_name'', JStr (cm_from_display_name m)), (''body'', JStr (cm_body m)),
      (''timestamp_ms'', JUInt (cm_timestamp_ms m))]"

definition desk_chat_history :: "string \<Rightarrow> u32 \<Rightarrow> json list command" where
  "desk_chat_history peer k =
     started_or [] (\<lambda>s. map (json_object \<circ> chat_json) (chat_history (an_storage (ds_app s)) peer (unat k)))"

definition desk_send_mail :: "desktop_env \<Rightarrow> string \<Rightarrow> string \<Rightarrow> string \<Rightarrow> unit command" where
  "desk_send_mail env to subject text = started (app_run (send_mail (de_app env) to subject text []))"

definition desk_mail_inbox :: "u32 \<Rightarrow> json list command" where
  "desk_mail_inbox k =
     started_or [] (\<lambda>s. let st = an_storage (ds_app s) in
       map (\<lambda>m. json_object [(''id'', JStr (mm_id m)), (''from_peer'', JStr (mm_from_peer m)),
           (''from_display_name'', JStr (mm_from_display_name m)), (''subject'', JStr (mm_subject m)), (''body'', JStr (mm_body m)),
           (''timestamp_ms'', JUInt (mm_timestamp_ms m)), (''is_read'', JBool (is_read st (mm_id m)))])
         (mail_inbox st (unat k)))"

definition desk_wallet_balance :: "json command" where
  "desk_wallet_balance =
     (let both = (\<lambda>conf pend. json_object [(''confirmed_muon'', JUInt conf), (''pending_muon'', JUInt pend)]) in
      started_or (both 0 0) (\<lambda>s. case an_coin (ds_app s) of
          None \<Rightarrow> both 0 0
        | Some c \<Rightarrow> let (conf, pend) = coin_balance c in both conf pend))"

definition desk_wallet_address :: "string command" where
  "desk_wallet_address = started_or [] (\<lambda>s. case an_coin (ds_app s) of None \<Rightarrow> [] | Some c \<Rightarrow> local_address c)"

definition desk_post_bulletin :: "desktop_env \<Rightarrow> string \<Rightarrow> string \<Rightarrow> string \<Rightarrow> u64 \<Rightarrow> unit command" where
  "desk_post_bulletin env scope title text ttl = started (app_run (post_bulletin (de_app env) scope title text ttl))"

definition desk_bulletins_for_scope :: "desktop_env \<Rightarrow> string \<Rightarrow> json list command" where
  "desk_bulletins_for_scope env scope =
     started_or [] (\<lambda>s.
       map (\<lambda>b. json_object [(''id'', JStr (bp_id b)), (''from_display_name'', JStr (bp_from_display_name b)),
           (''title'', JStr (bp_title b)), (''body'', JStr (bp_body b)), (''scope'', JStr (bp_scope b)),
           (''timestamp_ms'', JUInt (bp_timestamp_ms b)), (''expires_at_ms'', JUInt (bp_expires_at_ms b))])
         (bulletins_for_scope (de_now env) (an_storage (ds_app s)) scope))"

section \<open>Groups\<close>

definition group_json :: "Group \<Rightarrow> json" where
  "group_json g =
     json_object [(''id'', JStr (gr_id g)), (''name'', JStr (gr_name g)), (''member_count'', JUInt (of_nat (length (gr_members g)))),
       (''created_at_ms'', JUInt (gr_created_at_ms g))]"

definition desk_list_groups :: "json list command" where
  "desk_list_groups = started (answer (\<lambda>s. map group_json (all_groups (an_storage (ds_app s)))))"

definition desk_create_group :: "desktop_env \<Rightarrow> string \<Rightarrow> json command" where
  "desk_create_group env name =
     started (app_run (\<lambda>a.
       let g = group_new (ap_crypto (de_app env)) (ap_sealing (de_app env)) (de_now env) (ap_random_key (de_app env)) name in
       (Ok (group_json g), on_storage (save_group g) a)))"

definition desk_import_group_invite :: "desktop_env \<Rightarrow> string \<Rightarrow> json command" where
  "desk_import_group_invite env text =
     started (app_run (\<lambda>a.
       case group_from_invite (ap_json (de_app env)) (ap_sealing (de_app env)) (de_now env) text of
         Inl e \<Rightarrow> (Err e, a)
       | Inr g \<Rightarrow> (Ok (group_json g), on_storage (save_group g) a)))"

definition desk_export_group_invite :: "desktop_env \<Rightarrow> string \<Rightarrow> string command" where
  "desk_export_group_invite env gid =
     started (answer (\<lambda>s. case group_by_id (an_storage (ds_app s)) gid of
         Some g \<Rightarrow> group_export_invite (ap_json (de_app env)) (ap_sealing (de_app env)) g
       | None \<Rightarrow> []))"

definition desk_send_group_message :: "desktop_env \<Rightarrow> string \<Rightarrow> string \<Rightarrow> unit command" where
  "desk_send_group_message env gid text =
     started (app_run (\<lambda>a. case group_by_id (an_storage a) gid of
         None \<Rightarrow> (Err ''unknown group'', a)
       | Some g \<Rightarrow> send_group_message (de_app env) g text a))"

definition desk_delete_group :: "string \<Rightarrow> unit command" where
  "desk_delete_group gid = started (app_set (on_storage (delete_group gid)))"

definition desk_group_chat_history :: "string \<Rightarrow> u32 \<Rightarrow> json list command" where
  "desk_group_chat_history gid k =
     started (answer (\<lambda>s. map (\<lambda>m. json_object ((''from_peer'', JStr (''group:'' @ gid)) # chat_json m))
       (group_chat_history (an_storage (ds_app s)) gid (unat k))))"

section \<open>Wallet\<close>

text \<open>A transfer to an address that is none ends before the identity is loaded; a started node has a coin node.\<close>

definition wallet_send :: "desktop_env \<Rightarrow> string \<Rightarrow> u64 \<Rightarrow> u64 \<Rightarrow> string option \<Rightarrow> unit command" where
  "wallet_send env to amount fee memo =
     started (\<lambda>s p.
       let dir = ds_db_path s; path = ds_coin_identity_path s; cenv = desktop_coin_env env dir (dt_vault p);
           vs = (if validate_address (ap_crypto (de_app env)) to
                 then snd (load_or_create_keypair (fe_vault (de_host env)) dir path None (dt_vault p)) else dt_vault p) in
       app_run (\<lambda>a. case an_coin a of
           None \<Rightarrow> (Err ''no coin node'', a)
         | Some c \<Rightarrow> (let (r, c) = submit_transfer_from_identity_path cenv path to amount fee memo c in (r, a\<lparr>an_coin := Some c\<rparr>)))
         s (p\<lparr>dt_vault := vs\<rparr>))"

section \<open>Mini-apps\<close>

definition miniapp_list_installed :: "desktop_env \<Rightarrow> json list command" where
  "miniapp_list_installed env = started (answer (\<lambda>s. map (de_manifest_json env) (installed_apps (store_of s))))"

fun json_or_null :: "string option \<Rightarrow> json" where
  "json_or_null None = JNull"
| "json_or_null (Some x) = JStr x"

definition preview_json :: "desktop_env \<Rightarrow> InstallPreview \<Rightarrow> json" where
  "preview_json env pv =
     json_object [(''manifest'', de_manifest_json env (pv_manifest pv)), (''bundle_hash'', JStr (pv_bundle_hash pv)),
       (''trust_level'', JStr (trust_level_name (pv_trust_level pv))), (''listing_signature_ok'', JBool (pv_listing_signature_ok pv)),
       (''installed_version'', json_or_null (pv_installed_version pv)), (''is_downgrade'', JBool (pv_is_downgrade pv)),
       (''has_inline_script'', JBool (pv_has_inline_script pv)), (''strict_csp_eligible'', JBool (pv_strict_csp_eligible pv)),
       (''reproducible_attested'', JBool (pv_reproducible_attested pv)), (''bundle_signature_ok'', JBool (pv_bundle_signature_ok pv))]"

definition miniapp_preview_install :: "desktop_env \<Rightarrow> string \<Rightarrow> json command" where
  "miniapp_preview_install env text p =
     and_then (de_b64_decode env (trim text), p) (\<lambda>bundle.
     started (\<lambda>s p. and_then (preview_install (ap_miniapp (de_app env)) (store_of s) bundle, p) (\<lambda>pv p. (Ok (preview_json env pv), p))))"

definition install_trust :: "string option \<Rightarrow> bool \<Rightarrow> InstallTrust result" where
  "install_trust listing_app_id allow_sideload =
     (if listing_app_id \<noteq> None then Ok TrustVerifiedListing
      else if allow_sideload then Ok TrustSideloadAcknowledged
      else Err ''listing_app_id or allow_sideload required'')"

definition miniapp_install :: "desktop_env \<Rightarrow> string \<Rightarrow> string option \<Rightarrow> bool \<Rightarrow> bool \<Rightarrow> json command" where
  "miniapp_install env text listing_app_id allow_sideload allow_downgrade p =
     (let me = ap_miniapp (de_app env) in
      and_then (de_b64_decode env (trim text), p) (\<lambda>bundle p.
      and_then (install_trust listing_app_id allow_sideload, p) (\<lambda>trust.
      started (\<lambda>s p.
        and_then
          (case listing_app_id of
             None \<Rightarrow> (Ok (), p)
           | Some i \<Rightarrow>
               and_then (preview_install me (store_of s) bundle, p) (\<lambda>pv p.
                 if mf_id (pv_manifest pv) \<noteq> i then (Err ''bundle app id does not match listing_app_id'', p) else (Ok (), p)))
          (\<lambda>_ p.
        and_then (store_run (install_verified me (de_now env) bundle trust allow_downgrade) s p) (\<lambda>m p.
        (Ok (de_manifest_json env m), p)))))))"

definition miniapp_uninstall :: "string \<Rightarrow> unit command" where
  "miniapp_uninstall app_id = started (store_run (\<lambda>st. (Ok (), uninstall app_id st)))"

definition miniapp_browse_store :: "desktop_env \<Rightarrow> json list command" where
  "miniapp_browse_store env = started (answer (\<lambda>s. map (de_listing_json env) (browse_listings (store_of s))))"

text \<open>The page of an app: the policy, a block on the network, the shim with the session, the bridge and the entry file.  The text
  of the error for an entry that is not UTF-8 is shortened.\<close>

definition script_open :: "string \<Rightarrow> string" where
  "script_open nonce = ''<script nonce='' @ quoted (CHR 0x22) nonce @ ''>''"

definition network_block :: "string \<Rightarrow> string" where
  "network_block nonce =
     join_with (CHR 0x0A)
       [script_open nonce,
        ''window.fetch = function() { return Promise.reject(new Error('' @ quoted (CHR 0x27) ''Network blocked'' @ '')); };'',
        ''window.XMLHttpRequest = function() { throw new Error('' @ quoted (CHR 0x27) ''Network blocked'' @ ''); };'',
        ''window.WebSocket = function() { throw new Error('' @ quoted (CHR 0x27) ''WebSocket blocked'' @ ''); };'',
        ''if (navigator.sendBeacon) { navigator.sendBeacon = function() { return false; }; }'',
        ''</script>'']"

definition bridge_shim :: "string \<Rightarrow> string \<Rightarrow> string" where
  "bridge_shim nonce session_json =
     join_with (CHR 0x0A)
       [script_open nonce,
        ''window.__mycelium_session = '' @ session_json @ '';'',
        ''window.addEventListener('' @ quoted (CHR 0x22) ''message'' @ '', function (ev) {'',
        ''  if (ev.data && ev.data.__mycelium_resolve && window.__mycelium_resolve) {'',
        ''    var r = ev.data.__mycelium_resolve;'',
        ''    window.__mycelium_resolve(r.id, r.result, r.error);'',
        ''  }'',
        ''});'',
        ''window.__mycelium_native_call = function (json) {'',
        ''  window.parent.postMessage({ __mycelium_call: json }, window.location.origin);'',
        ''};'',
        ''</script>'' @ script_open nonce,
        []]"

definition miniapp_get_entry_html :: "desktop_env \<Rightarrow> string \<Rightarrow> string \<Rightarrow> string command" where
  "miniapp_get_entry_html env app_id nonce =
     started (\<lambda>s p.
       and_then (ok_or ''unknown app'' (get_manifest (store_of s) app_id), p) (\<lambda>m p.
       and_then (ok_or ''entry missing'' (get_file (store_of s) app_id (mf_entry m)), p) (\<lambda>bs p.
       if \<not> utf8_valid bs then (Err ''invalid utf-8 sequence'', p)
       else
         let token = ap_uuid (de_app env); nl = [CHR 0x0A];
             p = p\<lparr>dt_sessions := (dt_sessions p)(app_id \<mapsto> \<lparr>se_token = token, se_issued_at_ms = de_now env\<rparr>)\<rparr> in
         (Ok (csp_meta_tag nonce @ nl @ network_block nonce @ nl @ bridge_shim nonce (js_print (ap_json (de_app env)) (JStr token)) @
            de_bridge_js env @ ''</script>'' @ nl @ string_of_bytes bs), p))))"

definition miniapp_revoke_bridge_session :: "string \<Rightarrow> unit command" where
  "miniapp_revoke_bridge_session app_id p = (Ok (), p\<lparr>dt_sessions := (dt_sessions p)(app_id := None)\<rparr>)"

definition desk_issue_capability :: "desktop_env \<Rightarrow> string \<Rightarrow> string \<Rightarrow> string \<Rightarrow> string command" where
  "desk_issue_capability env app_id permission session =
     started (\<lambda>s p. (miniapp_issue_capability (fe_bridge (de_host env)) (ds_cap_mac_key s) app_id permission session, p))"

definition miniapp_publish_revocation :: "desktop_env \<Rightarrow> string \<Rightarrow> string \<Rightarrow> unit command" where
  "miniapp_publish_revocation env app_id reason =
     started (\<lambda>s p.
       and_then (vault_run (load_or_create_keypair (fe_vault (de_host env)) (ds_db_path s) (ds_coin_identity_path s) None) p) (\<lambda>kp p.
       and_then (rg_new_signed (ap_crypto (de_app env)) (de_now env) app_id reason (ds_local_peer_id s) kp, p) (\<lambda>entry p.
       app_run (publish_app_revocation (de_app env) entry) s p)))"

definition policy_json :: "MiniAppPolicy \<Rightarrow> json" where
  "policy_json q =
     json_object [(''app_id'', JStr (pol_app_id q)), (''reputation_score'', JUInt (ucast (pol_reputation_score q))),
       (''safe_mode_active'', JBool (pol_safe_mode_active q)), (''safe_mode_forced'', JBool (pol_safe_mode_forced q)),
       (''safe_mode_suggested'', JBool (pol_safe_mode_suggested q)), (''user_safe_mode'', JBool (pol_user_safe_mode q)),
       (''revoked'', JBool (pol_revoked q)), (''strict_csp_eligible'', JBool (pol_strict_csp_eligible q))]"

definition miniapp_get_policy :: "string \<Rightarrow> json command" where
  "miniapp_get_policy app_id = started (answer (\<lambda>s. policy_json (policy_load_with_store (store_of s) app_id True)))"

definition miniapp_set_safe_mode :: "string \<Rightarrow> bool \<Rightarrow> unit command" where
  "miniapp_set_safe_mode app_id enabled = started (store_run (\<lambda>st. (Ok (), set_safe_mode app_id enabled st)))"

definition miniapp_report_app :: "desktop_env \<Rightarrow> string \<Rightarrow> unit command" where
  "miniapp_report_app env app_id = started (store_run (\<lambda>st. (Ok (), record_user_report (de_now env) app_id st)))"

definition desk_bridge :: "desktop \<Rightarrow> AppState \<Rightarrow> bridge" where
  "desk_bridge p s = \<lparr>br_sessions = dt_sessions p, br_calls = dt_calls p, br_broadcasts = dt_broadcasts p, br_node = ds_app s\<rparr>"

definition desk_bridge_call :: "desktop_env \<Rightarrow> string \<Rightarrow> string \<Rightarrow> json \<Rightarrow> json command" where
  "desk_bridge_call env app_id meth args =
     started (\<lambda>s p.
       let benv = (fe_bridge (de_host env))\<lparr>be_app := de_app env\<rparr>;
           (r, b) = miniapp_bridge_call benv (ds_cap_mac_key s) app_id meth args (desk_bridge p s) in
       (r, put_app s (br_node b) (p\<lparr>dt_sessions := br_sessions b, dt_calls := br_calls b, dt_broadcasts := br_broadcasts b\<rparr>)))"

section \<open>Settings\<close>

fun node_state_label :: "NodeState \<Rightarrow> string" where
  "node_state_label Active = ''Active''"
| "node_state_label Intermittent = ''Intermittent''"
| "node_state_label Passive = ''Passive''"

definition parse_energy_state :: "string \<Rightarrow> NodeState result" where
  "parse_energy_state text =
     (if text = ''Active'' then Ok Active
      else if text = ''Intermittent'' then Ok Intermittent
      else if text = ''Passive'' then Ok Passive
      else Err (''unknown energy state: '' @ text))"

definition get_settings :: "json command" where
  "get_settings =
     started_or (json_object []) (\<lambda>s.
       json_object [(''display_name'', JStr (an_display_name (ds_app s))), (''energy_state'', JStr (node_state_label (ds_energy_state s))),
         (''local_peer_id'', JStr (ds_local_peer_id s)), (''rendezvous_enabled'', JBool (ds_rendezvous_enabled s))])"

definition set_rendezvous_enabled :: "desktop_env \<Rightarrow> bool \<Rightarrow> unit command" where
  "set_rendezvous_enabled env enabled =
     started (\<lambda>s p.
       and_then (app_run (app_send (de_app env) (CmdSetRendezvousEnabled enabled)) s p) (\<lambda>_.
       started (\<lambda>s p.
         let p = p\<lparr>dt_state := Some (s\<lparr>ds_rendezvous_enabled := enabled\<rparr>)\<rparr>;
             ui = (load_ui_settings env (dt_files p) (ds_db_path s))\<lparr>ui_rendezvous_enabled := enabled\<rparr> in
         save_ui_settings env (ds_db_path s) ui p)))"

definition desk_set_display_name :: "string \<Rightarrow> unit command" where
  "desk_set_display_name name = started (app_set (set_display_name name))"

definition desk_set_energy_state :: "desktop_env \<Rightarrow> string \<Rightarrow> unit command" where
  "desk_set_energy_state env text p =
     and_then (parse_energy_state text, p) (\<lambda>ns.
     started (\<lambda>s p.
       and_then (app_run (app_send (de_app env) (CmdSetEnergyState ns)) s p) (\<lambda>_.
       started (\<lambda>s p. (Ok (), p\<lparr>dt_state := Some (s\<lparr>ds_energy_state := ns\<rparr>)\<rparr>)))))"

definition get_store_stats :: "desktop_env \<Rightarrow> json command" where
  "get_store_stats env p =
     (let both = (\<lambda>k oldest. json_object [(''count'', JUInt k), (''oldest_ms'', JUInt oldest)]) in
      case dt_state p of
        None \<Rightarrow> (Ok (both 0 0), p)
      | Some _ \<Rightarrow>
          and_then (de_reply env, p) (\<lambda>_ p.
            let (k, oldest) = store_stats (store (fe_runner (de_host env))) in (Ok (both (of_nat k) oldest), p)))"

definition run_gc :: "desktop_env \<Rightarrow> u64 command" where
  "run_gc env =
     started (\<lambda>s p. and_then (de_reply env, p) (\<lambda>_ p.
       (Ok (of_nat (fst (store_gc_expired (de_now env) (store (fe_runner (de_host env)))))), p)))"

definition get_custom_bootstrap_peers :: "string list command" where
  "get_custom_bootstrap_peers p = started_or [] (\<lambda>s. load_custom_bootstrap_peers (dt_files p) (ds_db_path s)) p"

text \<open>A peer that cannot be passed on to the runner is logged.\<close>

definition set_custom_bootstrap_peers :: "desktop_env \<Rightarrow> string list \<Rightarrow> unit command" where
  "set_custom_bootstrap_peers env addrs =
     started (\<lambda>s p.
       let p = p\<lparr>dt_files := save_custom_bootstrap_peers (dt_files p) (ds_db_path s) addrs\<rparr> in
       app_set (\<lambda>a. foldl (\<lambda>a addr. snd (app_send (de_app env) (CmdAddBootstrapPeer addr) a)) a addrs) s p)"

section \<open>Events\<close>

text \<open>\<open>DesktopNotifier\<close> and the emitter of the inbox.\<close>

definition desk_notice :: "notice \<Rightarrow> (string \<times> json) list" where
  "desk_notice x =
     (case x of
        OnContactRequest peer shown \<Rightarrow> [(''contacts-updated'', json_object [(''peer_id'', JStr peer), (''display_name'', JStr shown)])]
      | _ \<Rightarrow> [])"

definition desk_inbox :: "AppNode \<Rightarrow> AppNode \<Rightarrow> (string \<times> json) list" where
  "desk_inbox a a' =
     concat (map desk_notice (drop (length (an_notices a)) (an_notices a'))) @
     map (\<lambda>(peer, m). (''chat-updated'', json_object [(''from_peer'', JStr peer), (''body'', JStr (cm_body m))]))
       (drop (length (an_chat_tx a)) (an_chat_tx a')) @
     map (\<lambda>_. (''mail-updated'', JNull)) (drop (length (an_mail_tx a)) (an_mail_tx a')) @
     map (\<lambda>_. (''bulletin-updated'', JNull)) (drop (length (an_bulletin_tx a)) (an_bulletin_tx a')) @
     map (\<lambda>_. (''appstore-updated'', JNull)) (drop (length (an_appstore_tx a)) (an_appstore_tx a'))"

definition desk_incoming :: "desktop_env \<Rightarrow> DirectMessage \<Rightarrow> desktop \<Rightarrow> desktop" where
  "desk_incoming env msg p =
     (case dt_state p of
        None \<Rightarrow> p
      | Some s \<Rightarrow>
          (let app = (de_app env)\<lparr>ap_coin := desktop_coin_env env (ds_db_path s) (dt_vault p)\<rparr>;
               a' = dispatch_incoming app msg (ds_app s); p = put_app s a' p in
           p\<lparr>dt_events := dt_events p @ desk_inbox (ds_app s) a'\<rparr>))"

definition metrics_tick :: "desktop_env \<Rightarrow> desktop \<Rightarrow> desktop" where
  "metrics_tick env p =
     (if dt_state p = None then p
      else
        let m = handle_metrics (fe_runner (de_host env)) in
        emit_to ''metrics-updated''
          (json_object [(''forwarded'', JUInt (messages_forwarded m)), (''queue'', JUInt (of_nat (pending_queue_size m))),
             (''peers'', JUInt (of_nat (length (handle_known_peers (fe_runner (de_host env))))))]) p)"

section \<open>Runs\<close>

text \<open>The commands that can change the host, and what happens besides: messages from the mesh and ticks of the clock.\<close>

datatype DesktopCall =
    DkReset "string option" | DkStart string string "string list" | DkWipe
  | DkConnect string | DkAddPeer string | DkAddContact string string bool | DkAcceptContact string | DkRejectContact string
  | DkSendChat string string | DkSendChatEncrypted string string | DkSendMail string string string
  | DkPostBulletin string string string u64
  | DkCreateGroup string | DkImportGroup string | DkSendGroup string string | DkDeleteGroup string
  | DkWalletSend string u64 u64 "string option"
  | DkInstall string "string option" bool bool | DkUninstall string | DkEntryHtml string string | DkRevokeSession string
  | DkPublishRevocation string string | DkSetSafeMode string bool | DkReport string | DkBridgeCall string string json
  | DkSetRendezvous bool | DkSetDisplayName string | DkSetEnergy string | DkSetBootstrap "string list"
  | DkMessage DirectMessage | DkTick

fun desk_exec :: "desktop_env \<Rightarrow> DesktopCall \<Rightarrow> desktop \<Rightarrow> desktop" where
  "desk_exec env (DkReset dir) p = snd (reset_local_data env dir p)"
| "desk_exec env (DkStart db name boot) p = snd (start_node env db name boot p)"
| "desk_exec env DkWipe p = snd (panic_wipe env p)"
| "desk_exec env (DkConnect text) p = snd (connect_peer_id env text p)"
| "desk_exec env (DkAddPeer addr) p = snd (add_peer env addr p)"
| "desk_exec env (DkAddContact peer shown acc) p = snd (desk_add_contact env peer shown acc p)"
| "desk_exec env (DkAcceptContact peer) p = snd (desk_accept_contact env peer p)"
| "desk_exec env (DkRejectContact peer) p = snd (desk_reject_contact peer p)"
| "desk_exec env (DkSendChat to text) p = snd (desk_send_chat env to text p)"
| "desk_exec env (DkSendChatEncrypted to text) p = snd (desk_send_chat_encrypted env to text p)"
| "desk_exec env (DkSendMail to subject text) p = snd (desk_send_mail env to subject text p)"
| "desk_exec env (DkPostBulletin scope title text ttl) p = snd (desk_post_bulletin env scope title text ttl p)"
| "desk_exec env (DkCreateGroup name) p = snd (desk_create_group env name p)"
| "desk_exec env (DkImportGroup text) p = snd (desk_import_group_invite env text p)"
| "desk_exec env (DkSendGroup gid text) p = snd (desk_send_group_message env gid text p)"
| "desk_exec env (DkDeleteGroup gid) p = snd (desk_delete_group gid p)"
| "desk_exec env (DkWalletSend to amount fee memo) p = snd (wallet_send env to amount fee memo p)"
| "desk_exec env (DkInstall text listing sideload downgrade) p = snd (miniapp_install env text listing sideload downgrade p)"
| "desk_exec env (DkUninstall i) p = snd (miniapp_uninstall i p)"
| "desk_exec env (DkEntryHtml i nonce) p = snd (miniapp_get_entry_html env i nonce p)"
| "desk_exec env (DkRevokeSession i) p = snd (miniapp_revoke_bridge_session i p)"
| "desk_exec env (DkPublishRevocation i reason) p = snd (miniapp_publish_revocation env i reason p)"
| "desk_exec env (DkSetSafeMode i enabled) p = snd (miniapp_set_safe_mode i enabled p)"
| "desk_exec env (DkReport i) p = snd (miniapp_report_app env i p)"
| "desk_exec env (DkBridgeCall i meth args) p = snd (desk_bridge_call env i meth args p)"
| "desk_exec env (DkSetRendezvous enabled) p = snd (set_rendezvous_enabled env enabled p)"
| "desk_exec env (DkSetDisplayName name) p = snd (desk_set_display_name name p)"
| "desk_exec env (DkSetEnergy text) p = snd (desk_set_energy_state env text p)"
| "desk_exec env (DkSetBootstrap addrs) p = snd (set_custom_bootstrap_peers env addrs p)"
| "desk_exec env (DkMessage msg) p = desk_incoming env msg p"
| "desk_exec env DkTick p = metrics_tick env p"

definition desk_run :: "(desktop_env \<times> DesktopCall) list \<Rightarrow> desktop \<Rightarrow> desktop" where
  "desk_run steps p = foldl (\<lambda>p (env, c). desk_exec env c p) p steps"

end
