(* ===== verification/App_View.thy ===== *)
theory App_View
  imports Bridge
begin

text \<open>
  What the operations of the application node and of the bridge leave alone.  A view of the node that
  does not depend on its channels, on its proximity state, on its mini-app store and on the parts of the database other than the
  values of mini-apps is the same after every operation: stated once, for any such view.
\<close>

section \<open>The interface of a view\<close>

text \<open>A change of the database that keeps the values of mini-apps and their key.\<close>

definition keeps_values :: "(AppStorage \<Rightarrow> AppStorage) \<Rightarrow> bool" where
  "keeps_values f \<longleftrightarrow> (\<forall>s. as_miniapp (f s) = as_miniapp s \<and> as_at_rest_key (f s) = as_at_rest_key s)"

lemma keeps_values_ops:
  "keeps_values (save_chat p m)" "keeps_values (save_group_chat g m)" "keeps_values (group_record_peer_seen g q)"
  "keeps_values (save_bulletin b)" "keeps_values (save_mail_inbox l)" "keeps_values (save_mail_sent l)"
  "keeps_values (\<lambda>s. snd (upsert_contact now p name st s))" "keeps_values (delete_contact p)"
  "keeps_values (save_group gg)" "keeps_values (delete_group g)" "keeps_values (mark_read i)"
  "keeps_values (save_scope_key k)" "keeps_values (delete_scope_key sc)"
  by (simp_all add: keeps_values_def save_chat_def save_group_chat_def save_group_def group_record_peer_seen_def save_bulletin_def
      save_mail_inbox_def save_mail_sent_def upsert_contact_def save_contact_def delete_contact_def delete_group_def mark_read_def
      save_scope_key_def delete_scope_key_def Let_def split: option.split)

locale app_view =
  fixes view :: "AppNode \<Rightarrow> 'v"
  assumes commands: "view (n\<lparr>an_commands := cs\<rparr>) = view n"
    and notices: "view (n\<lparr>an_notices := ns\<rparr>) = view n"
    and channels: "view (n\<lparr>an_chat_tx := ct\<rparr>) = view n" "view (n\<lparr>an_bulletin_tx := bt\<rparr>) = view n"
      "view (n\<lparr>an_mail_tx := mt\<rparr>) = view n" "view (n\<lparr>an_appstore_tx := at\<rparr>) = view n"
    and proximity: "view (n\<lparr>an_px_store := ps\<rparr>) = view n" "view (n\<lparr>an_px_matches := pm\<rparr>) = view n"
      "view (n\<lparr>an_px_inbox := pb\<rparr>) = view n" "view (n\<lparr>an_px_active := pa\<rparr>) = view n"
      "view (n\<lparr>an_my_presence := mp\<rparr>) = view n" "view (n\<lparr>an_my_profile := mf\<rparr>) = view n"
    and app_store: "view (n\<lparr>an_app_store := st\<rparr>) = view n"
    and display_name: "view (n\<lparr>an_display_name := d\<rparr>) = view n"
    and storage: "keeps_values f \<Longrightarrow> view (on_storage f n) = view n"
begin

lemmas fields = commands notices channels proximity app_store display_name

lemmas stored = keeps_values_ops [THEN storage]

lemma and_then_view:
  assumes "view (snd r) = k" "\<And>v n. view n = k \<Longrightarrow> view (snd (f v n)) = k"
  shows "view (snd (and_then r f)) = k"
  using assms by (cases r; cases "fst r") auto

lemma with_result_snd: "snd (with_result r n) = n"
  by (simp add: with_result_def)

lemma send: "view (snd (app_send env c n)) = view n"
  by (simp add: app_send_def fields split: sum.split)

lemma ensure_contact: "view (ensure_contact_accepted_for_send env q d n) = view n"
  by (simp add: ensure_contact_accepted_for_send_def Let_def stored)

lemmas basic = fields stored with_result_snd send ensure_contact

lemma chat_encrypted: "view (snd (send_chat_encrypted env to text n)) = view n"
  by (auto simp: send_chat_encrypted_def Let_def basic intro!: and_then_view split: option.split)

lemma chat: "view (snd (send_chat env to text n)) = view n"
  by (auto simp: send_chat_def broadcast_chat_def chat_encrypted Let_def basic intro!: and_then_view split: option.split)

lemma group_message: "view (snd (send_group_message env g text n)) = view n"
  by (auto simp: send_group_message_def Let_def basic intro!: and_then_view)

lemma bulletin: "view (snd (post_bulletin env scope title text ttl n)) = view n"
  by (auto simp: post_bulletin_def Let_def basic intro!: and_then_view)

lemma mail: "view (snd (send_mail env to subject text atts n)) = view n"
  by (auto simp: send_mail_def Let_def basic intro!: and_then_view)

lemma near:
  "view (snd (start_proximity env profile t n)) = view n"
  "view (stop_proximity env n) = view n"
  "view (snd (nearby_profiles env n)) = view n"
  "view (snd (express_proximity_interest env h n)) = view n"
  "view (snd (send_proximity_message env h text n)) = view n"
  by (auto simp: start_proximity_def broadcast_presence_def stop_proximity_def nearby_profiles_def express_proximity_interest_def
      send_proximity_message_def Let_def basic intro!: and_then_view)

lemma contacts:
  "view (snd (add_contact env p shown acc n)) = view n" "view (snd (accept_contact env p n)) = view n"
  "view (reject_contact p n) = view n" "view (remove_contact p n) = view n"
  using stored(7) [unfolded on_storage_def]
  by (simp_all add: add_contact_def accept_contact_def reject_contact_def remove_contact_def Let_def case_prod_unfold stored)

lemma scope_keys:
  "view (snd (create_scope_key env scope shown n)) = view n" "view (snd (add_scope_key_from_invite env text n)) = view n"
  "view (app_delete_scope_key env scope n) = view n"
  by (auto simp: create_scope_key_def add_scope_key_from_invite_def app_delete_scope_key_def Let_def basic intro!: and_then_view)

lemma naming: "view (set_display_name name n) = view n"
  by (simp add: set_display_name_def fields)

section \<open>Incoming messages\<close>

lemma revocation: "view (dispatch_revocation env e n) = view n"
  by (simp add: dispatch_revocation_def basic split: option.split)

lemma publish_revocation: "view (snd (publish_app_revocation env e n)) = view n"
  by (auto simp: publish_app_revocation_def revocation basic intro!: and_then_view)

lemma notified: "view (notify x n) = view n"
  by (simp add: notify_def fields)

lemma handlers:
  "view (dispatch_group env msg n) = view n" "view (dispatch_chat env p m n) = view n" "view (handle_proximity_payload env pl n) = view n"
  "view (store_bulletin bp n) = view n" "view (dispatch_listing env l n) = view n"
  by (simp add: dispatch_group_def Let_def basic notified split: sum.split option.split AppPayload.split WireMessage.split,
      simp add: dispatch_chat_def Let_def basic notified split: option.split,
      simp add: handle_proximity_payload_def Let_def basic notified split: sum.split,
      simp add: store_bulletin_def Let_def basic notified,
      simp add: dispatch_listing_def basic notified split: sum.split option.split bool.split)

text \<open>Only a coin message can change such a view, and only by what the coin node makes of it.\<close>

lemma incoming:
  "view (dispatch_incoming env msg n) = view n \<or>
   (\<exists>inner. dispatch_incoming env msg n = dispatch_coin env (from_peer (envelope msg)) inner n)"
  unfolding dispatch_incoming_def Let_def
  by (auto simp: handlers revocation basic notified split: sum.split option.split AppPayload.split)

section \<open>The bridge\<close>

lemma guard_view: "view (br_node b) = k \<Longrightarrow> (\<And>v. view (br_node (snd (f v b))) = k) \<Longrightarrow> view (br_node (snd (guard r b f))) = k"
  by (cases r) (simp_all add: guard_def)

lemma on_node_view: "view (snd (f (br_node b))) = k \<Longrightarrow> view (br_node (snd (on_node f g b))) = k"
  by (cases "f (br_node b)"; cases "fst (f (br_node b))") (simp_all add: on_node_def)

lemma broadcast_rate_view:
  "(\<And>b'. view (br_node b') = k \<Longrightarrow> view (br_node (snd (f () b'))) = k) \<Longrightarrow> view (br_node b) = k \<Longrightarrow>
   view (br_node (snd (and_then (check_broadcast_rate now a b) f))) = k"
  by (auto simp: check_broadcast_rate_def Let_def split: prod.split)

lemma if_view:
  "(c \<Longrightarrow> view (br_node (snd x)) = k) \<Longrightarrow> (\<not> c \<Longrightarrow> view (br_node (snd y)) = k) \<Longrightarrow>
   view (br_node (snd (if c then x else y))) = k"
  by simp

lemmas bridge_rules = if_view guard_view on_node_view broadcast_rate_view

lemma dispatch_other:
  assumes "meth \<noteq> ''storage.set''" "meth \<noteq> ''storage.delete''"
  shows "view (br_node (snd (dispatch env h meth args b))) = view (br_node b)"
proof -
  have "view (br_node (snd (call_messaging env h meth args b))) = view (br_node b)"
    by (auto simp: call_messaging_def chat intro!: bridge_rules)
  moreover have "view (br_node (snd (call_payment env h meth args b))) = view (br_node b)"
    by (auto simp: call_payment_def Let_def intro!: bridge_rules)
  moreover have "view (br_node (snd (call_storage env h meth args b))) = view (br_node b)"
    using assms by (auto simp: call_storage_def Let_def intro!: bridge_rules)
  moreover have "view (br_node (snd (call_bulletin env h meth args b))) = view (br_node b)"
    by (auto simp: call_bulletin_def Let_def bulletin basic intro!: bridge_rules)
  moreover have "view (br_node (snd (call_proximity env h meth args b))) = view (br_node b)"
    unfolding call_proximity_def Let_def split_beta by (intro bridge_rules; simp add: near)
  moreover have "view (br_node (snd (call_util env h meth args b))) = view (br_node b)"
    by (auto simp: call_util_def intro!: bridge_rules)
  ultimately show ?thesis
    unfolding dispatch_def by (intro bridge_rules; simp)
qed

end

section \<open>Two views\<close>

text \<open>The values of mini-apps with their key, and the coin node.\<close>

definition kv :: "AppNode \<Rightarrow> (string, bytes) tree \<times> bytes option" where
  "kv n = (as_miniapp (an_storage n), as_at_rest_key (an_storage n))"

interpretation kv_view: app_view kv
  by unfold_locales (simp_all add: kv_def on_storage_def keeps_values_def)

interpretation coin_view: app_view an_coin
  by unfold_locales (simp_all add: on_storage_def)

end
