(* ===== verification/Miniapp_Props.thy ===== *)
theory Miniapp_Props
  imports Miniapp_Store
begin

text \<open>
  Properties of the mini-app store: the invariant of every reachable store, the exact condition under which a bundle
  is installed, and who can revoke an app.
\<close>

section \<open>Helper lemmas\<close>

lemma uint_clamped: "0 \<le> x \<Longrightarrow> x \<le> 100 \<Longrightarrow> uint (word_of_int x :: u8) = x"
  by (simp add: uint_word_of_int)

lemma rep_score_apply_delta:
  "uint (rep_score (fst (apply_delta now app_id d st))) = max 0 (min 100 (uint (rep_score (rep_load st app_id)) + d))"
  by (simp add: apply_delta_def Let_def uint_clamped)

lemma rep_load_apply_delta:
  "rep_load (snd (apply_delta now app_id d st)) a =
     (if a = app_id then fst (apply_delta now app_id d st) else rep_load st a)"
  by (simp add: apply_delta_def Let_def rep_load_def rep_save_def tree_get_put)

lemma apply_delta_fields [simp]:
  "st_installed (snd (apply_delta now a d st)) = st_installed st"
  "st_listings (snd (apply_delta now a d st)) = st_listings st"
  "st_files (snd (apply_delta now a d st)) = st_files st"
  "st_prefs (snd (apply_delta now a d st)) = st_prefs st"
  "st_revocations (snd (apply_delta now a d st)) = st_revocations st"
  by (simp_all add: apply_delta_def Let_def rep_save_def)

lemmas record_defs =
  record_install_trust_def record_user_report_def record_revocation_hit_def record_bridge_anomaly_def

lemma tree_ok_puts: "tree_ok t \<Longrightarrow> tree_ok (foldl (\<lambda>t (k, v). tree_put k v t) t fs)"
  by (induction fs arbitrary: t) (auto simp: tree_ok_put)

lemma get_puts:
  "distinct (map fst fs) \<Longrightarrow>
     tree_get (foldl (\<lambda>t (k, v). tree_put k v t) t fs) k =
       (case tree_get fs k of Some v \<Rightarrow> Some v | None \<Rightarrow> tree_get t k)"
proof (induction fs arbitrary: t)
  case (Cons f fs)
  obtain k' v where f: "f = (k', v)"
    by fastforce
  have "tree_get fs k' = None"
    using Cons.prems by (induction fs) (auto simp: f)
  with Cons show ?case
    by (auto simp: f tree_get_put split: option.split)
qed simp

lemma load_entries_ok:
  assumes "load_entries es fs = Ok fs'" "tree_ok fs" "\<And>k v. tree_get fs k = Some v \<Longrightarrow> is_safe_bundle_path k"
  shows "tree_ok fs' \<and> (\<forall>k v. tree_get fs' k = Some v \<longrightarrow> is_safe_bundle_path k)"
  using assms
proof (induction es fs rule: load_entries.induct)
  case (2 name is_dir contents es files)
  show ?case
  proof (cases "is_dir")
    case False
    with 2(3) obtain buf where buf: "contents = Ok buf" "is_safe_bundle_path name"
        "load_entries es (tree_put name buf files) = Ok fs'"
      by (auto simp: ok_then_Ok split: if_splits)
    have "tree_ok (tree_put name buf files)"
      by (rule tree_ok_put) (rule 2(4))
    moreover have "is_safe_bundle_path k" if "tree_get (tree_put name buf files) k = Some v" for k v
      using that buf(2) 2(5) [of k v] by (simp add: tree_get_put split: if_splits)
    ultimately show ?thesis
      using 2(2) [of buf] False buf by blast
  qed (use 2 in simp)
qed simp

text \<open>What a loaded bundle is: a valid manifest, and files under safe paths in order.\<close>

lemma load_from_bytes_Ok:
  assumes "load_from_bytes me data = Ok b"
  shows "manifest_validate (b_manifest b) = Ok ()" "tree_ok (b_files b)" "distinct (map fst (b_files b))"
    and "tree_get (b_files b) k = Some v \<Longrightarrow> is_safe_bundle_path k"
proof -
  obtain zip where "load_entries zip [] = Ok (b_files b)" and m: "manifest_validate (b_manifest b) = Ok ()"
    using assms by (auto simp: load_from_bytes_def ok_then_Ok)
  then have ok: "tree_ok (b_files b) \<and> (\<forall>k v. tree_get (b_files b) k = Some v \<longrightarrow> is_safe_bundle_path k)"
    by (intro load_entries_ok) auto
  then show "manifest_validate (b_manifest b) = Ok ()" "tree_ok (b_files b)" "distinct (map fst (b_files b))"
    and "tree_get (b_files b) k = Some v \<Longrightarrow> is_safe_bundle_path k"
    using m tree.iter_distinct [of "b_files b"] by (auto simp: tree_iter_def)
qed

section \<open>The invariant of the store\<close>

text \<open>A page that passed the scan.\<close>

definition clean_page :: "bytes \<Rightarrow> bool" where
  "clean_page bs \<longleftrightarrow>
     utf8_valid bs \<and> \<not> html_has_inline_script (string_of_bytes bs) \<and>
     (\<forall>needle\<in>set (FORBIDDEN_SCHEMES @ FORBIDDEN_FILE_TOKENS @ [''<base'']).
        \<not> contains_str (to_lowercase (string_of_bytes bs)) needle)"

definition store_wf :: "AppStore \<Rightarrow> bool" where
  "store_wf st \<longleftrightarrow>
     (\<forall>aid m. get_manifest st aid = Some m \<longrightarrow>
        mf_id m = aid \<and> manifest_validate m = Ok () \<and>
        (\<exists>bs. get_file st aid (mf_entry m) = Some bs \<and> clean_page bs)) \<and>
     (\<forall>aid path bs. get_file st aid path = Some bs \<longrightarrow> is_safe_bundle_path path) \<and>
     (\<forall>aid l. tree_get (st_listings st) aid = Some l \<longrightarrow> mf_id (ls_manifest l) = aid) \<and>
     (\<forall>aid r. tree_get (st_reputation st) aid = Some r \<longrightarrow> rep_score r \<le> 100) \<and>
     distinct (revoked_app_ids (load_revocations st)) \<and>
     tree_ok (st_installed st) \<and> tree_ok (st_listings st)"

lemma store_wfI:
  assumes "\<And>aid m. get_manifest st aid = Some m \<Longrightarrow>
        mf_id m = aid \<and> manifest_validate m = Ok () \<and> (\<exists>bs. get_file st aid (mf_entry m) = Some bs \<and> clean_page bs)"
    and "\<And>aid path bs. get_file st aid path = Some bs \<Longrightarrow> is_safe_bundle_path path"
    and "\<And>aid l. tree_get (st_listings st) aid = Some l \<Longrightarrow> mf_id (ls_manifest l) = aid"
    and "\<And>aid r. tree_get (st_reputation st) aid = Some r \<Longrightarrow> rep_score r \<le> 100"
    and "distinct (revoked_app_ids (load_revocations st))" "tree_ok (st_installed st)" "tree_ok (st_listings st)"
  shows "store_wf st"
  using assms by (simp add: store_wf_def)

lemma store_wfD:
  assumes "store_wf st"
  shows "get_manifest st aid = Some m \<Longrightarrow> mf_id m = aid"
    and "get_manifest st aid = Some m \<Longrightarrow> manifest_validate m = Ok ()"
    and "get_manifest st aid = Some m \<Longrightarrow> \<exists>bs. get_file st aid (mf_entry m) = Some bs \<and> clean_page bs"
    and "get_file st aid path = Some bs \<Longrightarrow> is_safe_bundle_path path"
    and "tree_get (st_listings st) aid = Some l \<Longrightarrow> mf_id (ls_manifest l) = aid"
    and "tree_get (st_reputation st) aid = Some r \<Longrightarrow> rep_score r \<le> 100"
    and "distinct (revoked_app_ids (load_revocations st))" "tree_ok (st_installed st)" "tree_ok (st_listings st)"
  using assms unfolding store_wf_def by blast+

lemma validate_entry_clean:
  assumes "validate_entry_html m b = Ok ()"
  shows "\<exists>bs. tree_get (b_files b) (mf_entry m) = Some bs \<and> clean_page bs"
proof -
  obtain bs where bs: "tree_get (b_files b) (mf_entry m) = Some bs" "utf8_valid bs"
      "validate_html_content (string_of_bytes bs) (mf_entry m) = Ok ()"
      "\<not> html_has_inline_script (string_of_bytes bs)"
    using assms by (auto simp: validate_entry_html_def b_get_file_def Let_def ok_then_Ok split: if_splits)
  then have "\<forall>needle\<in>set (FORBIDDEN_SCHEMES @ FORBIDDEN_FILE_TOKENS @ [''<base'']).
      \<not> contains_str (to_lowercase (string_of_bytes bs)) needle"
    by (auto simp: validate_html_content_def Let_def find_None_iff split: option.splits if_splits)
  with bs show ?thesis
    by (auto simp: clean_page_def)
qed

section \<open>Reachable stores\<close>

definition empty_store :: AppStore where
  "empty_store = \<lparr>st_installed = [], st_listings = [], st_files = \<lambda>_. [], st_reputation = [], st_prefs = [],
     st_revocations = None\<rparr>"

text \<open>The operations hosts and the application node call on a store, in any order and with any arguments.\<close>

inductive app_reach :: "AppStore \<Rightarrow> bool" where
  fresh: "app_reach empty_store"
| opened: "app_reach st \<Longrightarrow> app_reach (app_store_open me revs ls now st)"
| installed: "app_reach st \<Longrightarrow> app_reach (snd (install_verified me now bs trust allow st))"
| uninstalled: "app_reach st \<Longrightarrow> app_reach (uninstall aid st)"
| cached: "app_reach st \<Longrightarrow> app_reach (cache_listing l st)"
| revoked: "app_reach st \<Longrightarrow> app_reach (revoke_app now aid st)"
| gossiped: "app_reach st \<Longrightarrow> app_reach (snd (ingest_gossip_revocation cr now e st))"
| safe_mode: "app_reach st \<Longrightarrow> app_reach (set_safe_mode aid b st)"
| reported: "app_reach st \<Longrightarrow> app_reach (record_user_report now aid st)"
| anomaly: "app_reach st \<Longrightarrow> app_reach (record_bridge_anomaly now aid st)"

lemma get_manifest_simps [simp]:
  "get_manifest (snd (apply_delta now a d st)) = get_manifest st"
  "get_manifest (cache_listing l st) = get_manifest st"
  "get_manifest (save_revocations snap st) = get_manifest st"
  "get_manifest (set_safe_mode aid b st) = get_manifest st"
  by (simp_all add: get_manifest_def cache_listing_def save_revocations_def set_safe_mode_def fun_eq_iff)

lemma get_file_simps [simp]:
  "get_file (snd (apply_delta now a d st)) = get_file st"
  "get_file (cache_listing l st) = get_file st"
  "get_file (save_revocations snap st) = get_file st"
  "get_file (set_safe_mode aid b st) = get_file st"
  by (simp_all add: get_file_def cache_listing_def save_revocations_def set_safe_mode_def fun_eq_iff)

lemma load_revocations_simps [simp]:
  "load_revocations (snd (apply_delta now a d st)) = load_revocations st"
  "load_revocations (cache_listing l st) = load_revocations st"
  "load_revocations (save_revocations snap st) = snap"
  "load_revocations (set_safe_mode aid b st) = load_revocations st"
  by (simp_all add: load_revocations_def cache_listing_def save_revocations_def set_safe_mode_def)

lemma wf_apply_delta: "store_wf st \<Longrightarrow> store_wf (snd (apply_delta now a d st))"
proof (rule store_wfI)
  fix aid r
  assume wf: "store_wf st" and r: "tree_get (st_reputation (snd (apply_delta now a d st))) aid = Some r"
  have "rep_score (fst (apply_delta now a d st)) \<le> 100"
    using rep_score_apply_delta [of now a d st] by (simp add: word_le_def)
  with r store_wfD(6) [OF wf, of aid r] show "rep_score r \<le> 100"
    by (auto simp: apply_delta_def Let_def rep_save_def tree_get_put split: if_splits)
qed (use store_wfD in auto)

lemma wf_save_revocations:
  "store_wf st \<Longrightarrow> distinct (revoked_app_ids snap) \<Longrightarrow> store_wf (save_revocations snap st)"
  by (rule store_wfI) (use store_wfD in \<open>auto simp: save_revocations_def load_revocations_def get_manifest_def get_file_def\<close>)

lemma wf_revoke_app: "store_wf st \<Longrightarrow> store_wf (revoke_app now aid st)"
  using store_wfD(7) [of st] by (auto simp: revoke_app_def Let_def intro!: wf_save_revocations)

lemma wf_cache_listing: "store_wf st \<Longrightarrow> store_wf (cache_listing l st)"
  by (rule store_wfI)
    (use store_wfD in \<open>auto simp: cache_listing_def get_manifest_def get_file_def load_revocations_def tree_get_put tree_ok_put
      split: if_splits\<close>)

lemma wf_uninstall: "store_wf st \<Longrightarrow> store_wf (uninstall aid st)"
  by (rule store_wfI)
    (use store_wfD in \<open>auto simp: uninstall_def get_manifest_def get_file_def load_revocations_def tree_get_del tree_ok_del
      split: if_splits\<close>)

lemma wf_set_safe_mode: "store_wf st \<Longrightarrow> store_wf (set_safe_mode aid b st)"
  by (rule store_wfI) (use store_wfD in \<open>auto simp: set_safe_mode_def get_manifest_def get_file_def load_revocations_def\<close>)

lemma distinct_merge_new: "distinct ids \<Longrightarrow> distinct (merge_new bundled ids)"
  unfolding merge_new_def by (induction bundled arbitrary: ids) auto

lemma wf_merge_bundled: "store_wf st \<Longrightarrow> store_wf (snd (merge_bundled_defaults revs now st))"
  using store_wfD(7) [of st]
  by (auto simp: merge_bundled_defaults_def Let_def distinct_merge_new intro!: wf_save_revocations)

lemma wf_merge_listings: "store_wf st \<Longrightarrow> store_wf (snd (merge_listings me ls n st))"
  by (induction me ls n st rule: merge_listings.induct)
    (auto simp: Let_def wf_cache_listing split: sum.split bool.split option.split)

section \<open>Installation\<close>

lemma find_listing_tree:
  assumes "store_wf st"
  shows "find_listing st aid = tree_get (st_listings st) aid"
proof (cases "find_listing st aid")
  case None
  have "tree_get (st_listings st) aid \<noteq> Some l" for l
  proof
    assume l: "tree_get (st_listings st) aid = Some l"
    then have "l \<in> set (browse_listings st)"
      using tree_iter_get [OF store_wfD(9) [OF assms], of aid l] by (force simp: browse_listings_def tree_iter_def)
    with None store_wfD(5) [OF assms l] show False
      by (auto simp: find_listing_def find_None_iff)
  qed
  with None show ?thesis
    by (metis option.exhaust)
next
  case (Some l)
  then have "l \<in> set (browse_listings st)" "mf_id (ls_manifest l) = aid"
    by (auto simp: find_listing_def find_Some_iff)
  then obtain k where "(k, l) \<in> set (st_listings st)"
    by (auto simp: browse_listings_def tree_iter_def)
  then have "tree_get (st_listings st) k = Some l"
    using tree_iter_get [OF store_wfD(9) [OF assms], of k l] by simp
  with Some \<open>mf_id (ls_manifest l) = aid\<close> store_wfD(5) [OF assms, of k l] show ?thesis
    by simp
qed

definition installed_store :: "MiniAppBundle \<Rightarrow> AppStore \<Rightarrow> AppStore" where
  "installed_store b st =
     (let m = b_manifest b in
      st\<lparr>st_installed := tree_put (mf_id m) m (st_installed st),
        st_files := (st_files st)(mf_id m :=
          foldl (\<lambda>t (path, data). tree_put path data t) (st_files st (mf_id m)) (b_files b))\<rparr>)"

lemma install_eq:
  "install me bs st =
     (case load_from_bytes me bs of
        Inl e \<Rightarrow> (Err e, st)
      | Inr b \<Rightarrow> if total_size b > 10 * 1024 * 1024 then (Err ''app bundle exceeds 10 MB limit'', st)
                else (Ok (b_manifest b), installed_store b st))"
  by (auto simp: install_def installed_store_def Let_def split: sum.split)

lemma get_manifest_installed:
  "get_manifest (installed_store b st) aid = (if aid = mf_id (b_manifest b) then Some (b_manifest b) else get_manifest st aid)"
  by (simp add: get_manifest_def installed_store_def Let_def tree_get_put)

lemma get_file_installed:
  assumes "load_from_bytes me bs = Ok b"
  shows "get_file (installed_store b st) aid path =
    (if aid = mf_id (b_manifest b)
     then (case b_get_file b path of Some d \<Rightarrow> Some d | None \<Rightarrow> get_file st aid path)
     else get_file st aid path)"
  using load_from_bytes_Ok(3) [OF assms]
  by (auto simp: get_file_def b_get_file_def installed_store_def Let_def get_puts split: option.split)

lemma wf_installed:
  assumes "store_wf st" "load_from_bytes me bs = Ok b" "validate_entry_html (b_manifest b) b = Ok ()"
  shows "store_wf (installed_store b st)"
proof (rule store_wfI)
  fix aid m
  assume m: "get_manifest (installed_store b st) aid = Some m"
  obtain page where "tree_get (b_files b) (mf_entry (b_manifest b)) = Some page" "clean_page page"
    using validate_entry_clean [OF assms(3)] by blast
  with m store_wfD(1-3) [OF assms(1), of aid m] load_from_bytes_Ok(1) [OF assms(2)]
  show "mf_id m = aid \<and> manifest_validate m = Ok () \<and>
      (\<exists>bs. get_file (installed_store b st) aid (mf_entry m) = Some bs \<and> clean_page bs)"
    by (auto simp: get_manifest_installed get_file_installed [OF assms(2)] b_get_file_def split: if_splits)
next
  fix aid path d
  assume "get_file (installed_store b st) aid path = Some d"
  then show "is_safe_bundle_path path"
    using store_wfD(4) [OF assms(1), of aid path d] load_from_bytes_Ok(4) [OF assms(2), of path d]
    by (auto simp: get_file_installed [OF assms(2)] b_get_file_def split: if_splits option.splits)
qed (use store_wfD [OF assms(1)] in \<open>auto simp: installed_store_def Let_def load_revocations_def tree_ok_put\<close>)

text \<open>When the preview of a bundle and the trust decision let an installation through.\<close>

definition trusted :: "miniapp_env \<Rightarrow> AppStore \<Rightarrow> InstallTrust \<Rightarrow> bytes \<Rightarrow> MiniAppBundle \<Rightarrow> bool" where
  "trusted me st trust bs b \<longleftrightarrow>
     (\<exists>dev. verify_bundle_developer_signature me b bs = Ok dev \<and>
        (case tree_get (st_listings st) (mf_id (b_manifest b)) of
           None \<Rightarrow> trust = TrustSideloadAcknowledged \<and> dev
         | Some l \<Rightarrow> ls_bundle_hash l = bundle_hash_hex me bs \<and>
             (trust = TrustVerifiedListing \<longrightarrow> ls_verify_signature me l = Ok True)))"

definition no_downgrade :: "AppStore \<Rightarrow> MiniAppManifest \<Rightarrow> bool" where
  "no_downgrade st m \<longleftrightarrow>
     (\<forall>old. get_manifest st (mf_id m) = Some old \<longrightarrow> \<not> is_downgrade (mf_version old) (mf_version m))"

definition preview_of :: "miniapp_env \<Rightarrow> AppStore \<Rightarrow> bytes \<Rightarrow> MiniAppBundle \<Rightarrow> bool \<Rightarrow> InstallPreview" where
  "preview_of me st bs b dev =
     (let m = b_manifest b; hash = bundle_hash_hex me bs;
          lt = listing_trust me (tree_get (st_listings st) (mf_id m)) hash in
      \<lparr>pv_manifest = m, pv_bundle_hash = hash, pv_trust_level = fst lt, pv_listing_signature_ok = snd lt,
       pv_installed_version = map_option mf_version (get_manifest st (mf_id m)),
       pv_is_downgrade = (\<not> no_downgrade st m), pv_has_inline_script = entry_has_inline_script m b,
       pv_strict_csp_eligible = (\<not> entry_has_inline_script m b), pv_bundle_signature_ok = dev,
       pv_reproducible_attested = reproducible_attests_hash m (content_attestation_hash me b)\<rparr>)"

lemma preview_Ok:
  assumes "store_wf st"
  shows "preview_install me st bs = Ok pv \<longleftrightarrow>
    (\<exists>b dev. load_from_bytes me bs = Ok b \<and> scan_bundle b bs = Ok () \<and> \<not> is_revoked st (mf_id (b_manifest b)) \<and>
       total_size b \<le> 10 * 1024 * 1024 \<and> verify_bundle_developer_signature me b bs = Ok dev \<and>
       pv = preview_of me st bs b dev)"
proof -
  have down: "(case map_option mf_version (get_manifest st (mf_id m)) of Some v \<Rightarrow> is_downgrade v (mf_version m) | None \<Rightarrow> False)
      = (\<not> no_downgrade st m)" for m
    by (simp add: no_downgrade_def split: option.split)
  show ?thesis
    unfolding preview_install_def preview_of_def find_listing_tree [OF assms] Let_def down case_prod_unfold
    by (cases "load_from_bytes me bs"; cases "scan_bundle (projr (load_from_bytes me bs)) bs")
      (auto simp: ok_then_Ok not_less)
qed

lemma check_downgrade_Ok:
  "check_downgrade allow pv = Ok () \<longleftrightarrow> allow \<or> \<not> pv_is_downgrade pv \<or> pv_installed_version pv = None"
  by (simp add: check_downgrade_def split: option.split)

lemma check_trust_Ok:
  "check_trust trust lvl pv = Ok () \<longleftrightarrow>
     (case lvl of VerifiedListing \<Rightarrow> True | MatchingListingHash \<Rightarrow> trust = TrustSideloadAcknowledged
      | SideloadOnly \<Rightarrow> trust = TrustSideloadAcknowledged \<and> pv_bundle_signature_ok pv | HashMismatch \<Rightarrow> False)"
  by (cases trust; cases lvl) simp_all

lemma fst_listing_trust:
  "fst (listing_trust me l h) =
     (case l of None \<Rightarrow> SideloadOnly
      | Some l \<Rightarrow> if ls_bundle_hash l \<noteq> h then HashMismatch
                  else if ls_verify_signature me l = Ok True then VerifiedListing else MatchingListingHash)"
  by (auto simp: listing_trust_def Let_def split: option.split sum.split)

text \<open>The checks of \<open>install_verified\<close> before it writes, in one condition.\<close>

definition install_allowed :: "miniapp_env \<Rightarrow> AppStore \<Rightarrow> InstallTrust \<Rightarrow> bool \<Rightarrow> bytes \<Rightarrow> MiniAppBundle \<Rightarrow> bool" where
  "install_allowed me st trust allow bs b \<longleftrightarrow>
     load_from_bytes me bs = Ok b \<and> scan_bundle b bs = Ok () \<and> total_size b \<le> 10 * 1024 * 1024 \<and>
     \<not> is_revoked st (mf_id (b_manifest b)) \<and> trusted me st trust bs b \<and> (allow \<or> no_downgrade st (b_manifest b))"

lemma no_downgrade_None: "get_manifest st (mf_id m) = None \<Longrightarrow> no_downgrade st m"
  by (simp add: no_downgrade_def)

lemma trust_checks:
  "check_trust trust (pv_trust_level (preview_of me st bs b dev)) (preview_of me st bs b dev) = Ok () \<longleftrightarrow>
     (case tree_get (st_listings st) (mf_id (b_manifest b)) of
        None \<Rightarrow> trust = TrustSideloadAcknowledged \<and> dev
      | Some l \<Rightarrow> ls_bundle_hash l = bundle_hash_hex me bs \<and>
          (trust = TrustVerifiedListing \<longrightarrow> ls_verify_signature me l = Ok True))"
proof (cases trust)
  case TrustVerifiedListing
  then show ?thesis
    by (simp add: check_trust_Ok preview_of_def Let_def fst_listing_trust split: option.split)
next
  case TrustSideloadAcknowledged
  then show ?thesis
    by (simp add: check_trust_Ok preview_of_def Let_def fst_listing_trust split: option.split)
qed

lemma downgrade_checks:
  "check_downgrade allow (preview_of me st bs b dev) = Ok () \<longleftrightarrow> allow \<or> no_downgrade st (b_manifest b)"
  using no_downgrade_None [of st "b_manifest b"] by (auto simp: check_downgrade_Ok preview_of_def Let_def)

lemma install_verified_eq:
  assumes "store_wf st"
  shows "install_verified me now bs trust allow st = (Ok m, st') \<longleftrightarrow>
    (\<exists>b. install_allowed me st trust allow bs b \<and> m = b_manifest b \<and>
       st' = record_install_trust now (mf_id m)
         (fst (listing_trust me (tree_get (st_listings st) (mf_id m)) (bundle_hash_hex me bs))) (installed_store b st))"
    (is "?lhs \<longleftrightarrow> ?rhs")
proof
  assume ?lhs
  then obtain pv where pv: "preview_install me st bs = Ok pv" "check_trust trust (pv_trust_level pv) pv = Ok ()"
      "check_downgrade allow pv = Ok ()"
      and ins: "and_then (install me bs st) (\<lambda>m st. (Ok m, record_install_trust now (mf_id m) (pv_trust_level pv) st)) = (Ok m, st')"
    by (auto simp: install_verified_def ok_then_Ok split: sum.splits)
  from pv(1) obtain b dev where b: "load_from_bytes me bs = Ok b" "scan_bundle b bs = Ok ()"
      "\<not> is_revoked st (mf_id (b_manifest b))" "total_size b \<le> 10 * 1024 * 1024"
      "verify_bundle_developer_signature me b bs = Ok dev" "pv = preview_of me st bs b dev"
    unfolding preview_Ok [OF assms] by blast
  then have "install_allowed me st trust allow bs b"
    using pv(2,3) trust_checks [of trust me st bs b dev] downgrade_checks [of allow me st bs b dev]
    by (simp add: install_allowed_def trusted_def)
  moreover have "m = b_manifest b" "st' = record_install_trust now (mf_id m) (pv_trust_level pv) (installed_store b st)"
    using ins b by (auto simp: install_eq)
  ultimately show ?rhs
    using b(6) by (auto simp: preview_of_def Let_def)
next
  assume ?rhs
  then obtain b where al: "install_allowed me st trust allow bs b" and m: "m = b_manifest b"
      and st': "st' = record_install_trust now (mf_id m)
        (fst (listing_trust me (tree_get (st_listings st) (mf_id m)) (bundle_hash_hex me bs))) (installed_store b st)"
    by blast
  then obtain dev where dev: "verify_bundle_developer_signature me b bs = Ok dev"
      "check_trust trust (pv_trust_level (preview_of me st bs b dev)) (preview_of me st bs b dev) = Ok ()"
    unfolding trust_checks by (auto simp: install_allowed_def trusted_def)
  have "preview_install me st bs = Ok (preview_of me st bs b dev)"
    using al dev(1) preview_Ok [OF assms] by (auto simp: install_allowed_def)
  moreover have "check_downgrade allow (preview_of me st bs b dev) = Ok ()"
    using al by (simp add: downgrade_checks install_allowed_def)
  ultimately show ?lhs
    using dev(2) al by (simp add: install_verified_def install_eq install_allowed_def m st' preview_of_def Let_def)
qed

lemma install_verified_Err: "fst (install_verified me now bs trust allow st) = Err e \<Longrightarrow> snd (install_verified me now bs trust allow st) = st"
  by (auto simp: install_verified_def install_eq and_then_def split: sum.splits if_splits)

lemma wf_install_verified:
  assumes "store_wf st"
  shows "store_wf (snd (install_verified me now bs trust allow st))"
proof (cases "fst (install_verified me now bs trust allow st)")
  case (Inl e)
  with install_verified_Err assms show ?thesis
    by fastforce
next
  case (Inr m)
  then obtain b where "install_allowed me st trust allow bs b"
      "snd (install_verified me now bs trust allow st) = record_install_trust now (mf_id m)
         (fst (listing_trust me (tree_get (st_listings st) (mf_id m)) (bundle_hash_hex me bs))) (installed_store b st)"
    using install_verified_eq [OF assms, of me now bs trust allow m "snd (install_verified me now bs trust allow st)"]
    by (auto simp: prod_eq_iff)
  then show ?thesis
    using wf_installed [OF assms, of me bs b]
    by (simp add: install_allowed_def scan_bundle_Ok record_defs wf_apply_delta)
qed

lemma wf_ingest: "store_wf st \<Longrightarrow> store_wf (snd (ingest_gossip_revocation cr now e st))"
  by (auto simp: ingest_gossip_revocation_def record_defs wf_revoke_app wf_apply_delta split: sum.split bool.split)

lemma wf_empty: "store_wf empty_store"
  by (simp add: store_wf_def empty_store_def get_manifest_def get_file_def load_revocations_def snap_default_def)

lemmas wf_ops = wf_apply_delta wf_revoke_app wf_cache_listing wf_uninstall wf_set_safe_mode wf_merge_bundled
  wf_merge_listings wf_install_verified wf_ingest

lemma app_reach_wf: "app_reach st \<Longrightarrow> store_wf st"
  by (induction rule: app_reach.induct) (simp_all add: wf_empty wf_ops app_store_open_def record_defs)

lemma rep_score_bound: "app_reach st \<Longrightarrow> rep_score (rep_load st aid) \<le> 100"
  using store_wfD(6) [OF app_reach_wf, of st aid]
  by (auto simp: rep_load_def rep_default_def SCORE_DEFAULT_def split: option.split)

section \<open>Properties\<close>

text \<open>C24. Every reachable store is well formed.  Whatever sequence of installations, removals, listings, revocations,
  reports and anomalies led to it: an installed app is filed under its own identifier with a valid manifest, its entry
  page is stored, is UTF-8 and has no inline script, forbidden scheme or base element; every stored file has a path that
  stays inside the bundle; every reputation lies between 0 and 100; no identifier is revoked twice.\<close>

theorem store_invariant:
  assumes "app_reach st"
  shows "(\<forall>aid m. get_manifest st aid = Some m \<longrightarrow>
            mf_id m = aid \<and> manifest_validate m = Ok () \<and> (\<exists>bs. get_file st aid (mf_entry m) = Some bs \<and> clean_page bs)) \<and>
         (\<forall>aid path bs. get_file st aid path = Some bs \<longrightarrow> is_safe_bundle_path path) \<and>
         (\<forall>aid. rep_score (rep_load st aid) \<le> 100) \<and>
         distinct (revoked_app_ids (load_revocations st))"
proof -
  note wf = app_reach_wf [OF assms]
  then show ?thesis
    using rep_score_bound [OF assms] by (auto simp: store_wf_def)
qed


text \<open>Anyone can revoke any app.  A revocation signed with an arbitrary keypair, naming the peer identifier of that
  keypair as curator, is accepted by every node: afterwards the app counts as revoked, its reputation is 0 and safe mode is
  forced, and no bundle with its identifier can be installed again.\<close>

theorem revocation_from_any_key:
  assumes "crypto_ok cr"
    and "rg_new_signed cr t aid reason (peer_string cr (kp_public cr kp)) kp = Ok e"
    and "ingest_gossip_revocation cr now e st = (r, st')" "app_reach st"
  shows "r = Ok True \<and> is_revoked st' aid \<and> rep_score (rep_load st' aid) = 0 \<and> effective_safe_mode st' aid \<and>
    (\<forall>me now' bs trust allow m. fst (install_verified me now' bs trust allow st') = Ok m \<longrightarrow> mf_id m \<noteq> aid)"
proof -
  obtain s where s: "kp_sign cr kp (rg_signable_bytes (e\<lparr>rg_signature := []\<rparr>)) = Ok s" "rg_signature e = s"
    and e: "rg_app_id e = aid" "rg_curator_peer_id e = peer_string cr (kp_public cr kp)"
    using assms(2) by (auto simp: rg_new_signed_def Let_def ok_then_Ok rg_signable_bytes_def)
  have "pk_verify cr (kp_public cr kp) (rg_signable_bytes e) (rg_signature e)"
    using crypto_okD(4) [OF assms(1) s(1)] s(2) by (simp add: rg_signable_bytes_def)
  then have "rg_verify_signature cr e = Ok True"
    using crypto_okD(3,5) [OF assms(1)] e(2) by (simp add: rg_verify_signature_def public_key_from_peer_id_def)
  then have r: "r = Ok True" and st': "st' = record_revocation_hit now aid (revoke_app now aid st)"
    using assms(3) e(1) by (auto simp: ingest_gossip_revocation_def)
  have rev: "is_revoked st' aid"
    by (simp add: st' record_defs is_revoked_def snap_is_revoked_def revoke_app_def Let_def)
  have "uint (rep_score (rep_load (revoke_app now aid st) aid)) \<le> 100"
    using rep_score_bound [OF assms(4), of aid]
    by (simp add: rep_load_def revoke_app_def save_revocations_def Let_def word_le_def)
  then have score: "rep_score (rep_load st' aid) = 0"
    using rep_score_apply_delta [of now aid "- 100" "revoke_app now aid st"]
    by (simp add: st' record_defs rep_load_apply_delta word_uint_eq_iff)
  moreover have "effective_safe_mode st' aid"
    using score by (simp add: effective_safe_mode_def forced_safe_mode_def SCORE_FORCE_SAFE_def)
  moreover have "mf_id m \<noteq> aid" if "fst (install_verified me now' bs trust allow st') = Ok m" for me now' bs trust allow m
  proof -
    have "store_wf st'"
      using wf_ingest [OF app_reach_wf [OF assms(4)], of cr now e] assms(3) by simp
    from install_verified_eq [OF this] that show ?thesis
      using rev by (cases "install_verified me now' bs trust allow st'") (auto simp: install_allowed_def)
  qed
  ultimately show ?thesis
    using r rev by blast
qed

text \<open>Installing a new version does not remove the files of the old one: a file the new bundle no longer has stays
  stored and is served under the new version.\<close>

lemma update_keeps_old_files:
  assumes "app_reach st" "install_verified me now bs trust allow st = (Ok m, st')"
    "get_file st (mf_id m) path = Some d" "\<And>b. load_from_bytes me bs = Ok b \<Longrightarrow> b_get_file b path = None"
  shows "get_file st' (mf_id m) path = Some d"
proof -
  obtain b where "install_allowed me st trust allow bs b" "m = b_manifest b"
      "st' = record_install_trust now (mf_id m)
         (fst (listing_trust me (tree_get (st_listings st) (mf_id m)) (bundle_hash_hex me bs))) (installed_store b st)"
    using assms(2) install_verified_eq [OF app_reach_wf [OF assms(1)]] by blast
  then show ?thesis
    using assms(3,4) by (auto simp: install_allowed_def record_defs get_file_installed)
qed

section \<open>An example\<close>

definition demo_manifest :: MiniAppManifest where
  "demo_manifest =
     \<lparr>mf_id = ''a.b'', mf_name = ''n'', mf_description = [], mf_version = ''1.0'', mf_developer = [],
      mf_developer_peer_id = Some (string_of_bytes [7]), mf_entry = ''i.html'', mf_icon_base64 = None,
      mf_permissions = [Storage], mf_min_mycelium_version = ''0.1.0'', mf_accepts_payments = False,
      mf_payment_address = None, mf_categories = [], mf_runtime = ''webview'', mf_bulletin_scopes = [],
      mf_reproducible_build = None\<rparr>"

definition demo_miniapp_env :: miniapp_env where
  "demo_miniapp_env =
     \<lparr>me_crypto = demo_crypto, me_sealing = demo_sealing,
      me_unzip = \<lambda>_. Ok [(''mycelium-app.json'', False, Ok []), (''i.html'', False, Ok (bytes_of ''<p>''))],
      me_parse_manifest = \<lambda>_. Ok demo_manifest, me_print_manifest = \<lambda>_. [], me_print_sources = \<lambda>_. [],
      me_parse_signature = \<lambda>_. Err ''no signature''\<rparr>"

definition demo_bundle :: MiniAppBundle where
  "demo_bundle = \<lparr>b_manifest = demo_manifest, b_files = [(''i.html'', bytes_of ''<p>''), (''mycelium-app.json'', [])]\<rparr>"

definition demo_listing :: AppStoreListing where
  "demo_listing =
     (let l = \<lparr>ls_manifest = demo_manifest, ls_bundle_hash = bundle_hash_hex demo_miniapp_env [1], ls_sources = [],
               ls_published_at_ms = 1, ls_updated_at_ms = 1, ls_signature = []\<rparr> in
      l\<lparr>ls_signature := 7 # ls_signable_bytes demo_miniapp_env l\<rparr>)"

definition demo_store :: AppStore where
  "demo_store = cache_listing demo_listing empty_store"

lemma demo_store_reach: "app_reach demo_store"
  unfolding demo_store_def by (intro app_reach.cached app_reach.fresh)

lemma safe_i: "is_safe_bundle_path ''i.html''" "is_safe_bundle_path ''mycelium-app.json''"
  by code_simp+

lemma demo_load: "load_from_bytes demo_miniapp_env bs = Ok demo_bundle"
  by (simp add: load_from_bytes_def demo_miniapp_env_def demo_bundle_def safe_i manifest_validate_def demo_manifest_def char_count_def
      less_char_def)

lemma demo_page: "validate_html_content ''<p>'' label = Ok ()" "\<not> html_has_inline_script ''<p>''"
  "validate_path_extension ''i.html'' = Ok ()"
  by code_simp+

lemma demo_scan: "scan_bundle demo_bundle bs = Ok ()"
proof -
  have "utf8_valid (bytes_of ''<p>'')" "sniff_polyglot ''i.html'' (bytes_of ''<p>'') = Ok ()"
    "length (bytes_of ''<p>'') < MIN_BYTES_FOR_RATIO_CHECK"
    by (simp_all add: bytes_of_def sniff_polyglot_def bytes_start_with_def MIN_BYTES_FOR_RATIO_CHECK_def)
  then show ?thesis
    by (simp add: scan_bundle_Ok demo_bundle_def scan_file_def demo_page validate_html_asset_def total_size_def
        MAX_BUNDLE_FILES_def validate_entry_html_def b_get_file_def demo_manifest_def Let_def)
qed

lemma demo_listing_ok:
  "ls_verify_signature demo_miniapp_env demo_listing = Ok True"
  "tree_get (st_listings demo_store) ''a.b'' = Some demo_listing"
  by (simp_all add: ls_verify_signature_def demo_listing_def Let_def demo_manifest_def demo_miniapp_env_def demo_crypto_def
      public_key_from_peer_id_def ls_signable_bytes_def demo_store_def cache_listing_def empty_store_def)

lemma demo_install:
  "fst (install_verified demo_miniapp_env 5 [1] TrustVerifiedListing False demo_store) = Ok demo_manifest"
proof -
  have dev: "verify_bundle_developer_signature demo_miniapp_env demo_bundle [1] = Ok False"
    by (simp add: verify_bundle_developer_signature_def b_get_file_def demo_bundle_def BUNDLE_SIG_FILE_def)
  have hash: "ls_bundle_hash demo_listing = bundle_hash_hex demo_miniapp_env [1]"
    by (simp add: demo_listing_def Let_def)
  have b: "mf_id (b_manifest demo_bundle) = ''a.b''" "total_size demo_bundle \<le> 10 * 1024 * 1024"
    by (simp_all add: demo_bundle_def demo_manifest_def total_size_def)
  have "trusted demo_miniapp_env demo_store TrustVerifiedListing [1] demo_bundle"
    unfolding trusted_def using dev hash demo_listing_ok b by auto
  moreover have "no_downgrade demo_store (b_manifest demo_bundle)" "\<not> is_revoked demo_store ''a.b''"
    by (simp_all add: no_downgrade_def get_manifest_def demo_store_def cache_listing_def empty_store_def is_revoked_def
        snap_is_revoked_def load_revocations_def snap_default_def)
  ultimately have "install_allowed demo_miniapp_env demo_store TrustVerifiedListing False [1] demo_bundle"
    using b by (simp add: install_allowed_def demo_load demo_scan)
  moreover have "demo_manifest = b_manifest demo_bundle"
    by (simp add: demo_bundle_def)
  ultimately have "\<exists>st'. install_verified demo_miniapp_env 5 [1] TrustVerifiedListing False demo_store = (Ok demo_manifest, st')"
    unfolding install_verified_eq [OF app_reach_wf [OF demo_store_reach]] by blast
  then show ?thesis
    by auto
qed

text \<open>The store after installing the example.\<close>

definition demo_installed :: AppStore where
  "demo_installed = snd (install_verified demo_miniapp_env 5 [1] TrustVerifiedListing False demo_store)"

lemma demo_installed_reach: "app_reach demo_installed"
  unfolding demo_installed_def by (intro app_reach.installed demo_store_reach)

lemma demo_manifest_id [simp]: "mf_id demo_manifest = ''a.b''" "mf_entry demo_manifest = ''i.html''"
  by (simp_all add: demo_manifest_def)

lemma demo_installed_manifest: "get_manifest demo_installed ''a.b'' = Some demo_manifest"
proof -
  have "install_verified demo_miniapp_env 5 [1] TrustVerifiedListing False demo_store = (Ok demo_manifest, demo_installed)"
    using demo_install by (simp add: demo_installed_def prod_eq_iff)
  then obtain b where "demo_manifest = b_manifest b"
      "demo_installed = record_install_trust 5 (mf_id demo_manifest) (fst (listing_trust demo_miniapp_env
         (tree_get (st_listings demo_store) (mf_id demo_manifest)) (bundle_hash_hex demo_miniapp_env [1]))) (installed_store b demo_store)"
    unfolding install_verified_eq [OF app_reach_wf [OF demo_store_reach]] by blast
  then show ?thesis
    by (metis demo_manifest_id(1) get_manifest_installed get_manifest_simps(1) record_install_trust_def)
qed

theorem store_invariant_witness:
  "app_reach demo_installed \<and> get_manifest demo_installed ''a.b'' = Some demo_manifest \<and>
   (\<exists>bs. get_file demo_installed ''a.b'' ''i.html'' = Some bs \<and> clean_page bs)"
  using store_invariant [OF demo_installed_reach] demo_installed_reach demo_installed_manifest
  by (metis demo_manifest_id(2))


theorem revocation_from_any_key_witness:
  "let e = projr (rg_new_signed demo_crypto 3 ''a.b'' ''spam'' (string_of_bytes [66]) [66]);
       st' = snd (ingest_gossip_revocation demo_crypto 9 e demo_installed) in
   is_revoked st' ''a.b'' \<and> effective_safe_mode st' ''a.b''"
proof -
  let ?e = "projr (rg_new_signed demo_crypto 3 ''a.b'' ''spam'' (string_of_bytes [66]) [66])"
  have "rg_new_signed demo_crypto 3 ''a.b'' ''spam'' (peer_string demo_crypto (kp_public demo_crypto [66])) [66] = Ok ?e"
    by (simp add: rg_new_signed_def demo_crypto_def Let_def)
  from revocation_from_any_key [OF crypto_ok_demo this prod.collapse [symmetric] demo_installed_reach, of 9]
  show ?thesis
    by (simp add: Let_def)
qed

end
