(* ===== verification/App_Props.thy ===== *)
theory App_Props
  imports App_Node Coin_Props Miniapp_Props
begin

text \<open>
  Properties of the application node: which incoming messages reach the user, what a holder and a non-holder of a key make
  of a sealed bulletin or group message, the bounds of the proximity store and inbox, and what an expression of
  interest tells whom.
\<close>

section \<open>Acceptance of contacts\<close>

definition accepted :: "AppNode \<Rightarrow> string \<Rightarrow> bool" where
  "accepted n p \<longleftrightarrow> (\<exists>c. contact_by_id (an_storage n) p = Some c \<and> ct_status c = ContactAccepted)"

text \<open>A message that opens under the key of a group the node is in.\<close>

definition from_group :: "app_env \<Rightarrow> DirectMessage \<Rightarrow> AppNode \<Rightarrow> bool" where
  "from_group env msg n \<longleftrightarrow>
     body msg = ''[mycelium:group]'' \<and>
     (\<exists>gid enc g text. ap_decode_wire env (payload (envelope msg)) = Ok (EncryptedGroup gid enc) \<and>
        group_by_id (an_storage n) gid = Some g \<and> decrypt_group (ap_sealing env) enc (gr_key g) = Ok text)"

lemma accepted_fields [simp]:
  "accepted (notify x n) = accepted n"
  "accepted (n\<lparr>an_chat_tx := a\<rparr>) = accepted n" "accepted (n\<lparr>an_bulletin_tx := b\<rparr>) = accepted n"
  "accepted (n\<lparr>an_mail_tx := c\<rparr>) = accepted n" "accepted (n\<lparr>an_appstore_tx := d\<rparr>) = accepted n"
  "accepted (n\<lparr>an_coin := e\<rparr>) = accepted n" "accepted (n\<lparr>an_app_store := f\<rparr>) = accepted n"
  "accepted (n\<lparr>an_px_store := g\<rparr>) = accepted n" "accepted (n\<lparr>an_px_matches := h\<rparr>) = accepted n"
  "accepted (n\<lparr>an_px_inbox := i\<rparr>) = accepted n"
  "accepted (on_storage (save_chat p m) n) = accepted n"
  "accepted (on_storage (save_group_chat q m) n) = accepted n"
  "accepted (on_storage (group_record_peer_seen q r) n) = accepted n"
  "accepted (on_storage (save_bulletin bp) n) = accepted n"
  "accepted (on_storage (save_mail_inbox mm) n) = accepted n"
  by (simp_all add: accepted_def fun_eq_iff notify_def on_storage_def save_chat_def save_group_chat_def save_group_def
      group_record_peer_seen_def save_bulletin_def save_mail_inbox_def contact_by_id_def split: option.split)

lemma accepted_pending:
  assumes "contact_by_id (an_storage n) p = None"
  shows "accepted (on_storage (\<lambda>s. snd (upsert_contact now p name ContactPending s)) n) = accepted n"
  using assms by (auto simp: accepted_def fun_eq_iff on_storage_def upsert_contact_def Let_def contact_by_id_def save_contact_def
      contact_new_def tree_get_put)

definition incoming_run :: "(app_env \<times> DirectMessage) list \<Rightarrow> AppNode \<Rightarrow> AppNode" where
  "incoming_run evs n = foldl (\<lambda>n (env, msg). dispatch_incoming env msg n) n evs"

lemma incoming_run_simps [simp]:
  "incoming_run [] n = n" "incoming_run (evs @ [(env, msg)]) n = dispatch_incoming env msg (incoming_run evs n)"
  by (simp_all add: incoming_run_def)

lemma chat_tx_fields [simp]:
  "an_chat_tx (notify x n) = an_chat_tx n" "an_chat_tx (on_storage f n) = an_chat_tx n"
  by (simp_all add: notify_def on_storage_def)

lemma dispatch_chat_effect:
  "accepted (dispatch_chat env p m n) = accepted n"
  "an_chat_tx (dispatch_chat env p m n) = an_chat_tx n @ (if p \<noteq> an_local_peer_id n \<and> accepted n p then [(p, m)] else [])"
  by (auto simp: dispatch_chat_def Let_def accepted_pending accepted_def [of n p] split: option.split)

lemma dispatch_group_effect:
  assumes "body msg = ''[mycelium:group]''"
  shows "accepted (dispatch_group env msg n) = accepted n"
    and "an_chat_tx (dispatch_group env msg n) = an_chat_tx n \<or>
      (\<exists>m. an_chat_tx (dispatch_group env msg n) = an_chat_tx n @ [(from_peer (envelope msg), m)]) \<and> from_group env msg n"
  using assms
  by (auto simp: dispatch_group_def from_group_def Let_def ok_then_Ok
      split: sum.splits WireMessage.splits option.splits AppPayload.splits)

lemma accepted_dispatch_incoming: "accepted (dispatch_incoming env msg n) = accepted n"
  using dispatch_group_effect(1) [of msg env n]
  by (simp add: dispatch_incoming_def dispatch_chat_effect handle_proximity_payload_def store_bulletin_def dispatch_coin_def
      dispatch_listing_def dispatch_revocation_def Let_def split: sum.split option.split AppPayload.split bool.split)

lemma chat_tx_dispatch_incoming:
  obtains "an_chat_tx (dispatch_incoming env msg n) = an_chat_tx n"
  | m where "an_chat_tx (dispatch_incoming env msg n) = an_chat_tx n @ [(from_peer (envelope msg), m)]"
      "accepted n (from_peer (envelope msg)) \<or> from_group env msg n"
proof (cases "body msg = ''[mycelium:group]''")
  case True
  then show thesis
    using dispatch_group_effect(2) [OF True, of env n] that by (auto simp: dispatch_incoming_def)
next
  case False
  have "an_chat_tx (dispatch_incoming env msg n) = an_chat_tx n \<or>
      (\<exists>m. an_chat_tx (dispatch_incoming env msg n) = an_chat_tx n @ [(from_peer (envelope msg), m)] \<and> accepted n (from_peer (envelope msg)))"
    using False
    by (simp add: dispatch_incoming_def dispatch_chat_effect handle_proximity_payload_def store_bulletin_def dispatch_coin_def
        dispatch_listing_def dispatch_revocation_def Let_def split: sum.split option.split AppPayload.split bool.split)
  then show thesis
    using that by blast
qed

lemma accepted_incoming_run: "accepted (incoming_run evs n) = accepted n"
  by (induction evs rule: rev_induct) (auto simp: accepted_dispatch_incoming)

text \<open>C26. Consent.  Whatever messages arrive, in whatever order, they make nobody an accepted contact and take nobody off
  the list of accepted contacts.  And a chat shown to the user came from a peer the user had accepted, or from a group message that
  opened under the key of a group the node was in when it arrived.\<close>

theorem chats_need_acceptance:
  "accepted (incoming_run evs n) = accepted n \<and>
   (\<exists>shown. an_chat_tx (incoming_run evs n) = an_chat_tx n @ shown \<and>
      (\<forall>(p, m)\<in>set shown. \<exists>pre env msg post. evs = pre @ (env, msg) # post \<and> p = from_peer (envelope msg) \<and>
         (accepted n p \<or> from_group env msg (incoming_run pre n))))"
proof (induction evs rule: rev_induct)
  case (snoc ev evs)
  obtain env msg where ev: "ev = (env, msg)"
    by fastforce
  let ?N = "incoming_run evs n"
  obtain shown where shown: "an_chat_tx ?N = an_chat_tx n @ shown"
    and old: "\<forall>(p, m)\<in>set shown. \<exists>pre env msg post. evs = pre @ (env, msg) # post \<and> p = from_peer (envelope msg) \<and>
         (accepted n p \<or> from_group env msg (incoming_run pre n))"
    using snoc by blast
  have old': "\<forall>(p, m)\<in>set shown. \<exists>pre env msg post. evs @ [ev] = pre @ (env, msg) # post \<and> p = from_peer (envelope msg) \<and>
         (accepted n p \<or> from_group env msg (incoming_run pre n))"
    using old by fastforce
  have "\<exists>more. an_chat_tx (incoming_run (evs @ [ev]) n) = an_chat_tx n @ shown @ more \<and>
      (\<forall>(p, m)\<in>set more. p = from_peer (envelope msg) \<and> (accepted n p \<or> from_group env msg ?N))"
    by (rule chat_tx_dispatch_incoming [of env msg ?N]) (auto simp: ev shown accepted_incoming_run)
  then show ?case
    using old' accepted_incoming_run [of "evs @ [ev]" n] ev by fastforce
qed simp

section \<open>A concrete node\<close>

text \<open>Surroundings in which \<open>[1]\<close> encodes the message \<open>m\<close> and nothing else is encoded.\<close>

definition demo_app_env :: "u64 \<Rightarrow> AppMessage \<Rightarrow> app_env" where
  "demo_app_env now m =
     \<lparr>ap_crypto = demo_crypto, ap_sealing = hex_sealing, ap_json = \<lparr>js_parse = \<lambda>s. Ok (JStr s), js_print = \<lambda>_. []\<rparr>,
      ap_miniapp = demo_miniapp_env, ap_coin = demo_env, ap_now = now, ap_uuid = ''u'', ap_random_key = replicate 32 5,
      ap_nonce = replicate 12 3, ap_ephemeral = replicate 32 4, ap_send = \<lambda>_. Ok (), ap_peer_x25519 = \<lambda>_. None,
      ap_known_peers = [], ap_local_enc_hex = ''e'', ap_encode = \<lambda>x. if x = m then Ok [1] else Err ''encode'',
      ap_decode = \<lambda>b. if b = [1] then Ok m else Err ''decode'',
      ap_encode_wire = \<lambda>_. Ok [2], ap_decode_wire = \<lambda>_. Err ''decode'', ap_decode_coin = \<lambda>_. Err ''decode'',
      ap_encode_signal = \<lambda>_. Ok [3], ap_decode_signal = \<lambda>_. Err ''decode'',
      ap_encode_direct = \<lambda>_. Ok [4], ap_decode_direct = \<lambda>_. Err ''decode'',
      ap_encode_intent = \<lambda>_. Ok [5], ap_decode_intent = \<lambda>_. Err ''decode''\<rparr>"

definition empty_storage :: AppStorage where
  "empty_storage = \<lparr>as_chats = \<lambda>_. [], as_contacts = [], as_bulletins = [], as_inbox = [], as_sent = [], as_mail_read = [],
     as_groups = [], as_group_chats = \<lambda>_. [], as_miniapp = [], as_scope_keys = [], as_at_rest_key = None\<rparr>"

definition demo_app :: "AppStorage \<Rightarrow> AppNode" where
  "demo_app s = app_node_new ''me'' ''Me'' s None (Some demo_installed) (from_secret_bytes hex_sealing [1])"

definition demo_chat :: ChatMessage where
  "demo_chat = \<lparr>cm_id = ''c'', cm_from_display_name = ''P'', cm_body = ''hello'', cm_timestamp_ms = 7, cm_reply_to = None\<rparr>"

definition demo_event :: "app_env \<times> DirectMessage" where
  "demo_event = (demo_app_env 7 \<lparr>am_app_id = AppChat, am_payload = Chat demo_chat\<rparr>,
     \<lparr>envelope = envelope_new demo_crypto 7 ''p'' None [1], body = ''hello''\<rparr>)"

definition demo_accepting :: AppNode where
  "demo_accepting = demo_app (snd (upsert_contact 1 ''p'' ''P'' ContactAccepted empty_storage))"

theorem chats_need_acceptance_witness:
  "an_chat_tx (incoming_run [demo_event] demo_accepting) = [(''p'', demo_chat)] \<and>
   an_chat_tx (incoming_run [demo_event] (demo_app empty_storage)) = [] \<and>
   accepted (incoming_run [demo_event] demo_accepting) ''p'' \<and>
   \<not> accepted (incoming_run [demo_event] (demo_app empty_storage)) ''p''"
proof -
  have "an_chat_tx (incoming_run [demo_event] demo_accepting) = [(''p'', demo_chat)]"
    "an_chat_tx (incoming_run [demo_event] (demo_app empty_storage)) = []"
    "accepted demo_accepting ''p''" "\<not> accepted (demo_app empty_storage) ''p''"
    by (simp_all add: incoming_run_def demo_event_def dispatch_incoming_def demo_app_env_def envelope_new_def Let_def
        strip_prefix_def starts_with_def dispatch_chat_effect accepted_def demo_accepting_def demo_app_def app_node_new_def
        empty_storage_def upsert_contact_def contact_by_id_def contact_new_def save_contact_def)
  then show ?thesis
    using chats_need_acceptance [of "[demo_event]" demo_accepting] chats_need_acceptance [of "[demo_event]" "demo_app empty_storage"]
    by (simp del: incoming_run_simps)
qed

section \<open>Sealed bulletins\<close>

text \<open>The post a call of \<open>post_bulletin\<close> makes.\<close>

definition bulletin_post :: "app_env \<Rightarrow> AppNode \<Rightarrow> string \<Rightarrow> string \<Rightarrow> string \<Rightarrow> u64 \<Rightarrow> BulletinPost" where
  "bulletin_post env n scope title text ttl =
     \<lparr>bp_id = ap_uuid env, bp_from_display_name = an_display_name n, bp_title = title, bp_body = text,
      bp_scope = scope, bp_timestamp_ms = ap_now env, bp_expires_at_ms = ap_now env + ttl * 1000\<rparr>"

lemma scope_key_fields [simp]:
  "get_scope_key (save_bulletin p s) = get_scope_key s"
  "an_storage (on_storage f n) = f (an_storage n)"
  "an_display_name (snd (app_send env c n)) = an_display_name n"
  "an_storage (snd (app_send env c n)) = an_storage n"
  by (simp_all add: fun_eq_iff get_scope_key_def save_bulletin_def on_storage_def app_send_def split: sum.split)

lemma app_send_Ok: "app_send env c n = (Ok (), n') \<longleftrightarrow> ap_send env c = Ok () \<and> n' = n\<lparr>an_commands := an_commands n @ [c]\<rparr>"
  by (auto simp: app_send_def split: sum.split)

lemma post_bulletin_sealed:
  assumes "post_bulletin env scope title text ttl n = (Ok (), n')" "get_scope_key (an_storage n) scope = Some sk"
  obtains plain ct where "ap_encode env \<lparr>am_app_id = AppBulletin, am_payload = Bulletin (bulletin_post env n scope title text ttl)\<rparr> = Ok plain"
    "encrypt_group (ap_sealing env) (ap_nonce env) plain (sk_key sk) = Ok ct"
    "last (an_commands n') = CmdBroadcastPayload scope (''[bulletin:'' @ scope @ '']'') (bytes_of ''enc1:'' @ ct)"
    "an_storage n' = save_bulletin (bulletin_post env n scope title text ttl) (an_storage n)"
proof -
  let ?p = "bulletin_post env n scope title text ttl"
  let ?N = "on_storage (save_bulletin ?p) (snd (app_send env (CmdSubscribeBulletinScope scope) n))"
  obtain plain where plain: "ap_encode env \<lparr>am_app_id = AppBulletin, am_payload = Bulletin ?p\<rparr> = Ok plain"
    using assms(1) by (cases "ap_encode env \<lparr>am_app_id = AppBulletin, am_payload = Bulletin ?p\<rparr>")
      (auto simp: post_bulletin_def bulletin_post_def with_result_def Let_def)
  obtain ct where ct: "encrypt_group (ap_sealing env) (ap_nonce env) plain (sk_key sk) = Ok ct"
    using assms plain by (cases "encrypt_group (ap_sealing env) (ap_nonce env) plain (sk_key sk)")
      (auto simp: post_bulletin_def bulletin_post_def with_result_def Let_def)
  have "app_send env (CmdBroadcastPayload scope (''[bulletin:'' @ scope @ '']'') (bytes_of ''enc1:'' @ ct)) ?N = (Ok (), n')"
    using assms plain ct by (simp add: post_bulletin_def bulletin_post_def with_result_def Let_def)
  with plain ct show thesis
    using that by (simp add: app_send_Ok)
qed

lemma bulletin_body [simp]:
  "Option.bind (strip_prefix ''[bulletin:'' (''[bulletin:'' @ scope @ '']'')) (strip_suffix '']'') = Some scope"
  unfolding strip_prefix_append by simp

lemma bulletin_body_other: "''[bulletin:'' @ scope @ '']'' \<noteq> ''[mycelium:group]''" "''[bulletin:'' @ scope @ '']'' \<noteq> ''[proximity]''"
  by simp_all

text \<open>C27. Sealed bulletins.  A post to a scope with a key arrives at every node that holds the same key for that scope exactly
  as its author stored it, and at a node with another key, or with none, it changes nothing.\<close>

theorem sealed_bulletin_delivery:
  assumes "sealing_ok (ap_sealing env)" "key_binding (ap_sealing env)" "ap_sealing env' = ap_sealing env"
    and "\<And>m plain. ap_encode env m = Ok plain \<Longrightarrow> ap_decode env' plain = Ok m"
    and "post_bulletin env scope title text ttl n = (Ok (), n')" "get_scope_key (an_storage n) scope = Some sk"
    and "last (an_commands n') = CmdBroadcastPayload topic tag pl" "body msg = tag" "payload (envelope msg) = pl"
  shows "topic = scope \<and>
    dispatch_incoming env' msg r =
      (if map_option sk_key (get_scope_key (an_storage r) scope) = Some (sk_key sk)
       then store_bulletin (bulletin_post env n scope title text ttl) r else r) \<and>
    an_storage n' = save_bulletin (bulletin_post env n scope title text ttl) (an_storage n)"
proof -
  obtain plain ct where plain: "ap_encode env \<lparr>am_app_id = AppBulletin, am_payload = Bulletin (bulletin_post env n scope title text ttl)\<rparr> = Ok plain"
    and ct: "encrypt_group (ap_sealing env) (ap_nonce env) plain (sk_key sk) = Ok ct"
    and sent: "topic = scope" "tag = ''[bulletin:'' @ scope @ '']''" "pl = bytes_of ''enc1:'' @ ct"
      "an_storage n' = save_bulletin (bulletin_post env n scope title text ttl) (an_storage n)"
    using post_bulletin_sealed [OF assms(5,6)] assms(7) by (metis NodeCommand.inject(4))
  have "length (bytes_of ''enc1:'') = 5"
    by (simp add: bytes_of_def)
  then have raw: "take 5 pl = bytes_of ''enc1:''" "drop 5 pl = ct"
    using sent(3) by simp_all
  have same: "decrypt_group (ap_sealing env) ct (sk_key sk) = Ok plain"
    by (rule encrypt_decrypt_group(1) [OF assms(1) ct])
  have other: "\<exists>e. decrypt_group (ap_sealing env) ct k = Err e" if "k \<noteq> sk_key sk" for k
    using decrypt_group_other_key [OF assms(2) ct that] by (cases "decrypt_group (ap_sealing env) ct k") auto
  have "dispatch_incoming env' msg r =
      (case handle_bulletin_payload env' pl scope (an_storage r) of Inr (Some p) \<Rightarrow> store_bulletin p r | _ \<Rightarrow> r)"
    unfolding dispatch_incoming_def assms(8,9) sent(2) bulletin_body using bulletin_body_other [of scope] by simp
  also have "\<dots> = (if map_option sk_key (get_scope_key (an_storage r) scope) = Some (sk_key sk)
       then store_bulletin (bulletin_post env n scope title text ttl) r else r)"
    unfolding handle_bulletin_payload_def Let_def raw assms(3)
    using same assms(4) [OF plain] by (auto dest!: other split: option.split)
  finally show ?thesis
    using sent by simp
qed

definition demo_post :: BulletinPost where
  "demo_post = \<lparr>bp_id = ''u'', bp_from_display_name = ''Me'', bp_title = ''T'', bp_body = ''B'', bp_scope = ''s'',
     bp_timestamp_ms = 7, bp_expires_at_ms = 1007\<rparr>"

definition demo_keyed :: "u8 \<Rightarrow> AppNode" where
  "demo_keyed b = demo_app (save_scope_key (scope_key_new 1 (replicate 32 b) ''s'' ''S'') empty_storage)"

definition demo_posting :: app_env where
  "demo_posting = demo_app_env 7 \<lparr>am_app_id = AppBulletin, am_payload = Bulletin demo_post\<rparr>"

lemma demo_keyed_scope [simp]: "get_scope_key (an_storage (demo_keyed b)) ''s'' = Some (scope_key_new 1 (replicate 32 b) ''s'' ''S'')"
  by (simp add: demo_keyed_def demo_app_def app_node_new_def save_scope_key_def empty_storage_def get_scope_key_def scope_key_new_def)

lemma demo_bulletin: "bulletin_post demo_posting (demo_keyed b) ''s'' ''T'' ''B'' 1 = demo_post"
  by (simp add: bulletin_post_def demo_posting_def demo_app_env_def demo_keyed_def demo_app_def app_node_new_def demo_post_def)

lemma demo_posted:
  "post_bulletin demo_posting ''s'' ''T'' ''B'' 1 (demo_keyed 5) =
    (Ok (), (on_storage (save_bulletin demo_post) (demo_keyed 5))\<lparr>an_commands := [CmdSubscribeBulletinScope ''s'',
      CmdBroadcastPayload ''s'' ''[bulletin:s]'' (bytes_of ''enc1:'' @ replicate 12 3 @ [1] @ replicate 16 5)]\<rparr>)"
proof -
  have enc: "encrypt_group (ap_sealing demo_posting) (ap_nonce demo_posting) [1] (replicate 32 5) = Ok (replicate 12 3 @ [1] @ replicate 16 5)"
    by (simp add: encrypt_group_def demo_posting_def demo_app_env_def hex_sealing_def nonce_from_bytes_def)
  have n: "an_commands (demo_keyed 5) = []" "ap_send demo_posting = (\<lambda>_. Ok ())"
    "ap_encode demo_posting \<lparr>am_app_id = AppBulletin, am_payload = Bulletin demo_post\<rparr> = Ok [1]"
    by (simp_all add: demo_keyed_def demo_app_def app_node_new_def demo_posting_def demo_app_env_def)
  have p: "\<lparr>bp_id = ap_uuid demo_posting, bp_from_display_name = an_display_name (demo_keyed 5), bp_title = ''T'', bp_body = ''B'',
      bp_scope = ''s'', bp_timestamp_ms = ap_now demo_posting, bp_expires_at_ms = ap_now demo_posting + 1 * 1000\<rparr> = demo_post"
    using demo_bulletin [of 5] by (simp add: bulletin_post_def)
  show ?thesis
    unfolding post_bulletin_def Let_def scope_key_fields p
    using enc by (simp add: n with_result_def app_send_def on_storage_def get_scope_key_def [symmetric] scope_key_new_def)
qed

theorem sealed_bulletin_delivery_witness:
  "dispatch_incoming demo_posting \<lparr>envelope = envelope_new demo_crypto 7 ''p'' None
      (bytes_of ''enc1:'' @ replicate 12 3 @ [1] @ replicate 16 5), body = ''[bulletin:s]''\<rparr> (demo_keyed 5) =
     store_bulletin demo_post (demo_keyed 5) \<and>
   dispatch_incoming demo_posting \<lparr>envelope = envelope_new demo_crypto 7 ''p'' None
      (bytes_of ''enc1:'' @ replicate 12 3 @ [1] @ replicate 16 5), body = ''[bulletin:s]''\<rparr> (demo_keyed 6) = demo_keyed 6"
proof -
  have hyp: "sealing_ok (ap_sealing demo_posting)" "key_binding (ap_sealing demo_posting)"
    "\<And>m plain. ap_encode demo_posting m = Ok plain \<Longrightarrow> ap_decode demo_posting plain = Ok m"
    by (simp_all add: demo_posting_def demo_app_env_def split: if_splits)
  have pl: "payload (envelope_new demo_crypto 7 ''p'' None b) = b" for b
    by (simp add: envelope_new_def Let_def)
  note del = sealed_bulletin_delivery [OF hyp(1,2) refl hyp(3) demo_posted demo_keyed_scope, unfolded demo_bulletin]
  have key: "replicate 32 (6::u8) \<noteq> replicate 32 5"
    by (simp add: eval_nat_numeral)
  show ?thesis
    using del [of "''s''" "''[bulletin:s]''" _ _ "demo_keyed 5"] del [of "''s''" "''[bulletin:s]''" _ _ "demo_keyed 6"]
    by (simp add: pl scope_key_new_def key)
qed

text \<open>The key of a scope keeps posts secret but does not keep others out: a post in plain text is stored in the scope it
  names, whatever the topic it came on and whether or not that scope has a key.\<close>

lemma plain_post_enters_sealed_scope:
  assumes "ap_decode env (payload (envelope msg)) = Ok am" "am_payload am = Bulletin p"
    and "body msg = ''[bulletin:'' @ topic @ '']''" "take 5 (payload (envelope msg)) \<noteq> bytes_of ''enc1:''"
  shows "dispatch_incoming env msg n = store_bulletin p n"
  unfolding dispatch_incoming_def assms(3) bulletin_body using assms(1,2,4) bulletin_body_other [of topic]
  by (simp add: handle_bulletin_payload_def)

text \<open>The lifetime of a post is not bounded, and the product wraps: a post can be expired as soon as it is made.\<close>

lemma bulletin_expiry_wraps: "bp_expires_at_ms (bulletin_post env n scope title text 18446744073709552) = ap_now env + 384"
  by (simp add: bulletin_post_def)

section \<open>Groups and chats\<close>

text \<open>What is sent to a group by message rather than by gossip carries a tag the receiver does not know, so the
  sealed message is taken for a plain one and dropped.\<close>

lemma group_message_command:
  assumes "send_group_message env g text n = (Ok (), n')"
  shows "\<exists>enc pl. ap_encode_wire env (EncryptedGroup (gr_id g) enc) = Ok pl \<and>
    last (an_commands n') = CmdBroadcastPayload (''mycelium/group/'' @ gr_id g) ''[group message]'' pl"
proof -
  define n1 where "n1 = on_storage (group_record_peer_seen (gr_id g) (an_local_peer_id n)) n"
  define n2 where "n2 = on_storage (save_group_chat (gr_id g) (new_chat env text n1)) n1"
  have *: "and_then (with_result (chat_bytes env (new_chat env text n1)) n2) (\<lambda>plaintext n.
      and_then (with_result (encrypt_group (ap_sealing env) (ap_nonce env) plaintext (gr_key g)) n) (\<lambda>enc n.
      and_then (with_result (ap_encode_wire env (EncryptedGroup (gr_id g) enc)) n) (\<lambda>pl n.
      app_send env (CmdBroadcastPayload (''mycelium/group/'' @ gr_id g) ''[group message]'' pl)
        (snd (app_send env (CmdSubscribeScope ''mycelium/group/*'') n))))) = (Ok (), n')"
    using assms by (simp add: send_group_message_def n1_def n2_def Let_def)
  obtain plain where "chat_bytes env (new_chat env text n1) = Ok plain"
    using * by (cases "chat_bytes env (new_chat env text n1)") (simp_all add: with_result_def)
  moreover from this * obtain enc where "encrypt_group (ap_sealing env) (ap_nonce env) plain (gr_key g) = Ok enc"
    by (cases "encrypt_group (ap_sealing env) (ap_nonce env) plain (gr_key g)") (simp_all add: with_result_def)
  moreover from calculation * obtain pl where "ap_encode_wire env (EncryptedGroup (gr_id g) enc) = Ok pl"
    by (cases "ap_encode_wire env (EncryptedGroup (gr_id g) enc)") (simp_all add: with_result_def)
  ultimately show ?thesis
    using * by (auto simp: with_result_def app_send_Ok)
qed

lemma group_message_unread:
  assumes "body msg = ''[group message]''" "\<not> is_ok (ap_decode env (payload (envelope msg)))"
  shows "dispatch_incoming env msg n = n"
  using assms by (cases "ap_decode env (payload (envelope msg))") (simp_all add: dispatch_incoming_def strip_prefix_def starts_with_def)

text \<open>Chats are kept by time alone: of two chats with a peer in the same millisecond the earlier one is lost.\<close>

lemma chat_overwritten:
  assumes "cm_timestamp_ms m' = cm_timestamp_ms m"
  shows "tree_get (as_chats (save_chat p m' (save_chat p m s)) p) (cm_timestamp_ms m) = Some m'"
  using assms by (simp add: save_chat_def tree_get_put)

section \<open>Proximity\<close>

text \<open>The store of signals: every signal under its own identifier, and never more than its capacity.\<close>

definition px_ok :: "ProximityStore \<Rightarrow> bool" where
  "px_ok px \<longleftrightarrow> 0 < px_max_size px \<and> length (px_signals px) \<le> px_max_size px \<and>
     distinct (map fst (px_signals px)) \<and> (\<forall>x\<in>set (px_signals px). fst x = ps_ephemeral_id (snd x))"

lemma min_by_key_in: "min_by_key f xs = Some y \<Longrightarrow> y \<in> set xs"
  by (induction xs arbitrary: y) (auto split: option.splits if_splits)

lemma min_by_key_None [simp]: "min_by_key f xs = None \<longleftrightarrow> xs = []"
  by (cases xs) (auto split: option.split)

lemma map_insert_keys:
  assumes "distinct (map fst xs)"
  shows "distinct (map fst (map_insert k v xs))"
proof (cases "k \<in> fst ` set xs")
  case True
  have "map fst (map_insert k v xs) = map fst xs"
    using True by (simp add: map_insert_def)
  with assms show ?thesis
    by simp
next
  case False
  with assms show ?thesis
    by (simp add: map_insert_def)
qed

lemma map_insert_length: "length (map_insert k v xs) \<le> Suc (length xs)" "k \<in> fst ` set xs \<Longrightarrow> length (map_insert k v xs) = length xs"
  by (simp_all add: map_insert_def)

lemma map_insert_set: "x \<in> set (map_insert k v xs) \<Longrightarrow> x = (k, v) \<or> x \<in> set xs"
  by (auto simp: map_insert_def split: if_splits)

lemma distinct_map_filter: "distinct (map f xs) \<Longrightarrow> distinct (map f (filter P xs))"
  by (induction xs) auto

lemma map_remove_shorter: "k \<in> fst ` set xs \<Longrightarrow> length (map_remove k xs) < length xs"
  unfolding map_remove_def by (auto intro!: length_filter_less)

lemma px_ok_insert:
  assumes "px_ok px"
  shows "px_ok (px_insert sig px)"
proof -
  define ss where "ss = (if length (px_signals px) \<ge> px_max_size px then
       (case min_by_key ps_created_at_ms (map snd (px_signals px)) of
          Some oldest \<Rightarrow> map_remove (ps_ephemeral_id oldest) (px_signals px) | None \<Rightarrow> px_signals px)
     else px_signals px)"
  have eq: "px_insert sig px = px\<lparr>px_signals := map_insert (ps_ephemeral_id sig) sig ss\<rparr>"
    by (simp add: px_insert_def ss_def Let_def split: option.split)
  have sub: "set ss \<subseteq> set (px_signals px)" "distinct (map fst ss)"
    using assms by (auto simp: ss_def px_ok_def map_remove_def distinct_map_filter split: option.splits)
  have "length ss < px_max_size px"
  proof (cases "length (px_signals px) \<ge> px_max_size px")
    case True
    then have "px_signals px \<noteq> []"
      using assms by (auto simp: px_ok_def)
    then obtain y where y: "min_by_key ps_created_at_ms (map snd (px_signals px)) = Some y"
      by (cases "min_by_key ps_created_at_ms (map snd (px_signals px))") auto
    then have "ps_ephemeral_id y \<in> fst ` set (px_signals px)"
      using min_by_key_in [OF y] assms by (force simp: px_ok_def)
    with y True assms map_remove_shorter [OF this] show ?thesis
      by (simp add: ss_def px_ok_def)
  qed (simp add: ss_def)
  moreover have "\<forall>x\<in>set (map_insert (ps_ephemeral_id sig) sig ss). fst x = ps_ephemeral_id (snd x)"
  proof
    fix x
    assume "x \<in> set (map_insert (ps_ephemeral_id sig) sig ss)"
    then have "x = (ps_ephemeral_id sig, sig) \<or> x \<in> set (px_signals px)"
      using map_insert_set [of x] sub(1) by auto
    then show "fst x = ps_ephemeral_id (snd x)"
      using assms by (auto simp: px_ok_def)
  qed
  ultimately show ?thesis
    using map_insert_length(1) [of "ps_ephemeral_id sig" sig ss] map_insert_keys [OF sub(2)] assms
    by (simp add: eq px_ok_def)
qed

lemma px_ok_prune:
  assumes "px_ok px"
  shows "px_ok (snd (px_prune now px))"
proof -
  let ?kept = "filter (\<lambda>x. \<not> signal_is_expired now (snd x)) (px_signals px)"
  have "length ?kept \<le> px_max_size px"
    using length_filter_le [of _ "px_signals px"] assms order_trans unfolding px_ok_def by blast
  moreover have "distinct (map fst ?kept)"
    using assms distinct_map_filter by (auto simp: px_ok_def)
  ultimately show ?thesis
    using assms by (simp add: px_ok_def px_prune_def Let_def)
qed

definition pb_ok :: "ProximityInbox \<Rightarrow> bool" where
  "pb_ok b \<longleftrightarrow> 0 < pb_max_size b \<and> length (pb_messages b) \<le> pb_max_size b"

lemma pb_ok_push: "pb_ok b \<Longrightarrow> pb_ok (pb_push m b)"
  by (auto simp: pb_ok_def pb_push_def Let_def)

text \<open>An expression of interest names only its sender.  Interest in one profile therefore looks the same to every node
  nearby, and whoever had expressed interest in the sender sees a mutual match and may write to it.\<close>

lemma interest_matches_bystander:
  assumes "express_proximity_interest env h n = (Ok mutual, n')"
    and "last (an_commands n') = CmdBroadcastPayload topic tag pl" "body msg = tag" "payload (envelope msg) = pl"
    and "\<And>i p. ap_encode_intent env i = Ok p \<Longrightarrow> ap_decode_intent env' p = Ok i"
    and "\<not> is_ok (ap_decode_direct env' pl)" "\<not> is_ok (ap_decode_signal env' pl)"
    and "an_px_active r" "ap_local_enc_hex env \<noteq> ap_local_enc_hex env'" "ap_now env' = ap_now env"
    and "interest_sent (an_px_matches r) (ap_local_enc_hex env)"
  shows "is_mutual (an_px_matches (dispatch_incoming env' msg r)) (ap_local_enc_hex env)"
proof -
  let ?i = "intent_new (ap_now env) (ap_local_enc_hex env)"
  obtain p where p: "ap_encode_intent env ?i = Ok p"
    using assms(1) by (cases "ap_encode_intent env ?i")
      (auto simp: express_proximity_interest_def with_result_def Let_def split: if_splits)
  have "tag = ''[proximity]'' \<and> pl = p"
    using assms(1,2) p by (cases "ap_send env (CmdBroadcastPayload PROXIMITY_SCOPE ''[proximity]'' p)")
      (auto simp: express_proximity_interest_def with_result_def app_send_def Let_def split: if_splits)
  moreover have "\<not> intent_is_expired (ap_now env') ?i"
    by (simp add: intent_is_expired_def outlived_def intent_new_def assms(10) sat_sub_def)
  ultimately show ?thesis
    using assms(3-9,11) p
    by (cases "ap_decode_direct env' pl"; cases "ap_decode_signal env' pl")
      (simp_all add: dispatch_incoming_def handle_proximity_payload_def is_mutual_def interest_sent_def interest_received_def
        record_incoming_def intent_new_def)
qed

end
