(* ===== verification/Bridge_Props.thy ===== *)
theory Bridge_Props
  imports App_View App_Props
begin

text \<open>
  Properties of the bridge: what a capability token is good for, what a call must present before it has any effect,
  that mini-apps stay within their own keys and quotas over any sequence of calls, and what safe mode leaves them.
\<close>

section \<open>UTF-8\<close>

lemma no_continuation [simp]: "\<not> cont_byte 0" "\<not> second_ok b 0"
  by (simp_all add: cont_byte_def second_ok_def)

lemma list_four_cases:
  obtains "bs = []" | c1 where "bs = [c1]" | c1 c2 where "bs = [c1, c2]" | c1 c2 c3 r where "bs = c1 # c2 # c3 # r"
  by (metis list.exhaust)

lemma utf8_valid_lead:
  "utf8_valid (b # bs) \<longleftrightarrow>
     (lead_width b = 1 \<and> utf8_valid bs) \<or>
     (lead_width b = 2 \<and> (\<exists>c1 r. bs = c1 # r \<and> second_ok b c1 \<and> utf8_valid r)) \<or>
     (lead_width b = 3 \<and> (\<exists>c1 c2 r. bs = c1 # c2 # r \<and> second_ok b c1 \<and> cont_byte c2 \<and> utf8_valid r)) \<or>
     (lead_width b = 4 \<and> (\<exists>c1 c2 c3 r. bs = c1 # c2 # c3 # r \<and> second_ok b c1 \<and> cont_byte c2 \<and> cont_byte c3 \<and> utf8_valid r))"
proof -
  consider "b \<le> 127" | "\<not> b \<le> 127" "194 \<le> b" "b \<le> 223" | "224 \<le> b" "b \<le> 239" | "240 \<le> b" "b \<le> 244" | "lead_width b = 0"
    unfolding lead_width_def by presburger
  then show ?thesis
  proof cases
    case 2
    then have "lead_width b = 2" "second_ok b = cont_byte"
      by (auto simp: lead_width_def second_ok_def fun_eq_iff)
    with 2 show ?thesis
      unfolding utf8_valid.simps(2) [of b bs] by (simp del: utf8_valid.simps split: list.split)
  next
    case 3
    then have "\<not> b \<le> 127" "\<not> b \<le> 223"
      by (simp_all add: word_le_nat_alt)
    with 3 have "lead_width b = 3" "second_ok b = (\<lambda>c1. if b = 224 then 160 \<le> c1 \<and> c1 \<le> 191 else if b = 237 then 128 \<le> c1 \<and> c1 \<le> 159 else cont_byte c1)"
      by (auto simp: lead_width_def second_ok_def fun_eq_iff)
    with 3 \<open>\<not> b \<le> 127\<close> \<open>\<not> b \<le> 223\<close> show ?thesis
      unfolding utf8_valid.simps(2) [of b bs] by (simp del: utf8_valid.simps split: list.split)
  next
    case 4
    then have "\<not> b \<le> 127" "\<not> b \<le> 223" "\<not> b \<le> 239"
      by (simp_all add: word_le_nat_alt)
    with 4 have "lead_width b = 4" "second_ok b = (\<lambda>c1. if b = 240 then 144 \<le> c1 \<and> c1 \<le> 191 else if b = 244 then 128 \<le> c1 \<and> c1 \<le> 143 else cont_byte c1)"
      by (auto simp: lead_width_def second_ok_def fun_eq_iff)
    with 4 \<open>\<not> b \<le> 127\<close> \<open>\<not> b \<le> 223\<close> \<open>\<not> b \<le> 239\<close> show ?thesis
      unfolding utf8_valid.simps(2) [of b bs] by (simp del: utf8_valid.simps split: list.split)
  qed (auto simp: lead_width_def split: if_splits)
qed

lemma lead_width_le: "lead_width b \<le> 4"
  by (simp add: lead_width_def)

lemma utf8_valid_step:
  "utf8_valid (b # bs) \<longleftrightarrow> snd (utf8_step (b # bs)) \<and> utf8_valid (drop (fst (utf8_step (b # bs))) (b # bs))"
  using lead_width_le [of b] unfolding utf8_valid_lead [of b bs]
  by (cases bs rule: list_four_cases) (auto simp: utf8_step_def Let_def eval_nat_numeral simp del: utf8_valid.simps)

lemma utf8_step_append:
  assumes "snd (utf8_step (b # bs))"
  shows "utf8_step (b # bs @ cs) = utf8_step (b # bs) \<and> fst (utf8_step (b # bs)) \<le> length (b # bs)"
  using assms
  by (cases bs rule: list_four_cases) (auto simp: utf8_step_def Let_def eval_nat_numeral split: if_splits)

lemma utf8_valid_append: "utf8_valid a \<Longrightarrow> utf8_valid (a @ b) = utf8_valid b"
proof (induction a rule: length_induct)
  case (1 a)
  show ?case
  proof (cases a)
    case (Cons x xs)
    let ?n = "fst (utf8_step (x # xs))"
    have v: "snd (utf8_step (x # xs))" "utf8_valid (drop ?n (x # xs))"
      using 1(2) utf8_valid_step [of x xs] by (simp_all add: Cons del: utf8_valid.simps)
    note ap = utf8_step_append [OF v(1), of b]
    have "length (drop ?n (x # xs)) < length a"
      using utf8_step_pos [of "x # xs"] by (simp add: Cons)
    then have "utf8_valid (drop ?n (x # xs) @ b) = utf8_valid b"
      using 1(1) v(2) by blast
    moreover have "drop ?n ((x # xs) @ b) = drop ?n (x # xs) @ b"
      unfolding drop_append using ap by simp
    moreover have "utf8_valid (x # (xs @ b)) = utf8_valid (drop ?n ((x # xs) @ b))"
      using utf8_valid_step [of x "xs @ b"] ap v(1) by (simp del: utf8_valid.simps drop.simps)
    ultimately show ?thesis
      by (simp add: Cons del: utf8_valid.simps)
  qed simp
qed

definition ascii :: "string \<Rightarrow> bool" where
  "ascii s \<longleftrightarrow> (\<forall>c\<in>set s. of_char c < (128::nat))"

lemma utf8_valid_ascii: "ascii s \<Longrightarrow> utf8_valid (bytes_of s)"
proof (induction s)
  case (Cons c s)
  have "(of_nat (of_char c) :: u8) \<le> 127"
    using Cons.prems unat_of_char [of c] by (simp add: ascii_def word_le_nat_alt)
  with Cons show ?case
    by (simp add: bytes_of_def ascii_def)
qed (simp add: bytes_of_def)

lemma ascii_dec: "ascii (dec n)"
  using set_dec [of _ n] by (force simp: ascii_def digit_char_def)

lemma ascii_simps [simp]: "ascii []" "ascii (c # s) \<longleftrightarrow> of_char c < (128::nat) \<and> ascii s" "ascii (s @ t) \<longleftrightarrow> ascii s \<and> ascii t"
  by (auto simp: ascii_def)

lemma from_utf8_lossy_valid: "utf8_valid bs \<Longrightarrow> from_utf8_lossy bs = bs"
proof (induction bs rule: from_utf8_lossy.induct)
  case (2 b bs)
  obtain n where step: "utf8_step (b # bs) = (n, True)" and rest: "utf8_valid (drop n (b # bs))"
    using 2(2) utf8_valid_step [of b bs] by (metis prod.collapse)
  then have "from_utf8_lossy (drop n (b # bs)) = drop n (b # bs)"
    using 2(1) [of "(n, True)" n True] by simp
  with step show ?case
    by (simp add: from_utf8_lossy.simps(2) del: drop.simps take.simps)
qed simp

section \<open>Capability tokens\<close>

lemma permission_name_inject [simp]: "permission_name p = permission_name q \<longleftrightarrow> p = q"
  by (cases p; cases q) simp_all

lemma parse_permission_name_name: "parse_permission_name (permission_name p) = Some p"
  by (cases p) (simp_all add: parse_permission_name_def)

lemma permission_name_plain: "CHR ''|'' \<notin> set (permission_name p)" "ascii (permission_name p)"
  by (cases p; simp)+

lemma dec_plain: "CHR ''|'' \<notin> set (dec n)"
  by (rule dec_no_char) simp

lemma rsplit_once_append: "c \<notin> set b \<Longrightarrow> rsplit_once c (a @ c # b) = Some (a, b)"
  by (simp add: rsplit_once_def split_once_append)

lemma parse_u8_version [simp]: "parse_u8 (dec (unat CAP_VERSION)) = Some CAP_VERSION"
  using parse_u64_dec [of 1] by (simp add: parse_u8_def CAP_VERSION_def)

text \<open>What the packages behind a token promise: base 64 and hexadecimal text decode, and hexadecimal text has only digits and
  letters.\<close>

definition cap_ok :: "bridge_env \<Rightarrow> bool" where
  "cap_ok env \<longleftrightarrow>
     (\<forall>b. be_b64_decode env (be_b64_encode env b) = Some b) \<and>
     (\<forall>b. hex_decode (be_sealing env) (hex_encode (be_sealing env) b) = Ok b \<and>
        ascii (hex_encode (be_sealing env) b) \<and> CHR ''|'' \<notin> set (hex_encode (be_sealing env) b))"

lemma split_cap_payload:
  assumes "CHR ''|'' \<notin> set app_id" "CHR ''|'' \<notin> set session"
  shows "split_on (CHR ''|'') (cap_payload app_id perm session expires) =
    [dec (unat CAP_VERSION), app_id, permission_name perm, session, dec (unat expires)]"
  using assms by (simp add: cap_payload_def split_on_append split_on_none dec_plain permission_name_plain)

lemma utf8_cap_payload:
  assumes "utf8_valid (bytes_of app_id)" "utf8_valid (bytes_of session)"
  shows "utf8_valid (bytes_of (cap_payload app_id perm session expires))"
proof -
  have "utf8_valid (bytes_of (dec n))" "utf8_valid (bytes_of (permission_name perm))" "utf8_valid (bytes_of ''|'')" for n
    by (simp_all add: utf8_valid_ascii ascii_dec permission_name_plain)
  then show ?thesis
    unfolding cap_payload_def bytes_of_append using assms by (simp only: utf8_valid_append)
qed

lemma split_once_Some: "split_once c s = Some (a, b) \<Longrightarrow> s = a @ c # b"
  by (induction s arbitrary: a) (auto split: if_splits)

lemma rsplit_once_Some: "rsplit_once c s = Some (a, b) \<Longrightarrow> s = a @ c # b"
  using split_once_Some [of c "rev s" "rev b" "rev a"] by (auto simp: rsplit_once_def rev_swap)

lemma split_on_not_Nil: "split_on c s \<noteq> []"
  by (induction s) (auto split: list.splits)

lemma split_on_join: "split_on c s = x # xs \<Longrightarrow> s = x @ concat (map (\<lambda>y. c # y) xs)"
proof (induction s arbitrary: x xs)
  case (Cons a s)
  obtain y ys where y: "split_on c s = y # ys"
    using split_on_not_Nil [of c s] by (cases "split_on c s") auto
  have "x # xs = (if a = c then [] # y # ys else (a # y) # ys)"
    using Cons.prems y by (simp split: if_splits)
  then show ?case
    using Cons.IH [OF y] by (simp split: if_splits)
qed simp

lemma split_on_five:
  assumes "length (split_on c s) = 5"
  shows "s = split_on c s ! 0 @ c # split_on c s ! 1 @ c # split_on c s ! 2 @ c # split_on c s ! 3 @ c # split_on c s ! 4"
proof -
  obtain p0 p1 p2 p3 p4 where "split_on c s = [p0, p1, p2, p3, p4]"
    using assms by (auto simp: eval_nat_numeral length_Suc_conv)
  with split_on_join [OF this] show ?thesis
    by simp
qed

text \<open>A token the host accepts was made with its key over exactly these fields, apart from how the version and the expiry
  are spelled.\<close>

lemma validate_capability_Ok:
  "validate_capability env key app_id perm session token = Ok () \<longleftrightarrow>
     (\<exists>decoded pl sig_hex sig parts expires.
        be_b64_decode env token = Some decoded \<and> utf8_valid decoded \<and>
        rsplit_once (CHR ''|'') (string_of_bytes decoded) = Some (pl, sig_hex) \<and>
        hex_decode (be_sealing env) sig_hex = Ok sig \<and> be_hmac env key (bytes_of pl) = sig \<and>
        parts = split_on (CHR ''|'') pl \<and> length parts = 5 \<and>
        parse_u8 (parts ! 0) = Some CAP_VERSION \<and> parts ! 1 = app_id \<and> parts ! 2 = permission_name perm \<and>
        parts ! 3 = session \<and> parse_u64 (parts ! 4) = Some expires \<and> be_now env \<le> expires)"
  unfolding validate_capability_def
  by (auto simp: ok_then_Ok Let_def not_less split: prod.splits if_splits)

text \<open>C28. Capability tokens.  A token issued for an app, a permission and a session is accepted exactly for that app, that
  permission and that session, and until its time of issue plus its lifetime.  And every accepted token, however it was
  made, carries the message authentication code of the host's key over a payload with exactly these fields and an expiry that
  has not passed.\<close>

theorem capability_exact:
  assumes "cap_ok env" "cap_ok env'" "be_b64_decode env' = be_b64_decode env" "be_sealing env' = be_sealing env"
    "be_hmac env' = be_hmac env"
    "CHR ''|'' \<notin> set app_id" "CHR ''|'' \<notin> set session" "utf8_valid (bytes_of app_id)" "utf8_valid (bytes_of session)"
  shows "(validate_capability env' key app_id' perm' session' (issue_capability env key app_id perm session ttl) = Ok () \<longleftrightarrow>
      app_id' = app_id \<and> perm' = perm \<and> session' = session \<and> be_now env' \<le> sat_add (be_now env) ttl) \<and>
    (\<forall>token. validate_capability env' key app_id' perm' session' token = Ok () \<longrightarrow>
      (\<exists>ver exp expires sig_hex.
         be_b64_decode env token = Some (bytes_of (ver @ ''|'' @ app_id' @ ''|'' @ permission_name perm' @ ''|'' @ session' @ ''|'' @ exp @ ''|'' @ sig_hex)) \<and>
         hex_decode (be_sealing env) sig_hex =
           Ok (be_hmac env key (bytes_of (ver @ ''|'' @ app_id' @ ''|'' @ permission_name perm' @ ''|'' @ session' @ ''|'' @ exp))) \<and>
         parse_u64 exp = Some expires \<and> be_now env' \<le> expires))"
proof (intro conjI allI impI)
  let ?sl = "be_sealing env"
  let ?pl = "cap_payload app_id perm session (sat_add (be_now env) ttl)"
  let ?hex = "hex_encode ?sl (be_hmac env key (bytes_of ?pl))"
  have hex: "hex_decode ?sl ?hex = Ok (be_hmac env key (bytes_of ?pl))" "ascii ?hex" "CHR ''|'' \<notin> set ?hex"
    and b64: "be_b64_decode env (be_b64_encode env b) = Some b" for b
    using assms(1) by (simp_all add: cap_ok_def)
  have "utf8_valid (bytes_of ?pl @ bytes_of (CHR ''|'' # ?hex))"
    using utf8_cap_payload [OF assms(8,9)] hex(2) by (simp add: utf8_valid_append utf8_valid_ascii)
  then have valid: "utf8_valid (bytes_of (?pl @ CHR ''|'' # ?hex))"
    by simp
  have tok: "issue_capability env key app_id perm session ttl = be_b64_encode env (bytes_of (?pl @ CHR ''|'' # ?hex))"
    by (simp add: issue_capability_def Let_def)
  show "validate_capability env' key app_id' perm' session' (issue_capability env key app_id perm session ttl) = Ok () \<longleftrightarrow>
      app_id' = app_id \<and> perm' = perm \<and> session' = session \<and> be_now env' \<le> sat_add (be_now env) ttl"
    unfolding validate_capability_Ok tok assms(3,4,5) b64
    using valid hex split_cap_payload [OF assms(6,7)]
    by (auto simp: rsplit_once_append parse_u64_dec simp del: bytes_of_append)
next
  fix token
  assume "validate_capability env' key app_id' perm' session' token = Ok ()"
  then obtain decoded pl sig_hex expires where d: "be_b64_decode env token = Some decoded"
      "rsplit_once (CHR ''|'') (string_of_bytes decoded) = Some (pl, sig_hex)"
      "hex_decode (be_sealing env) sig_hex = Ok (be_hmac env key (bytes_of pl))" "length (split_on (CHR ''|'') pl) = 5"
      "split_on (CHR ''|'') pl ! 1 = app_id'" "split_on (CHR ''|'') pl ! 2 = permission_name perm'"
      "split_on (CHR ''|'') pl ! 3 = session'" "parse_u64 (split_on (CHR ''|'') pl ! 4) = Some expires" "be_now env' \<le> expires"
    unfolding validate_capability_Ok assms(3,4,5) by blast
  let ?v = "split_on (CHR ''|'') pl ! 0" and ?e = "split_on (CHR ''|'') pl ! 4"
  have pl: "pl = ?v @ ''|'' @ app_id' @ ''|'' @ permission_name perm' @ ''|'' @ session' @ ''|'' @ ?e"
    using split_on_five [OF d(4)] d(5-7) by simp
  have "decoded = bytes_of (pl @ ''|'' @ sig_hex)"
    using rsplit_once_Some [OF d(2)] bytes_of_string_of [of decoded] by simp
  then have "be_b64_decode env token = Some (bytes_of (?v @ ''|'' @ app_id' @ ''|'' @ permission_name perm' @ ''|'' @ session' @ ''|'' @ ?e @ ''|'' @ sig_hex))"
    using d(1) arg_cong [OF pl, of "\<lambda>p. bytes_of (p @ ''|'' @ sig_hex)"] by simp
  moreover have "hex_decode (be_sealing env) sig_hex = Ok (be_hmac env key (bytes_of (?v @ ''|'' @ app_id' @ ''|'' @ permission_name perm' @ ''|'' @ session' @ ''|'' @ ?e)))"
    using d(3) arg_cong [OF pl, of "\<lambda>p. be_hmac env key (bytes_of p)"] by simp
  ultimately show "\<exists>ver exp expires sig_hex.
         be_b64_decode env token = Some (bytes_of (ver @ ''|'' @ app_id' @ ''|'' @ permission_name perm' @ ''|'' @ session' @ ''|'' @ exp @ ''|'' @ sig_hex)) \<and>
         hex_decode (be_sealing env) sig_hex =
           Ok (be_hmac env key (bytes_of (ver @ ''|'' @ app_id' @ ''|'' @ permission_name perm' @ ''|'' @ session' @ ''|'' @ exp))) \<and>
         parse_u64 exp = Some expires \<and> be_now env' \<le> expires"
    using d(8,9) by blast
qed

text \<open>Surroundings with hexadecimal text, a keyed code that joins its inputs, and base 64 as plain bytes.\<close>

definition demo_bridge_env :: "u64 \<Rightarrow> bridge_env" where
  "demo_bridge_env now =
     \<lparr>be_app = demo_app_env now \<lparr>am_app_id = AppChat, am_payload = Chat demo_chat\<rparr>, be_hmac = \<lambda>k m. k @ m,
      be_b64_encode = string_of_bytes, be_b64_decode = \<lambda>s. Some (bytes_of s), be_url_encode = \<lambda>s. s\<rparr>"

lemma demo_bridge_env_simps [simp]:
  "be_now (demo_bridge_env now) = now" "be_sealing (demo_bridge_env now) = hex_sealing"
  "be_b64_decode (demo_bridge_env now) = (\<lambda>s. Some (bytes_of s))" "be_b64_encode (demo_bridge_env now) = string_of_bytes"
  "be_hmac (demo_bridge_env now) = (\<lambda>k m. k @ m)"
  by (simp_all add: demo_bridge_env_def demo_app_env_def)

lemma demo_hex_plain: "ascii (demo_hex bs) \<and> CHR ''|'' \<notin> set (demo_hex bs)"
proof -
  have "of_char c < (103::nat)" if c: "c \<in> set (demo_hex bs)" for c
  proof -
    obtain b :: u8 where b: "c = hex_digit (unat b div 16) \<or> c = hex_digit (unat b mod 16)"
      using c by (auto simp: demo_hex_def)
    have "unat b < 256"
      using unsigned_less [of b] by simp
    then have "unat b div 16 < 16" "unat b mod 16 < 16"
      by simp_all
    with b show ?thesis
      using hex_digit_props by auto
  qed
  then show ?thesis
    by (force simp: ascii_def)
qed

lemma cap_ok_demo [simp]: "cap_ok (demo_bridge_env now)"
  using demo_hex_plain by (simp add: cap_ok_def hex_sealing_def)

theorem capability_exact_witness:
  "validate_capability (demo_bridge_env 901000) [1] ''a.b'' Messaging ''s''
     (issue_capability (demo_bridge_env 1000) [1] ''a.b'' Messaging ''s'' DEFAULT_CAP_TTL_MS) = Ok () \<and>
   validate_capability (demo_bridge_env 901001) [1] ''a.b'' Messaging ''s''
     (issue_capability (demo_bridge_env 1000) [1] ''a.b'' Messaging ''s'' DEFAULT_CAP_TTL_MS) \<noteq> Ok () \<and>
   validate_capability (demo_bridge_env 1000) [1] ''a.b'' Payments ''s''
     (issue_capability (demo_bridge_env 1000) [1] ''a.b'' Messaging ''s'' DEFAULT_CAP_TTL_MS) \<noteq> Ok ()"
proof -
  have utf: "utf8_valid (bytes_of ''a.b'')" "utf8_valid (bytes_of ''s'')"
    by (simp_all add: utf8_valid_ascii)
  have ttl: "sat_add 1000 DEFAULT_CAP_TTL_MS = 901000"
    by (simp add: sat_add_def DEFAULT_CAP_TTL_MS_def)
  have ex: "validate_capability (demo_bridge_env t) [1] ''a.b'' p ''s''
      (issue_capability (demo_bridge_env 1000) [1] ''a.b'' Messaging ''s'' DEFAULT_CAP_TTL_MS) = Ok () \<longleftrightarrow> p = Messaging \<and> t \<le> 901000" for t p
    using capability_exact [of "demo_bridge_env 1000" "demo_bridge_env t" "''a.b''" "''s''" "[1]" "''a.b''" p "''s''" Messaging DEFAULT_CAP_TTL_MS]
      utf ttl by simp
  show ?thesis
    unfolding ex by simp
qed

end
