(* ===== verification/Bridge_Safety.thy ===== *)
theory Bridge_Safety
  imports Bridge_Props
begin

text \<open>
  What the host guarantees about a mini-app, whatever it calls: nothing happens without a session, a permission and, where
  one is needed, a capability; in safe mode nothing is written or sent; and every app stays within its own
  keys and its quota over any sequence of calls and arriving messages.
\<close>

section \<open>Authorisation\<close>

text \<open>The permissions a method needs.\<close>

definition needed_permissions :: "string \<Rightarrow> Permission list" where
  "needed_permissions method =
     (if method = ''identity.get'' then [Identity]
      else if method \<in> {''messaging.send'', ''messaging.subscribe''} then [Messaging]
      else if method = ''messaging.broadcast'' then [MessagingBroadcast]
      else if method \<in> {''payment.request'', ''payment.create_qr'', ''payment.get_balance''} then [Payments]
      else if method \<in> {''storage.get'', ''storage.set'', ''storage.delete'', ''storage.list''} then [Storage]
      else if method = ''bulletin.get'' then [BulletinRead]
      else if method = ''bulletin.post'' then [BulletinWrite]
      else if method = ''proximity.start'' then [PeerDiscovery, Messaging]
      else if method \<in> {''peers.nearby'', ''proximity.stop'', ''proximity.nearby'', ''proximity.connect''} then [PeerDiscovery]
      else if method \<in> {''proximity.messages'', ''proximity.send_message''} then [Messaging]
      else if method = ''util.scan_qr'' then [Camera]
      else [])"

definition session_valid :: "u64 \<Rightarrow> bridge \<Rightarrow> string \<Rightarrow> json \<Rightarrow> bool" where
  "session_valid now b app_id args \<longleftrightarrow>
     (\<exists>se. br_sessions b app_id = Some se \<and> get_str args ''_session'' = Some (se_token se) \<and>
        sat_sub now (se_issued_at_ms se) \<le> SESSION_TTL_MS)"

definition cap_valid :: "bridge_env \<Rightarrow> BridgeHost \<Rightarrow> string \<Rightarrow> json \<Rightarrow> bool" where
  "cap_valid env h method args \<longleftrightarrow>
     (case permission_for_method method of
        None \<Rightarrow> True
      | Some perm \<Rightarrow> (\<exists>tok cap. get_str args ''_session'' = Some tok \<and> get_str args ''_cap'' = Some cap \<and>
          validate_capability env (bh_cap_mac_key h) (bh_app_id h) perm tok cap = Ok ()))"

definition authorised :: "bridge_env \<Rightarrow> BridgeHost \<Rightarrow> string \<Rightarrow> json \<Rightarrow> bridge \<Rightarrow> bool" where
  "authorised env h method args b \<longleftrightarrow>
     session_valid (be_now env) b (bh_app_id h) args \<and>
     snd (call_window WINDOW_MS (be_now env) (br_calls b (bh_app_id h))) < MAX_CALLS_PER_MINUTE \<and>
     (bh_safe_mode h \<longrightarrow> method_allowed_in_safe_mode method) \<and>
     set (needed_permissions method) \<subseteq> set (bh_permissions h) \<and> cap_valid env h method args"

lemma validate_session_Ok:
  "get_str args ''_session'' = Some tok \<Longrightarrow>
   validate_session now b app_id tok = Ok () \<longleftrightarrow> session_valid now b app_id args"
  by (auto simp: validate_session_def session_valid_def not_less split: option.split)

lemma permission_for_method_needed: "permission_for_method method = Some p \<Longrightarrow> p \<in> set (needed_permissions method)"
proof -
  assume p: "permission_for_method method = Some p"
  have "method \<in> {''identity.get'', ''messaging.send'', ''messaging.broadcast'', ''payment.request'', ''payment.create_qr'',
      ''payment.get_balance'', ''util.scan_qr'', ''bulletin.post'', ''peers.nearby'', ''proximity.start'', ''proximity.nearby'',
      ''proximity.connect'', ''proximity.messages'', ''proximity.send_message''}"
    by (rule ccontr) (use p in \<open>simp add: permission_for_method_def\<close>)
  then show ?thesis
    using p by (elim insertE emptyE; simp add: permission_for_method_def needed_permissions_def)
qed

lemma require_capability_Ok:
  "require_capability env h method args = Ok () \<longleftrightarrow>
     (\<forall>p. permission_for_method method = Some p \<longrightarrow> p \<in> set (bh_permissions h)) \<and> cap_valid env h method args"
  by (auto simp: require_capability_def cap_valid_def ok_then_Ok require_permission_def split: option.split)

lemma dispatch_needs_permission:
  assumes "\<not> set (needed_permissions method) \<subseteq> set (bh_permissions h)"
  shows "\<exists>e. dispatch env h method args b = (Err e, b)"
proof -
  have "method \<in> {''identity.get'', ''messaging.send'', ''messaging.subscribe'', ''messaging.broadcast'',
      ''payment.request'', ''payment.create_qr'', ''payment.get_balance'', ''storage.get'', ''storage.set'', ''storage.delete'',
      ''storage.list'', ''bulletin.get'', ''bulletin.post'', ''proximity.start'', ''peers.nearby'', ''proximity.stop'',
      ''proximity.nearby'', ''proximity.connect'', ''proximity.messages'', ''proximity.send_message'', ''util.scan_qr''}"
    by (rule ccontr) (use assms in \<open>simp add: needed_permissions_def\<close>)
  then show ?thesis
    using assms
    by (elim insertE emptyE; auto simp: needed_permissions_def dispatch_def call_messaging_def call_payment_def call_storage_def
        call_bulletin_def call_proximity_def call_util_def require_permission_def Let_def)
qed

text \<open>What a refused call may still change: the call counter of the app and, when the counter is full, its reputation.\<close>

definition only_counted :: "bridge \<Rightarrow> bridge \<Rightarrow> bool" where
  "only_counted b b' \<longleftrightarrow>
     br_sessions b' = br_sessions b \<and> br_broadcasts b' = br_broadcasts b \<and>
     (br_node b')\<lparr>an_app_store := an_app_store (br_node b)\<rparr> = br_node b"

lemma only_counted_refl [simp]: "only_counted b b"
  by (simp add: only_counted_def)

lemma check_bridge_rate_cases:
  "check_bridge_rate now a b =
     (if snd (call_window WINDOW_MS now (br_calls b a)) < MAX_CALLS_PER_MINUTE then Ok () else Err ''bridge rate limit exceeded (120/min)'',
      b\<lparr>br_calls := (br_calls b)(a \<mapsto> (let (t, n) = call_window WINDOW_MS now (br_calls b a) in
         (t, if n < MAX_CALLS_PER_MINUTE then n + 1 else n)))\<rparr>)"
  by (simp add: check_bridge_rate_def not_less [symmetric] split: prod.split)

text \<open>A call, past its session and its counter.\<close>

definition counted :: "bridge_env \<Rightarrow> BridgeHost \<Rightarrow> bridge \<Rightarrow> bridge" where
  "counted env h b = snd (check_bridge_rate (be_now env) (bh_app_id h) b)"

lemma counted_fields [simp]:
  "br_sessions (counted env h b) = br_sessions b" "br_broadcasts (counted env h b) = br_broadcasts b" "br_node (counted env h b) = br_node b"
  by (simp_all add: counted_def check_bridge_rate_cases)

lemma only_counted_counted [simp]: "only_counted b (counted env h b)" "only_counted b (set_host_store st (counted env h b))"
  by (simp_all add: only_counted_def set_host_store_def)

lemma bridge_handle_counted:
  assumes "get_str args ''_session'' = Some tok" "session_valid (be_now env) b (bh_app_id h) args"
  shows "bridge_handle env h method args b =
    (if snd (call_window WINDOW_MS (be_now env) (br_calls b (bh_app_id h))) < MAX_CALLS_PER_MINUTE
     then guard (require_not_blocked_by_safe_mode h method) (counted env h b) (\<lambda>_ b.
            guard (require_capability env h method args) b (\<lambda>_. dispatch env h method args))
     else (Err ''bridge rate limit exceeded (120/min)'',
       set_host_store (record_bridge_anomaly (be_now env) (bh_app_id h) (host_store (counted env h b))) (counted env h b)))"
proof -
  have "validate_session (be_now env) b (bh_app_id h) tok = Ok ()"
    using validate_session_Ok [OF assms(1)] assms(2) by simp
  with assms(1) show ?thesis
    by (simp add: bridge_handle_def counted_def check_bridge_rate_cases)
qed

lemma bridge_handle_authorised:
  assumes "authorised env h method args b"
  shows "bridge_handle env h method args b = dispatch env h method args (counted env h b)"
proof -
  obtain tok where tok: "get_str args ''_session'' = Some tok"
    using assms by (auto simp: authorised_def session_valid_def)
  have "require_capability env h method args = Ok ()" "require_not_blocked_by_safe_mode h method = Ok ()"
    using assms permission_for_method_needed by (auto simp: authorised_def require_capability_Ok require_not_blocked_by_safe_mode_def)
  with tok assms show ?thesis
    by (simp add: bridge_handle_counted authorised_def)
qed

lemma bridge_handle_refused:
  assumes "\<not> authorised env h method args b"
  shows "\<not> is_ok (fst (bridge_handle env h method args b)) \<and> only_counted b (snd (bridge_handle env h method args b))"
proof (cases "session_valid (be_now env) b (bh_app_id h) args")
  case False
  then show ?thesis
  proof (cases "get_str args ''_session''")
    case (Some tok)
    with False obtain e where "validate_session (be_now env) b (bh_app_id h) tok = Err e"
      using validate_session_Ok [OF Some] by (cases "validate_session (be_now env) b (bh_app_id h) tok") auto
    with Some show ?thesis
      by (simp add: bridge_handle_def)
  qed (simp add: bridge_handle_def)
next
  case True
  then obtain tok where tok: "get_str args ''_session'' = Some tok"
    by (auto simp: session_valid_def)
  let ?room = "snd (call_window WINDOW_MS (be_now env) (br_calls b (bh_app_id h))) < MAX_CALLS_PER_MINUTE"
  consider "\<not> ?room" | e where "?room" "require_not_blocked_by_safe_mode h method = Err e"
    | e where "?room" "require_not_blocked_by_safe_mode h method = Ok ()" "require_capability env h method args = Err e"
    | "?room" "require_not_blocked_by_safe_mode h method = Ok ()" "require_capability env h method args = Ok ()"
    by (cases "require_not_blocked_by_safe_mode h method"; cases "require_capability env h method args") auto
  then show ?thesis
  proof cases
    case 4
    then have "\<not> set (needed_permissions method) \<subseteq> set (bh_permissions h)"
      using assms True by (auto simp: authorised_def require_capability_Ok require_not_blocked_by_safe_mode_def split: if_splits)
    then obtain e where "dispatch env h method args (counted env h b) = (Err e, counted env h b)"
      using dispatch_needs_permission by blast
    with 4 tok True show ?thesis
      by (simp add: bridge_handle_counted)
  qed (simp_all add: bridge_handle_counted [OF tok True])
qed

section \<open>Safe mode\<close>

text \<open>The commands a call adds for the mesh node.\<close>

definition sent :: "bridge \<Rightarrow> bridge \<Rightarrow> NodeCommand list" where
  "sent b b' = drop (length (an_commands (br_node b))) (an_commands (br_node b'))"

definition quiet :: "bridge \<Rightarrow> bridge \<Rightarrow> bool" where
  "quiet b b' \<longleftrightarrow> an_storage (br_node b') = an_storage (br_node b) \<and> set (sent b b') \<subseteq> range CmdSubscribeBulletinScope"

lemma quiet_refl [simp]: "quiet b b"
  by (simp add: quiet_def sent_def)

lemma quiet_guard: "(\<And>v. quiet b (snd (f v b))) \<Longrightarrow> quiet b (snd (guard r b f))"
  by (cases r) simp_all

lemma quiet_subscribe [simp]: "quiet b (b\<lparr>br_node := snd (app_send env (CmdSubscribeBulletinScope scope) (br_node b))\<rparr>)"
  by (simp add: quiet_def sent_def app_send_def split: sum.split)

lemma dispatch_safe_quiet:
  assumes "method_allowed_in_safe_mode method"
  shows "quiet b (snd (dispatch env h method args b))"
proof -
  have "method \<in> {''storage.get'', ''storage.list'', ''bulletin.get'', ''util.now'', ''app.get_id'', ''app.get_version''}"
    using assms by (simp add: method_allowed_in_safe_mode_def)
  then show ?thesis
    by (elim insertE emptyE; auto simp: dispatch_def call_storage_def call_bulletin_def call_util_def Let_def intro!: quiet_guard)
qed

lemma quiet_counted: "quiet (counted env h b) b' \<Longrightarrow> quiet b b'"
  by (simp add: quiet_def sent_def)

lemma quiet_only_counted: "only_counted b b' \<Longrightarrow> quiet b b'"
proof -
  assume "only_counted b b'"
  then have n: "(br_node b')\<lparr>an_app_store := an_app_store (br_node b)\<rparr> = br_node b"
    by (simp add: only_counted_def)
  have "an_storage (br_node b') = an_storage (br_node b)" "an_commands (br_node b') = an_commands (br_node b)"
    using arg_cong [OF n, of an_storage] arg_cong [OF n, of an_commands] by simp_all
  then show ?thesis
    by (simp add: quiet_def sent_def)
qed


text \<open>An app with a session and the permission to store, on an empty node.\<close>

definition demo_host :: BridgeHost where
  "demo_host = \<lparr>bh_app_id = ''a.b'', bh_permissions = [Storage], bh_has_coin = True, bh_local_peer_id = ''me'',
     bh_enc_pubkey_hex = ''e'', bh_safe_mode = False, bh_cap_mac_key = [1]\<rparr>"

definition demo_bridge :: bridge where
  "demo_bridge = snd (issue_session 1000 ''s'' ''a.b''
     \<lparr>br_sessions = \<lambda>_. None, br_calls = \<lambda>_. None, br_broadcasts = \<lambda>_. None, br_node = demo_app empty_storage\<rparr>)"

definition demo_args :: "string \<Rightarrow> string \<Rightarrow> string \<Rightarrow> json" where
  "demo_args session key v = JObject [(''_session'', JStr session), (''key'', JStr key), (''value'', JStr v)]"

lemma demo_args_simps [simp]:
  "get_str (demo_args session key v) ''_session'' = Some session" "get_str (demo_args session key v) ''key'' = Some key"
  "get_str (demo_args session key v) ''value'' = Some v"
  by (simp_all add: demo_args_def get_str_def)

lemma demo_session: "session_valid 1000 demo_bridge ''a.b'' (demo_args session key v) \<longleftrightarrow> session = ''s''"
  by (auto simp: session_valid_def demo_bridge_def issue_session_def SESSION_TTL_MS_def sat_sub_def)

lemma demo_authorised:
  "authorised (demo_bridge_env 1000) demo_host ''storage.set'' (demo_args session key v) demo_bridge \<longleftrightarrow> session = ''s''"
proof -
  have "br_calls demo_bridge = (\<lambda>_. None)"
    by (simp add: demo_bridge_def issue_session_def)
  then show ?thesis
    using demo_session
    by (simp add: authorised_def demo_host_def needed_permissions_def cap_valid_def permission_for_method_def call_window_def
        MAX_CALLS_PER_MINUTE_def sat_sub_def WINDOW_MS_def)
qed


section \<open>Confinement\<close>

declare kv_view.fields [simp]

lemma kv_dispatch_incoming: "kv (dispatch_incoming env msg n) = kv n"
proof -
  have "kv (dispatch_coin env p inner n) = kv n" for p inner
    by (simp add: dispatch_coin_def kv_def split: sum.split option.split)
  then show ?thesis
    using kv_view.incoming [of env msg n] by metis
qed

definition bkv :: "bridge \<Rightarrow> (string, bytes) tree \<times> bytes option" where
  "bkv b = kv (br_node b)"

lemma bkv_fields [simp]: "bkv (b\<lparr>br_node := n\<rparr>) = kv n" "kv (br_node b) = bkv b"
  by (simp_all add: bkv_def)

lemma bkv_dispatch_other:
  assumes "method \<noteq> ''storage.set''" "method \<noteq> ''storage.delete''"
  shows "bkv (snd (dispatch env h method args b)) = bkv b"
  unfolding bkv_def using assms by (rule kv_view.dispatch_other)

subsection \<open>Values\<close>

text \<open>A stored value reads back as it was written.\<close>

lemma miniapp_set_value:
  assumes "sealing_ok sl" "length nonce = 12" "utf8_valid (bytes_of v)" "miniapp_set sl nonce k v s = (Ok (), s')"
  shows "(\<exists>blob. s' = s\<lparr>as_miniapp := tree_put k blob (as_miniapp s)\<rparr>) \<and> miniapp_get sl s' k = Ok (Some v)"
proof -
  obtain blob where enc: "encode_miniapp_value sl nonce s k v = Some blob"
    and s': "s' = s\<lparr>as_miniapp := tree_put k blob (as_miniapp s)\<rparr>"
    using assms(4) by (auto simp: miniapp_set_def split: option.splits)
  have "decode_miniapp_value sl s' k blob = Ok v"
  proof (cases "as_at_rest_key s")
    case None
    then show ?thesis
      using enc s' assms(3) by (auto simp: encode_miniapp_value_def decode_miniapp_value_def from_utf8_lossy_valid simp del: utf8_valid.simps)
  next
    case (Some master)
    then obtain key where key: "derive_record_key sl master k = Some key"
      using enc by (cases "derive_record_key sl master k") (simp_all add: encode_miniapp_value_def encrypt_value_def)
    then obtain ct where "aead_seal sl key nonce (bytes_of v) = Ok ct" "blob = ENC_PREFIX @ nonce @ ct"
      using enc Some by (cases "aead_seal sl key nonce (bytes_of v)") (simp_all add: encode_miniapp_value_def encrypt_value_def)
    then show ?thesis
      using Some key s' sealing_okD(1,2) [OF assms(1)] assms(2,3)
      by (simp add: decode_miniapp_value_def decrypt_value_def Let_def del: utf8_valid.simps)
  qed
  then show ?thesis
    using s' by (auto simp: miniapp_get_def tree_get_put)
qed

lemma stored_len_cong:
  "tree_get (as_miniapp s') k = tree_get (as_miniapp s) k \<Longrightarrow> as_at_rest_key s' = as_at_rest_key s \<Longrightarrow>
   stored_len sl s' k = stored_len sl s k"
  by (simp add: stored_len_def miniapp_get_def decode_miniapp_value_def split: option.split)

subsection \<open>Quotas\<close>

definition app_keys :: "string \<Rightarrow> AppStorage \<Rightarrow> string set" where
  "app_keys a s = {k. tree_has (as_miniapp s) k \<and> starts_with k (app_prefix a)}"

lemma miniapp_list_keys:
  assumes "tree_ok (as_miniapp s)"
  shows "set (miniapp_list s (app_prefix a)) = app_keys a s" "distinct (miniapp_list s (app_prefix a))"
proof -
  have "set (map fst (tree_iter (as_miniapp s))) = {k. tree_has (as_miniapp s) k}"
    using tree.iter_keys [OF assms] by (simp add: tree_has_def)
  then show "set (miniapp_list s (app_prefix a)) = app_keys a s"
    by (auto simp: miniapp_list_def app_keys_def)
  show "distinct (miniapp_list s (app_prefix a))"
    using tree.iter_distinct [OF assms] by (simp add: miniapp_list_def)
qed

definition within_quota :: "sealing \<Rightarrow> string \<Rightarrow> AppStorage \<Rightarrow> bool" where
  "within_quota sl a s \<longleftrightarrow>
     length (miniapp_list s (app_prefix a)) \<le> MAX_KEYS_PER_APP \<and>
     sum_list (map (stored_len sl s) (miniapp_list s (app_prefix a))) \<le> MAX_TOTAL_BYTES_PER_APP"

lemma within_quota_keys:
  assumes "tree_ok (as_miniapp s)"
  shows "within_quota sl a s \<longleftrightarrow>
    card (app_keys a s) \<le> MAX_KEYS_PER_APP \<and> sum (stored_len sl s) (app_keys a s) \<le> MAX_TOTAL_BYTES_PER_APP"
  using miniapp_list_keys [OF assms, of a] by (metis within_quota_def distinct_card sum_list_distinct_conv_sum_set)

lemma finite_app_keys: "tree_ok (as_miniapp s) \<Longrightarrow> finite (app_keys a s)"
  using miniapp_list_keys(1) by (metis List.finite_set)

text \<open>The prefix of one app is no prefix of a key of another, as long as their names have no colon.\<close>

lemma prefix_apart:
  assumes "CHR '':'' \<notin> set a" "CHR '':'' \<notin> set a'" "a' \<noteq> a"
  shows "\<not> starts_with (app_prefix a @ k) (app_prefix a')"
proof
  assume "starts_with (app_prefix a @ k) (app_prefix a')"
  then obtain r where "a @ CHR '':'' # k = a' @ CHR '':'' # r"
    by (auto simp: starts_with_iff app_prefix_def)
  then have "split_once (CHR '':'') (a @ CHR '':'' # k) = split_once (CHR '':'') (a' @ CHR '':'' # r)"
    by simp
  with assms show False
    by (simp add: split_once_append)
qed

lemma quota_put:
  assumes ok: "tree_ok (as_miniapp s)" and s': "s' = s\<lparr>as_miniapp := tree_put sk blob (as_miniapp s)\<rparr>"
    and fits: "sk \<notin> app_keys a s \<Longrightarrow> card (app_keys a s) < MAX_KEYS_PER_APP"
      "stored_len sl s' sk + sum (stored_len sl s) (app_keys a s - {sk}) \<le> MAX_TOTAL_BYTES_PER_APP"
    and sk: "starts_with sk (app_prefix a)" and old: "within_quota sl a s"
  shows "within_quota sl a s'"
proof -
  have ok': "tree_ok (as_miniapp s')"
    using ok s' by (simp add: tree_ok_put)
  have keys: "app_keys a s' = insert sk (app_keys a s)"
    using sk by (auto simp: app_keys_def s')
  have fin: "finite (app_keys a s)"
    by (rule finite_app_keys [OF ok])
  have same: "sum (stored_len sl s') (app_keys a s - {sk}) = sum (stored_len sl s) (app_keys a s - {sk})"
    by (rule sum.cong) (auto intro!: stored_len_cong simp: s' tree_get_put)
  have "sum (stored_len sl s') (insert sk (app_keys a s)) = stored_len sl s' sk + sum (stored_len sl s) (app_keys a s - {sk})"
    using fin same by (simp add: sum.insert_remove)
  moreover have "card (insert sk (app_keys a s)) \<le> MAX_KEYS_PER_APP"
    using old fits(1) fin unfolding within_quota_keys [OF ok] by (cases "sk \<in> app_keys a s") (simp_all add: insert_absorb)
  ultimately show ?thesis
    unfolding within_quota_keys [OF ok'] keys using fits(2) by simp
qed

text \<open>Changes outside the prefix of an app, and deletions, keep it within its quota.\<close>

lemma quota_frame:
  assumes ok: "tree_ok (as_miniapp s)" "tree_ok (as_miniapp s')" and key: "as_at_rest_key s' = as_at_rest_key s"
    and le: "\<And>k. starts_with k (app_prefix a) \<Longrightarrow> tree_get (as_miniapp s') k \<in> {None, tree_get (as_miniapp s) k}"
    and old: "within_quota sl a s"
  shows "within_quota sl a s'"
proof -
  have sub: "app_keys a s' \<subseteq> app_keys a s"
    using le by (force simp: app_keys_def tree_has_def)
  have "stored_len sl s' k = stored_len sl s k" if "k \<in> app_keys a s'" for k
    using le [of k] that key by (intro stored_len_cong) (auto simp: app_keys_def tree_has_def)
  then have "sum (stored_len sl s') (app_keys a s') = sum (stored_len sl s) (app_keys a s')"
    by (rule sum.cong [OF refl])
  also have "\<dots> \<le> sum (stored_len sl s) (app_keys a s)"
    using sub finite_app_keys [OF ok(1)] by (intro sum_mono2) auto
  finally show ?thesis
    using old card_mono [OF finite_app_keys [OF ok(1)] sub] unfolding within_quota_keys [OF ok(1)] within_quota_keys [OF ok(2)]
    by linarith
qed

lemma check_storage_quota_Ok:
  assumes "check_storage_quota env h b sk n = Ok ()" "tree_ok (as_miniapp (host_storage b))"
  shows "sk \<notin> app_keys (bh_app_id h) (host_storage b) \<Longrightarrow> card (app_keys (bh_app_id h) (host_storage b)) < MAX_KEYS_PER_APP"
    and "n + sum (stored_len (be_sealing env) (host_storage b)) (app_keys (bh_app_id h) (host_storage b) - {sk}) \<le> MAX_TOTAL_BYTES_PER_APP"
proof -
  let ?ks = "miniapp_list (host_storage b) (app_prefix (bh_app_id h))"
  note ks = miniapp_list_keys [OF assms(2), of "bh_app_id h"]
  have "sum_list (map (stored_len (be_sealing env) (host_storage b)) (filter (\<lambda>k. k \<noteq> sk) ?ks)) =
      sum (stored_len (be_sealing env) (host_storage b)) (app_keys (bh_app_id h) (host_storage b) - {sk})"
    using ks by (subst sum_list_distinct_conv_sum_set) (auto intro!: sum.cong)
  moreover have "length ?ks = card (app_keys (bh_app_id h) (host_storage b))"
    using ks distinct_card by metis
  ultimately show "sk \<notin> app_keys (bh_app_id h) (host_storage b) \<Longrightarrow> card (app_keys (bh_app_id h) (host_storage b)) < MAX_KEYS_PER_APP"
    and "n + sum (stored_len (be_sealing env) (host_storage b)) (app_keys (bh_app_id h) (host_storage b) - {sk}) \<le> MAX_TOTAL_BYTES_PER_APP"
    using assms(1) ks(1) by (auto simp: check_storage_quota_def Let_def split: if_splits)
qed

subsection \<open>Runs\<close>

lemma guard_split: "P (guard r b f) \<longleftrightarrow> (\<forall>e. r = Err e \<longrightarrow> P (Err e, b)) \<and> (\<forall>v. r = Ok v \<longrightarrow> P (f v b))"
  by (cases r) simp_all

lemma miniapp_set_Err: "miniapp_set sl nonce k v s = (Err e, s') \<Longrightarrow> s' = s"
  by (simp add: miniapp_set_def split: option.splits)

lemma set_host_storage_same [simp]: "set_host_storage (host_storage b) b = b"
  by (simp add: set_host_storage_def)

lemma host_storage_set [simp]: "host_storage (set_host_storage s b) = s"
  by (simp add: set_host_storage_def)

lemma storage_set_effect:
  "snd (dispatch env h ''storage.set'' args b) = b \<or>
   (\<exists>key v s'. get_str args ''value'' = Some v \<and> check_storage_quota env h b (scoped_key h key) (length v) = Ok () \<and>
      miniapp_set (be_sealing env) (ap_nonce (be_app env)) (scoped_key h key) v (host_storage b) = (Ok (), s') \<and>
      snd (dispatch env h ''storage.set'' args b) = set_host_storage s' b)"
proof -
  have "dispatch env h ''storage.set'' args b = call_storage env h ''storage.set'' args b"
    by (simp add: dispatch_def)
  moreover have "snd (call_storage env h ''storage.set'' args b) = b \<or>
   (\<exists>key v s'. get_str args ''value'' = Some v \<and> check_storage_quota env h b (scoped_key h key) (length v) = Ok () \<and>
      miniapp_set (be_sealing env) (ap_nonce (be_app env)) (scoped_key h key) v (host_storage b) = (Ok (), s') \<and>
      snd (call_storage env h ''storage.set'' args b) = set_host_storage s' b)"
    unfolding call_storage_def arg_str_def Let_def
    by (auto simp: ok_or_Ok dest!: miniapp_set_Err split: guard_split prod.split)
  ultimately show ?thesis
    by simp
qed

lemma storage_delete_effect:
  "snd (dispatch env h ''storage.delete'' args b) = b \<or>
   (\<exists>key. snd (dispatch env h ''storage.delete'' args b) =
      set_host_storage (miniapp_delete (scoped_key h key) (host_storage b)) b)"
proof -
  have "dispatch env h ''storage.delete'' args b = call_storage env h ''storage.delete'' args b"
    by (simp add: dispatch_def)
  then show ?thesis
    by (auto simp: call_storage_def split: guard_split)
qed

text \<open>What the host may do with the state: a call of an app, a message that arrives, a session that starts or ends.\<close>

datatype host_event =
    HostCall bridge_env BridgeHost string json
  | HostMessage app_env DirectMessage
  | HostSession u64 string string
  | HostEnd string

fun host_step :: "host_event \<Rightarrow> bridge \<Rightarrow> bridge" where
  "host_step (HostCall env h method args) b = snd (bridge_handle env h method args b)"
| "host_step (HostMessage env msg) b = b\<lparr>br_node := dispatch_incoming env msg (br_node b)\<rparr>"
| "host_step (HostSession now uuid app_id) b = snd (issue_session now uuid app_id b)"
| "host_step (HostEnd app_id) b = revoke_session app_id b"

text \<open>The packages of the calls, nonces of twelve bytes, text for values, and names of apps without a colon.\<close>

fun event_ok :: "sealing \<Rightarrow> host_event \<Rightarrow> bool" where
  "event_ok sl (HostCall env h method args) \<longleftrightarrow>
     be_sealing env = sl \<and> length (ap_nonce (be_app env)) = 12 \<and> CHR '':'' \<notin> set (bh_app_id h) \<and>
     (case get_str args ''value'' of Some v \<Rightarrow> utf8_valid (bytes_of v) | None \<Rightarrow> True)"
| "event_ok sl _ \<longleftrightarrow> True"

fun called_by :: "string \<Rightarrow> host_event \<Rightarrow> bool" where
  "called_by a (HostCall env h method args) \<longleftrightarrow> bh_app_id h = a"
| "called_by a _ \<longleftrightarrow> False"

definition confined :: "sealing \<Rightarrow> string \<Rightarrow> AppStorage \<Rightarrow> bool" where
  "confined sl a s \<longleftrightarrow> tree_ok (as_miniapp s) \<and> within_quota sl a s"

definition same_values :: "string \<Rightarrow> AppStorage \<Rightarrow> AppStorage \<Rightarrow> bool" where
  "same_values a s s' \<longleftrightarrow>
     (\<forall>k. starts_with k (app_prefix a) \<longrightarrow> tree_get (as_miniapp s') k = tree_get (as_miniapp s) k) \<and>
     as_at_rest_key s' = as_at_rest_key s"

lemma bkv_eq: "bkv b' = bkv b \<longleftrightarrow>
    as_miniapp (host_storage b') = as_miniapp (host_storage b) \<and> as_at_rest_key (host_storage b') = as_at_rest_key (host_storage b)"
  unfolding bkv_def kv_def by simp

lemma same_values_bkv: "bkv b' = bkv b \<Longrightarrow> same_values a (host_storage b) (host_storage b')"
  by (simp add: same_values_def bkv_eq)

lemma confined_bkv: "bkv b' = bkv b \<Longrightarrow> confined sl a (host_storage b') = confined sl a (host_storage b)"
proof -
  assume "bkv b' = bkv b"
  then have eq: "as_miniapp (host_storage b') = as_miniapp (host_storage b)" "as_at_rest_key (host_storage b') = as_at_rest_key (host_storage b)"
    by (simp_all add: bkv_eq)
  then have "stored_len sl (host_storage b') = stored_len sl (host_storage b)"
    by (intro ext stored_len_cong) simp_all
  with eq show ?thesis
    by (simp add: confined_def within_quota_def miniapp_list_def)
qed

lemma confined_set:
  assumes "sealing_ok sl" "CHR '':'' \<notin> set a" "event_ok sl (HostCall env h method args)" "confined sl a (host_storage b)"
    and call: "get_str args ''value'' = Some v" "check_storage_quota env h b (scoped_key h key) (length v) = Ok ()"
      "miniapp_set (be_sealing env) (ap_nonce (be_app env)) (scoped_key h key) v (host_storage b) = (Ok (), s')"
  shows "confined sl a s' \<and> (bh_app_id h \<noteq> a \<longrightarrow> same_values a (host_storage b) s')"
proof -
  let ?s = "host_storage b" and ?sk = "scoped_key h key"
  have ok: "tree_ok (as_miniapp ?s)"
    using assms(4) by (simp add: confined_def)
  have sl: "be_sealing env = sl" and nonce: "length (ap_nonce (be_app env)) = 12" and utf: "utf8_valid (bytes_of v)"
    using assms(3) unfolding event_ok.simps call(1) option.case by blast+
  obtain blob where s': "s' = ?s\<lparr>as_miniapp := tree_put ?sk blob (as_miniapp ?s)\<rparr>" and get: "miniapp_get sl s' ?sk = Ok (Some v)"
    using miniapp_set_value [OF assms(1) nonce utf call(3) [unfolded sl]] by blast
  have ok': "tree_ok (as_miniapp s')"
    using ok s' by (simp add: tree_ok_put)
  show ?thesis
  proof (cases "bh_app_id h = a")
    case True
    have "stored_len sl s' ?sk = length v"
      using get by (simp add: stored_len_def)
    then have "within_quota sl a s'"
      using check_storage_quota_Ok [OF call(2) ok] assms(4) True sl
      by (intro quota_put [OF ok s']) (simp_all add: confined_def scoped_key_def starts_with_iff)
    with ok' True show ?thesis
      by (simp add: confined_def)
  next
    case False
    then have apart: "\<not> starts_with ?sk (app_prefix a)"
      using prefix_apart [of "bh_app_id h" a] assms(2,3) by (simp add: scoped_key_def)
    then have same: "same_values a ?s s'"
      by (auto simp: same_values_def s' tree_get_put)
    then have "within_quota sl a s'"
      using assms(4) by (intro quota_frame [OF ok ok']) (auto simp: same_values_def confined_def)
    with ok' same show ?thesis
      by (simp add: confined_def)
  qed
qed

lemma confined_delete:
  assumes "CHR '':'' \<notin> set a" "CHR '':'' \<notin> set (bh_app_id h)" "confined sl a s"
  shows "confined sl a (miniapp_delete (scoped_key h key) s) \<and>
    (bh_app_id h \<noteq> a \<longrightarrow> same_values a s (miniapp_delete (scoped_key h key) s))"
proof -
  have ok: "tree_ok (as_miniapp s)" "tree_ok (as_miniapp (miniapp_delete (scoped_key h key) s))"
    using assms(3) by (simp_all add: confined_def miniapp_delete_def tree_ok_del)
  have "within_quota sl a (miniapp_delete (scoped_key h key) s)"
    using assms(3) by (intro quota_frame [OF ok]) (auto simp: miniapp_delete_def tree_get_del confined_def)
  moreover have "same_values a s (miniapp_delete (scoped_key h key) s)" if "bh_app_id h \<noteq> a"
    using prefix_apart [of "bh_app_id h" a key] assms(1,2) that
    by (auto simp: same_values_def miniapp_delete_def tree_get_del scoped_key_def)
  ultimately show ?thesis
    using ok by (simp add: confined_def)
qed

lemma bkv_counted [simp]: "bkv (counted env h b) = bkv b"
  unfolding bkv_def by simp

lemma bridge_handle_storage:
  "bkv (snd (bridge_handle env h method args b)) = bkv b \<or>
   method \<in> {''storage.set'', ''storage.delete''} \<and>
   snd (bridge_handle env h method args b) = snd (dispatch env h method args (counted env h b))"
proof (cases "authorised env h method args b")
  case True
  then show ?thesis
    using bridge_handle_authorised [OF True] bkv_dispatch_other [of "method" env h args "counted env h b"] by auto
next
  case False
  then have "quiet b (snd (bridge_handle env h method args b))"
    using bridge_handle_refused quiet_only_counted by blast
  then show ?thesis
    by (simp add: quiet_def bkv_eq)
qed

lemma check_storage_quota_counted [simp]: "check_storage_quota env h (counted env h b) = check_storage_quota env h b"
  by (simp add: fun_eq_iff check_storage_quota_def Let_def)

lemma confined_step:
  assumes "sealing_ok sl" "CHR '':'' \<notin> set a" "event_ok sl ev" "confined sl a (host_storage b)"
  shows "confined sl a (host_storage (host_step ev b)) \<and>
    (\<not> called_by a ev \<longrightarrow> same_values a (host_storage b) (host_storage (host_step ev b)))"
proof (cases ev)
  case (HostCall env h meth args)
  let ?b = "snd (bridge_handle env h meth args b)" and ?c = "counted env h b"
  consider "bkv ?b = bkv b" | "host_storage ?b = host_storage b"
    | key v s' where "get_str args ''value'' = Some v" "check_storage_quota env h b (scoped_key h key) (length v) = Ok ()"
        "miniapp_set (be_sealing env) (ap_nonce (be_app env)) (scoped_key h key) v (host_storage b) = (Ok (), s')" "host_storage ?b = s'"
    | key where "host_storage ?b = miniapp_delete (scoped_key h key) (host_storage b)"
    using bridge_handle_storage [of env h meth args b] storage_set_effect [of env h args ?c] storage_delete_effect [of env h args ?c]
    by (auto simp del: split_paired_Ex)
  then show ?thesis
  proof cases
    case 1
    then show ?thesis
      using confined_bkv [OF 1] same_values_bkv [OF 1] assms(4) by (simp add: HostCall)
  next
    case 2
    then show ?thesis
      using assms(4) by (simp add: HostCall same_values_def)
  next
    case 3
    then show ?thesis
      using confined_set [OF assms(1,2) assms(3) [unfolded HostCall] assms(4) 3(1-3)] by (simp add: HostCall)
  next
    case 4
    then show ?thesis
      using confined_delete [OF assms(2) _ assms(4), of h key] assms(3) by (simp add: HostCall)
  qed
next
  case (HostMessage env msg)
  then have "bkv (host_step ev b) = bkv b"
    by (simp add: kv_dispatch_incoming)
  then show ?thesis
    using confined_bkv same_values_bkv assms(4) by blast
next
  case (HostSession now uuid app_id)
  then show ?thesis
    using assms(4) by (simp add: issue_session_def same_values_def)
next
  case (HostEnd app_id)
  then show ?thesis
    using assms(4) by (simp add: revoke_session_def same_values_def)
qed

definition host_run :: "host_event list \<Rightarrow> bridge \<Rightarrow> bridge" where
  "host_run evs b = foldl (\<lambda>b ev. host_step ev b) b evs"


definition demo_call :: host_event where
  "demo_call = HostCall (demo_bridge_env 1000) demo_host ''storage.set'' (demo_args ''s'' ''k'' ''v'')"

lemma demo_stored: "miniapp_get hex_sealing (host_storage (host_run [demo_call] demo_bridge)) ''app:a.b:k'' = Ok (Some ''v'')"
proof -
  have st: "host_storage demo_bridge = empty_storage"
    by (simp add: demo_bridge_def issue_session_def demo_app_def app_node_new_def)
  have quota: "check_storage_quota (demo_bridge_env 1000) demo_host (counted (demo_bridge_env 1000) demo_host demo_bridge) ''app:a.b:k'' 1 = Ok ()"
    by (simp add: check_storage_quota_def st Let_def miniapp_list_def empty_storage_def tree_iter_def MAX_KEYS_PER_APP_def MAX_TOTAL_BYTES_PER_APP_def)
  have "host_run [demo_call] demo_bridge = set_host_storage (empty_storage\<lparr>as_miniapp := [(''app:a.b:k'', bytes_of ''v'')]\<rparr>)
      (counted (demo_bridge_env 1000) demo_host demo_bridge)"
    using bridge_handle_authorised [of "demo_bridge_env 1000" demo_host "''storage.set''" "demo_args ''s'' ''k'' ''v''" demo_bridge]
      demo_authorised quota
    by (simp add: host_run_def demo_call_def dispatch_def call_storage_def require_permission_def demo_host_def arg_str_def
        validate_key_def validate_value_def MAX_KEY_LEN_def MAX_VALUE_LEN_def scoped_key_def app_prefix_def miniapp_set_def
        encode_miniapp_value_def st empty_storage_def)
  then show ?thesis
    by (simp add: miniapp_get_def decode_miniapp_value_def empty_storage_def from_utf8_lossy_valid utf8_valid_ascii)
qed


text \<open>The condition on names is not one the code checks: an app whose name extends that of another by a colon shares keys
  with it.\<close>

lemma colon_shares_keys: "scoped_key h (c @ '':'' @ key) = scoped_key (h\<lparr>bh_app_id := bh_app_id h @ '':'' @ c\<rparr>) key"
  by (simp add: scoped_key_def app_prefix_def)

end
