(* ===== verification/Host_View.thy ===== *)
theory Host_View
  imports Bridge_Safety
begin

text \<open>
  What a host can rely on when it runs the application for a window or a mobile interface: a view of the application node that
  looks neither at its queues nor at its storage is kept by every operation a host calls, the whole bridge included.  Two
  views are of this kind: the coin node, and the coin node together with the peer identifier.
\<close>

locale host_view = app_view view for view :: "AppNode \<Rightarrow> 'v" +
  assumes any_storage: "view (n\<lparr>an_storage := s\<rparr>) = view n"
begin

lemma dispatch: "view (br_node (snd (dispatch env h meth args b))) = view (br_node b)"
proof (cases "meth \<in> {''storage.set'', ''storage.delete''}")
  case True
  then have "dispatch env h meth args b = call_storage env h meth args b"
    unfolding dispatch_def by (elim insertE emptyE) simp_all
  moreover have "view (br_node (snd (call_storage env h meth args b))) = view (br_node b)"
    by (auto simp: call_storage_def Let_def case_prod_unfold set_host_storage_def any_storage intro!: bridge_rules)
  ultimately show ?thesis
    by simp
qed (simp add: dispatch_other)

lemma bridge: "view (br_node (snd (bridge_handle env h meth args b))) = view (br_node b)"
proof (cases "authorised env h meth args b")
  case True
  then show ?thesis
    by (simp add: bridge_handle_authorised dispatch)
next
  case False
  then have "(br_node (snd (bridge_handle env h meth args b)))\<lparr>an_app_store := an_app_store (br_node b)\<rparr> = br_node b"
    using bridge_handle_refused by (simp add: only_counted_def)
  then show ?thesis
    by (metis app_store)
qed

lemma bridge_call: "view (br_node (snd (miniapp_bridge_call env k i meth args b))) = view (br_node b)"
  by (simp add: miniapp_bridge_call_def Let_def bridge)

lemmas kept = chat chat_encrypted contacts stored group_message bulletin send scope_keys near mail naming publish_revocation
  bridge_call any_storage app_store

lemma sends: "view (foldl (\<lambda>a c. snd (app_send env (g c) a)) a cs) = view a"
  by (induction cs arbitrary: a) (simp_all add: send)

end

interpretation coin_host: host_view an_coin
  by unfold_locales simp

definition own :: "AppNode \<Rightarrow> CoinNode option \<times> string" where
  "own n = (an_coin n, an_local_peer_id n)"

interpretation own_host: host_view own
  by unfold_locales (simp_all add: own_def on_storage_def)

end
