(* ===== verification/Ffi_Props.thy ===== *)
theory Ffi_Props
  imports Ffi_Miniapps Host_View
begin

text \<open>
  Properties of the interface to the mobile application: what a call without a node does to the process, the coin
  ledger over any run of the interface, what a payment does to a node that runs with a storage key, and what is left of a mini-app
  after it was uninstalled.
\<close>

section \<open>Access to the node\<close>

named_theorems ffi_defs "the definitions of the calls of the interface"

lemmas [ffi_defs] = ffi_send_chat_direct_def ffi_send_chat_broadcast_def ffi_send_chat_encrypted_def ffi_add_contact_def
  ffi_accept_contact_def ffi_reject_contact_def ffi_remove_contact_def ffi_create_group_def ffi_import_group_invite_def
  ffi_send_group_message_def ffi_delete_group_def ffi_post_bulletin_def ffi_subscribe_bulletin_scope_def
  ffi_unsubscribe_bulletin_scope_def ffi_add_scope_key_def ffi_create_scope_key_def ffi_delete_scope_key_def
  ffi_start_proximity_def ffi_stop_proximity_def ffi_nearby_profiles_def ffi_express_proximity_interest_def
  ffi_send_proximity_message_def ffi_send_mail_def ffi_set_display_name_def ffi_set_energy_state_def
  ffi_set_rendezvous_enabled_def ffi_add_bootstrap_peer_def ffi_send_transaction_def ffi_request_faucet_def
  ffi_set_hot_wallet_config_def ffi_set_cold_wallet_address_def ffi_issue_capability_def ffi_publish_revocation_def
  ffi_set_safe_mode_def ffi_report_app_def ffi_install_app_def ffi_install_official_bundle_def
  ffi_storage_set_def ffi_storage_delete_def ffi_bridge_call_def

lemma ended_simps [simp]: "ended (Returned x, p) = (True, p)" "ended (Panicked e, p) = (False, p)"
  by (simp_all add: ended_def)

lemma snd_ended: "snd (ended x) = snd x"
  by (cases x; cases "fst x") (auto simp: ended_def)

text \<open>The calls that look at the node.\<close>

fun uses_node :: "FfiCall \<Rightarrow> bool" where
  "uses_node (InitNode c) = False"
| "uses_node StopNode = False"
| "uses_node SetEventCallback = False"
| "uses_node (MarkMailRead i) = False"
| "uses_node (IssueBridgeSession i) = False"
| "uses_node (RevokeBridgeSession i) = False"
| "uses_node _ = True"

lemma no_node:
  assumes "fp_node p = None" "fp_runtime p"
  shows "fst (state_arc p) = Panicked (if fp_node_poisoned p then ''node lock'' else ''node not initialized'')"
    "snd (state_arc p) = p\<lparr>fp_node_poisoned := True\<rparr>"
    "ended (with_state f p) = (False, p\<lparr>fp_node_poisoned := True\<rparr>)"
    "ended (block_on f p) = (False, p\<lparr>fp_node_poisoned := True\<rparr>)"
    "ended (ffi_bind ffi_runtime (\<lambda>_. ffi_bind state_arc g) p) = (False, p\<lparr>fp_node_poisoned := True\<rparr>)"
  using assms by (simp_all add: state_arc_def with_state_def block_on_def ffi_bind_def ffi_runtime_def)

lemma call_without_node:
  assumes "fp_node p = None" "fp_runtime p" "uses_node c"
  obtains p' where "ffi_call env c p = (False, p')" "fp_node p' = None" "fp_node_poisoned p'" "fp_runtime p'"
proof (cases "\<exists>i. c = UninstallApp i")
  case True
  then obtain i where c: "c = UninstallApp i"
    by blast
  let ?p = "p\<lparr>fp_sessions := (fp_sessions p)(i := None)\<rparr>"
  have "ffi_call env c p = (False, ?p\<lparr>fp_node_poisoned := True\<rparr>)"
    using no_node(3) [of ?p] assms
    by (simp add: c ffi_uninstall_app_def ffi_bind_def [of "ffi_revoke_bridge_session _"] ffi_revoke_bridge_session_def)
  then show ?thesis
    using that assms by simp
next
  case False
  then have "ffi_call env c p = (False, p\<lparr>fp_node_poisoned := True\<rparr>)"
    using assms(3) by (cases c) (simp_all add: ffi_defs no_node [OF assms(1,2)])
  then show ?thesis
    using that assms by simp
qed

section \<open>A poisoned lock\<close>

text \<open>A process whose lock is poisoned while there is no node stays so, and no call gets a node again.\<close>

definition dead :: "ffi_process \<Rightarrow> bool" where
  "dead p \<longleftrightarrow> fp_node p = None \<and> fp_node_poisoned p"

definition keeps_dead :: "'a ffi \<Rightarrow> bool" where
  "keeps_dead m \<longleftrightarrow> (\<forall>p. dead p \<longrightarrow> dead (snd (m p)))"

definition never_returns :: "'a ffi \<Rightarrow> bool" where
  "never_returns m \<longleftrightarrow> (\<forall>p. dead p \<longrightarrow> dead (snd (m p)) \<and> \<not> fst (ended (m p)))"

lemma never_returns_keeps: "never_returns m \<Longrightarrow> keeps_dead m"
  by (simp add: never_returns_def keeps_dead_def)

lemma keeps_dead_bind:
  assumes "keeps_dead m" "\<And>x. keeps_dead (f x)"
  shows "keeps_dead (ffi_bind m f)"
  unfolding keeps_dead_def
proof (intro allI impI)
  fix p
  assume "dead p"
  obtain r p' where m: "m p = (r, p')"
    by fastforce
  with assms(1) \<open>dead p\<close> have "dead p'"
    unfolding keeps_dead_def by (metis snd_conv)
  with assms(2) m show "dead (snd (ffi_bind m f p))"
    by (cases r) (simp_all add: ffi_bind_def keeps_dead_def)
qed

lemma never_returns_bind:
  assumes "keeps_dead m" "\<And>x. never_returns (f x)"
  shows "never_returns (ffi_bind m f)"
  unfolding never_returns_def
proof (intro allI impI)
  fix p
  assume "dead p"
  obtain r p' where m: "m p = (r, p')"
    by fastforce
  with assms(1) \<open>dead p\<close> have "dead p'"
    unfolding keeps_dead_def by (metis snd_conv)
  with assms(2) m show "dead (snd (ffi_bind m f p)) \<and> \<not> fst (ended (ffi_bind m f p))"
    by (cases r) (simp_all add: ffi_bind_def never_returns_def)
qed

lemma keeps_dead_expect: "keeps_dead (expect_vault msg g)" "keeps_dead (expect_ok msg r)" "keeps_dead (init_runtime env)"
  by (auto simp: keeps_dead_def expect_ok_def expect_vault_def init_runtime_def dead_def Let_def split: prod.split sum.split)

lemma never_returns_publish: "never_returns (publish_state n)"
  by (simp add: never_returns_def publish_state_def dead_def)

lemma never_returns_init: "never_returns (init_node env c)"
  unfolding init_node_def Let_def
  by (intro never_returns_bind keeps_dead_expect never_returns_publish)

lemma dead_access:
  assumes "dead p"
  shows "ended (with_state f p) = (False, p)" "ended (block_on f p) = (False, p)"
    "ended (ffi_bind ffi_runtime (\<lambda>_. ffi_bind state_arc g) p) = (False, p)" "snd (with_state f p) = p"
  using assms by (simp_all add: dead_def with_state_def block_on_def ffi_bind_def ffi_runtime_def state_arc_def)

lemma dead_sessions [simp]: "dead (p\<lparr>fp_sessions := s\<rparr>) = dead p" "dead (p\<lparr>fp_callback := b\<rparr>) = dead p"
  by (simp_all add: dead_def)

lemma dead_call:
  assumes "dead p"
  shows "dead (snd (ffi_call env c p))" "uses_node c \<or> (\<exists>cfg. c = InitNode cfg) \<Longrightarrow> \<not> fst (ffi_call env c p)"
proof -
  have "dead (snd (ffi_call env c p)) \<and> (uses_node c \<or> (\<exists>cfg. c = InitNode cfg) \<longrightarrow> \<not> fst (ffi_call env c p))"
    using assms
    by (cases c) (simp_all add: ffi_defs dead_access never_returns_init [unfolded never_returns_def] snd_ended stop_node_def
        set_event_callback_def ffi_mark_mail_read_def ffi_return_def ffi_issue_bridge_session_def ffi_revoke_bridge_session_def
        ffi_uninstall_app_def ffi_bind_def [of "ffi_revoke_bridge_session _"] Let_def split: option.split, auto simp: dead_def)
  then show "dead (snd (ffi_call env c p))" "uses_node c \<or> (\<exists>cfg. c = InitNode cfg) \<Longrightarrow> \<not> fst (ffi_call env c p)"
    by simp_all
qed

lemma dead_exec: "dead p \<Longrightarrow> dead (ffi_exec env st p)"
  by (cases st) (simp_all add: dead_call ffi_incoming_def connectivity_changed_def connectivity_started_def emit_def, simp_all add: dead_def)

lemma ffi_run_simps [simp]: "ffi_run [] p = p" "ffi_run ((env, st) # steps) p = ffi_run steps (ffi_exec env st p)"
  by (simp_all add: ffi_run_def)

lemma dead_run: "dead p \<Longrightarrow> dead (ffi_run steps p)"
  by (induction steps arbitrary: p) (auto simp: dead_exec)

text \<open>C33. One call too early, or one too late, ends the process for good.  If a call of the interface looks at the node while
  there is none (after \<open>stop_node\<close>, or before \<open>init_node\<close> has finished), it panics with the lock of the
  node held; from then on, whatever calls and messages follow, there is never a node again, every call that looks at it
  panics, and so does every \<open>init_node\<close>.\<close>

theorem lock_poisoned_for_good:
  assumes "fp_node p = None" "fp_runtime p" "uses_node c"
  shows "\<not> fst (ffi_call env c p) \<and>
    (\<forall>steps env' c'. let p' = ffi_run steps (snd (ffi_call env c p)) in
       fp_node p' = None \<and> (uses_node c' \<or> (\<exists>cfg. c' = InitNode cfg) \<longrightarrow> \<not> fst (ffi_call env' c' p')))"
proof -
  obtain p' where p': "ffi_call env c p = (False, p')" "dead p'"
    using call_without_node [OF assms, of env] unfolding dead_def by metis
  then have d: "dead (ffi_run steps p')" for steps
    by (simp add: dead_run)
  then have "fp_node (ffi_run steps p') = None" for steps
    by (simp add: dead_def)
  then show ?thesis
    unfolding Let_def p'(1) fst_conv snd_conv using dead_call(2) [OF d] by blast
qed

theorem lock_poisoned_for_good_witness:
  "\<forall>env cfg. let p = snd (stop_node ((process_start demo_disk)\<lparr>fp_runtime := True\<rparr>)) in
     \<not> fst (ffi_call env QueryNode p) \<and> \<not> fst (ffi_call env (InitNode cfg) (snd (ffi_call env QueryNode p)))"
proof (intro allI)
  fix env cfg
  show "let p = snd (stop_node ((process_start demo_disk)\<lparr>fp_runtime := True\<rparr>)) in
     \<not> fst (ffi_call env QueryNode p) \<and> \<not> fst (ffi_call env (InitNode cfg) (snd (ffi_call env QueryNode p)))"
    using lock_poisoned_for_good [of "snd (stop_node ((process_start demo_disk)\<lparr>fp_runtime := True\<rparr>))" QueryNode env, THEN conjunct2,
        THEN spec [of _ "[]"], THEN spec [of _ env], THEN spec [of _ "InitNode cfg"]]
      lock_poisoned_for_good [of "snd (stop_node ((process_start demo_disk)\<lparr>fp_runtime := True\<rparr>))" QueryNode env, THEN conjunct1]
    by (simp add: Let_def stop_node_def process_start_def)
qed

section \<open>The ledger\<close>

text \<open>The ledger of the node's coin node is one that the operations of a ledger can reach.\<close>

definition node_good :: "crypto \<Rightarrow> serializer \<Rightarrow> FfiNode \<Rightarrow> bool" where
  "node_good cr ser n \<longleftrightarrow> (\<forall>c. an_coin (fn_app n) = Some c \<longrightarrow> ledger_reach cr ser (ledger c))"

definition good :: "crypto \<Rightarrow> serializer \<Rightarrow> ffi_process \<Rightarrow> bool" where
  "good cr ser p \<longleftrightarrow> (\<forall>n. fp_node p = Some n \<longrightarrow> node_good cr ser n)"

text \<open>Surroundings with the same packages, whose disk holds such a ledger.\<close>

definition env_good :: "crypto \<Rightarrow> serializer \<Rightarrow> ffi_env \<Rightarrow> bool" where
  "env_good cr ser env \<longleftrightarrow>
     ce_crypto (ap_coin (fe_app env)) = cr \<and> ce_ser (ap_coin (fe_app env)) = ser \<and>
     (\<forall>path L. fe_open_ledger env path = Ok L \<longrightarrow> ledger_reach cr ser L)"

lemma good_put [simp]: "good cr ser (ffi_put n p) = node_good cr ser n"
  by (simp add: good_def ffi_put_def)

lemma good_fields [simp]:
  "good cr ser (p\<lparr>fp_sessions := s\<rparr>) = good cr ser p" "good cr ser (p\<lparr>fp_calls := c\<rparr>) = good cr ser p"
  "good cr ser (p\<lparr>fp_broadcasts := b\<rparr>) = good cr ser p" "good cr ser (p\<lparr>fp_vault := v\<rparr>) = good cr ser p"
  "good cr ser (p\<lparr>fp_events := e\<rparr>) = good cr ser p" "good cr ser (p\<lparr>fp_runtime := r\<rparr>) = good cr ser p"
  "good cr ser (p\<lparr>fp_callback := k\<rparr>) = good cr ser p" "good cr ser (p\<lparr>fp_node_poisoned := q\<rparr>) = good cr ser p"
  "good cr ser (p\<lparr>fp_node := None\<rparr>)"
  by (simp_all add: good_def)

lemma node_good_fields [simp]:
  "node_good cr ser (n\<lparr>fn_hot_wallet := h\<rparr>) = node_good cr ser n" "node_good cr ser (n\<lparr>fn_connectivity_mode := m\<rparr>) = node_good cr ser n"
  "node_good cr ser (n\<lparr>fn_display_name := d\<rparr>) = node_good cr ser n" "node_good cr ser (put_store st n) = node_good cr ser n"
  "an_coin a = an_coin (fn_app n) \<Longrightarrow> node_good cr ser (n\<lparr>fn_app := a\<rparr>) = node_good cr ser n"
  by (simp_all add: node_good_def put_store_def)

lemma good_access:
  assumes "good cr ser p" "\<And>n. fp_node p = Some n \<Longrightarrow> node_good cr ser n \<Longrightarrow> good cr ser (snd (f n p))"
  shows "good cr ser (snd (with_state f p))" "good cr ser (snd (block_on f p))"
    "good cr ser (snd (ffi_bind ffi_runtime (\<lambda>_. ffi_bind state_arc f) p))"
  using assms by (auto simp: with_state_def block_on_def ffi_bind_def ffi_runtime_def state_arc_def good_def [of cr ser p]
      split: option.split)

lemma good_bind:
  assumes "good cr ser (snd (m p))" "\<And>x p'. m p = (Returned x, p') \<Longrightarrow> good cr ser p' \<Longrightarrow> good cr ser (snd (f x p'))"
  shows "good cr ser (snd (ffi_bind m f p))"
  using assms by (cases "m p"; cases "fst (m p)") (auto simp: ffi_bind_def)

lemma good_app_total:
  "node_good cr ser n \<Longrightarrow> an_coin (snd (f (fn_app n))) = an_coin (fn_app n) \<Longrightarrow> good cr ser (snd (app_total f n p))"
  by (simp add: app_total_def Let_def case_prod_unfold)

lemma good_app:
  "node_good cr ser n \<Longrightarrow> an_coin (snd (f (fn_app n))) = an_coin (fn_app n) \<Longrightarrow> good cr ser (snd (app_try ex f n p))"
  "node_good cr ser n \<Longrightarrow> an_coin (snd (f (fn_app n))) = an_coin (fn_app n) \<Longrightarrow> good cr ser (snd (app_ignore f n p))"
  "node_good cr ser n \<Longrightarrow> an_coin (g (fn_app n)) = an_coin (fn_app n) \<Longrightarrow> good cr ser (snd (app_do g n p))"
  by (simp_all add: app_try_def app_ignore_def app_do_def good_app_total Let_def case_prod_unfold)

lemma good_with_coin:
  assumes "node_good cr ser n" "\<And>c. an_coin (fn_app n) = Some c \<Longrightarrow> ledger_reach cr ser (ledger c) \<Longrightarrow> ledger_reach cr ser (ledger (snd (f c)))"
  shows "good cr ser (snd (with_coin f absent n p))"
  using assms by (auto simp: with_coin_def app_total_def node_good_def Let_def case_prod_unfold split: option.split)

lemma good_expect:
  "good cr ser p \<Longrightarrow> good cr ser (snd (expect_vault msg g p))" "good cr ser p \<Longrightarrow> good cr ser (snd (expect_ok msg r p))"
  "good cr ser p \<Longrightarrow> good cr ser (snd (init_runtime env p))"
  by (simp_all add: expect_ok_def expect_vault_def init_runtime_def case_prod_unfold Let_def split: sum.split)

lemma good_init:
  assumes "env_good cr ser env" "good cr ser p"
  shows "good cr ser (snd (init_node env c p))"
proof -
  have pub: "good cr ser (snd (publish_state
        \<lparr>fn_app = app_node_new peer name storage (Some (coin_node_new L addr peer path)) st enc, fn_db_path = db, fn_coin_identity_path = path,
         fn_cap_mac_key = k, fn_local_peer_id = peer, fn_display_name = name, fn_hot_wallet = h, fn_connectivity_mode = m\<rparr> p))"
    if "ledger_reach cr ser L" "good cr ser p" for peer name storage L addr path st enc db k h m and p
    using that by (simp add: publish_state_def good_def node_good_def app_node_new_def coin_node_new_def)
  have led: "ledger_reach cr ser L" if "expect_ok msg (fe_open_ledger env path) p = (Returned L, p')" for msg path p p' L
    using that assms(1) by (auto simp: expect_ok_def expect_vault_def env_good_def Let_def split: sum.splits)
  show ?thesis
    unfolding init_node_def Let_def
    by (intro good_bind good_expect pub) (assumption | rule assms(2) | (rule led, assumption))+
qed

lemma good_bridge_call:
  "node_good cr ser n \<Longrightarrow> good cr ser (put_bridge (snd (miniapp_bridge_call env k i meth args (as_bridge p n))) n q)"
  by (simp add: put_bridge_def as_bridge_def coin_host.bridge_call)

lemma good_store: "node_good cr ser n \<Longrightarrow> good cr ser (snd (store_do f n p))" "node_good cr ser n \<Longrightarrow> good cr ser (snd (store_install g n p))"
  by (simp_all add: store_do_def store_install_def case_prod_unfold Let_def)

lemma snd_and_then_unit [simp]: "snd (and_then r (\<lambda>_ a. (Ok (), a))) = snd r"
  by (cases r; cases "fst r") auto

lemmas good_intros = good_access good_app good_app_total good_store good_with_coin

lemma good_coin_calls:
  assumes "env_good cr ser env" "good cr ser p"
  shows "good cr ser (snd (ffi_send_transaction env to amount memo p))" "good cr ser (snd (ffi_request_faucet p))"
proof -
  have "ledger_reach cr ser (ledger (snd (submit_transfer_from_identity_path (ffi_coin_env env dir vs) path to amount 1000 memo c)))"
    if "ledger_reach cr ser (ledger c)" for c dir vs path
    using that assms(1) reach_submit_transfer [of "ffi_coin_env env dir vs" c] by (simp add: ffi_coin_env_def env_good_def)
  then show "good cr ser (snd (ffi_send_transaction env to amount memo p))"
    using assms(2) unfolding ffi_send_transaction_def Let_def
    by (intro good_access) (auto intro: good_with_coin)
  show "good cr ser (snd (ffi_request_faucet p))"
    using assms(2) reach_faucet unfolding ffi_request_faucet_def by (intro good_intros) auto
qed

lemma good_bodies:
  assumes "node_good cr ser n" "good cr ser p"
  shows "good cr ser (snd ((case group_by_id s gid of None \<Rightarrow> ffi_return () | Some g \<Rightarrow> app_ignore (send_group_message env g text) n) p))"
    "good cr ser (snd ((case parse_permission_name perm of None \<Rightarrow> ffi_panic e | Some q \<Rightarrow> ffi_return (g q)) p))"
  using assms by (auto simp: ffi_return_def ffi_panic_def coin_host.kept intro!: good_app split: option.split)

lemma good_install:
  assumes "good cr ser p"
  shows "good cr ser (snd (ffi_install_app env bundle listing sideload downgrade p))"
    "good cr ser (snd (ffi_install_official_bundle env i p))"
  using assms unfolding ffi_install_app_def ffi_install_official_bundle_def Let_def
  by (auto simp: ffi_return_def intro!: good_access good_store split: option.split sum.split)

lemma good_revocation:
  assumes "good cr ser p"
  shows "good cr ser (snd (ffi_publish_revocation env i reason p))"
  unfolding ffi_publish_revocation_def
proof (rule good_access(3) [OF assms])
  fix n
  assume n: "node_good cr ser n"
  show "good cr ser (snd (ffi_bind (expect_vault ''load identity keypair for revocation''
        (load_or_create_keypair (fe_vault env) (fn_db_path n) (fn_coin_identity_path n) None)) (\<lambda>kp.
     ffi_bind (expect_ok ''build revocation gossip''
        (rg_new_signed (ap_crypto (fe_app env)) (ap_now (fe_app env)) i reason (fn_local_peer_id n) kp)) (\<lambda>entry p.
     let (r, a) = publish_app_revocation (fe_app env) entry (fn_app n); p = ffi_put (n\<lparr>fn_app := a\<rparr>) p in
     case r of Inl e \<Rightarrow> (Panicked (''publish revocation gossip: '' @ e), p) | Inr _ \<Rightarrow> (Returned (), p))) p))"
    using n by (intro good_bind good_expect assms)
      (auto simp: Let_def case_prod_unfold coin_host.kept split: sum.split)
qed

lemma good_values:
  assumes "good cr ser p"
  shows "good cr ser (snd (ffi_storage_set env i key v p))" "good cr ser (snd (ffi_storage_delete i key p))"
    "good cr ser (snd (ffi_uninstall_app i p))" "good cr ser (snd (ffi_bridge_call env i meth args p))"
proof -
  show "good cr ser (snd (ffi_storage_set env i key v p))"
    unfolding ffi_storage_set_def using assms
    by (intro good_access) (auto simp: Let_def case_prod_unfold split: sum.split)
  show "good cr ser (snd (ffi_storage_delete i key p))"
    unfolding ffi_storage_delete_def using assms by (intro good_access) (auto simp: on_storage_def intro: good_app)
  show "good cr ser (snd (ffi_uninstall_app i p))"
    unfolding ffi_uninstall_app_def Let_def using assms
    by (intro good_bind good_access good_app) (auto simp: ffi_revoke_bridge_session_def on_storage_def)
  show "good cr ser (snd (ffi_bridge_call env i meth args p))"
    unfolding ffi_bridge_call_def using assms
    by (intro good_access) (auto simp: Let_def case_prod_unfold good_bridge_call)
qed

lemma good_call:
  assumes "env_good cr ser env" "good cr ser p"
  shows "good cr ser (snd (ffi_call env c p))"
  using assms(2)
  by (cases c; simp add: snd_ended good_init [OF assms] good_coin_calls [OF assms] good_install good_revocation good_values;
      (unfold ffi_defs ffi_mark_mail_read_def stop_node_def set_event_callback_def ffi_issue_bridge_session_def
        ffi_revoke_bridge_session_def Let_def)?;
      (rule good_access | simp)?;
      auto simp: ffi_return_def coin_host.kept case_prod_unfold good_bodies intro!: good_app good_app_total good_store good_access
        split: option.split sum.split)

lemma good_emit [simp]: "good cr ser (emit ev p) = good cr ser p"
  by (simp add: good_def emit_def)

lemma good_connectivity:
  assumes "env_good cr ser env" "good cr ser p"
  shows "good cr ser (connectivity_started env p)"
proof -
  have "ledger_reach cr ser (ledger (refresh_wallet (ffi_coin_env env dir vs) uuid path cfg c))"
    if "ledger_reach cr ser (ledger c)" for dir vs uuid path cfg c
    using that assms(1) reach_enforce_cap [of "ffi_coin_env env dir vs"] reach_maybe_refill [of "ffi_coin_env env dir vs" c]
    by (simp add: refresh_wallet_def ffi_coin_env_def env_good_def)
  then show ?thesis
    using assms(2) by (auto simp: connectivity_started_def Let_def good_def [of cr ser p] intro!: good_with_coin split: option.split)
qed

lemma good_exec:
  assumes "env_good cr ser env" "good cr ser p"
  shows "good cr ser (ffi_exec env st p)"
proof (cases st)
  case (FfiStep c)
  then show ?thesis
    using good_call [OF assms] by simp
next
  case (FfiMessage msg)
  have "good cr ser (fold emit evs p') = good cr ser p'" for evs p'
    by (induction evs arbitrary: p') (simp_all add: emit_def)
  moreover have "node_good cr ser (n\<lparr>fn_app := dispatch_incoming app msg (fn_app n)\<rparr>)"
    if "node_good cr ser n" "ap_coin app = ffi_coin_env env dir vs" for n app dir vs
  proof -
    have "ledger_reach cr ser (ledger (snd (coin_handle_incoming (ap_coin app) pl q c)))" if "ledger_reach cr ser (ledger c)" for pl q c
      using that assms(1) reach_handle_incoming [of "ap_coin app" c] \<open>ap_coin app = _\<close> by (simp add: ffi_coin_env_def env_good_def)
    then have "node_good cr ser (n\<lparr>fn_app := dispatch_coin app q inner (fn_app n)\<rparr>)" for q inner
      using \<open>node_good cr ser n\<close> by (auto simp: dispatch_coin_def node_good_def split: option.split sum.split)
    then show ?thesis
      using coin_view.incoming [of app msg "fn_app n"] \<open>node_good cr ser n\<close> by (metis node_good_fields(5))
  qed
  ultimately show ?thesis
    using assms(2) FfiMessage by (auto simp: ffi_incoming_def Let_def good_def [of cr ser p] split: option.split)
qed (use assms in \<open>auto simp: good_connectivity connectivity_changed_def\<close>)

lemma good_run: "\<forall>(env, st)\<in>set steps. env_good cr ser env \<Longrightarrow> good cr ser p \<Longrightarrow> good cr ser (ffi_run steps p)"
  by (induction steps arbitrary: p) (auto simp: good_exec)


section \<open>Payments of a node with a storage key\<close>

text \<open>A payment costs a node its identity.  When the identity on the disk is sealed under a storage key, a payment through the
  interface never happens: the coin node loads the identity without that key.  The caller sees no error and the node is as before.  If the
  keyring gives a master key, the identity and the encryption key on the disk are gone after the call, and the identity that
  takes their place does not open under the storage key.\<close>

theorem keyed_payment_loses_identity:
  fixes p env
  defines "ve \<equiv> fe_vault env" and "vs \<equiv> fp_vault p"
  assumes run: "fp_runtime p" "\<not> fp_node_poisoned p" "fp_node p = Some n" "an_coin (fn_app n) = Some c"
    and ok: "vault_env_ok ve" "key_binding (ve_sealing ve)"
    and key: "foreign_to ve (fn_db_path n) k vs"
      "\<And>s. s \<in> {''enc_x25519'', ''enc_keypair'', ''ed25519_identity''} \<Longrightarrow> only_under (ve_sealing ve) k (fn_db_path n) vs s"
      "vs_legacy_identity vs (fn_coin_identity_path n) = None"
    and seals: "\<And>m x y. fst (resolve_master_key ve (fn_db_path n) None vs) = Ok m \<Longrightarrow> is_ok (aead_seal (ve_sealing ve) m x y)"
    and new: "ve_ed25519_secret ve (ve_new_identity ve) = Ok s'"
      "address_from_keypair (ce_crypto (ap_coin (fe_app env))) (ve_new_identity ve) \<noteq> local_address c"
    and valid: "validate_address (ap_crypto (fe_app env)) to"
  shows "\<exists>p'. ffi_send_transaction env to amount memo p = (Returned (), p') \<and> fp_node p' = Some n \<and>
    (is_ok (fst (resolve_master_key ve (fn_db_path n) None vs)) \<longrightarrow>
      (\<exists>blob. vs_files (fp_vault p') (secret_path (vault_at (fn_db_path n) k) ''ed25519_identity'') = Some blob \<and>
         \<not> is_ok (vault_decrypt (ve_sealing ve) k blob) \<and>
         vs_files (fp_vault p') (secret_path (vault_at (fn_db_path n) k) ''enc_x25519'') = None))"
proof -
  let ?load = "load_or_create_keypair ve (fn_db_path n) (fn_coin_identity_path n) None vs"
  have lost: "\<exists>vs1 blob. ?load = (Ok (ve_new_identity ve), vs1) \<and>
      vs_files vs1 (secret_path (vault_at (fn_db_path n) k) ''ed25519_identity'') = Some blob \<and>
      \<not> is_ok (vault_decrypt (ve_sealing ve) k blob) \<and>
      vs_files vs1 (secret_path (vault_at (fn_db_path n) k) ''enc_x25519'') = None"
    if "resolve_master_key ve (fn_db_path n) None vs = (Ok m, vs0)" for m vs0
    by (rule foreign_key_replaces_identity [OF ok seals that key(1) _ key(2,3) new(1)]) (auto simp: that secret_path_at)
  have "fst ?load = Ok (ve_new_identity ve) \<or> (\<exists>e. fst ?load = Err e)"
    using lost load_without_master [of ve "fn_db_path n" None vs _ _ "fn_coin_identity_path n"]
    by (cases "resolve_master_key ve (fn_db_path n) None vs"; cases "fst (resolve_master_key ve (fn_db_path n) None vs)") fastforce+
  then have "snd (submit_transfer_from_identity_path (ffi_coin_env env (fn_db_path n) vs) (fn_coin_identity_path n) to amount 1000 memo c) = c"
    using new(2) by (auto simp: submit_transfer_from_identity_path_def ffi_coin_env_def ve_def)
  then have "ffi_send_transaction env to amount memo p = (Returned (), p\<lparr>fp_vault := snd ?load, fp_node := Some n\<rparr>)"
    using run valid
    by (simp add: ffi_send_transaction_def block_on_def ffi_bind_def state_arc_def ffi_runtime_def Let_def with_coin_def app_total_def
        ffi_put_def ve_def vs_def case_prod_unfold)
  then show ?thesis
    using lost by (cases "resolve_master_key ve (fn_db_path n) None vs"; cases "fst (resolve_master_key ve (fn_db_path n) None vs)") fastforce+
qed

section \<open>A concrete process\<close>

definition demo_ffi_env :: ffi_env where
  "demo_ffi_env =
     \<lparr>fe_bridge = demo_bridge_env 1000, fe_vault = demo_volatile_env 1 [1],
      fe_runner = node_new (with_defaults ''d'') ''me'' (Some [1]) [2] \<lparr>relay_keypair = [3], relay_created_at = 0\<rparr> [] (\<lambda>_. None),
      fe_instant = 0, fe_mode = MeshOnly, fe_runtime_new = Ok (), fe_parse_addr = \<lambda>_. True, fe_bootstrap_var = None, fe_transport_new = \<lambda>_ _. Ok (),
      fe_message_db = \<lambda>_. Ok [], fe_relay_identity = \<lparr>relay_keypair = [3], relay_created_at = 0\<rparr>, fe_files = \<lambda>_. None,
      fe_open_storage = \<lambda>_. Ok empty_storage, fe_open_store = \<lambda>_. Ok demo_installed, fe_open_ledger = \<lambda>_. Ok ledger_open,
      fe_official = [], fe_parse_uuid = \<lambda>_. None, fe_url_decode = Ok\<rparr>"

definition demo_config :: FfiConfig where
  "demo_config = \<lparr>fc_db_path = ''d'', fc_listen_addr = ''/ip4/0.0.0.0/tcp/0'', fc_display_name = ''Me'', fc_bootstrap_peers = [],
     fc_storage_key_hex = None, fc_rendezvous_enabled = True, fc_bulletin_subscriptions = []\<rparr>"

lemmas vault_eval = load_or_create_keypair_def load_or_create_enc_keypair_def open_with_migration_def vault_open_def resolve_master_key_def
  load_master_from_keyring_def migrate_secret_def read_or_discard_def read_secret_def write_secret_def vault_encrypt_def
  vault_decrypt_def alternate_master_keys_def delete_secret_def

lemma demo_started:
  "\<exists>p n. ffi_call demo_ffi_env (InitNode demo_config) (process_start demo_disk) = (True, p) \<and> fp_runtime p \<and> \<not> fp_node_poisoned p \<and>
     fp_node p = Some n \<and> an_coin (fn_app n) = Some (coin_node_new ledger_open alice (fn_local_peer_id n) ''d/identity'')"
  by (simp add: init_node_def Let_def ffi_bind_def init_runtime_def expect_ok_def expect_vault_def parse_storage_key_def
      process_start_def demo_config_def demo_ffi_env_def demo_disk_def runner_new_def node_config_def identity_path_def vault_eval
      demo_volatile_env_def demo_vault_env_def secret_path_def path_join_def IDENTITY_SECRET_def ENC_SECRET_def hex_sealing_def
      publish_state_def app_node_new_def enc_from_secret_bytes_def legacy_enc_path_def NONCE_LEN_def
      keypair_from_ed25519_secret_def from_secret_bytes_def node_new_def fe_app_def demo_bridge_env_def demo_app_env_def)

lemma env_good_demo: "env_good demo_crypto demo_ser demo_ffi_env"
  using reach_init [of beta_defaults demo_crypto demo_ser]
  by (simp add: env_good_def demo_ffi_env_def fe_app_def demo_bridge_env_def demo_app_env_def Coin_Props.demo_env_def
      set_policy_def ledger_open_def)

lemma demo_faucet:
  "balance_muon (account_state (ledger (snd (request_faucet_coins (coin_node_new ledger_open alice peer path)))) alice) = 10000000"
  by (simp add: request_faucet_coins_def ledger_open_def genesis_credit_def coin_node_new_def update_account_def demo_simps)


text \<open>A process whose node was started with the storage key of 32 fours.\<close>

definition keyed_disk :: vault_state where
  "keyed_disk = demo_disk\<lparr>vs_files := \<lambda>path.
     if path = ''d/.secrets/ed25519_identity.enc'' then Some (replicate 12 5 @ [1] @ replicate 16 4) else None\<rparr>"

definition keyed_node :: FfiNode where
  "keyed_node =
     \<lparr>fn_app = app_node_new ''me'' ''Me'' empty_storage (Some (coin_node_new ledger_open bob ''me'' ''d/identity'')) None (from_secret_bytes hex_sealing [1]),
      fn_db_path = ''d'', fn_coin_identity_path = ''d/identity'', fn_cap_mac_key = [], fn_local_peer_id = ''me'', fn_display_name = ''Me'',
      fn_hot_wallet = hot_wallet_default, fn_connectivity_mode = MeshOnly\<rparr>"

definition keyed_process :: ffi_process where
  "keyed_process = (process_start keyed_disk)\<lparr>fp_runtime := True, fp_node := Some keyed_node\<rparr>"

lemma keyed_sealed: "sealed_under hex_sealing (replicate 32 4) (replicate 12 5 @ [1] @ replicate 16 4)"
  unfolding sealed_under_def
  by (rule exI [of _ "replicate 12 5"], rule exI [of _ "[1]"]) (simp add: vault_encrypt_def hex_sealing_def NONCE_LEN_def)

lemma keyed_demo:
  "fe_vault demo_ffi_env = demo_volatile_env 1 [1]" "vault_env_ok (demo_volatile_env 1 [1])" "ve_sealing (demo_volatile_env 1 [1]) = hex_sealing"
  "foreign_to (demo_volatile_env 1 [1]) ''d'' (replicate 32 4) keyed_disk"
  "only_under hex_sealing (replicate 32 4) ''d'' keyed_disk s"
  "resolve_master_key (demo_volatile_env 1 [1]) ''d'' None keyed_disk = (Ok (replicate 32 10), keyed_disk\<lparr>vs_draws := 1\<rparr>)"
proof -
  show "fe_vault demo_ffi_env = demo_volatile_env 1 [1]" "ve_sealing (demo_volatile_env 1 [1]) = hex_sealing"
    by (simp_all add: demo_ffi_env_def demo_volatile_env_def)
  show "vault_env_ok (demo_volatile_env 1 [1])"
    by (simp add: vault_env_ok_def demo_volatile_env_def demo_vault_env_def NONCE_LEN_def)
  show "only_under hex_sealing (replicate 32 4) ''d'' keyed_disk s"
    using keyed_sealed by (simp add: only_under_def keyed_disk_def)
  show "foreign_to (demo_volatile_env 1 [1]) ''d'' (replicate 32 4) keyed_disk"
    by (simp add: foreign_to_def demo_volatile_env_def demo_vault_env_def keyed_disk_def demo_disk_def legacy_derive_fallback_master_def
        read_file_fallback_key_if_exists_def hex_sealing_def demo_hex_trimmed replicate_eq_replicate fallback_key_path_def path_join_def)
      (simp add: demo_sealing_def bytes_of_def singleton_short)
  show "resolve_master_key (demo_volatile_env 1 [1]) ''d'' None keyed_disk = (Ok (replicate 32 10), keyed_disk\<lparr>vs_draws := 1\<rparr>)"
    by (simp add: resolve_master_key_def load_master_from_keyring_def demo_volatile_env_def demo_vault_env_def keyed_disk_def demo_disk_def Let_def)
qed

theorem keyed_payment_loses_identity_witness:
  "\<exists>p' blob. ffi_send_transaction demo_ffi_env alice 5 None keyed_process = (Returned (), p') \<and> fp_node p' = Some keyed_node \<and>
     vs_files (fp_vault p') ''d/.secrets/ed25519_identity.enc'' = Some blob \<and> \<not> is_ok (vault_decrypt hex_sealing (replicate 32 4) blob)"
proof -
  have node: "fp_runtime keyed_process" "\<not> fp_node_poisoned keyed_process" "fp_node keyed_process = Some keyed_node" "fp_vault keyed_process = keyed_disk"
    "an_coin (fn_app keyed_node) = Some (coin_node_new ledger_open bob ''me'' ''d/identity'')" "fn_db_path keyed_node = ''d''"
    "fn_coin_identity_path keyed_node = ''d/identity''"
    by (simp_all add: keyed_process_def keyed_node_def process_start_def app_node_new_def)
  have cr: "ce_crypto (ap_coin (fe_app demo_ffi_env)) = demo_crypto" "ap_crypto (fe_app demo_ffi_env) = demo_crypto"
    by (simp_all add: fe_app_def demo_ffi_env_def demo_bridge_env_def demo_app_env_def Coin_Props.demo_env_def)
  note main = keyed_payment_loses_identity [of keyed_process keyed_node _ demo_ffi_env "replicate 32 4" _ alice 5 None, OF node(1-3,5),
      unfolded keyed_demo(1,3) node(4,6,7) cr keyed_demo(6) secret_path_at, OF keyed_demo(2) key_binding_hex keyed_demo(4,5)]
  have "vs_legacy_identity keyed_disk ''d/identity'' = None" "ve_ed25519_secret (demo_volatile_env 1 [1]) (ve_new_identity (demo_volatile_env 1 [1])) = Ok [1]"
    by (simp_all add: keyed_disk_def demo_disk_def demo_volatile_env_def demo_vault_env_def)
  moreover have "fst (Ok (replicate 32 10) :: bytes result, w) = Ok m \<Longrightarrow> is_ok (aead_seal hex_sealing m x y)" for m x y and w :: vault_state
    by (auto simp: hex_sealing_def)
  moreover have "address_from_keypair demo_crypto (ve_new_identity (demo_volatile_env 1 [1])) \<noteq> local_address (coin_node_new ledger_open bob ''me'' ''d/identity'')"
    "validate_address demo_crypto alice"
    by (simp_all add: demo_volatile_env_def coin_node_new_def demo_simps)
  ultimately show ?thesis
    using main by (simp add: path_join_def) blast
qed

section \<open>Uninstalling\<close>

lemma cleared_values:
  "tree_get (as_miniapp (miniapp_clear_all_for_app i s)) k = (if starts_with k (''app:'' @ i @ '':'') then None else tree_get (as_miniapp s) k)"
proof -
  have del: "tree_get (foldl (\<lambda>t k. tree_del k t) t ks) k = (if k \<in> set ks then None else tree_get t k)" for t ks
    by (induction ks arbitrary: t) (auto simp: tree_get_del)
  have "tree_get t k = None" if "k \<notin> fst ` set t" for t :: "(string, bytes) tree"
    using that by (induction t) auto
  then show ?thesis
    by (auto simp: miniapp_clear_all_for_app_def Let_def del tree_iter_def)
qed

text \<open>C32. After \<open>uninstall_app\<close> nothing of the app is left to work with: no manifest, no file, no session, no stored value; the
  interface reads nothing back for it, its bridge calls are all refused until it gets a new session, and the
  values of the other apps are as before.\<close>

theorem uninstalled_app_is_gone:
  assumes "fp_runtime p" "\<not> fp_node_poisoned p" "fp_node p = Some n" "ffi_uninstall_app i p = (r, p')"
  shows "\<exists>n'. r = Returned () \<and> fp_node p' = Some n' \<and> get_manifest (node_store n') i = None \<and> fp_sessions p' i = None \<and>
    ffi_get_app_file i path p' = (Returned None, p') \<and> ffi_storage_get env i key p' = (Returned None, p') \<and>
    \<not> is_ok (fst (miniapp_bridge_call benv mac i meth args (as_bridge p' n'))) \<and>
    (\<forall>k. \<not> starts_with k (''app:'' @ i @ '':'') \<longrightarrow>
       tree_get (as_miniapp (an_storage (fn_app n'))) k = tree_get (as_miniapp (an_storage (fn_app n))) k)"
proof -
  define n' where "n' = (let m = put_store (uninstall i (node_store n)) n in m\<lparr>fn_app := on_storage (miniapp_clear_all_for_app i) (fn_app m)\<rparr>)"
  have p': "r = Returned ()" "p' = p\<lparr>fp_sessions := (fp_sessions p)(i := None), fp_node := Some n'\<rparr>"
    using assms by (simp_all add: ffi_uninstall_app_def ffi_bind_def ffi_revoke_bridge_session_def with_state_def ffi_runtime_def
        state_arc_def Let_def app_do_def app_total_def ffi_put_def n'_def)
  have st: "node_store n' = uninstall i (node_store n)"
    by (simp add: n'_def Let_def node_store_def put_store_def on_storage_def host_store_def)
  have gone: "get_manifest (node_store n') i = None" "get_file (node_store n') i path = None"
    by (simp_all add: st uninstall_def get_manifest_def get_file_def tree_get_del)
  have kept: "tree_get (as_miniapp (an_storage (fn_app n'))) k =
      (if starts_with k (''app:'' @ i @ '':'') then None else tree_get (as_miniapp (an_storage (fn_app n))) k)" for k
    by (simp add: n'_def Let_def put_store_def on_storage_def cleared_values)
  have "starts_with (storage_key_of i key) (''app:'' @ i @ '':'')"
    by (simp add: storage_key_of_def starts_with_def)
  then have "miniapp_get sl (an_storage (fn_app n')) (storage_key_of i key) = Ok None" for sl
    by (simp add: miniapp_get_def kept)
  moreover have "\<not> authorised benv h meth args (as_bridge p' n')" if "bh_app_id h = i" for h
    using that by (simp add: authorised_def session_valid_def as_bridge_def p'(2) split: option.split)
  ultimately show ?thesis
    using assms(1,2) p' gone kept bridge_handle_refused
    by (intro exI [of _ n']) (simp add: ffi_get_app_file_def ffi_storage_get_def with_state_def ffi_bind_def ffi_runtime_def state_arc_def
        ffi_return_def miniapp_bridge_call_def Let_def)
qed

theorem uninstalled_app_is_gone_witness:
  "\<exists>p n'. ffi_call demo_ffi_env (InitNode demo_config) (process_start demo_disk) = (True, p) \<and>
     fp_node (snd (ffi_uninstall_app ''a.b'' p)) = Some n' \<and> get_manifest (node_store n') ''a.b'' = None \<and>
     ffi_storage_get demo_ffi_env ''a.b'' ''k'' (snd (ffi_uninstall_app ''a.b'' p)) = (Returned None, snd (ffi_uninstall_app ''a.b'' p))"
proof -
  obtain p n where p: "ffi_call demo_ffi_env (InitNode demo_config) (process_start demo_disk) = (True, p)" "fp_runtime p" "\<not> fp_node_poisoned p"
      "fp_node p = Some n"
    using demo_started by blast
  obtain r p' where "ffi_uninstall_app ''a.b'' p = (r, p')"
    by fastforce
  with uninstalled_app_is_gone [OF p(2-4) this, of "[]" demo_ffi_env "''k''" "demo_bridge_env 1000" "[]" "[]" JNull] p(1) show ?thesis
    by auto
qed

end
