(* ===== verification/Desktop_Props.thy ===== *)
theory Desktop_Props
  imports Desktop_Commands Ffi_Props
begin

text \<open>
  Properties of the desktop host: the node it runs stays the same node with a sound ledger over any run of its commands, a setting
  outlives a restart, what a reset of the local data and a wipe leave behind, and what is left of a mini-app after it was
  uninstalled.
\<close>

section \<open>Steps of a running node\<close>

text \<open>Nothing but the start and the wipe exchanges the node: its identifier, its directory, the path of its identity and the
  key of its capability tokens stay, no other runner is spawned, and its coin node takes steps that keep the ledger sound.\<close>

definition coin_step :: "crypto \<Rightarrow> serializer \<Rightarrow> AppNode \<Rightarrow> AppNode \<Rightarrow> bool" where
  "coin_step cr ser a a' \<longleftrightarrow>
     own a' = own a \<or>
     (\<exists>c c'. own a = (Some c, snd (own a)) \<and> own a' = (Some c', snd (own a)) \<and>
        (ledger_reach cr ser (ledger c) \<longrightarrow> ledger_reach cr ser (ledger c')))"

definition same_node :: "crypto \<Rightarrow> serializer \<Rightarrow> AppState \<Rightarrow> AppState \<Rightarrow> bool" where
  "same_node cr ser s s' \<longleftrightarrow>
     ds_local_peer_id s' = ds_local_peer_id s \<and> ds_db_path s' = ds_db_path s \<and>
     ds_coin_identity_path s' = ds_coin_identity_path s \<and> ds_cap_mac_key s' = ds_cap_mac_key s \<and>
     coin_step cr ser (ds_app s) (ds_app s')"

definition node_step :: "crypto \<Rightarrow> serializer \<Rightarrow> desktop \<Rightarrow> desktop \<Rightarrow> bool" where
  "node_step cr ser p p' \<longleftrightarrow>
     dt_spawned p' = dt_spawned p \<and>
     (case dt_state p of
        None \<Rightarrow> dt_state p' = None
      | Some s \<Rightarrow> (case dt_state p' of None \<Rightarrow> False | Some s' \<Rightarrow> same_node cr ser s s'))"

lemma coin_step_refl: "own a' = own a \<Longrightarrow> coin_step cr ser a a'"
  by (simp add: coin_step_def)

lemma same_node_refl: "same_node cr ser s s"
  by (simp add: same_node_def coin_step_refl)

lemma coin_step_trans: "coin_step cr ser a b \<Longrightarrow> coin_step cr ser b c \<Longrightarrow> coin_step cr ser a c"
  by (auto simp: coin_step_def)

lemma same_node_trans: "same_node cr ser s t \<Longrightarrow> same_node cr ser t u \<Longrightarrow> same_node cr ser s u"
  by (auto simp: same_node_def dest: coin_step_trans)

lemma node_step_refl [simp]: "node_step cr ser p p"
  by (simp add: node_step_def same_node_refl split: option.split)

lemma node_step_trans: "node_step cr ser p q \<Longrightarrow> node_step cr ser q r \<Longrightarrow> node_step cr ser p r"
  by (auto simp: node_step_def split: option.splits dest: same_node_trans)

lemma node_step_fields [simp]:
  "node_step cr ser p (q\<lparr>dt_events := ev\<rparr>) = node_step cr ser p q" "node_step cr ser p (q\<lparr>dt_sessions := ss\<rparr>) = node_step cr ser p q"
  "node_step cr ser p (q\<lparr>dt_calls := ca\<rparr>) = node_step cr ser p q" "node_step cr ser p (q\<lparr>dt_broadcasts := br\<rparr>) = node_step cr ser p q"
  "node_step cr ser p (q\<lparr>dt_vault := vs\<rparr>) = node_step cr ser p q" "node_step cr ser p (q\<lparr>dt_files := fs\<rparr>) = node_step cr ser p q"
  "node_step cr ser p (emit_to name v q) = node_step cr ser p q" "node_step cr ser p (without_files gone q) = node_step cr ser p q"
  by (cases "dt_state p"; simp add: node_step_def emit_to_def without_files_def)+

lemma node_step_put:
  "dt_state p = Some s \<Longrightarrow> dt_spawned q = dt_spawned p \<Longrightarrow> coin_step cr ser (ds_app s) a \<Longrightarrow> node_step cr ser p (put_app s a q)"
  by (simp add: node_step_def put_app_def same_node_def)

lemma step_started: "(\<And>s. dt_state p = Some s \<Longrightarrow> node_step cr ser p (snd (f s p))) \<Longrightarrow> node_step cr ser p (snd (started f p))"
  by (simp add: started_def split: option.split)

lemma step_and_then:
  "node_step cr ser p (snd r) \<Longrightarrow> (\<And>x q. node_step cr ser p q \<Longrightarrow> r = (Ok x, q) \<Longrightarrow> node_step cr ser p (snd (f x q))) \<Longrightarrow>
   node_step cr ser p (snd (and_then r f))"
  by (cases r; cases "fst r") auto

lemma step_app_run:
  "dt_state p = Some s \<Longrightarrow> own (snd (f (ds_app s))) = own (ds_app s) \<Longrightarrow> node_step cr ser p (snd (app_run f s p))"
  by (simp add: app_run_def Let_def case_prod_unfold node_step_put coin_step_refl)

lemma step_app_set: "dt_state p = Some s \<Longrightarrow> own (f (ds_app s)) = own (ds_app s) \<Longrightarrow> node_step cr ser p (snd (app_set f s p))"
  by (simp add: app_set_def step_app_run)

lemma step_store_run: "dt_state p = Some s \<Longrightarrow> node_step cr ser p (snd (store_run f s p))"
  by (simp add: store_run_def Let_def case_prod_unfold node_step_put coin_step_refl own_host.app_store)

lemma step_vault_run: "node_step cr ser p (snd (vault_run f p))"
  by (simp add: vault_run_def Let_def case_prod_unfold)

lemmas step_rules = step_started step_app_run step_app_set step_store_run step_vault_run step_and_then

text \<open>Commands that run an operation of the application.\<close>

lemma snd_and_then_const [simp]: "snd (and_then r (\<lambda>_ a. (Ok k, a))) = snd r"
  by (cases r; cases "fst r") auto

lemma step_add_peer: "node_step cr ser p (snd (add_peer env addr p))"
  by (auto simp: add_peer_def own_host.kept intro!: step_rules)

lemma step_app_commands:
  "node_step cr ser p (snd (desk_add_contact env peer shown acc p))" "node_step cr ser p (snd (desk_accept_contact env peer p))"
  "node_step cr ser p (snd (desk_reject_contact peer p))" "node_step cr ser p (snd (desk_send_chat env to text p))"
  "node_step cr ser p (snd (desk_send_chat_encrypted env to text p))" "node_step cr ser p (snd (desk_send_mail env to subject text p))"
  "node_step cr ser p (snd (desk_post_bulletin env scope title text ttl p))" "node_step cr ser p (snd (desk_create_group env name p))"
  "node_step cr ser p (snd (desk_delete_group gid p))" "node_step cr ser p (snd (desk_set_display_name name p))"
  by (auto simp: desk_add_contact_def desk_accept_contact_def desk_reject_contact_def contacts_updated_def desk_send_chat_def
      desk_send_chat_encrypted_def desk_send_mail_def desk_post_bulletin_def desk_create_group_def desk_delete_group_def
      desk_set_display_name_def Let_def case_prod_unfold own_host.kept intro!: step_rules)

lemma step_group_commands:
  "node_step cr ser p (snd (desk_import_group_invite env text p))" "node_step cr ser p (snd (desk_send_group_message env gid text p))"
  by (auto simp: desk_import_group_invite_def desk_send_group_message_def own_host.kept intro!: step_rules split: sum.split option.split)

lemma step_connect: "node_step cr ser p (snd (connect_peer_id env text p))"
proof -
  have "node_step cr ser p (snd (and_then
      (started (app_run (\<lambda>a. let (c, a) = add_contact (de_app env) peer (take_chars 16 peer) True a in (Ok c, a))) p)
      (\<lambda>_ p. and_then (ok_or ''invalid peer id'' (relay_circuit_multiaddr peer), p) (\<lambda>addr p. add_peer env addr p))))" for peer
    by (rule step_and_then)
      (auto simp: Let_def case_prod_unfold own_host.kept intro!: step_started step_app_run step_and_then node_step_trans [OF _ step_add_peer])
  then show ?thesis
    by (simp add: connect_peer_id_def step_add_peer split: option.split InviteTarget.split)
qed

lemma step_store_commands:
  "node_step cr ser p (snd (miniapp_uninstall i p))" "node_step cr ser p (snd (miniapp_set_safe_mode i enabled p))"
  "node_step cr ser p (snd (miniapp_report_app env i p))" "node_step cr ser p (snd (miniapp_revoke_bridge_session i p))"
  by (auto simp: miniapp_uninstall_def miniapp_set_safe_mode_def miniapp_report_app_def miniapp_revoke_bridge_session_def
      intro!: step_rules)

lemma step_entry_html: "node_step cr ser p (snd (miniapp_get_entry_html env i nonce p))"
  unfolding miniapp_get_entry_html_def by (rule step_started) (auto simp: Let_def intro!: step_and_then)

lemma step_bridge_call: "node_step cr ser p (snd (desk_bridge_call env i meth args p))"
  unfolding desk_bridge_call_def
  by (rule step_started) (simp add: Let_def case_prod_unfold node_step_put coin_step_refl own_host.bridge_call desk_bridge_def)

lemma and_then_pure: "and_then (r, p) f = (case r of Inl e \<Rightarrow> (Err e, p) | Inr x \<Rightarrow> f x p)"
  by (simp add: and_then_def)

lemma step_install: "node_step cr ser p (snd (miniapp_install env text listing sideload downgrade p))"
  unfolding miniapp_install_def Let_def and_then_pure
  by (auto intro!: step_started step_and_then split: sum.split option.split)
    (auto intro!: step_store_run split: sum.splits option.splits if_splits)

lemma step_set_rendezvous: "node_step cr ser p (snd (set_rendezvous_enabled env enabled p))"
  unfolding set_rendezvous_enabled_def
  by (rule step_started, rule step_and_then, simp add: step_app_run own_host.kept, rule node_step_trans, assumption, rule step_started)
    (auto simp: Let_def save_ui_settings_def node_step_def same_node_def coin_step_refl split: sum.split)

lemma step_set_energy: "node_step cr ser p (snd (desk_set_energy_state env text p))"
  unfolding desk_set_energy_state_def and_then_pure
  by (auto intro!: step_started step_and_then step_app_run split: sum.split simp: own_host.kept)
    (erule node_step_trans, rule step_started, simp add: node_step_def same_node_def coin_step_refl)

lemma step_set_bootstrap: "node_step cr ser p (snd (set_custom_bootstrap_peers env addrs p))"
  unfolding set_custom_bootstrap_peers_def Let_def
  by (rule step_started) (simp add: app_set_def app_run_def node_step_put coin_step_refl own_host.sends)

lemma step_publish: "node_step cr ser p (snd (miniapp_publish_revocation env i reason p))"
  unfolding miniapp_publish_revocation_def
proof (rule step_started, rule step_and_then, rule step_vault_run)
  fix s kp q
  assume s: "dt_state p = Some s" and q: "node_step cr ser p q"
    "vault_run (load_or_create_keypair (fe_vault (de_host env)) (ds_db_path s) (ds_coin_identity_path s) None) p = (Ok kp, q)"
  have "dt_state q = Some s"
    using q(2) s by (auto simp: vault_run_def Let_def case_prod_unfold)
  then have "node_step cr ser q (snd (app_run (publish_app_revocation (de_app env) entry) s q))" for entry
    by (simp add: step_app_run own_host.kept)
  then show "node_step cr ser p (snd (and_then (rg_new_signed (ap_crypto (de_app env)) (de_now env) i reason (ds_local_peer_id s) kp, q)
      (\<lambda>entry. app_run (publish_app_revocation (de_app env) entry) s)))"
    using q(1) by (auto simp: and_then_pure split: sum.split intro: node_step_trans)
qed

section \<open>Steps of the coin node\<close>

text \<open>Surroundings with the same packages, whose disk holds a sound ledger.\<close>

definition desk_env_good :: "crypto \<Rightarrow> serializer \<Rightarrow> sealing \<Rightarrow> desktop_env \<Rightarrow> bool" where
  "desk_env_good cr ser sl env \<longleftrightarrow>
     ce_crypto (ap_coin (de_app env)) = cr \<and> ce_ser (ap_coin (de_app env)) = ser \<and> ap_sealing (de_app env) = sl \<and>
     (\<forall>path L. fe_open_ledger (de_host env) path = Ok L \<longrightarrow> ledger_reach cr ser L)"

lemma step_wallet_send:
  assumes "desk_env_good cr ser sl env"
  shows "node_step cr ser p (snd (wallet_send env to amount fee memo p))"
proof -
  have "ledger_reach cr ser (ledger (snd (submit_transfer_from_identity_path (desktop_coin_env env dir vs) path to amount fee memo c)))"
    if "ledger_reach cr ser (ledger c)" for c dir vs path
    using that assms reach_submit_transfer [of "desktop_coin_env env dir vs" c] by (simp add: desktop_coin_env_def desk_env_good_def)
  then show ?thesis
    unfolding wallet_send_def Let_def
    by (intro step_started) (auto simp: app_run_def case_prod_unfold coin_step_def own_def intro!: node_step_put split: option.split)
qed

lemma step_incoming:
  assumes "desk_env_good cr ser sl env"
  shows "node_step cr ser p (desk_incoming env msg p)"
proof -
  have "coin_step cr ser a (dispatch_incoming app msg a)" if app: "ap_coin app = desktop_coin_env env dir vs" for app dir vs a
  proof -
    have "ledger_reach cr ser (ledger (snd (coin_handle_incoming (ap_coin app) pl q c)))" if "ledger_reach cr ser (ledger c)" for pl q c
      using that assms reach_handle_incoming [of "ap_coin app" c] app by (simp add: desktop_coin_env_def desk_env_good_def)
    then have "coin_step cr ser a (dispatch_coin app q inner a)" for q inner
      by (auto simp: dispatch_coin_def coin_step_def own_def split: option.split sum.split)
    then show ?thesis
      using own_host.incoming [of app msg a] by (metis coin_step_refl)
  qed
  then show ?thesis
    by (auto simp: desk_incoming_def Let_def intro!: node_step_put split: option.split)
qed

section \<open>Runs\<close>

lemma reset_steps: "node_step cr ser p (snd (reset_local_data env chosen p))"
  by (simp add: reset_local_data_def Let_def map_err_st_def remove_dir_def case_prod_unfold split: sum.split option.split)

definition exchanges_node :: "DesktopCall \<Rightarrow> bool" where
  "exchanges_node c \<longleftrightarrow> c = DkWipe \<or> (\<exists>db name boot. c = DkStart db name boot)"

lemma step_exec:
  assumes "desk_env_good cr ser sl env" "\<not> exchanges_node c"
  shows "node_step cr ser p (desk_exec env c p)"
  using assms(2)
  by (cases c) (simp_all add: exchanges_node_def reset_steps step_connect step_add_peer step_app_commands step_group_commands
      step_store_commands step_entry_html step_bridge_call step_install step_set_rendezvous step_set_energy step_set_bootstrap
      step_publish step_wallet_send [OF assms(1)] step_incoming [OF assms(1)] metrics_tick_def Let_def)

lemma desk_run_simps [simp]: "desk_run [] p = p" "desk_run ((env, c) # steps) p = desk_run steps (desk_exec env c p)"
  by (simp_all add: desk_run_def)

text \<open>What holds of a running node.\<close>

definition sound :: "crypto \<Rightarrow> serializer \<Rightarrow> sealing \<Rightarrow> AppState \<Rightarrow> bool" where
  "sound cr ser sl s \<longleftrightarrow>
     (\<exists>c. an_coin (ds_app s) = Some c \<and> ledger_reach cr ser (ledger c)) \<and> an_local_peer_id (ds_app s) = ds_local_peer_id s \<and>
     ds_coin_identity_path s = ds_db_path s @ ''/identity'' \<and> ds_cap_mac_key s = mac_key_from_db_path sl (ds_db_path s)"

lemma sound_same: "same_node cr ser s s' \<Longrightarrow> sound cr ser sl s \<Longrightarrow> sound cr ser sl s'"
  by (auto simp: same_node_def coin_step_def own_def sound_def)

lemma vault_run_state:
  "vault_run f p = (r, q) \<Longrightarrow> dt_state q = dt_state p \<and> dt_spawned q = dt_spawned p \<and> dt_files q = dt_files p"
  by (auto simp: vault_run_def Let_def case_prod_unfold)

text \<open>What \<open>start_node\<close> leaves: it fails and starts nothing, or it has started a sound node.\<close>

lemma start_node_sound:
  assumes "desk_env_good cr ser sl env" "dt_state p = None" "start_node env db name boot p = (r, p')"
  shows "case dt_state p' of
      None \<Rightarrow> \<not> is_ok r
    | Some s \<Rightarrow> r = Ok (ds_local_peer_id s) \<and> sound cr ser sl s \<and> ds_db_path s = db \<and> dt_spawned p' = dt_spawned p + 1 \<and>
        ds_rendezvous_enabled s = ui_rendezvous_enabled (load_ui_settings env (dt_files p) db)"
proof -
  have "ledger_reach cr ser L" if "fe_open_ledger (de_host env) path = Ok L" for path L
    using assms(1) that by (auto simp: desk_env_good_def)
  with assms show ?thesis
    unfolding start_node_def Let_def
    by (auto elim!: and_thenE dest!: vault_run_state simp: sound_def app_node_new_def coin_node_new_def desk_env_good_def)
qed

abbreviation all_good :: "crypto \<Rightarrow> serializer \<Rightarrow> sealing \<Rightarrow> (desktop_env \<times> DesktopCall) list \<Rightarrow> bool" where
  "all_good cr ser sl steps \<equiv> (\<forall>(env, c)\<in>set steps. desk_env_good cr ser sl env)"

lemma sound_exec:
  assumes "desk_env_good cr ser sl env" "\<And>s. dt_state p = Some s \<Longrightarrow> sound cr ser sl s" "dt_state (desk_exec env c p) = Some s'"
  shows "sound cr ser sl s'"
proof (cases "exchanges_node c")
  case False
  then show ?thesis
    using step_exec [OF assms(1), of c p] assms(2,3) by (auto simp: node_step_def split: option.splits dest: sound_same)
next
  case True
  then consider "c = DkWipe" | db name boot where "c = DkStart db name boot"
    by (auto simp: exchanges_node_def)
  then show ?thesis
  proof cases
    case 1
    then show ?thesis
      using assms(3)
      by (auto simp: panic_wipe_def Let_def and_then_def map_err_st_def remove_dir_def without_files_def restart_def desktop_start_def
          split: option.splits sum.splits if_splits)
  next
    case 2
    then show ?thesis
    proof (cases "dt_state p")
      case None
      then show ?thesis
        using start_node_sound [OF assms(1) None prod.collapse [symmetric], of db name boot] assms(3) 2 by simp
    next
      case (Some s)
      then show ?thesis
        using assms(2,3) 2 by (simp add: start_node_def)
    qed
  qed
qed

lemma sound_run:
  assumes "all_good cr ser sl steps" "\<And>s. dt_state p = Some s \<Longrightarrow> sound cr ser sl s" "dt_state (desk_run steps p) = Some s'"
  shows "sound cr ser sl s'"
  using assms
proof (induction steps arbitrary: p)
  case (Cons x steps)
  obtain env c where x: "x = (env, c)" by fastforce
  show ?case
    by (rule Cons.IH [where p = "desk_exec env c p"])
      (use Cons.prems x in \<open>auto intro: sound_exec [where env = env and c = c and p = p]\<close>)
qed simp

lemma same_run:
  assumes "all_good cr ser sl steps" "DkWipe \<notin> snd ` set steps" "dt_state p = Some s"
  shows "node_step cr ser p (desk_run steps p)"
  using assms
proof (induction steps arbitrary: p s)
  case (Cons x steps)
  obtain env c where x: "x = (env, c)" by fastforce
  have "node_step cr ser p (desk_exec env c p)"
  proof (cases "exchanges_node c")
    case True
    then show ?thesis
      using Cons.prems x by (auto simp: exchanges_node_def start_node_def)
  next
    case False
    then show ?thesis
      using Cons.prems(1) x step_exec by auto
  qed
  moreover from this obtain s1 where "dt_state (desk_exec env c p) = Some s1"
    using Cons.prems(3) by (auto simp: node_step_def split: option.splits)
  ultimately show ?case
    using Cons x by (auto intro: node_step_trans)
qed simp

text \<open>C35. The desktop runs one node.  Whatever commands, messages and ticks the process has seen since its start, a running node has a
  coin node whose ledger the ledger operations reach, the identifier the host shows, the identity path and the capability key
  of its directory; and until it is wiped it stays that node, whatever else happens: another \<open>start_node\<close>, on whichever
  directory, answers with its identifier, starts nothing and changes nothing.\<close>

theorem desktop_one_node:
  assumes "all_good cr ser sl (before @ after)" "dt_state (desk_run before (desktop_start vs fs)) = Some s" "DkWipe \<notin> snd ` set after"
  shows "\<exists>s' c. let p' = desk_run (before @ after) (desktop_start vs fs) in
      dt_state p' = Some s' \<and> ds_local_peer_id s' = ds_local_peer_id s \<and> ds_db_path s' = ds_db_path s \<and>
      dt_spawned p' = dt_spawned (desk_run before (desktop_start vs fs)) \<and>
      an_coin (ds_app s') = Some c \<and> ledger_reach cr ser (ledger c) \<and> an_local_peer_id (ds_app s') = ds_local_peer_id s \<and>
      ds_coin_identity_path s' = ds_db_path s @ ''/identity'' \<and> ds_cap_mac_key s' = mac_key_from_db_path sl (ds_db_path s) \<and>
      (\<forall>env db name boot. start_node env db name boot p' = (Ok (ds_local_peer_id s), p'))"
proof -
  let ?p = "desk_run before (desktop_start vs fs)"
  have run: "desk_run (before @ after) (desktop_start vs fs) = desk_run after ?p"
    by (simp add: desk_run_def)
  have step: "node_step cr ser ?p (desk_run after ?p)"
    by (rule same_run [where sl = sl and s = s]) (use assms in auto)
  then obtain s' where s': "dt_state (desk_run after ?p) = Some s'" "same_node cr ser s s'"
    using assms(2) by (auto simp: node_step_def split: option.splits)
  have "sound cr ser sl s"
    by (rule sound_run [OF _ _ assms(2)]) (use assms(1) in \<open>auto simp: desktop_start_def\<close>)
  then have "sound cr ser sl s'"
    using s'(2) by (rule sound_same [rotated])
  with s' step show ?thesis
    unfolding run Let_def sound_def same_node_def node_step_def by (auto simp: start_node_def)
qed

section \<open>Settings\<close>

lemma only_setting [simp]: "ui\<lparr>ui_rendezvous_enabled := b\<rparr> = \<lparr>ui_rendezvous_enabled = b\<rparr>"
  by (cases ui) simp

lemma set_rendezvous_result:
  assumes "dt_state p = Some s" "set_rendezvous_enabled env enabled p = (Ok (), p')"
  shows "dt_files p' = (dt_files p)((ds_db_path s, ''ui_settings.json'') \<mapsto> de_settings_print env \<lparr>ui_rendezvous_enabled = enabled\<rparr>)"
    "\<exists>s'. dt_state p' = Some s' \<and> ds_rendezvous_enabled s' = enabled \<and> ds_db_path s' = ds_db_path s"
  using assms
  by (auto simp: set_rendezvous_enabled_def started_def app_run_def put_app_def Let_def case_prod_unfold save_ui_settings_def
      elim!: and_thenE split: sum.splits)

text \<open>A setting outlives the process: once \<open>set_rendezvous_enabled\<close> has succeeded, the host shows the new value, and a node started
  on the same directory after a restart has it in its configuration and shows it again, as long as the settings file is
  read back as it was printed.\<close>

theorem settings_survive_restart:
  assumes "dt_state p = Some s" "set_rendezvous_enabled env enabled p = (Ok (), p')"
    and "\<And>ui. de_settings_parse env' (de_settings_print env ui) = Some ui" "desk_env_good cr ser sl env'"
    and "start_node env' (ds_db_path s) name boot (restart p') = (Ok peer, q)"
  shows "(\<exists>s'. dt_state p' = Some s' \<and> ds_rendezvous_enabled s' = enabled) \<and>
    (\<exists>s'. dt_state q = Some s' \<and> ds_local_peer_id s' = peer \<and> ds_db_path s' = ds_db_path s \<and> ds_rendezvous_enabled s' = enabled) \<and>
    cfg_rendezvous_enabled (desktop_config (load_ui_settings env' (dt_files (restart p')) (ds_db_path s)) (ds_db_path s) name boot) = enabled"
proof -
  note set = set_rendezvous_result [OF assms(1,2)]
  have load: "load_ui_settings env' (dt_files (restart p')) (ds_db_path s) = \<lparr>ui_rendezvous_enabled = enabled\<rparr>"
    by (simp add: load_ui_settings_def restart_def desktop_start_def set(1) assms(3))
  have "dt_state (restart p') = None"
    by (simp add: restart_def desktop_start_def)
  from start_node_sound [OF assms(4) this assms(5)] load set(2) show ?thesis
    by (auto simp: desktop_config_def is_ok_def split: option.splits)
qed

section \<open>Reset and wipe\<close>

lemma below_join: "below dir (path_join dir name)" "below dir (path_join (path_join dir x) y)"
  "below dir (dir @ ''/identity'')"
  by (simp_all add: below_def path_join_def starts_with_def)

text \<open>A vault whose directory was emptied makes a new identity, whatever key it is opened with.\<close>

lemma emptied_new_identity:
  assumes "\<And>f. below dir f \<Longrightarrow> vs_files vs f = None" "vs_legacy_identity vs path = None"
    and "load_or_create_keypair ve dir path sk vs = (Ok kp, vs1)"
  shows "kp = ve_new_identity ve"
proof -
  obtain m vs0 where m: "resolve_master_key ve dir sk vs = (Ok m, vs0)"
    using assms(3) by (cases "resolve_master_key ve dir sk vs"; cases "fst (resolve_master_key ve dir sk vs)")
      (auto simp: load_or_create_keypair_def open_with_migration_def vault_open_def)
  show ?thesis
    by (rule first_start [OF m refl _ assms(2,3)]) (simp_all add: assms(1) secret_path_def below_join)
qed

lemma emptied:
  assumes "de_dir_exists env dir" "remove_dir env dir p = (Ok (), p')"
  shows "vs_files (dt_vault p') f = (if below dir f then None else vs_files (dt_vault p) f)"
    "vs_legacy_identity (dt_vault p') f = (if below dir f then None else vs_legacy_identity (dt_vault p) f)"
    "vs_keyring (dt_vault p') = vs_keyring (dt_vault p)" "dt_files p' (dir, name) = None" "dt_state p' = dt_state p"
  using assms(2) by (auto simp: remove_dir_def without_files_def below_join split: sum.splits)


text \<open>A wipe of a running node does the same to the files but leaves the master key in the keyring; without a running node it
  deletes nothing.\<close>

lemma wipe_keeps_master:
  assumes "panic_wipe env p = (Ok (), p')"
  shows "vs_keyring (dt_vault p') = vs_keyring (dt_vault p)" "dt_state p' = None"
    "dt_state p = None \<Longrightarrow> dt_vault p' = dt_vault p \<and> dt_files p' = dt_files p"
    "dt_state p = Some s \<Longrightarrow> de_dir_exists env (ds_db_path s) \<Longrightarrow> below (ds_db_path s) f \<Longrightarrow> vs_files (dt_vault p') f = None"
  using assms
  by (auto simp: panic_wipe_def Let_def map_err_st_def remove_dir_def without_files_def restart_def desktop_start_def elim!: and_thenE
      split: option.splits if_splits sum.splits prod.splits)

text \<open>Uninstalling in the desktop removes the manifest and the files only: the session and the stored values of the app stay.\<close>

lemma uninstall_leaves_values:
  assumes "dt_state p = Some s" "miniapp_uninstall i p = (r, p')"
  shows "\<exists>s'. dt_state p' = Some s' \<and> get_manifest (store_of s') i = None \<and> dt_sessions p' = dt_sessions p \<and>
    an_storage (ds_app s') = an_storage (ds_app s)"
proof -
  have "p' = put_app s ((ds_app s)\<lparr>an_app_store := Some (uninstall i (store_of s))\<rparr>) p"
    using assms by (simp add: miniapp_uninstall_def started_def store_run_def)
  then show ?thesis
    by (simp add: put_app_def store_of_def host_store_def uninstall_def get_manifest_def tree_get_del)
qed

section \<open>A concrete host\<close>

definition demo_desk_env :: desktop_env where
  "demo_desk_env =
     \<lparr>de_host = demo_ffi_env, de_data_dir = None, de_settings_parse = \<lambda>t. Some \<lparr>ui_rendezvous_enabled = (t = ''on'')\<rparr>,
      de_settings_print = \<lambda>ui. if ui_rendezvous_enabled ui then ''on'' else ''off'', de_settings_write = Ok (),
      de_dir_exists = \<lambda>_. True, de_remove_dir = \<lambda>_. Ok (), de_reached = \<lambda>_. True, de_b64_decode = \<lambda>_. Ok [],
      de_manifest_json = \<lambda>_. JNull, de_listing_json = \<lambda>_. JNull, de_bridge_js = [], de_relay_status = JNull, de_reply = Ok ()\<rparr>"

lemma demo_desk_good: "desk_env_good demo_crypto demo_ser (ap_sealing (de_app demo_desk_env)) demo_desk_env"
  using env_good_demo by (simp add: desk_env_good_def env_good_def demo_desk_env_def)

lemma demo_print_parse: "de_settings_parse demo_desk_env (de_settings_print demo_desk_env ui) = Some ui"
  by (cases ui) (simp add: demo_desk_env_def)

lemma demo_node_runs:
  "\<exists>s q. start_node demo_desk_env ''d'' ''Me'' [] (desktop_start demo_disk fs) = (Ok (ds_local_peer_id s), q) \<and> dt_state q = Some s \<and>
     ds_db_path s = ''d'' \<and> dt_files q = fs"
  by (simp add: start_node_def Let_def vault_run_def desktop_start_def demo_desk_env_def demo_ffi_env_def runner_new_def
      desktop_config_def load_ui_settings_def identity_path_def vault_eval demo_disk_def
      demo_volatile_env_def demo_vault_env_def secret_path_def path_join_def IDENTITY_SECRET_def ENC_SECRET_def hex_sealing_def
      app_node_new_def enc_from_secret_bytes_def legacy_enc_path_def NONCE_LEN_def
      keypair_from_ed25519_secret_def from_secret_bytes_def node_new_def fe_app_def demo_bridge_env_def demo_app_env_def)

lemma demo_set:
  assumes "dt_state p = Some s"
  shows "\<exists>p'. set_rendezvous_enabled demo_desk_env False p = (Ok (), p') \<and> dt_vault p' = dt_vault p"
  using assms
  by (simp add: set_rendezvous_enabled_def started_def app_run_def put_app_def Let_def save_ui_settings_def app_send_def
      demo_desk_env_def demo_ffi_env_def fe_app_def demo_bridge_env_def demo_app_env_def)

theorem desktop_one_node_witness:
  "\<exists>s s' q. dt_state (desk_run [(demo_desk_env, DkStart ''d'' ''Me'' [])] (desktop_start demo_disk (\<lambda>_. None))) = Some s \<and>
     q = desk_run [(demo_desk_env, DkStart ''d'' ''Me'' []), (demo_desk_env, DkSetDisplayName ''X''), (demo_desk_env, DkStart ''e'' ''Y'' [])]
       (desktop_start demo_disk (\<lambda>_. None)) \<and>
     dt_state q = Some s' \<and> ds_local_peer_id s' = ds_local_peer_id s \<and> ds_db_path s' = ''d'' \<and>
     start_node demo_desk_env ''f'' ''Z'' [] q = (Ok (ds_local_peer_id s), q)"
proof -
  let ?E = demo_desk_env and ?p = "desktop_start demo_disk (\<lambda>_. None)"
  obtain s q where s: "start_node ?E ''d'' ''Me'' [] ?p = (Ok (ds_local_peer_id s), q)" "dt_state q = Some s" "ds_db_path s = ''d''"
    using demo_node_runs [of "\<lambda>_. None"] by blast
  show ?thesis
    using desktop_one_node [of "[(?E, DkStart ''d'' ''Me'' [])]" "[(?E, DkSetDisplayName ''X''), (?E, DkStart ''e'' ''Y'' [])]"
        demo_crypto demo_ser "ap_sealing (de_app ?E)" demo_disk "\<lambda>_. None" s] s demo_desk_good
    by (auto simp: Let_def)
qed

theorem settings_survive_restart_witness:
  "\<exists>p s p' q s'. dt_state p = Some s \<and> set_rendezvous_enabled demo_desk_env False p = (Ok (), p') \<and>
     start_node demo_desk_env ''d'' ''Me'' [] (restart p') = (Ok (ds_local_peer_id s'), q) \<and> dt_state q = Some s' \<and>
     \<not> ds_rendezvous_enabled s'"
proof -
  obtain s :: AppState where s: "ds_db_path s = ''d''"
    using demo_node_runs [of "\<lambda>_. None"] by blast
  let ?p = "(desktop_start demo_disk (\<lambda>_. None))\<lparr>dt_state := Some s\<rparr>"
  have p: "dt_state ?p = Some s" by simp
  obtain p' where p': "set_rendezvous_enabled demo_desk_env False ?p = (Ok (), p')" "dt_vault p' = demo_disk"
    using demo_set [OF p] by (auto simp: desktop_start_def)
  then have "restart p' = desktop_start demo_disk (dt_files p')"
    by (simp add: restart_def)
  then obtain s' q where q: "start_node demo_desk_env (ds_db_path s) ''Me'' [] (restart p') = (Ok (ds_local_peer_id s'), q)" "dt_state q = Some s'"
    using demo_node_runs [of "dt_files p'"] s by auto
  from settings_survive_restart [OF p p'(1) demo_print_parse demo_desk_good q(1)] q p p'(1) s show ?thesis
    by (metis option.inject)
qed


end
