(* ===== verification/Stack_Props.thy ===== *)
theory Stack_Props
  imports App_Props Node_Props
begin

text \<open>
  The mesh node and the application node together: what becomes of an application message on its way through
  gossip (\<open>handle_scoped\<close> of the node, then \<open>dispatch_incoming\<close> of the application), and which scopes a node hears at all.
\<close>

section \<open>What gossip hands to the application\<close>

text \<open>The messages a step of the node delivers.\<close>

definition delivered :: "NodeRunner \<Rightarrow> NodeRunner \<Rightarrow> DirectMessage list" where
  "delivered n n' = drop (length (incoming n)) (incoming n')"

lemma delivered_refl [simp]: "delivered n n = []"
  by (simp add: delivered_def)

lemma incoming_reject [simp]: "incoming (record_ingest_reject reason n) = incoming n"
  by (simp add: record_ingest_reject_def)

lemma incoming_node_ingest [simp]: "incoming (snd (node_ingest env m v n)) = incoming n"
  by (simp add: node_ingest_def split: prod.split)

lemma ingest_gossip_incoming:
  "incoming (snd (ingest_gossip env from pl tag n)) = incoming n \<or>
   (\<exists>m. incoming (snd (ingest_gossip env from pl tag n)) = incoming n @ [m] \<and> body m = tag \<and> payload (envelope m) = pl)"
proof -
  let ?e = "envelope_new_unsigned (ne_crypto env) (ne_now env) from None pl"
  obtain r g where chk: "check_gossip_message from (env_id ?e) (created_at_ms ?e) (ne_now env) (ingest_guard n) = (r, g)"
    by fastforce
  obtain new n2 where ing: "node_ingest env \<lparr>envelope = ?e, body = tag\<rparr> False (n\<lparr>ingest_guard := g\<rparr>) = (new, n2)"
    by fastforce
  then have "incoming n2 = incoming n"
    using incoming_node_ingest [of env "\<lparr>envelope = ?e, body = tag\<rparr>" False "n\<lparr>ingest_guard := g\<rparr>"] by simp
  then show ?thesis
    using chk ing by (cases r)
      (simp_all add: ingest_gossip_def Let_def deliver_def envelope_new_unsigned_def envelope_new_def)
qed

lemma delivered_ingest_gossip:
  "m \<in> set (delivered n (snd (ingest_gossip env from pl tag n))) \<Longrightarrow> body m = tag \<and> payload (envelope m) = pl"
  using ingest_gossip_incoming [of env "from" pl tag n] by (auto simp: delivered_def)

text \<open>A payload that is no text is taken for a bulletin, whatever it is.\<close>

lemma handle_scoped_binary:
  assumes "scope \<noteq> ''mycelium/appstore/v1''" "scope \<noteq> ''mycelium/proximity/v1''" "\<not> starts_with scope ''mycelium/group/''"
    and "\<not> utf8_valid pl" "m \<in> set (delivered n (snd (handle_scoped env from scope pl n)))"
  shows "body m = ''[bulletin:'' @ scope @ '']'' \<and> payload (envelope m) = pl"
proof -
  obtain r g where chk: "check_gossip_payload from (length pl) (ne_now env) (ingest_guard n) = (r, g)"
    by fastforce
  let ?n1 = "n\<lparr>ingest_guard := g\<rparr>"
  have inc: "delivered n x = delivered ?n1 x" for x
    by (simp add: delivered_def)
  show ?thesis
  proof (cases "(\<exists>pattern\<in>set (subscribed_scopes n). scope_matches scope pattern) \<and> r = Inr ()")
    case True
    then have "handle_scoped env from scope pl n = ingest_gossip env from pl (''[bulletin:'' @ scope @ '']'') ?n1"
      using assms(1-4) chk unfolding handle_scoped_def Let_def by (cases r) simp_all
    then show ?thesis
      using assms(5) inc delivered_ingest_gossip [of m ?n1 env "from" pl "''[bulletin:'' @ scope @ '']''"] by simp
  next
    case False
    then have "delivered n (snd (handle_scoped env from scope pl n)) = []"
      using chk unfolding handle_scoped_def Let_def by (cases r) (auto simp: delivered_def)
    with assms(5) show ?thesis
      by simp
  qed
qed



text \<open>The first gossip a peer sends to a node is delivered, tagged with its scope.\<close>

lemma fresh_gossip_checks:
  assumes "rate_gossip (ingest_guard n) = limiter_new GOSSIP_RATE_PER_MINUTE RATE_WINDOW_MS" "length pl \<le> MAX_GOSSIP_PAYLOAD_BYTES"
  shows "\<exists>g. check_gossip_payload from (length pl) now (ingest_guard n) = (Inr (), g) \<and> replay g = replay (ingest_guard n)"
  using assms by (simp add: check_gossip_payload_def Let_def limiter_allow_def limiter_new_def ingest_consts sat_sub_def)

lemma sat_add_above:
  assumes "(a::u64) < -1"
  shows "\<not> sat_add a 604800000 \<le> a"
proof -
  have "unat a < 18446744073709551615"
    using assms unat_minus_one_max [where 'a = 64] by (simp add: word_less_nat_alt)
  then show ?thesis
    by (simp add: word_le_nat_alt unat_sat_add_u64)
qed

lemma fresh_gossip_delivered:
  assumes "replay (ingest_guard n) = replay_new AUTHOR_ID_WINDOW" "seen_cache n = seen_new cap" "store n = store_open []"
    and "ne_now env < -1"
  shows "delivered n (snd (ingest_gossip env from pl tag n)) =
    [\<lparr>envelope = envelope_new_unsigned (ne_crypto env) (ne_now env) from None pl, body = tag\<rparr>]"
  using assms sat_add_above [OF assms(4)]
  by (simp add: tree_has_def sat_sub_def AUTHOR_ID_WINDOW_def ingest_gossip_def Let_def check_gossip_message_def is_duplicate_def author_entry_def replay_new_def aw_new_def
      aw_is_duplicate_def check_envelope_freshness_def node_ingest_def ingest_def delivered_def deliver_def
      envelope_new_unsigned_def envelope_new_def is_expired_def seen_contains_def seen_new_def store_contains_def store_open_def)

text \<open>A payment announced on the coin scope: a peer sends it to a fresh node.\<close>

definition demo_payment_env :: app_env where
  "demo_payment_env = (demo_app_env 1000 \<lparr>am_app_id = AppCoin, am_payload = Coin [1]\<rparr>)
     \<lparr>ap_decode := \<lambda>_. Ok \<lparr>am_app_id = AppCoin, am_payload = Coin [1]\<rparr>\<rparr>"

definition demo_gossiped :: DirectMessage where
  "demo_gossiped = \<lparr>envelope = envelope_new_unsigned demo_crypto 1000 ''p'' None [255], body = ''[bulletin:mycelium/coin/v1]''\<rparr>"

lemma demo_delivered:
  "delivered Node_Props.demo_node (snd (handle_scoped Node_Props.demo_env ''p'' ''mycelium/coin/v1'' [255] Node_Props.demo_node)) =
     [demo_gossiped]"
proof -
  let ?n = Node_Props.demo_node and ?e = Node_Props.demo_env
  have n: "ingest_guard ?n = guard_new" "seen_cache ?n = seen_new 16384" "store ?n = store_open []"
    "subscribed_scopes ?n = set_insert ''mycelium/group/*'' SYSTEM_SCOPES"
    by (simp_all add: Node_Props.demo_node_def node_new_def)
  have e: "ne_crypto ?e = demo_crypto" "ne_now ?e = 1000"
    by (simp_all add: Node_Props.demo_env_def)
  obtain g where g: "check_gossip_payload ''p'' (length [255 :: 8 word]) (ne_now ?e) (ingest_guard ?n) = (Inr (), g)"
    "replay g = replay (ingest_guard ?n)"
    using fresh_gossip_checks [of ?n "[255]" "''p''" "ne_now ?e"] n(1)
    by (auto simp: guard_new_def MAX_GOSSIP_PAYLOAD_BYTES_def)
  have "handle_scoped ?e ''p'' ''mycelium/coin/v1'' [255] ?n =
      ingest_gossip ?e ''p'' [255] ''[bulletin:mycelium/coin/v1]'' (?n\<lparr>ingest_guard := g\<rparr>)"
    using g(1) by (simp add: handle_scoped_def Let_def n(4) SYSTEM_SCOPES_def set_insert_def scope_matches_def strip_suffix_def
        starts_with_def)
  then show ?thesis
    using fresh_gossip_delivered [of "?n\<lparr>ingest_guard := g\<rparr>" 16384 ?e "''p''" "[255]" "''[bulletin:mycelium/coin/v1]''"] n e g(2)
    by (simp add: delivered_def guard_new_def demo_gossiped_def)
qed


end
