(* ===== verification/Node_Live.thy ===== *)
theory Node_Live
  imports Node_Props "HOL-Library.Sublist"
begin

text \<open>
  Progress of the mesh node: the timer empties the queue of pending messages in order, and what is still alive and may be
  forwarded has then been handed to the transport.
\<close>

section \<open>One tick\<close>

abbreviation send_of :: "PendingMessage \<Rightarrow> transport_action" where
  "send_of pm \<equiv> SendDirectA (pm_to_peer pm) (Data (pm_message pm))"

abbreviation may_forward :: "NodeRunner \<Rightarrow> PendingMessage \<Rightarrow> bool" where
  "may_forward n pm \<equiv> can_forward (node_state n) (priority (envelope (pm_message pm)))"

lemma forward_loop_effect:
  "pending (forward_loop env b n) = drop b (pending n) \<and> node_state (forward_loop env b n) = node_state n \<and>
   actions (forward_loop env b n) = actions n @
     map send_of (filter (\<lambda>pm. \<not> is_expired (pm_message pm) (ne_now env) \<and> may_forward n pm) (take b (pending n)))"
  by (induction env b n rule: forward_loop.induct)
    (auto simp: send_direct_def act_def add_metric_def Let_def split: list.split)

lemma forward_once_effect:
  defines "q \<equiv> \<lambda>env n. evict_expired (ne_now env) (pending n)" and "b \<equiv> \<lambda>n. forward_budget (node_state n)"
  shows "forward_once env n = (Ok (), snd (forward_once env n))"
    and "pending (snd (forward_once env n)) = drop (b n) (q env n)"
    and "node_state (snd (forward_once env n)) = node_state n"
    and "actions (snd (forward_once env n)) = actions n @ map send_of (filter (may_forward n) (take (b n) (q env n)))"
proof -
  have "filter (\<lambda>pm. \<not> is_expired (pm_message pm) (ne_now env) \<and> may_forward n pm) (take (b n) (q env n)) =
      filter (may_forward n) (take (b n) (q env n))"
    by (rule filter_cong) (auto simp: q_def evict_expired_def dest: in_set_takeD)
  then show "forward_once env n = (Ok (), snd (forward_once env n))"
    and "pending (snd (forward_once env n)) = drop (b n) (q env n)"
    and "node_state (snd (forward_once env n)) = node_state n"
    and "actions (snd (forward_once env n)) = actions n @ map send_of (filter (may_forward n) (take (b n) (q env n)))"
    by (simp_all add: forward_once_def Let_def add_metric_def forward_loop_effect q_def b_def)
qed

section \<open>The queue empties\<close>

lemma node_run_Cons: "node_run ((env, w) # ws) n = and_then (node_turn env w n) (\<lambda>_ m. node_run ws m)"
  by (cases "node_turn env w n"; cases "fst (node_turn env w n)") (auto simp: node_run_def)

text \<open>A run from \<open>n\<close> that ends in \<open>n'\<close> with an empty queue and has handed \<open>sent\<close> to the transport.\<close>

definition drains :: "(node_env \<times> node_wakeup) list \<Rightarrow> NodeRunner \<Rightarrow> NodeRunner \<Rightarrow> PendingMessage list \<Rightarrow> bool" where
  "drains ws n n' sent \<longleftrightarrow>
     node_run ws n = (Ok (), n') \<and> pending n' = [] \<and> actions n' = actions n @ map send_of sent \<and> subseq sent (pending n) \<and>
     (\<forall>pm\<in>set (pending n). may_forward n pm \<and> (\<forall>(env, w)\<in>set ws. \<not> is_expired (pm_message pm) (ne_now env)) \<longrightarrow> pm \<in> set sent)"

lemma drains_forward:
  assumes "drains ws (snd (forward_once env n)) n' sent"
  defines "q \<equiv> evict_expired (ne_now env) (pending n)" and "b \<equiv> forward_budget (node_state n)"
  shows "drains ((env, WakeForward) # ws) n n' (filter (may_forward n) (take b q) @ sent)"
proof -
  let ?m = "snd (forward_once env n)" and ?first = "filter (may_forward n) (take b q)"
  note eff = forward_once_effect [of env n, folded q_def b_def]
  have ws: "node_run ws ?m = (Ok (), n')" "pending n' = []" "actions n' = actions ?m @ map send_of sent" "subseq sent (drop b q)"
      "\<forall>pm\<in>set (drop b q). may_forward n pm \<and> (\<forall>(env, w)\<in>set ws. \<not> is_expired (pm_message pm) (ne_now env)) \<longrightarrow> pm \<in> set sent"
    using assms(1) eff(2,3) by (auto simp: drains_def)
  have "subseq (?first @ sent) (take b q @ drop b q)"
    using ws(4) by (intro list_emb_append_mono) (auto simp: subseq_filter_left)
  then have "subseq (?first @ sent) (pending n)"
    using subseq_filter_left [of "\<lambda>item. \<not> is_expired (pm_message item) (ne_now env)" "pending n"] subseq_order.trans
    by (fastforce simp: q_def evict_expired_def)
  moreover have "pm \<in> set (?first @ sent)"
    if "pm \<in> set (pending n)" "may_forward n pm" "\<forall>(env, w)\<in>set ((env, WakeForward) # ws). \<not> is_expired (pm_message pm) (ne_now env)" for pm
  proof -
    have "pm \<in> set (take b q @ drop b q)"
      using that(1,3) by (simp add: q_def evict_expired_def)
    then show ?thesis
      using that ws(5) unfolding set_append by auto
  qed
  moreover have "node_run ((env, WakeForward) # ws) n = (Ok (), n')"
    unfolding node_run_Cons using ws(1) eff(1) by (simp add: node_turn_def) (metis and_then_simps)
  ultimately show ?thesis
    using ws(2,3) eff(4) by (simp add: drains_def)
qed

lemma drains_gc: "drains ws (snd (gc_tick env n)) n' sent \<Longrightarrow> drains ((env, WakeGc) # ws) n n' sent"
  by (auto simp: drains_def node_run_Cons node_turn_def gc_tick_def)

lemma drains_enough:
  assumes "\<forall>(env, w)\<in>set ws. w \<in> {WakeForward, WakeGc}"
    and "length (pending n) \<le> forward_budget (node_state n) * length (filter (\<lambda>(env, w). w = WakeForward) ws)"
  shows "\<exists>n' sent. drains ws n n' sent"
  using assms
proof (induction ws arbitrary: n)
  case Nil
  then show ?case
    by (simp add: drains_def node_run_def)
next
  case (Cons ew ws)
  obtain env w where ew: "ew = (env, w)"
    by (cases ew)
  show ?case
  proof (cases "w = WakeForward")
    case True
    have "length (evict_expired (ne_now env) (pending n)) \<le> length (pending n)"
      by (simp add: evict_expired_def)
    then show ?thesis
      using Cons.IH [of "snd (forward_once env n)"] Cons.prems True ew forward_once_effect(2,3) [of env n] drains_forward
      by fastforce
  next
    case False
    then show ?thesis
      using Cons.IH [of "snd (gc_tick env n)"] Cons.prems ew drains_gc by (fastforce simp: gc_tick_def)
  qed
qed

text \<open>C37. The queue drains.  Let the timer tick with nothing new put into the queue, with any number of collections of expired messages
  in between; once there are as many ticks as the queue needs at ten messages a tick, four in the intermittent and one in the passive state, the node
  is still running and the queue is empty.  What was handed to the transport is a part of the queue in its order, and has in it every message that
  the energy state lets through and that had not expired at any of the ticks.\<close>

theorem queue_drains:
  assumes "\<forall>(env, w)\<in>set ws. w \<in> {WakeForward, WakeGc}"
    and "length (pending n) \<le> (case node_state n of Active \<Rightarrow> 10 | Intermittent \<Rightarrow> 4 | Passive \<Rightarrow> 1) *
      length (filter (\<lambda>(env, w). w = WakeForward) ws)"
  shows "\<exists>n' sent. node_run ws n = (Ok (), n') \<and> pending n' = [] \<and> actions n' = actions n @ map send_of sent \<and>
    subseq sent (pending n) \<and>
    (\<forall>pm\<in>set (pending n). may_forward n pm \<and> (\<forall>(env, w)\<in>set ws. \<not> is_expired (pm_message pm) (ne_now env)) \<longrightarrow> pm \<in> set sent)"
proof -
  have "(case node_state n of Active \<Rightarrow> 10 | Intermittent \<Rightarrow> 4 | Passive \<Rightarrow> 1) = forward_budget (node_state n)"
    by (cases "node_state n") simp_all
  with drains_enough [OF assms(1)] assms(2) show ?thesis
    by (simp add: drains_def)
qed

text \<open>A node with one message for a peer sends it with its first tick.\<close>

definition demo_waiting :: NodeRunner where
  "demo_waiting = demo_node\<lparr>pending := [\<lparr>pm_to_peer = ''a'', pm_message = demo_msg ''x''\<rparr>]\<rparr>"

theorem queue_drains_witness:
  "\<exists>n'. node_run [(demo_env, WakeGc), (demo_env, WakeForward)] demo_waiting = (Ok (), n') \<and> pending n' = [] \<and>
     SendDirectA ''a'' (Data (demo_msg ''x'')) \<in> set (actions n')"
proof -
  let ?ws = "[(demo_env, WakeGc), (demo_env, WakeForward)]"
  have "length (pending demo_waiting) \<le> (case node_state demo_waiting of Active \<Rightarrow> 10 | Intermittent \<Rightarrow> 4 | Passive \<Rightarrow> 1) *
      length (filter (\<lambda>(env, w). w = WakeForward) ?ws)"
    by (simp add: demo_waiting_def demo_node_def node_new_def)
  with queue_drains [of ?ws demo_waiting] obtain n' sent where "node_run ?ws demo_waiting = (Ok (), n')" "pending n' = []"
      "actions n' = actions demo_waiting @ map send_of sent"
      "\<forall>pm\<in>set (pending demo_waiting). may_forward demo_waiting pm \<and> (\<forall>(env, w)\<in>set ?ws. \<not> is_expired (pm_message pm) (ne_now env)) \<longrightarrow>
         pm \<in> set sent"
    by auto
  moreover have "pending demo_waiting = [\<lparr>pm_to_peer = ''a'', pm_message = demo_msg ''x''\<rparr>]" "node_state demo_waiting = Active" "ne_now demo_env = 1000"
    by (simp_all add: demo_waiting_def demo_node_def node_new_def demo_env_def)
  ultimately show ?thesis
    by force
qed

end
