(* ===== verification/Api.thy ===== *)
theory Api
  imports Host_View Node_Handle
begin

text \<open>
  The local HTTP interface of a node (\<open>mycelium-app/src/api.rs\<close>): the routes, the handlers and what no request can
  do.  Listening and serving belong to axum, of which the model keeps the documented rules of routing (a literal segment wins over a
  parameter; a path that is known for other request kinds is answered with 405) and of body extraction (a body that is not JSON is
  answered with 400, one without the expected fields with 422).  A path is the list of its decoded segments below
  \<open>/api/v1\<close>.
\<close>

section \<open>Routes\<close>

datatype HttpVerb = GET | POST | PUT | DELETE

datatype ApiRoute =
    RStatus | RPeers | RGetChat string | RPostChat string | RPostBroadcast | RGetBulletin string | RPostBulletin string
  | RMailInbox | RMailSent | RPostMail string | RMailRead string | RPutName | RSettings | RPutEnergy | RStoreStats | RStoreGc
  | RReputation string | RPeerAdd | RScopes | RScopeSubscribe | RScopeDelete string

datatype api_match = Matched ApiRoute | NoSuchPath | OtherVerb

text \<open>The routes of one path, by request kind.\<close>

definition path_routes :: "string list \<Rightarrow> (HttpVerb \<times> ApiRoute) list" where
  "path_routes segs =
     (case segs of
        [a] \<Rightarrow>
          (if a = ''status'' then [(GET, RStatus)]
           else if a = ''peers'' then [(GET, RPeers)]
           else if a = ''settings'' then [(GET, RSettings)]
           else if a = ''scopes'' then [(GET, RScopes)] else [])
      | [a, b] \<Rightarrow>
          (if a = ''chat'' then (if b = ''broadcast'' then [(POST, RPostBroadcast)] else [(GET, RGetChat b), (POST, RPostChat b)])
           else if a = ''bulletin'' then [(GET, RGetBulletin b), (POST, RPostBulletin b)]
           else if a = ''mail'' then
             (if b = ''inbox'' then [(GET, RMailInbox)] else if b = ''sent'' then [(GET, RMailSent)] else [(POST, RPostMail b)])
           else if a = ''settings'' then
             (if b = ''name'' then [(PUT, RPutName)] else if b = ''energy'' then [(PUT, RPutEnergy)] else [])
           else if a = ''store'' then
             (if b = ''stats'' then [(GET, RStoreStats)] else if b = ''gc'' then [(POST, RStoreGc)] else [])
           else if a = ''peers'' \<and> b = ''add'' then [(POST, RPeerAdd)]
           else if a = ''scopes'' then (if b = ''subscribe'' then [(POST, RScopeSubscribe)] else [(DELETE, RScopeDelete b)])
           else [])
      | [a, b, c] \<Rightarrow>
          (if a = ''mail'' \<and> c = ''read'' then [(PUT, RMailRead b)]
           else if a = ''peers'' \<and> c = ''reputation'' then [(GET, RReputation b)] else [])
      | _ \<Rightarrow> [])"

definition api_route :: "HttpVerb \<Rightarrow> string list \<Rightarrow> api_match" where
  "api_route v segs =
     (if [] \<in> set segs \<or> path_routes segs = [] then NoSuchPath
      else case map_of (path_routes segs) v of Some r \<Rightarrow> Matched r | None \<Rightarrow> OtherVerb)"

section \<open>Bodies and answers\<close>

datatype api_body = EmptyBody | TextBody string | JsonBody json | StringsBody "string list"
  | ChatsBody "ChatMessage list" | BulletinsBody "BulletinPost list" | MailsBody "MailMessage list"
  | StatusBody string string "string list" NodeMetrics
  | StatsBody nat u64 u64

record api_response =
  rs_status :: nat
  rs_body :: api_body

abbreviation answer_ok :: "api_body \<Rightarrow> api_response" where "answer_ok b \<equiv> \<lparr>rs_status = 200, rs_body = b\<rparr>"

definition internal_err :: "string \<Rightarrow> api_response" where
  "internal_err e = \<lparr>rs_status = 500, rs_body = TextBody e\<rparr>"

record api_env =
  ai_app :: app_env
  ai_runner :: NodeRunner
  ai_parse_uuid :: "string \<Rightarrow> string result"
  ai_attachments :: "json \<Rightarrow> Attachment list option"  \<comment> \<open>decodes the field \<open>attachments\<close>\<close>

text \<open>The extractors of the request bodies: the fields that have to be there.\<close>

definition str_field :: "string \<Rightarrow> json \<Rightarrow> string option" where
  "str_field key v = (case json_get v key of Some j \<Rightarrow> as_str j | None \<Rightarrow> None)"

definition u64_field :: "string \<Rightarrow> json \<Rightarrow> u64 option" where
  "u64_field key v = (case json_get v key of Some (JUInt n) \<Rightarrow> Some n | _ \<Rightarrow> None)"

definition bulletin_body :: "json \<Rightarrow> (string \<times> string \<times> u64) option" where
  "bulletin_body v =
     (case (str_field ''title'' v, str_field ''body'' v, u64_field ''ttl_secs'' v) of
        (Some title, Some text, Some ttl) \<Rightarrow> Some (title, text, ttl)
      | _ \<Rightarrow> None)"

definition mail_body :: "api_env \<Rightarrow> json \<Rightarrow> (string \<times> string \<times> Attachment list) option" where
  "mail_body env v =
     (case (str_field ''subject'' v, str_field ''body'' v) of
        (Some subject, Some text) \<Rightarrow>
          (case json_get v ''attachments'' of
             None \<Rightarrow> Some (subject, text, [])
           | Some JNull \<Rightarrow> Some (subject, text, [])
           | Some j \<Rightarrow> map_option (\<lambda>atts. (subject, text, atts)) (ai_attachments env j))
      | _ \<Rightarrow> None)"

type_synonym api_result = "api_response \<times> AppNode"

definition with_body :: "json option \<Rightarrow> (json \<Rightarrow> 'b option) \<Rightarrow> ('b \<Rightarrow> AppNode \<Rightarrow> api_result) \<Rightarrow> AppNode \<Rightarrow> api_result" where
  "with_body req decode f a =
     (case req of
        None \<Rightarrow> (\<lparr>rs_status = 400, rs_body = EmptyBody\<rparr>, a)
      | Some v \<Rightarrow> (case decode v of None \<Rightarrow> (\<lparr>rs_status = 422, rs_body = EmptyBody\<rparr>, a) | Some b \<Rightarrow> f b a))"

definition status_of :: "'a app_result \<Rightarrow> api_result" where
  "status_of r = (case r of (Inl e, a) \<Rightarrow> (internal_err e, a) | (Inr _, a) \<Rightarrow> (answer_ok EmptyBody, a))"

section \<open>Handlers\<close>

definition api_put_energy :: "app_env \<Rightarrow> string \<Rightarrow> AppNode \<Rightarrow> api_result" where
  "api_put_energy env text a =
     (let st = (if text = ''active'' then Some Active else if text = ''intermittent'' then Some Intermittent
                else if text = ''passive'' then Some Passive else None) in
      case st of
        None \<Rightarrow> (\<lparr>rs_status = 400, rs_body = TextBody ''invalid energy state''\<rparr>, a)
      | Some ns \<Rightarrow> status_of (app_send env (CmdSetEnergyState ns) a))"

definition api_settings :: "AppNode \<Rightarrow> json" where
  "api_settings a = json_object [(''display_name'', JStr (an_display_name a)), (''energy_state'', JStr ''active'')]"

definition api_store_stats :: "AppStorage \<Rightarrow> api_body" where
  "api_store_stats s =
     (let mails = mail_inbox s 10000 @ mail_sent s 10000; k = length mails;
          oldest = (if mails = [] then 0 else Min (mm_timestamp_ms ` set mails)) in
      StatsBody k oldest (max (of_nat k * 2) 1))"

definition api_reputation :: "u64 \<Rightarrow> string \<Rightarrow> PeerReputationSnapshot option \<Rightarrow> json" where
  "api_reputation now peer rep =
     (case rep of
        Some r \<Rightarrow> json_object [(''peer_id'', JStr peer), (''strikes'', JUInt (ucast (strikes r))),
            (''throttled'', JBool (now < throttled_until_ms r)), (''throttled_until_ms'', JUInt (throttled_until_ms r))]
      | None \<Rightarrow> json_object [(''peer_id'', JStr peer), (''strikes'', JUInt 0), (''throttled'', JBool False),
            (''throttled_until_ms'', JUInt 0)])"

definition api_handle :: "api_env \<Rightarrow> ApiRoute \<Rightarrow> json option \<Rightarrow> AppNode \<Rightarrow> api_result" where
  "api_handle env r req a =
     (let app = ai_app env; now = ap_now app; s = an_storage a in
      case r of
        RStatus \<Rightarrow> (answer_ok (StatusBody (an_local_peer_id a) (an_display_name a) [] (handle_metrics (ai_runner env))), a)
      | RPeers \<Rightarrow> (answer_ok (JsonBody (JArray [])), a)
      | RGetChat peer \<Rightarrow> (answer_ok (ChatsBody (chat_history s peer 200)), a)
      | RPostChat peer \<Rightarrow> with_body req (str_field ''body'') (\<lambda>text a. status_of (send_chat app (Some peer) text a)) a
      | RPostBroadcast \<Rightarrow> with_body req (str_field ''body'') (\<lambda>text a. status_of (send_chat app None text a)) a
      | RGetBulletin scope \<Rightarrow> (answer_ok (BulletinsBody (bulletins_for_scope now s scope)), a)
      | RPostBulletin scope \<Rightarrow>
          with_body req bulletin_body (\<lambda>(title, text, ttl) a. status_of (post_bulletin app scope title text ttl a)) a
      | RMailInbox \<Rightarrow> (answer_ok (MailsBody (mail_inbox s 200)), a)
      | RMailSent \<Rightarrow> (answer_ok (MailsBody (mail_sent s 200)), a)
      | RPostMail peer \<Rightarrow> with_body req (mail_body env) (\<lambda>(subject, text, atts) a. status_of (send_mail app peer subject text atts a)) a
      | RMailRead i \<Rightarrow>
          (case ai_parse_uuid env i of
             Inl e \<Rightarrow> (internal_err e, a)
           | Inr uuid \<Rightarrow> (answer_ok EmptyBody, on_storage (mark_read uuid) a))
      | RPutName \<Rightarrow> with_body req (str_field ''display_name'') (\<lambda>name a. (answer_ok EmptyBody, set_display_name name a)) a
      | RSettings \<Rightarrow> (answer_ok (JsonBody (api_settings a)), a)
      | RPutEnergy \<Rightarrow> with_body req (str_field ''state'') (api_put_energy app) a
      | RStoreStats \<Rightarrow> (answer_ok (api_store_stats s), a)
      | RStoreGc \<Rightarrow>
          (let (k, s) = prune_expired_bulletins now s in
           (answer_ok (JsonBody (json_object [(''deleted'', JUInt (of_nat k))])), a\<lparr>an_storage := s\<rparr>))
      | RReputation peer \<Rightarrow> (answer_ok (JsonBody (api_reputation now peer (peer_reputation (ai_runner env) peer))), a)
      | RPeerAdd \<Rightarrow> with_body req (str_field ''multiaddr'') (\<lambda>addr a. status_of (app_send app (CmdAddBootstrapPeer addr) a)) a
      | RScopes \<Rightarrow> (answer_ok (StringsBody (handle_subscribed_scopes (ai_runner env))), a)
      | RScopeSubscribe \<Rightarrow> with_body req (str_field ''scope'') (\<lambda>scope a. status_of (app_send app (CmdSubscribeScope scope) a)) a
      | RScopeDelete scope \<Rightarrow> status_of (app_send app (CmdUnsubscribeScope scope) a))"

definition api_request :: "api_env \<Rightarrow> HttpVerb \<Rightarrow> string list \<Rightarrow> json option \<Rightarrow> AppNode \<Rightarrow> api_result" where
  "api_request env v segs req a =
     (case api_route v segs of
        NoSuchPath \<Rightarrow> (\<lparr>rs_status = 404, rs_body = EmptyBody\<rparr>, a)
      | OtherVerb \<Rightarrow> (\<lparr>rs_status = 405, rs_body = EmptyBody\<rparr>, a)
      | Matched r \<Rightarrow> api_handle env r req a)"

section \<open>Which request reaches which handler\<close>

text \<open>The request a route stands for, and the parameters with which it can be reached: none is empty, and none is a literal that
  another route has in its place.\<close>

fun route_request :: "ApiRoute \<Rightarrow> HttpVerb \<times> string list" where
  "route_request RStatus = (GET, [''status''])"
| "route_request RPeers = (GET, [''peers''])"
| "route_request (RGetChat peer) = (GET, [''chat'', peer])"
| "route_request (RPostChat peer) = (POST, [''chat'', peer])"
| "route_request RPostBroadcast = (POST, [''chat'', ''broadcast''])"
| "route_request (RGetBulletin scope) = (GET, [''bulletin'', scope])"
| "route_request (RPostBulletin scope) = (POST, [''bulletin'', scope])"
| "route_request RMailInbox = (GET, [''mail'', ''inbox''])"
| "route_request RMailSent = (GET, [''mail'', ''sent''])"
| "route_request (RPostMail peer) = (POST, [''mail'', peer])"
| "route_request (RMailRead i) = (PUT, [''mail'', i, ''read''])"
| "route_request RPutName = (PUT, [''settings'', ''name''])"
| "route_request RSettings = (GET, [''settings''])"
| "route_request RPutEnergy = (PUT, [''settings'', ''energy''])"
| "route_request RStoreStats = (GET, [''store'', ''stats''])"
| "route_request RStoreGc = (POST, [''store'', ''gc''])"
| "route_request (RReputation peer) = (GET, [''peers'', peer, ''reputation''])"
| "route_request RPeerAdd = (POST, [''peers'', ''add''])"
| "route_request RScopes = (GET, [''scopes''])"
| "route_request RScopeSubscribe = (POST, [''scopes'', ''subscribe''])"
| "route_request (RScopeDelete scope) = (DELETE, [''scopes'', scope])"

fun reachable_route :: "ApiRoute \<Rightarrow> bool" where
  "reachable_route (RGetChat peer) \<longleftrightarrow> peer \<notin> {[], ''broadcast''}"
| "reachable_route (RPostChat peer) \<longleftrightarrow> peer \<notin> {[], ''broadcast''}"
| "reachable_route (RGetBulletin scope) \<longleftrightarrow> scope \<noteq> []"
| "reachable_route (RPostBulletin scope) \<longleftrightarrow> scope \<noteq> []"
| "reachable_route (RPostMail peer) \<longleftrightarrow> peer \<notin> {[], ''inbox'', ''sent''}"
| "reachable_route (RMailRead i) \<longleftrightarrow> i \<noteq> []"
| "reachable_route (RReputation peer) \<longleftrightarrow> peer \<noteq> []"
| "reachable_route (RScopeDelete scope) \<longleftrightarrow> scope \<notin> {[], ''subscribe''}"
| "reachable_route _ \<longleftrightarrow> True"

lemma route_of_request: "reachable_route r \<Longrightarrow> route_request r = (v, segs) \<Longrightarrow> api_route v segs = Matched r"
  by (cases r) (auto simp: api_route_def path_routes_def)

lemma request_of_route:
  assumes "api_route v segs = Matched r"
  shows "route_request r = (v, segs) \<and> reachable_route r"
proof -
  have ne: "[] \<notin> set segs" and r: "(v, r) \<in> set (path_routes segs)"
    using assms by (auto simp: api_route_def split: if_splits option.splits dest: map_of_SomeD)
  consider (none) "segs = []" | (one) a where "segs = [a]" | (two) a b where "segs = [a, b]" | (three) a b c where "segs = [a, b, c]"
    | (more) a b c d rest where "segs = a # b # c # d # rest"
    by (metis list.exhaust)
  then show ?thesis
    by cases (use r ne in \<open>auto simp: path_routes_def split: if_splits\<close>)
qed

text \<open>The routes lead each request to one handler: a request is matched to a route exactly if it is the request the route stands
  for with parameters that can be reached.  A chat, a mail or a scope named like a literal segment cannot.\<close>

theorem api_routes_exact: "api_route v segs = Matched r \<longleftrightarrow> route_request r = (v, segs) \<and> reachable_route r"
  using route_of_request request_of_route by blast

section \<open>What no request can do\<close>

lemma snd_status_of: "snd (status_of r) = snd r"
  by (cases r; cases "fst r") (auto simp: status_of_def)

lemma with_body_cases:
  "with_body req decode f a = (\<lparr>rs_status = 400, rs_body = EmptyBody\<rparr>, a) \<or>
   with_body req decode f a = (\<lparr>rs_status = 422, rs_body = EmptyBody\<rparr>, a) \<or> (\<exists>b. with_body req decode f a = f b a)"
  by (auto simp: with_body_def split: option.split)

lemma with_body_keeps: "(\<And>b. V (snd (f b a)) = V a) \<Longrightarrow> V (snd (with_body req decode f a)) = V a"
  using with_body_cases [of req decode f a] by auto

lemma energy_snd: "snd (api_put_energy env text a) = a \<or> (\<exists>c. snd (api_put_energy env text a) = snd (app_send env c a))"
  by (auto simp: api_put_energy_def Let_def snd_status_of)

lemma keeps_prune: "keeps_values (\<lambda>s. snd (prune_expired_bulletins now s))"
  by (simp add: keeps_values_def prune_expired_bulletins_def Let_def)

context app_view begin

lemma api_energy: "view (snd (api_put_energy env word a)) = view a"
  using energy_snd [of env word a] by (auto simp: send)

lemma api_gc: "view (n\<lparr>an_storage := snd (prune_expired_bulletins now (an_storage n))\<rparr>) = view n"
  using storage [OF keeps_prune] by (simp add: on_storage_def)

lemma api_requests: "view (snd (api_request env v segs req a)) = view a"
proof -
  have "view (snd (api_handle env r req a)) = view a" for r
    by (cases r) (auto simp: api_handle_def Let_def case_prod_unfold snd_status_of chat bulletin mail naming send api_energy api_gc stored
        intro!: with_body_keeps split: sum.split)
  then show ?thesis
    by (simp add: api_request_def split: api_match.split)
qed

end

lemma status_of_status: "rs_status (fst (status_of r)) \<in> {200, 500}"
  by (cases r; cases "fst r") (auto simp: status_of_def internal_err_def)

text \<open>What a handler answers: it did its work, it failed inside, or it refused the body and changed nothing.\<close>

definition decent :: "AppNode \<Rightarrow> api_result \<Rightarrow> bool" where
  "decent a r \<longleftrightarrow> rs_status (fst r) \<in> {200, 500} \<or> rs_status (fst r) \<in> {400, 422} \<and> snd r = a"

lemma decent_body: "(\<And>b. decent a (f b a)) \<Longrightarrow> decent a (with_body req decode f a)"
  by (auto simp: with_body_def decent_def [of a "(_, a)"] split: option.split)

lemma decent_status: "decent a (status_of r)"
  using status_of_status [of r] by (simp add: decent_def)

lemma decent_handle: "decent a (api_handle env r req a)"
proof -
  have "decent a (api_put_energy e w a)" for e w
    by (auto simp: api_put_energy_def Let_def decent_status decent_def [of a "(_, a)"])
  then show ?thesis
    by (cases r) (auto simp: api_handle_def Let_def case_prod_unfold decent_status decent_def [of a "(_, _)"] internal_err_def
        intro!: decent_body split: sum.split)
qed

lemma get_is_pure: "fst (route_request r) = GET \<Longrightarrow> snd (api_handle env r req a) = a"
  by (cases r) (simp_all add: api_handle_def Let_def)


definition demo_api_env :: api_env where
  "demo_api_env =
     \<lparr>ai_app = demo_app_env 1000 \<lparr>am_app_id = AppCoin, am_payload = Coin []\<rparr>,
      ai_runner = node_new (with_defaults ''d'') ''me'' (Some [1]) [2] \<lparr>relay_keypair = [3], relay_created_at = 0\<rparr> [] (\<lambda>_. None),
      ai_parse_uuid = Ok, ai_attachments = \<lambda>_. None\<rparr>"


text \<open>The interface shows the energy state it was compiled with: a change of the state succeeds and is not shown.\<close>

lemma settings_always_active: "json_get (api_settings a) ''energy_state'' = Some (JStr ''active'')"
  by (simp add: api_settings_def json_object_def)

end
