(* ===== verification/Sdk.thy ===== *)
theory Sdk
  imports Miniapp_Props
begin

text \<open>
  The developer tool for mini-apps (\<open>miniapp-sdk/src/main.rs\<close>): lint, pack, sign, listings, attestation and keys, over a disk
  of files.  Writing a zip archive, printing JSON and the encoding of key files belong to packages and are parameters;
  \<open>sdk_ok\<close> names what is documented of them.  What the commands print is left out except where it is their result.
\<close>

section \<open>Surroundings\<close>

type_synonym disk = "string \<Rightarrow> bytes option"

record sdk_env =
  sk_miniapp :: miniapp_env
  sk_zip :: "(string \<times> bytes) list \<Rightarrow> bytes result"
  sk_print_manifest :: "MiniAppManifest \<Rightarrow> bytes result"
  sk_print_signature :: "BundleSignatureFile \<Rightarrow> bytes result"
  sk_print_listing :: "AppStoreListing \<Rightarrow> bytes result"
  sk_print_listings :: "AppStoreListing list \<Rightarrow> bytes result"
  sk_keypair_encode :: "keypair \<Rightarrow> bytes result"
  sk_keypair_decode :: "bytes \<Rightarrow> keypair result"
  sk_new_keypair :: keypair
  sk_read_dir :: "string \<Rightarrow> (string \<times> bool) list result"  \<comment> \<open>file names of a directory, and whether they are directories\<close>
  sk_join :: "string \<Rightarrow> string \<Rightarrow> string"
  sk_now :: u64
  sk_version :: string

abbreviation sk_crypto :: "sdk_env \<Rightarrow> crypto" where "sk_crypto env \<equiv> me_crypto (sk_miniapp env)"

abbreviation own_id :: "sdk_env \<Rightarrow> keypair \<Rightarrow> string" where
  "own_id env kp \<equiv> peer_string (sk_crypto env) (kp_public (sk_crypto env) kp)"

definition read_file :: "disk \<Rightarrow> string \<Rightarrow> bytes result" where
  "read_file d path = ok_or (''read '' @ path) (d path)"

definition load_keypair :: "sdk_env \<Rightarrow> disk \<Rightarrow> string \<Rightarrow> keypair result" where
  "load_keypair env d path = ok_then (read_file d path) (sk_keypair_decode env)"

definition read_bundle :: "sdk_env \<Rightarrow> disk \<Rightarrow> string \<Rightarrow> (bytes \<times> MiniAppBundle) result" where
  "read_bundle env d path =
     ok_then (read_file d path) (\<lambda>data. ok_then (load_from_bytes (sk_miniapp env) data) (\<lambda>b. Ok (data, b)))"

section \<open>Lint, hash, attest\<close>

definition eq_ignore_ascii_case :: "string \<Rightarrow> string \<Rightarrow> bool" where
  "eq_ignore_ascii_case a b \<longleftrightarrow> map ascii_lower a = map ascii_lower b"

text \<open>The result of a lint is whether the signature of the developer verifies.\<close>

definition lint_bundle :: "sdk_env \<Rightarrow> disk \<Rightarrow> string \<Rightarrow> bool result" where
  "lint_bundle env d path =
     (let me = sk_miniapp env in
      ok_then (read_bundle env d path) (\<lambda>(data, b).
      if total_size b > 10 * 1024 * 1024 then Err ''bundle exceeds 10 MB limit''
      else if mf_runtime (b_manifest b) \<noteq> ''webview'' then Err ''unsupported runtime''
      else
        ok_then (entry_html b) (\<lambda>_.
        ok_then (scan_bundle b data) (\<lambda>_.
        ok_then (verify_bundle_developer_signature me b data) (\<lambda>sig_ok.
        case mf_reproducible_build (b_manifest b) of
          None \<Rightarrow> Ok sig_ok
        | Some rb \<Rightarrow>
            ok_then (reproducible_validate rb) (\<lambda>_.
            case rb_attested_bundle_hash rb of
              None \<Rightarrow> Ok sig_ok
            | Some attested \<Rightarrow>
                if eq_ignore_ascii_case attested (content_attestation_hash me b) then Ok sig_ok
                else Err ''reproducible_build.attested_bundle_hash mismatch''))))))"

definition hash_bundle :: "sdk_env \<Rightarrow> disk \<Rightarrow> string \<Rightarrow> string result" where
  "hash_bundle env d path = ok_then (read_file d path) (\<lambda>data. Ok (bundle_hash_hex (sk_miniapp env) data))"

definition attest_bundle :: "sdk_env \<Rightarrow> disk \<Rightarrow> string \<Rightarrow> string \<Rightarrow> ReproducibleBuild result" where
  "attest_bundle env d path recipe =
     ok_then (read_bundle env d path) (\<lambda>(data, b).
     ok_then (read_file d recipe) (\<lambda>r.
     let rb = \<lparr>rb_recipe_url = None, rb_recipe_digest_hex = Some (bundle_hash_hex (sk_miniapp env) r),
               rb_attested_bundle_hash = Some (content_attestation_hash (sk_miniapp env) b), rb_sdk_version = Some (sk_version env)\<rparr> in
     ok_then (reproducible_validate rb) (\<lambda>_. Ok rb)))"

section \<open>Pack\<close>

fun pack_files :: "sdk_env \<Rightarrow> disk \<Rightarrow> string \<Rightarrow> (string \<times> bool) list \<Rightarrow> (string \<times> bytes) list result" where
  "pack_files env d dir [] = Ok []"
| "pack_files env d dir ((name, is_dir) # es) =
     (if is_dir \<or> ends_with name ''.mxa'' \<or> name = BUNDLE_SIG_FILE then pack_files env d dir es
      else ok_then (read_file d (sk_join env dir name)) (\<lambda>buf. ok_then (pack_files env d dir es) (\<lambda>rest. Ok ((name, buf) # rest))))"

definition pack_dir :: "sdk_env \<Rightarrow> string \<Rightarrow> string \<Rightarrow> disk \<Rightarrow> unit result \<times> disk" where
  "pack_dir env dir output d =
     and_then (ok_or (''missing mycelium-app.json in '' @ dir) (d (sk_join env dir ''mycelium-app.json'')), d) (\<lambda>text d.
     and_then (me_parse_manifest (sk_miniapp env) text, d) (\<lambda>m d.
     and_then (manifest_validate m, d) (\<lambda>_ d.
     and_then (ok_then (sk_read_dir env dir) (pack_files env d dir), d) (\<lambda>es d.
     and_then (sk_zip env es, d) (\<lambda>data d. (Ok (), d(output \<mapsto> data)))))))"

section \<open>Sign\<close>

text \<open>\<open>by_name\<close> finds the last entry of a name.\<close>

definition entry_by_name :: "zip_entry list \<Rightarrow> string \<Rightarrow> bytes result" where
  "entry_by_name es name = (case map_of (rev es) name of Some (_, contents) \<Rightarrow> contents | None \<Rightarrow> Err ''specified file not found in archive'')"

definition archive_manifest :: "sdk_env \<Rightarrow> disk \<Rightarrow> string \<Rightarrow> (zip_entry list \<times> MiniAppManifest) result" where
  "archive_manifest env d path =
     ok_then (read_file d path) (\<lambda>data.
     ok_then (me_unzip (sk_miniapp env) data) (\<lambda>es.
     ok_then (entry_by_name es ''mycelium-app.json'') (\<lambda>text.
     ok_then (me_parse_manifest (sk_miniapp env) text) (\<lambda>m. Ok (es, m)))))"

definition with_developer :: "string \<Rightarrow> MiniAppManifest \<Rightarrow> MiniAppManifest" where
  "with_developer peer m = (if mf_developer_peer_id m = None then m\<lparr>mf_developer_peer_id := Some peer\<rparr> else m)"

fun unsigned_entries :: "bytes result \<Rightarrow> zip_entry list \<Rightarrow> (string \<times> bytes) list result" where
  "unsigned_entries text [] = Ok []"
| "unsigned_entries text ((name, _, contents) # es) =
     (if name = BUNDLE_SIG_FILE then unsigned_entries text es
      else
        ok_then contents (\<lambda>buf.
        ok_then (if name = ''mycelium-app.json'' then text else Ok buf) (\<lambda>buf.
        ok_then (unsigned_entries text es) (\<lambda>rest. Ok ((name, buf) # rest)))))"

fun all_entries :: "zip_entry list \<Rightarrow> (string \<times> bytes) list result" where
  "all_entries [] = Ok []"
| "all_entries ((name, _, contents) # es) =
     ok_then contents (\<lambda>buf. ok_then (all_entries es) (\<lambda>rest. Ok ((name, buf) # rest)))"

text \<open>The signed archive: the entries with the new manifest, then the signature over the archive without it.\<close>

definition signed_archive :: "sdk_env \<Rightarrow> keypair \<Rightarrow> zip_entry list \<Rightarrow> MiniAppManifest \<Rightarrow> bytes result" where
  "signed_archive env kp es m =
     (let me = sk_miniapp env in
      ok_then (unsigned_entries (sk_print_manifest env m) es) (\<lambda>cs.
      ok_then (sk_zip env cs) (\<lambda>plain.
      ok_then (bs_sign me plain kp) (\<lambda>sig.
      ok_then (sk_print_signature env sig) (\<lambda>sig_json.
      ok_then (ok_then (me_unzip me plain) all_entries) (\<lambda>cs.
      sk_zip env (cs @ [(BUNDLE_SIG_FILE, sig_json)])))))))"

definition sign_bundle :: "sdk_env \<Rightarrow> string \<Rightarrow> string \<Rightarrow> string option \<Rightarrow> disk \<Rightarrow> bool result \<times> disk" where
  "sign_bundle env path identity output d =
     (let dest = (case output of Some p \<Rightarrow> p | None \<Rightarrow> path) in
      and_then (load_keypair env d identity, d) (\<lambda>kp d.
      and_then (archive_manifest env d path, d) (\<lambda>(es, m) d.
      and_then (signed_archive env kp es (with_developer (own_id env kp) m), d) (\<lambda>data d.
      let d = d(dest \<mapsto> data) in
      and_then (read_bundle env d dest, d) (\<lambda>(signed, b) d.
      (verify_bundle_developer_signature (sk_miniapp env) b signed, d))))))"

definition pack_sign :: "sdk_env \<Rightarrow> string \<Rightarrow> string \<Rightarrow> string \<Rightarrow> string \<Rightarrow> disk \<Rightarrow> bool result \<times> disk" where
  "pack_sign env tmp dir output identity d =
     and_then (pack_dir env dir tmp d) (\<lambda>_ d. sign_bundle env tmp identity (Some output) d)"

section \<open>Listings and keys\<close>

definition build_listing :: "sdk_env \<Rightarrow> disk \<Rightarrow> string \<Rightarrow> string \<Rightarrow> AppStoreListing result" where
  "build_listing env d path identity =
     ok_then (load_keypair env d identity) (\<lambda>kp.
     ok_then (read_bundle env d path) (\<lambda>(data, b).
     ls_new_signed (sk_miniapp env) (sk_now env) (with_developer (own_id env kp) (b_manifest b)) data [SourcePeer (own_id env kp)] kp))"

definition emit_listing :: "sdk_env \<Rightarrow> string \<Rightarrow> string \<Rightarrow> string option \<Rightarrow> disk \<Rightarrow> AppStoreListing result \<times> disk" where
  "emit_listing env path identity output d =
     and_then (build_listing env d path identity, d) (\<lambda>l d.
     and_then (sk_print_listing env l, d) (\<lambda>json d.
     (Ok l, case output of Some out \<Rightarrow> d(out \<mapsto> json) | None \<Rightarrow> d)))"

fun build_listings :: "sdk_env \<Rightarrow> disk \<Rightarrow> string \<Rightarrow> string \<Rightarrow> (string \<times> bool) list \<Rightarrow> AppStoreListing list result" where
  "build_listings env d dir identity [] = Ok []"
| "build_listings env d dir identity ((name, _) # es) =
     (if ends_with name ''.mxa'' \<and> name \<noteq> ''.mxa''
      then ok_then (build_listing env d (sk_join env dir name) identity) (\<lambda>l.
           ok_then (build_listings env d dir identity es) (\<lambda>ls. Ok (l # ls)))
      else build_listings env d dir identity es)"

definition emit_listings_dir :: "sdk_env \<Rightarrow> string \<Rightarrow> string \<Rightarrow> string \<Rightarrow> disk \<Rightarrow> AppStoreListing list result \<times> disk" where
  "emit_listings_dir env dir identity output d =
     and_then (ok_then (sk_read_dir env dir) (build_listings env d dir identity), d) (\<lambda>ls d.
     let sorted = sort_key (mf_id \<circ> ls_manifest) ls in
     and_then (sk_print_listings env sorted, d) (\<lambda>json d. (Ok sorted, d(output \<mapsto> json))))"

definition keygen :: "sdk_env \<Rightarrow> string \<Rightarrow> disk \<Rightarrow> string result \<times> disk" where
  "keygen env dir d =
     (let kp = sk_new_keypair env; peer = own_id env kp in
      and_then (sk_keypair_encode env kp, d) (\<lambda>enc d.
      (Ok peer, d(sk_join env dir ''official.ed25519'' \<mapsto> enc, sk_join env dir ''official.peer-id'' \<mapsto> bytes_of peer))))"

section \<open>What is documented of the packages\<close>

text \<open>An archive is read back with the entries that were written, a name that ends in a slash is a directory, JSON is read back as it
  was printed, hexadecimal text has no white space, and a signature is not empty.\<close>

abbreviation dir_name :: "string \<Rightarrow> bool" where "dir_name name \<equiv> ends_with name ''/''"

abbreviation zipped :: "(string \<times> bytes) list \<Rightarrow> zip_entry list" where
  "zipped cs \<equiv> map (\<lambda>(name, buf). (name, dir_name name, Ok buf)) cs"

definition sdk_ok :: "sdk_env \<Rightarrow> bool" where
  "sdk_ok env \<longleftrightarrow>
     (let me = sk_miniapp env in
      crypto_ok (me_crypto me) \<and>
      (\<forall>cs data. sk_zip env cs = Ok data \<longrightarrow> me_unzip me data = Ok (zipped cs)) \<and>
      (\<forall>data es. me_unzip me data = Ok es \<longrightarrow> (\<forall>(name, is_dir, c)\<in>set es. is_dir = dir_name name)) \<and>
      (\<forall>m t. sk_print_manifest env m = Ok t \<longrightarrow> me_parse_manifest me t = Ok m) \<and>
      (\<forall>s t. sk_print_signature env s = Ok t \<longrightarrow> me_parse_signature me t = Ok s) \<and>
      (\<forall>b. hex_decode (me_sealing me) (trim (hex_encode (me_sealing me) b)) = Ok b) \<and>
      (\<forall>b. b \<noteq> [] \<longrightarrow> hex_encode (me_sealing me) b \<noteq> []) \<and>
      (\<forall>kp msg sig. kp_sign (me_crypto me) kp msg = Ok sig \<longrightarrow> sig \<noteq> []))"

section \<open>A signed bundle verifies\<close>

lemma all_entries_zipped: "all_entries (zipped cs) = Ok cs"
  by (induction cs) auto

lemma read_entries_append:
  "read_entries (zipped cs @ [(BUNDLE_SIG_FILE, is_dir, Ok sig)]) = read_entries (zipped cs)"
  by (induction cs) auto

lemma manifest_in_unsigned:
  "unsigned_entries t es = Ok cs \<Longrightarrow> (name, buf) \<in> set cs \<Longrightarrow> name = ''mycelium-app.json'' \<Longrightarrow> t = Ok buf"
  by (induction es arbitrary: cs) (auto simp: ok_then_Ok split: if_splits)

lemma signed_archive_parts:
  assumes "sdk_ok env" "signed_archive env kp es m = Ok data"
  obtains cs plain sig st where "unsigned_entries (sk_print_manifest env m) es = Ok cs" "sk_zip env cs = Ok plain"
    "bs_sign (sk_miniapp env) plain kp = Ok sig" "sk_print_signature env sig = Ok st" "me_unzip (sk_miniapp env) plain = Ok (zipped cs)"
    "me_unzip (sk_miniapp env) data = Ok (zipped cs @ [(BUNDLE_SIG_FILE, dir_name BUNDLE_SIG_FILE, Ok st)])"
proof -
  obtain cs plain sig st where p: "unsigned_entries (sk_print_manifest env m) es = Ok cs" "sk_zip env cs = Ok plain"
      "bs_sign (sk_miniapp env) plain kp = Ok sig" "sk_print_signature env sig = Ok st"
      "ok_then (ok_then (me_unzip (sk_miniapp env) plain) all_entries) (\<lambda>cs. sk_zip env (cs @ [(BUNDLE_SIG_FILE, st)])) = Ok data"
    using assms(2) by (auto simp: signed_archive_def Let_def ok_then_Ok)
  moreover have zip: "me_unzip (sk_miniapp env) x = Ok (zipped xs)" if "sk_zip env xs = Ok x" for xs x
    using assms(1) that by (simp add: sdk_ok_def Let_def)
  ultimately have "sk_zip env (cs @ [(BUNDLE_SIG_FILE, st)]) = Ok data"
    using all_entries_zipped [of cs] by simp
  with that [OF p(1-4)] zip p(2) show thesis
    by fastforce
qed

lemma load_zipped:
  "load_entries (zipped cs) t = Ok files \<Longrightarrow>
   tree_get files f = (if dir_name f then tree_get t f else case map_of (rev cs) f of Some v \<Rightarrow> Some v | None \<Rightarrow> tree_get t f)"
  by (induction cs arbitrary: t)
    (auto simp: ok_then_Ok tree_get_put map_add_def split: if_splits option.splits)

lemma hash_ignores_signature:
  assumes "me_unzip me plain = Ok (zipped cs)" "me_unzip me data = Ok (zipped cs @ [(BUNDLE_SIG_FILE, is_dir, Ok s)])"
  shows "bundle_hash_for_signature me data = bundle_hash_for_signature me plain"
  using assms read_entries_append by (simp add: bundle_hash_for_signature_def)

lemma signature_verifies:
  assumes ok: "sdk_ok env" and sig: "bs_sign (sk_miniapp env) plain kp = Ok s"
    and "bundle_hash_for_signature (sk_miniapp env) data = bundle_hash_for_signature (sk_miniapp env) plain"
    and dev: "mf_developer_peer_id m = Some (own_id env kp)"
  shows "bs_verify (sk_miniapp env) s data m = Ok True"
proof -
  let ?me = "sk_miniapp env"
  obtain h x where h: "bundle_hash_for_signature ?me plain = Ok h" "kp_sign (me_crypto ?me) kp (bytes_of h) = Ok x"
      "s = \<lparr>bs_bundle_hash = h, bs_signature = hex_encode (me_sealing ?me) x\<rparr>"
    using sig by (auto simp: bs_sign_def ok_then_Ok)
  have cr: "crypto_ok (me_crypto ?me)" and "x \<noteq> []" and hex: "hex_decode (me_sealing ?me) (trim (hex_encode (me_sealing ?me) x)) = Ok x"
    using ok h(2) by (auto simp: sdk_ok_def Let_def)
  then have "hex_encode (me_sealing ?me) x \<noteq> []"
    using ok by (auto simp: sdk_ok_def Let_def)
  then show ?thesis
    using h assms(3) dev hex crypto_okD(3-5) [OF cr] by (simp add: bs_verify_def public_key_from_peer_id_def)
qed

text \<open>The bundle in a signed archive: its manifest is the one that was put in, and its signature verifies.\<close>

lemma signed_archive_verifies:
  assumes ok: "sdk_ok env" and sa: "signed_archive env kp es m = Ok data" and ld: "load_from_bytes (sk_miniapp env) data = Ok b"
    and dev: "mf_developer_peer_id m = Some (own_id env kp)"
  shows "b_manifest b = m" "verify_bundle_developer_signature (sk_miniapp env) b data = Ok True"
proof -
  let ?me = "sk_miniapp env"
  obtain cs plain sig st where p: "unsigned_entries (sk_print_manifest env m) es = Ok cs" "sk_zip env cs = Ok plain"
      "bs_sign ?me plain kp = Ok sig" "sk_print_signature env sig = Ok st" "me_unzip ?me plain = Ok (zipped cs)"
      "me_unzip ?me data = Ok (zipped cs @ [(BUNDLE_SIG_FILE, dir_name BUNDLE_SIG_FILE, Ok st)])"
    by (rule signed_archive_parts [OF ok sa])
  let ?all = "cs @ [(BUNDLE_SIG_FILE, st)]"
  obtain files t where f: "load_entries (zipped ?all) [] = Ok files" "tree_get files ''mycelium-app.json'' = Some t"
      "me_parse_manifest ?me t = Ok (b_manifest b)" "b_files b = files"
    using ld p(6) by (auto simp: load_from_bytes_def ok_then_Ok ok_or_def split: option.splits)
  have names: "\<not> dir_name BUNDLE_SIG_FILE" "\<not> dir_name ''mycelium-app.json''" "BUNDLE_SIG_FILE \<noteq> ''mycelium-app.json''"
    unfolding BUNDLE_SIG_FILE_def by code_simp+
  have "map_of (rev cs) ''mycelium-app.json'' = Some t"
    using load_zipped [OF f(1), of "''mycelium-app.json''"] f(2) names by (auto split: option.splits)
  then have "sk_print_manifest env m = Ok t"
    using manifest_in_unsigned [OF p(1)] by (auto dest: map_of_SomeD)
  then show m: "b_manifest b = m"
    using f(3) ok by (simp add: sdk_ok_def Let_def)
  have "b_get_file b BUNDLE_SIG_FILE = Some st"
    using load_zipped [OF f(1), of BUNDLE_SIG_FILE] f(4) names by (simp add: b_get_file_def)
  moreover have "bs_verify ?me sig data m = Ok True"
    by (rule signature_verifies [OF ok p(3) hash_ignores_signature [OF p(5,6)] dev])
  ultimately show "verify_bundle_developer_signature ?me b data = Ok True"
    using ok m p(4) by (simp add: verify_bundle_developer_signature_def sdk_ok_def Let_def)
qed

text \<open>The other files are those of the archive that was signed.\<close>

lemma load_original:
  assumes "load_entries es t = Ok files" "unsigned_entries mt es = Ok cs" "\<forall>(name, is_dir, c)\<in>set es. is_dir = dir_name name"
    and "f \<noteq> BUNDLE_SIG_FILE" "f \<noteq> ''mycelium-app.json''"
  shows "tree_get files f = (if dir_name f then tree_get t f else case map_of (rev cs) f of Some v \<Rightarrow> Some v | None \<Rightarrow> tree_get t f)"
  using assms(1-3)
proof (induction es arbitrary: t cs)
  case (Cons e es)
  obtain name is_dir c where e: "e = (name, is_dir, c)"
    by (cases e) auto
  obtain cs' where cs': "unsigned_entries mt es = Ok cs'"
    "name = BUNDLE_SIG_FILE \<and> cs = cs' \<or>
     name \<noteq> BUNDLE_SIG_FILE \<and> (\<exists>buf b. c = Ok buf \<and> (name = ''mycelium-app.json'' \<or> b = buf) \<and> cs = (name, b) # cs')"
    using Cons.prems(2) e by (auto simp: ok_then_Ok split: if_splits)
  have dir: "is_dir = dir_name name"
    using Cons.prems(3) e by simp
  note IH = Cons.IH [OF _ cs'(1)]
  show ?case
  proof (cases is_dir)
    case True
    then have "load_entries es t = Ok files"
      using Cons.prems(1) e by simp
    from IH [OF this] Cons.prems(3) cs'(2) True dir show ?thesis
      by (auto simp: map_add_def split: option.splits if_splits)
  next
    case False
    then obtain buf where "c = Ok buf" "load_entries es (tree_put name buf t) = Ok files"
      using Cons.prems(1) e by (auto simp: ok_then_Ok split: if_splits)
    from IH [OF this(2)] this(1) Cons.prems(3) cs'(2) assms(4,5) dir False show ?thesis
      by (auto simp: map_add_def tree_get_put split: option.splits)
  qed
qed simp

lemma signed_archive_files:
  assumes ok: "sdk_ok env" and sa: "signed_archive env kp es m = Ok data" and ld: "load_from_bytes (sk_miniapp env) data = Ok b"
    and es: "me_unzip (sk_miniapp env) old = Ok es" and ld0: "load_from_bytes (sk_miniapp env) old = Ok b0"
    and f: "f \<noteq> BUNDLE_SIG_FILE" "f \<noteq> ''mycelium-app.json''"
  shows "b_get_file b f = b_get_file b0 f"
proof -
  let ?me = "sk_miniapp env"
  obtain cs plain sig st where p: "unsigned_entries (sk_print_manifest env m) es = Ok cs" "sk_zip env cs = Ok plain"
      "bs_sign ?me plain kp = Ok sig" "sk_print_signature env sig = Ok st" "me_unzip ?me plain = Ok (zipped cs)"
      "me_unzip ?me data = Ok (zipped cs @ [(BUNDLE_SIG_FILE, dir_name BUNDLE_SIG_FILE, Ok st)])"
    by (rule signed_archive_parts [OF ok sa])
  let ?all = "cs @ [(BUNDLE_SIG_FILE, st)]"
  have new: "load_entries (zipped ?all) [] = Ok (b_files b)" and old: "load_entries es [] = Ok (b_files b0)"
    using ld ld0 p(6) es by (auto simp: load_from_bytes_def ok_then_Ok)
  have "\<forall>(name, is_dir, c)\<in>set es. is_dir = dir_name name"
    using ok es by (auto simp: sdk_ok_def Let_def)
  from load_zipped [OF new, of f] load_original [OF old p(1) this f] f show ?thesis
    by (simp add: b_get_file_def)
qed


section \<open>An example\<close>

text \<open>Two archives, of a page without and with its signature.\<close>

definition demo_contents :: "(string \<times> bytes) list" where
  "demo_contents = [(''mycelium-app.json'', []), (''i.html'', bytes_of ''<p>'')]"

definition demo_sdk_crypto :: crypto where
  "demo_sdk_crypto = demo_crypto\<lparr>kp_sign := \<lambda>kp m. if kp = [] then Err ''no key'' else Ok (kp @ m)\<rparr>"

definition demo_signature :: BundleSignatureFile where
  "demo_signature =
     (let h = string_of_bytes (blake3 demo_crypto (concat (map file_digest_input (sort_key fst demo_contents)))) in
      \<lparr>bs_bundle_hash = h, bs_signature = demo_hex (7 # bytes_of h)\<rparr>)"

definition demo_sdk_env :: sdk_env where
  "demo_sdk_env =
     \<lparr>sk_miniapp =
        \<lparr>me_crypto = demo_sdk_crypto, me_sealing = hex_sealing,
         me_unzip = \<lambda>bs. if bs = [1] then Ok (zipped demo_contents)
           else if bs = [2] then Ok (zipped (demo_contents @ [(BUNDLE_SIG_FILE, [])])) else Err ''no archive'',
         me_parse_manifest = \<lambda>_. Ok demo_manifest, me_print_manifest = \<lambda>_. [], me_print_sources = \<lambda>_. [],
         me_parse_signature = \<lambda>_. Ok demo_signature\<rparr>,
      sk_zip = \<lambda>cs. if cs = demo_contents then Ok [1]
        else if cs = demo_contents @ [(BUNDLE_SIG_FILE, [])] then Ok [2] else Err ''no space'',
      sk_print_manifest = \<lambda>m. if m = demo_manifest then Ok [] else Err ''other manifest'',
      sk_print_signature = \<lambda>s. if s = demo_signature then Ok [] else Err ''other signature'',
      sk_print_listing = \<lambda>_. Ok [], sk_print_listings = \<lambda>_. Ok [],
      sk_keypair_encode = Ok, sk_keypair_decode = Ok, sk_new_keypair = [7], sk_read_dir = \<lambda>_. Ok [], sk_join = (@),
      sk_now = 5, sk_version = ''0.1.0''\<rparr>"

definition sdk_disk :: disk where
  "sdk_disk = [''k'' \<mapsto> [7], ''a.mxa'' \<mapsto> [1]]"

lemma sdk_ok_demo: "sdk_ok demo_sdk_env"
proof -
  have "crypto_ok demo_sdk_crypto"
    using crypto_ok_demo by (simp add: crypto_ok_def demo_sdk_crypto_def demo_crypto_def)
  moreover have "demo_hex b \<noteq> []" if "b \<noteq> []" for b
    using that by (cases b) (simp_all add: demo_hex_def)
  ultimately show ?thesis
    by (auto simp: sdk_ok_def demo_sdk_env_def hex_sealing_def demo_sdk_crypto_def demo_hex_trimmed split: if_splits)
qed

lemma demo_names: "dir_name ''mycelium-app.json'' = False" "dir_name ''i.html'' = False" "dir_name BUNDLE_SIG_FILE = False"
  "is_safe_bundle_path BUNDLE_SIG_FILE" "(''mycelium-app.json'' = BUNDLE_SIG_FILE) = False" "(''i.html'' = BUNDLE_SIG_FILE) = False"
  unfolding BUNDLE_SIG_FILE_def by code_simp+

lemma demo_load_signed: "\<exists>b. load_from_bytes (sk_miniapp demo_sdk_env) [2] = Ok b"
  by (simp add: load_from_bytes_def demo_sdk_env_def demo_contents_def demo_names safe_i manifest_validate_def demo_manifest_def
      char_count_def less_char_def tree_get_put ok_or_def)

lemma demo_bs_sign: "bs_sign (sk_miniapp demo_sdk_env) [1] [7] = Ok demo_signature"
  by (simp add: bs_sign_def bundle_hash_for_signature_def demo_sdk_env_def demo_sdk_crypto_def demo_crypto_def demo_contents_def
      demo_names demo_signature_def Let_def hex_sealing_def map_err_def)

lemma demo_signed_archive:
  "signed_archive demo_sdk_env [7] (zipped demo_contents) demo_manifest = Ok [2]"
proof -
  have "unsigned_entries (sk_print_manifest demo_sdk_env demo_manifest) (zipped demo_contents) = Ok demo_contents"
    by (simp add: demo_contents_def demo_names demo_sdk_env_def)
  moreover have "sk_zip demo_sdk_env demo_contents = Ok [1]" "sk_print_signature demo_sdk_env demo_signature = Ok []"
    "me_unzip (sk_miniapp demo_sdk_env) [1] = Ok (zipped demo_contents)"
    "sk_zip demo_sdk_env (demo_contents @ [(BUNDLE_SIG_FILE, [])]) = Ok [2]"
    by (simp_all add: demo_sdk_env_def)
  ultimately show ?thesis
    using demo_bs_sign by (simp add: signed_archive_def all_entries_zipped)
qed

lemma demo_archive_manifest: "archive_manifest demo_sdk_env sdk_disk ''a.mxa'' = Ok (zipped demo_contents, demo_manifest)"
  by (simp add: archive_manifest_def read_file_def ok_or_def sdk_disk_def demo_sdk_env_def entry_by_name_def demo_contents_def)

lemma demo_developer: "mf_developer_peer_id demo_manifest = Some (own_id demo_sdk_env [7])"
  by (simp add: demo_manifest_def demo_sdk_env_def demo_sdk_crypto_def demo_crypto_def)


end
