(* ===== verification/Cli.thy ===== *)
theory Cli
  imports Sdk Api Ffi_Props
begin

text \<open>
  The command-line node (\<open>mycelium-cli/src/main.rs\<close>): publishing a mini-app, starting a node, and the process that
  then serves what is typed, what arrives from the mesh and what is asked over the local HTTP interface.  The three run as tasks over
  one application node; the model takes each line, message and request as one step.  Parsing the arguments of the program belongs
  to clap, and the identity and storage steps are those of the other hosts.
\<close>

section \<open>Publishing\<close>

definition build_signed_listing :: "ffi_env \<Rightarrow> disk \<Rightarrow> string \<Rightarrow> string \<Rightarrow> vault_state \<Rightarrow> AppStoreListing result \<times> vault_state" where
  "build_signed_listing env d db path vs =
     (let me = ap_miniapp (fe_app env) in
      and_then (load_or_create_keypair (fe_vault env) db (db @ ''/identity'') None vs) (\<lambda>kp vs.
      let peer = peer_string (me_crypto me) (kp_public (me_crypto me) kp) in
      and_then (read_file d path, vs) (\<lambda>data vs.
      and_then (load_from_bytes me data, vs) (\<lambda>b vs.
      (ls_new_signed me (ap_now (fe_app env)) (with_developer peer (b_manifest b)) data [SourcePeer peer] kp, vs)))))"

section \<open>Start\<close>

definition cli_parse_energy :: "string \<Rightarrow> NodeState result" where
  "cli_parse_energy input =
     (let s = map ascii_lower input in
      if s = ''active'' then Ok Active
      else if s = ''intermittent'' then Ok Intermittent
      else if s = ''passive'' then Ok Passive
      else Err ''invalid --energy-state, expected active|intermittent|passive'')"

definition cli_config :: "string \<Rightarrow> string \<Rightarrow> string \<Rightarrow> string list \<Rightarrow> NodeConfig" where
  "cli_config listen db name boot =
     \<lparr>cfg_listen_addr = listen, cfg_db_path = db, cfg_keypair_path = None,
      cfg_forwarding_interval_ms = 500, cfg_sync_interval_secs = 30, cfg_bootstrap_peers = boot,
      cfg_has_connectivity_rx = True, cfg_display_name = Some name, cfg_storage_key = None,
      cfg_max_relay_fanout = 3, cfg_rendezvous_enabled = True, cfg_bulletin_subscriptions = [], cfg_max_peers = 50\<rparr>"

definition set_energy :: "ffi_env \<Rightarrow> string \<Rightarrow> NodeCommand list result" where
  "set_energy env energy =
     ok_then (cli_parse_energy energy) (\<lambda>st.
     ok_then (ap_send (fe_app env) (CmdSetEnergyState st)) (\<lambda>_. Ok [CmdSetEnergyState st]))"

text \<open>The steps that both ways to start a node share; there is no coin node, and values of mini-apps are stored without a key.\<close>

definition cli_start ::
  "ffi_env \<Rightarrow> string \<Rightarrow> string \<Rightarrow> string \<Rightarrow> string list \<Rightarrow> NodeCommand list result \<Rightarrow> vault_state \<Rightarrow> AppNode result \<times> vault_state" where
  "cli_start env listen db name boot first vs =
     and_then (if fe_parse_addr env listen then Ok () else Err ''invalid --listen multiaddr'', vs) (\<lambda>_ vs.
     and_then (runner_new env (cli_config listen db name boot) vs) (\<lambda>runner vs.
     and_then (first, vs) (\<lambda>cs vs.
     and_then (fe_open_storage env (db @ ''/app''), vs) (\<lambda>storage vs.
     and_then (fe_open_store env (db @ ''/miniapp''), vs) (\<lambda>st vs.
     and_then (load_or_create_enc_keypair (fe_vault env) db None vs) (\<lambda>enc vs.
     (Ok ((app_node_new (local_id runner) name (storage\<lparr>as_at_rest_key := None\<rparr>) None (Some st) enc)\<lparr>an_commands := cs\<rparr>), vs)))))))"

definition cmd_app_publish :: "ffi_env \<Rightarrow> disk \<Rightarrow> string \<Rightarrow> string \<Rightarrow> vault_state \<Rightarrow> AppStoreListing result \<times> vault_state" where
  "cmd_app_publish env d db path vs = build_signed_listing env d db path vs"

definition cmd_app_publish_live ::
  "ffi_env \<Rightarrow> disk \<Rightarrow> string \<Rightarrow> string \<Rightarrow> string \<Rightarrow> string list \<Rightarrow> vault_state \<Rightarrow> AppNode result \<times> vault_state" where
  "cmd_app_publish_live env d db path listen boot vs =
     and_then (build_signed_listing env d db path vs) (\<lambda>l vs.
     and_then (cli_start env listen db ''publisher'' boot (Ok []) vs) (\<lambda>n vs.
     let (r, n) = publish_app_listing (fe_app env) l n in
     (ok_then r (\<lambda>_. Ok n), vs)))"

section \<open>A typed line\<close>

datatype ConsoleCommand =
    NoCommand
  | Peers
  | ChatTo string string
  | ChatHistory string
  | PostBulletin string string string
  | ListBulletins string
  | MailTo string string string
  | MailInbox
  | ReadMail string
  | SetName string
  | Broadcast string string
  | Usage string
  | UnknownCommand

text \<open>\<open>splitn(2, c)\<close>, with nothing where there is no second part.\<close>

definition split_two :: "char \<Rightarrow> string \<Rightarrow> string \<times> string" where
  "split_two c s = (case split_once c s of Some ab \<Rightarrow> ab | None \<Rightarrow> (s, []))"

definition two_words :: "(string \<Rightarrow> string \<Rightarrow> ConsoleCommand) \<Rightarrow> string \<Rightarrow> string \<Rightarrow> ConsoleCommand" where
  "two_words mk usage rest =
     (let (target, msg) = split_two (CHR '' '') rest in
      if target = [] \<or> msg = [] then Usage usage else mk target msg)"

definition titled :: "(string \<Rightarrow> string \<Rightarrow> string \<Rightarrow> ConsoleCommand) \<Rightarrow> string \<Rightarrow> string \<Rightarrow> ConsoleCommand" where
  "titled mk usage rest =
     (let (target, content) = split_two (CHR '' '') rest; (a, b) = split_two (CHR ''|'') content; title = trim a; msg = trim b in
      if target = [] \<or> title = [] \<or> msg = [] then Usage usage else mk target title msg)"

definition parse_line :: "string \<Rightarrow> ConsoleCommand" where
  "parse_line line =
     (let t = trim line in
      if t = [] then NoCommand
      else if t = ''/peers'' then Peers
      else case strip_prefix ''/chat '' t of Some rest \<Rightarrow> two_words ChatTo ''/chat <peer_id> <text>'' rest | None \<Rightarrow>
      (case strip_prefix ''/chat:history '' t of Some peer \<Rightarrow> ChatHistory (trim peer) | None \<Rightarrow>
      (case strip_prefix ''/bulletin '' t of Some rest \<Rightarrow> titled PostBulletin ''/bulletin <scope> <title> | <body>'' rest | None \<Rightarrow>
      (case strip_prefix ''/bulletin:list '' t of Some scope \<Rightarrow> ListBulletins (trim scope) | None \<Rightarrow>
      (case strip_prefix ''/mail '' t of Some rest \<Rightarrow> titled MailTo ''/mail <peer_id> <subject> | <body>'' rest | None \<Rightarrow>
      if t = ''/mail:inbox'' then MailInbox
      else case strip_prefix ''/mail:read '' t of Some i \<Rightarrow> ReadMail (trim i) | None \<Rightarrow>
      (case strip_prefix ''/name '' t of Some name \<Rightarrow> SetName (trim name) | None \<Rightarrow>
      (case strip_prefix ''/broadcast '' t of Some rest \<Rightarrow> two_words Broadcast ''/broadcast <scope> <text>'' rest | None \<Rightarrow>
      UnknownCommand)))))))"

text \<open>What a command prints, and the node after it; an error ends the program.\<close>

definition run_command :: "api_env \<Rightarrow> ConsoleCommand \<Rightarrow> AppNode \<Rightarrow> string list app_result" where
  "run_command env c n =
     (let app = ai_app env; s = an_storage n in
      case c of
        NoCommand \<Rightarrow> (Ok [], n)
      | Peers \<Rightarrow> and_then (app_send app CmdListPeers n) (\<lambda>_ n. (Ok [], n))
      | ChatTo peer text \<Rightarrow> and_then (send_chat app (Some peer) text n) (\<lambda>_ n. (Ok [], n))
      | ChatHistory peer \<Rightarrow>
          (Ok (map (\<lambda>m. ''['' @ cm_from_display_name m @ ''] '' @ cm_body m) (chat_history s peer 50)), n)
      | PostBulletin scope title text \<Rightarrow> and_then (post_bulletin app scope title text 86400 n) (\<lambda>_ n. (Ok [], n))
      | ListBulletins scope \<Rightarrow>
          (Ok (map (\<lambda>p. ''['' @ bp_scope p @ ''] '' @ bp_title p @ '' - '' @ bp_body p) (bulletins_for_scope (ap_now app) s scope)), n)
      | MailTo peer subject text \<Rightarrow> and_then (send_mail app peer subject text [] n) (\<lambda>_ n. (Ok [], n))
      | MailInbox \<Rightarrow>
          (Ok (map (\<lambda>m. mm_id m @ '' '' @ mm_from_display_name m @ '' '' @ mm_subject m) (mail_inbox s 50)), n)
      | ReadMail i \<Rightarrow>
          (case ai_parse_uuid env i of
             Inl _ \<Rightarrow> (Err ''invalid mail id'', n)
           | Inr uuid \<Rightarrow> (Ok [''marked as read: '' @ uuid], on_storage (mark_read uuid) n))
      | SetName name \<Rightarrow> (Ok [''name set''], set_display_name name n)
      | Broadcast scope text \<Rightarrow> and_then (broadcast_chat app scope text n) (\<lambda>_ n. (Ok [''broadcast sent''], n))
      | Usage _ \<Rightarrow> (Ok [], n)
      | UnknownCommand \<Rightarrow> (Ok [], n))"

section \<open>The process\<close>

datatype cli_event =
    Typed "string result"  \<comment> \<open>a line, or the error of reading one\<close>
  | Received DirectMessage
  | Requested HttpVerb "string list" "json option"

text \<open>What the process has printed, how it ended, and the node; after an error nothing is served any more.\<close>

fun serve :: "(api_env \<times> cli_event) list \<Rightarrow> AppNode \<Rightarrow> string list \<times> unit result \<times> AppNode" where
  "serve [] n = ([], Ok (), n)"
| "serve ((env, Received msg) # evs) n = serve evs (dispatch_incoming (ai_app env) msg n)"
| "serve ((env, Requested v segs req) # evs) n = serve evs (snd (api_request env v segs req n))"
| "serve ((env, Typed (Inl e)) # evs) n = ([], Err e, n)"
| "serve ((env, Typed (Inr line)) # evs) n =
     (case run_command env (parse_line line) n of
        (Inl e, n) \<Rightarrow> ([], Err e, n)
      | (Inr out, n) \<Rightarrow> (let (outs, r) = serve evs n in (out @ outs, r)))"

definition run_interactive_server ::
  "ffi_env \<Rightarrow> unit result \<Rightarrow> string \<Rightarrow> string \<Rightarrow> string \<Rightarrow> string \<Rightarrow> string list \<Rightarrow> (api_env \<times> cli_event) list \<Rightarrow> vault_state \<Rightarrow>
   (string list \<times> unit result \<times> AppNode) result \<times> vault_state" where
  "run_interactive_server env bind listen db name energy boot evs vs =
     and_then (cli_start env listen db name boot (set_energy env energy) vs) (\<lambda>n vs.
     (ok_then bind (\<lambda>_. Ok (serve evs n)), vs))"

section \<open>A command is what was typed\<close>

text \<open>How each command is written, and which commands can be written so.\<close>

fun render :: "ConsoleCommand \<Rightarrow> string" where
  "render Peers = ''/peers''"
| "render (ChatTo peer text) = ''/chat '' @ peer @ '' '' @ text"
| "render (ChatHistory peer) = ''/chat:history '' @ peer"
| "render (PostBulletin scope title text) = ''/bulletin '' @ scope @ '' '' @ title @ ''|'' @ text"
| "render (ListBulletins scope) = ''/bulletin:list '' @ scope"
| "render (MailTo peer subject text) = ''/mail '' @ peer @ '' '' @ subject @ ''|'' @ text"
| "render MailInbox = ''/mail:inbox''"
| "render (ReadMail i) = ''/mail:read '' @ i"
| "render (SetName name) = ''/name '' @ name"
| "render (Broadcast scope text) = ''/broadcast '' @ scope @ '' '' @ text"
| "render _ = []"

abbreviation word :: "string \<Rightarrow> bool" where "word s \<equiv> s \<noteq> [] \<and> CHR '' '' \<notin> set s"
abbreviation line_end :: "string \<Rightarrow> bool" where "line_end s \<equiv> s \<noteq> [] \<and> trim_end s = s"
abbreviation field :: "string \<Rightarrow> bool" where "field s \<equiv> s \<noteq> [] \<and> trim s = s"

fun writable :: "ConsoleCommand \<Rightarrow> bool" where
  "writable (ChatTo peer text) \<longleftrightarrow> word peer \<and> line_end text"
| "writable (ChatHistory peer) \<longleftrightarrow> field peer"
| "writable (PostBulletin scope title text) \<longleftrightarrow> word scope \<and> field title \<and> CHR ''|'' \<notin> set title \<and> field text"
| "writable (ListBulletins scope) \<longleftrightarrow> field scope"
| "writable (MailTo peer subject text) \<longleftrightarrow> word peer \<and> field subject \<and> CHR ''|'' \<notin> set subject \<and> field text"
| "writable (ReadMail i) \<longleftrightarrow> field i"
| "writable (SetName name) \<longleftrightarrow> field name"
| "writable (Broadcast scope text) \<longleftrightarrow> word scope \<and> line_end text"
| "writable (Usage u) \<longleftrightarrow> False"
| "writable UnknownCommand \<longleftrightarrow> False"
| "writable c \<longleftrightarrow> True"

lemma trim_end_trimmed: "trim s = s \<Longrightarrow> trim_end s = s"
  using trim_end_trim [of s] by simp

text \<open>A separator before a text that ends a line keeps white space from reaching across it.\<close>

lemma white_separator:
  assumes "w \<in> rev ` set white_space" "c = CHR '' '' \<or> c = CHR ''|''" "c \<in> set w"
  shows "length w = 1"
proof -
  have "length v = 1" if "v \<in> set white_space" "of_char c < (128::nat)" "c \<in> set v" for v
    using that by (auto simp: white_space_def)
  with assms show ?thesis
    by auto
qed

lemma trim_end_separated:
  assumes "line_end s" "c = CHR '' '' \<or> c = CHR ''|''"
  shows "trim_end (p @ c # s) = p @ c # s"
proof (rule trim_end_fixed)
  fix w
  assume w: "w \<in> rev ` set white_space"
  show "\<not> starts_with (rev (p @ c # s)) w"
  proof
    assume sw: "starts_with (rev (p @ c # s)) w"
    have "length w \<le> length s"
    proof (rule ccontr)
      assume "\<not> length w \<le> length s"
      moreover from this have "w ! length s = c"
        using sw unfolding starts_with_def by (metis append.assoc append_Cons length_rev not_le nth_append_length nth_take rev.simps(2) rev_append append_Nil)
      ultimately have "length w = 1"
        using white_separator [OF w assms(2)] by (metis not_le nth_mem)
      with \<open>\<not> length w \<le> length s\<close> assms(1) show False
        by (cases s) simp_all
    qed
    then have "starts_with (rev s) w"
      using sw by (simp add: starts_with_def)
    with trim_end_none [OF w, of s] assms(1) show False
      by simp
  qed
qed

lemma trim_line:
  assumes "trim_end (CHR ''/'' # s) = CHR ''/'' # s"
  shows "trim (CHR ''/'' # s) = CHR ''/'' # s"
proof -
  have "trim_start (CHR ''/'' # s) = CHR ''/'' # s"
    by (rule trim_start_fixed, rule not_starts_with_white [of _ white_space]) (auto simp: white_space_nonempty)
  with assms show ?thesis
    by (simp add: trim_def)
qed

lemma trim_typed:
  assumes "line_end s" "c = CHR '' '' \<or> c = CHR ''|''"
  shows "trim (CHR ''/'' # p @ c # s) = CHR ''/'' # p @ c # s"
  using trim_end_separated [OF assms, of "CHR ''/'' # p"] by (intro trim_line) simp

lemma two_words_typed:
  "word a \<Longrightarrow> b \<noteq> [] \<Longrightarrow> two_words mk u (a @ CHR '' '' # b) = mk a b"
  by (simp add: two_words_def split_two_def split_once_append)

lemma titled_typed:
  "word a \<Longrightarrow> field t \<Longrightarrow> CHR ''|'' \<notin> set t \<Longrightarrow> field b \<Longrightarrow> titled mk u (a @ CHR '' '' # t @ CHR ''|'' # b) = mk a t b"
  by (simp add: titled_def split_two_def split_once_append)

lemma trim_render:
  assumes "writable c"
  shows "trim (render c) = render c"
proof -
  have typed: "trim (CHR ''/'' # p @ d # t) = CHR ''/'' # p @ d # t"
    if "t \<noteq> []" "trim t = t \<or> trim_end t = t" "d = CHR '' '' \<or> d = CHR ''|''" for p d t
    using that trim_typed trim_end_trimmed by blast
  have "trim ''/peers'' = ''/peers''" "trim ''/mail:inbox'' = ''/mail:inbox''"
    by (rule trim_printable; auto)+
  moreover have "trim [] = []"
    by (rule trim_printable) simp
  ultimately show ?thesis
  proof (cases c)
    case (ChatTo peer msg)
    then show ?thesis
      using assms typed [of msg "CHR '' ''" "''chat '' @ peer"] by simp
  next
    case (ChatHistory peer)
    then show ?thesis
      using assms typed [of peer "CHR '' ''" "''chat:history''"] by simp
  next
    case (PostBulletin scope title msg)
    then show ?thesis
      using assms typed [of msg "CHR ''|''" "''bulletin '' @ scope @ '' '' @ title"] by simp
  next
    case (ListBulletins scope)
    then show ?thesis
      using assms typed [of scope "CHR '' ''" "''bulletin:list''"] by simp
  next
    case (MailTo peer subject msg)
    then show ?thesis
      using assms typed [of msg "CHR ''|''" "''mail '' @ peer @ '' '' @ subject"] by simp
  next
    case (ReadMail i)
    then show ?thesis
      using assms typed [of i "CHR '' ''" "''mail:read''"] by simp
  next
    case (SetName name)
    then show ?thesis
      using assms typed [of name "CHR '' ''" "''name''"] by simp
  next
    case (Broadcast scope msg)
    then show ?thesis
      using assms typed [of msg "CHR '' ''" "''broadcast '' @ scope"] by simp
  qed (use assms in \<open>simp_all\<close>)
qed

text \<open>Every command of the console can be typed.  A command whose fields are words and trimmed texts is read from the line it is
  written as, and from that line with any white space around it.\<close>

theorem parse_line_render:
  assumes "writable c" "trim line = trim (render c)"
  shows "parse_line line = c"
proof -
  have "trim line = render c"
    using assms(2) trim_render [OF assms(1)] by simp
  note eval = parse_line_def this two_words_typed titled_typed strip_prefix_def starts_with_def Let_def
  show ?thesis
    using assms(1) by (cases c) (simp_all add: eval)
qed

section \<open>What the process can change\<close>

context app_view begin

lemma broadcasting: "view (snd (broadcast_chat env scope text n)) = view n"
  by (auto simp: broadcast_chat_def basic intro!: and_then_view)

lemma commands_typed: "view (snd (run_command env c n)) = view n"
  by (cases c) (auto simp: run_command_def Let_def chat bulletin mail naming broadcasting basic intro!: and_then_view split: sum.split)

text \<open>Without a coin node, nothing the process serves changes such a view.\<close>

lemma serving:
  assumes "\<And>e msg m. an_coin m = None \<Longrightarrow> an_coin (dispatch_incoming e msg m) = None"
    and "\<And>e c m. an_coin (snd (run_command e c m)) = an_coin m"
    and "\<And>e v segs req m. an_coin (snd (api_request e v segs req m)) = an_coin m"
  shows "an_coin n = None \<Longrightarrow> view (snd (snd (serve evs n))) = view n"
proof (induction evs n rule: serve.induct)
  case (2 env msg evs n)
  have "view (dispatch_incoming (ai_app env) msg n) = view n"
    using incoming [of "ai_app env" msg n] 2(2) by (auto simp: dispatch_coin_def)
  with 2 assms(1) show ?case
    by simp
next
  case (3 env v segs req evs n)
  then show ?case
    using assms(3) api_requests [of env v segs req n] by simp
next
  case (5 env line evs n)
  obtain r m where c: "run_command env (parse_line line) n = (r, m)"
    by (cases "run_command env (parse_line line) n")
  then have m: "an_coin m = None" "view m = view n"
    using assms(2) [of env "parse_line line" n] 5(2) commands_typed [of env "parse_line line" n] by simp_all
  show ?case
    using 5(1) [OF c [symmetric]] m c by (cases r) (auto split: prod.splits)
qed simp_all

end

lemma no_coin_incoming: "an_coin n = None \<Longrightarrow> an_coin (dispatch_incoming env msg n) = None"
  using coin_view.incoming [of env msg n] by (auto simp: dispatch_coin_def)

lemmas served = kv_view.serving [OF no_coin_incoming coin_view.commands_typed coin_view.api_requests]
  own_host.serving [OF no_coin_incoming coin_view.commands_typed coin_view.api_requests]

lemma runner_identity:
  assumes "runner_new env cfg vs = (Ok runner, vs')"
  shows "\<exists>kp vs1. load_or_create_keypair (fe_vault env) (cfg_db_path cfg) (identity_path cfg) (cfg_storage_key cfg) vs = (Ok kp, vs1) \<and>
    local_id runner = peer_string (ap_crypto (fe_app env)) (kp_public (ap_crypto (fe_app env)) kp)"
  using assms unfolding runner_new_def Let_def by (elim and_thenE) (auto simp: node_new_def)

lemma cli_start_node:
  assumes "cli_start env listen db name boot first vs = (Ok n, vs')"
  shows "an_coin n = None \<and> as_at_rest_key (an_storage n) = None \<and>
    (\<exists>st. fe_open_storage env (db @ ''/app'') = Ok st \<and> as_miniapp (an_storage n) = as_miniapp st) \<and>
    (\<exists>kp vs1. load_or_create_keypair (fe_vault env) db (db @ ''/identity'') None vs = (Ok kp, vs1) \<and>
       an_local_peer_id n = peer_string (ap_crypto (fe_app env)) (kp_public (ap_crypto (fe_app env)) kp))"
  using assms unfolding cli_start_def
  by (elim and_thenE) (auto simp: app_node_new_def cli_config_def identity_path_def dest!: runner_identity split: if_splits)

text \<open>C40. The console node has no purse and no secrets to lose.  Whatever is typed, received or asked after a start, in any order, the
  node still has no coin node, the values of mini-apps are those that were in the storage when it was opened, and it goes by the
  identity that the vault held or made at the start.\<close>

theorem console_confined:
  assumes "run_interactive_server env bind listen db name energy boot evs vs = (Ok (out, r, n), vs')"
  shows "an_coin n = None \<and> as_at_rest_key (an_storage n) = None \<and>
    (\<exists>st. fe_open_storage env (db @ ''/app'') = Ok st \<and> as_miniapp (an_storage n) = as_miniapp st) \<and>
    (\<exists>kp vs1. load_or_create_keypair (fe_vault env) db (db @ ''/identity'') None vs = (Ok kp, vs1) \<and>
       an_local_peer_id n = peer_string (ap_crypto (fe_app env)) (kp_public (ap_crypto (fe_app env)) kp))"
proof -
  obtain m where m: "cli_start env listen db name boot (set_energy env energy) vs = (Ok m, vs')" "serve evs m = (out, r, n)"
    using assms unfolding run_interactive_server_def by (elim and_thenE) (auto simp: ok_then_Ok)
  have "kv n = kv m" "own n = own m"
    using served [of m evs] cli_start_node [OF m(1)] m(2) by simp_all
  then show ?thesis
    using cli_start_node [OF m(1)] by (simp add: kv_def own_def)
qed

lemma demo_energy: "cli_parse_energy ''Active'' = Ok Active"
  by code_simp

lemma demo_cli_start:
  "\<exists>n vs. cli_start demo_ffi_env ''l'' ''d'' ''me'' [] (set_energy demo_ffi_env ''Active'') demo_disk = (Ok n, vs)"
  by (simp add: cli_start_def cli_config_def set_energy_def demo_energy demo_ffi_env_def demo_disk_def runner_new_def
      identity_path_def vault_eval demo_volatile_env_def demo_vault_env_def secret_path_def path_join_def IDENTITY_SECRET_def
      ENC_SECRET_def hex_sealing_def enc_from_secret_bytes_def legacy_enc_path_def NONCE_LEN_def keypair_from_ed25519_secret_def
      from_secret_bytes_def fe_app_def demo_bridge_env_def demo_app_env_def)

theorem console_confined_witness:
  "\<exists>out r n vs'. run_interactive_server demo_ffi_env (Ok ()) ''l'' ''d'' ''me'' ''Active'' []
      [(demo_api_env, Typed (Ok ''/peers'')), (demo_api_env, Requested POST [''store'', ''gc''] None)] demo_disk = (Ok (out, r, n), vs') \<and>
     an_coin n = None \<and> as_at_rest_key (an_storage n) = None"
proof -
  let ?evs = "[(demo_api_env, Typed (Ok ''/peers'')), (demo_api_env, Requested POST [''store'', ''gc''] None)]"
  obtain n vs where n: "cli_start demo_ffi_env ''l'' ''d'' ''me'' [] (set_energy demo_ffi_env ''Active'') demo_disk = (Ok n, vs)"
    using demo_cli_start by blast
  obtain out r m where "serve ?evs n = (out, r, m)"
    by (cases "serve ?evs n")
  with n have "run_interactive_server demo_ffi_env (Ok ()) ''l'' ''d'' ''me'' ''Active'' [] ?evs demo_disk = (Ok (out, r, m), vs)"
    by (simp add: run_interactive_server_def)
  with console_confined [OF this] show ?thesis
    by blast
qed

section \<open>How the process ends\<close>

text \<open>Serving two sequences of events is serving one after the other, unless the first ended the process.\<close>

lemma serve_append:
  "serve (xs @ ys) n =
     (let (out, r, m) = serve xs n in
      case r of Inl e \<Rightarrow> (out, Err e, m) | Inr _ \<Rightarrow> (let (outs, r) = serve ys m in (out @ outs, r)))"
proof (induction xs n rule: serve.induct)
  case (5 env line evs n)
  obtain r m where c: "run_command env (parse_line line) n = (r, m)"
    by (cases "run_command env (parse_line line) n")
  show ?case
    using 5 [OF c [symmetric]] c by (cases r) (auto split: prod.splits sum.splits)
qed (auto split: prod.splits)

text \<open>One chat to a peer whose key is not known ends the node.  The error of \<open>send_chat\<close>, that the key has not been
  exchanged yet, is propagated out of the loop that reads lines: whatever was to be served afterwards is not.\<close>

theorem chat_without_key_ends_process:
  assumes "serve pre n = (out, Ok (), m)" "parse_line line = ChatTo peer msg" "ap_peer_x25519 (ai_app env) peer = None"
  shows "serve (pre @ (env, Typed (Ok line)) # post) n =
    (out, Err enc_key_not_yet_exchanged_err, ensure_contact_accepted_for_send (ai_app env) peer [] m)"
  using assms by (simp add: serve_append run_command_def send_chat_def Let_def)

theorem chat_without_key_ends_process_witness:
  "serve [(demo_api_env, Typed (Ok ''/chat p hi'')), (demo_api_env, Requested GET [''status''] None)] demo_accepting =
    ([], Err enc_key_not_yet_exchanged_err, ensure_contact_accepted_for_send (ai_app demo_api_env) ''p'' [] demo_accepting)"
proof -
  have "trim_end ''hi'' = ''hi''" "trim ''/chat p hi'' = trim (render (ChatTo ''p'' ''hi''))"
    by (rule trim_end_trimmed, rule trim_printable) auto
  then have "parse_line ''/chat p hi'' = ChatTo ''p'' ''hi''"
    using parse_line_render [of "ChatTo ''p'' ''hi''" "''/chat p hi''"] by simp
  moreover have "ap_peer_x25519 (ai_app demo_api_env) ''p'' = None"
    by (simp add: demo_api_env_def demo_app_env_def)
  ultimately show ?thesis
    using chat_without_key_ends_process [of "[]" demo_accepting "[]" demo_accepting] by simp
qed

end
