(* ===== verification/Spec2Isabelle.thy ===== *)
theory Spec2Isabelle
  imports Ledger_Props Coin_Props Payment Bloom Framing Ingest Forwarding Node_Props Transport_Props Relay Sim_Props
    Vault Desktop_Props Stack_Props Node_Live Api Sdk Cli
begin

text \<open>
  \<^bold>\<open>Mycelium: a delay-tolerant mesh node with its applications.\<close>

  The program is a Rust workspace under \<open>src/crates\<close>.  A \<^emph>\<open>mesh node\<close> (\<open>mycelium-node\<close>,
  on the types of \<open>mycelium-core\<close>) receives messages from a libp2p transport and from gossip, checks, stores, forwards and
  delivers them.  An \<^emph>\<open>application node\<close> (\<open>mycelium-app\<close>) sends commands to the mesh node and turns what is
  delivered into chats, bulletins, mail, group messages, nearby profiles, mini-app listings and payments.  Payments go to a
  \<^emph>\<open>coin node\<close> (\<open>mycelium-coin\<close>) over an emergency settlement ledger.  \<^emph>\<open>Mini-apps\<close> are signed
  bundles that run in a web view and reach the node through a bridge that checks sessions, permissions and capabilities.
  Four \<^emph>\<open>hosts\<close> put these together: the foreign-function interface of the Android app
  (\<open>mycelium-ffi\<close>), the desktop (\<open>mycelium-desktop\<close>), the command-line node (\<open>mycelium-cli\<close>) with
  its local HTTP interface (\<open>mycelium-app/src/api.rs\<close>), and the developer tool (\<open>miniapp-sdk\<close>).  A public relay
  (\<open>mycelium-relay\<close>) and a simulator (\<open>mycelium-sim\<close>) stand beside them.

  \<^bold>\<open>How the code is modelled.\<close>
  A struct is a record and an enum a datatype with the constructors of the source; a function is a total function, and one that changes
  state takes the state and returns it.  \<open>anyhow::Result\<close> is a sum whose left side is the message (\<open>Ok\<close>,
  \<open>Err\<close> and \<open>and_then\<close> in \<open>Prelude\<close>; \<open>and_then\<close> is the \<open>?\<close> operator and keeps the
  state reached when a step fails); a panic is a value of its own where the code can panic (\<open>outcome\<close> in
  \<open>Ffi_Types\<close>).  Machine integers are words of their width, with saturating and wrapping arithmetic as the code has it;
  strings and byte buffers are lists, and operations on \<open>str\<close> work on the UTF-8 bytes.  A sled tree is an association list
  sorted by its keys (\<open>Trees\<close>).  A loop that ends for a reason other than its shape has a termination proof with a measure
  (\<open>run_until\<close> in \<open>Sim_Props\<close>, where every turn schedules actions, moves the clock or shortens the queue), so no definition takes fuel and none has a bound that is not in the
  code.

  \<^bold>\<open>Parameters.\<close>
  Packages that are not part of the repository are fields of the environment records: signatures, hashes and base58
  (\<open>crypto\<close> in \<open>Crypto\<close>), authenticated encryption and hexadecimal text (\<open>sealing\<close> in
  \<open>Sealing\<close>), serde encodings, JSON text, zip archives, the keyring, the file system, clocks, random draws, and the answers of
  libp2p, axum and the channels.  What a theorem needs of them is a named predicate that states documented behaviour
  (\<open>crypto_ok\<close>, \<open>sig_binding\<close>, \<open>sealing_ok\<close>, \<open>key_binding\<close>, \<open>vault_env_ok\<close>,
  \<open>sdk_ok\<close> and others), and a concrete environment shows that it can hold.

  \<^bold>\<open>The theories.\<close>

  \<^item> \<open>Prelude\<close>, \<open>Trees\<close>: results, loops with errors, Rust's operations on text, words and maps, sorted
  association lists and their laws.

  \<^item> \<open>Crypto\<close>, \<open>Transactions\<close>, \<open>Settlement\<close>, \<open>Ledger\<close>: addresses and signed transactions,
  the caps and the velocity limits, and the ledger (\<open>ledger.rs\<close>, \<open>settlement_policy.rs\<close>,
  \<open>velocity.rs\<close>, \<open>address.rs\<close>).  \<open>Ledger_Inv\<close> has the reachable ledgers as an inductive set and their
  invariant; \<open>Ledger_Props\<close> shows that caps hold, that the supply shrinks by exactly the fees, that nothing is spent twice, and
  gives the exact condition under which a transaction is accepted and settled.  \<open>Coin_Node\<close> has the node around the ledger with
  the refill protocol and the hot wallet (\<open>node.rs\<close>, \<open>refill.rs\<close>, \<open>hot_wallet.rs\<close>);
  \<open>Coin_Props\<close> shows that it refines the ledger and pays a refill once.  \<open>Payment\<close> has the payment request URI and its
  round trip.

  \<^item> \<open>Bloom\<close>, \<open>Framing\<close>, \<open>Windows\<close>, \<open>Envelopes\<close>: the filter of identifiers, the frame
  inside an encrypted message, invites and dial targets, bounded windows as a locale that the replay windows and the seen cache
  interpret, envelopes and wire messages with their signatures.  \<open>Ingest\<close> has the guard of incoming messages
  (\<open>ingest_guard.rs\<close>), \<open>Forwarding\<close> the policy of forwarding, the pipeline that takes a message in once and the
  message store (\<open>forwarding.rs\<close>, \<open>storage.rs\<close>).

  \<^item> \<open>Node_State\<close>, \<open>Node\<close>, \<open>Node_Handle\<close>: the state of \<open>NodeRunner\<close>, its queue and every handler
  of \<open>node.rs\<close>, up to runs of its loop, and the handle other tasks read it through.  \<open>Node_Inv\<close> states once, as a
  locale, what a predicate needs so that every handler keeps it; \<open>Node_Props\<close> and \<open>Node_Live\<close> have the bounds over every
  run, what is delivered and why, the priorities of the queue, the strikes against peers, the round of synchronisation, and that the
  queue drains.

  \<^item> \<open>Transport\<close>, \<open>Transport_Props\<close>: the events and the peer cap of \<open>transport.rs\<close>, refined to an abstract
  list of peers ordered by their last use.  \<open>Relay\<close> has the registrations of the public relay; \<open>Simulator\<close> and
  \<open>Sim_Props\<close> the scheduler, shown to be a stable sort by time, and runs that return.

  \<^item> \<open>Sealing\<close>, \<open>Vault\<close>: encryption for peers and groups, and secrets at rest with the master key and its migration
  (\<open>crypto.rs\<close>, \<open>at_rest.rs\<close>, \<open>secrets.rs\<close>); the identity persists over starts.

  \<^item> \<open>Miniapp_Policy\<close>, \<open>Miniapp_Bundle\<close>, \<open>Miniapp_Store\<close>, \<open>Miniapp_Props\<close>: manifests, reputation,
  revocation, the static scan, signatures and installation; every reached store is well formed, and an installation succeeds under an
  exact condition.

  \<^item> \<open>App_Storage\<close>, \<open>Proximity\<close>, \<open>App_Node\<close>, \<open>App_Props\<close>: the storage of the application, nearby
  profiles, and every operation and incoming message of \<open>mycelium-app/src/node.rs\<close>; chats need acceptance, and sealed
  bulletins arrive at holders of the key alone.

  \<^item> \<open>Bridge\<close>, \<open>Bridge_Props\<close>, \<open>Bridge_Safety\<close>: sessions, windows of calls, capability tokens, quotas and the
  methods a mini-app can call; tokens are exact, calls are authorised, and apps are confined to their own values.
  \<open>App_View\<close> and \<open>Host_View\<close> have the locales for views of the application node that its operations keep; all four hosts
  use their interpretations.

  \<^item> \<open>Ffi_Types\<close>, \<open>Ffi\<close>, \<open>Ffi_Calls\<close>, \<open>Ffi_Miniapps\<close>, \<open>Ffi_Props\<close>: the process behind the
  foreign-function interface, with its statics, poisoned locks and panics.  \<open>Desktop\<close>, \<open>Desktop_Commands\<close>,
  \<open>Desktop_Props\<close>: the commands of the desktop.  \<open>Api\<close>: routes and handlers of the local HTTP interface.
  \<open>Cli\<close>: the console, publishing, and the process that serves lines, messages and requests.  \<open>Sdk\<close>: the developer tool,
  with the round trip from signing to verification.  \<open>Stack_Props\<close> composes the mesh node with the application node.

  \<^bold>\<open>Steps.\<close>
  A handler runs to its end before the next one starts.  For the mesh node this is the loop of \<open>run\<close>; tasks of a host that share
  an application node behind locks are sequences of steps in any order, and an interleaving inside a handler is not modelled.  The
  environment of every step is arbitrary, so clocks may stand still or go back where a theorem does not say otherwise.

  \<^bold>\<open>Not modelled.\<close>
  The libp2p behaviour and its configuration values (\<open>behaviour.rs\<close>), the HTTP requests to relay and rendezvous endpoints
  (\<open>rendezvous.rs\<close>, \<open>relay_status.rs\<close>; the use of their answers is modelled), the set-up of the relay process, the
  window and plugins of the desktop, the parsing of program arguments, logging, and the scenarios of the simulator have no logic beyond
  the packages they call.  The user interfaces in Kotlin, JavaScript and HTML are other languages over the modelled interfaces.
\<close>

end
